(* ===== verification/Prelude.thy ===== *)
theory Prelude
  imports Complex_Main "HOL-Library.AList" "HOL-Library.Char_ord" "HOL-Library.List_Lexorder"
    "HOL-Library.Product_Lexorder"
begin

text \<open>
  What every component theory of the development shares: the error-and-state actions the kernel
  services are written in, JSON values, insertion-ordered Python dictionaries as association lists
  with \<open>AList.update\<close>, Python's \<open>sorted(set(...))\<close>, and the generic lemmas on them. The
  collection \<open>act_simps\<close> unfolds actions; \<open>keeps\<close> is the judgement "this action preserves the
  property, whether it returns or raises", with one rule per combinator.
\<close>

named_theorems act_simps "unfolding rules for error-and-state actions"

section \<open>Actions: state, and exceptions as values\<close>

text \<open>
  A Python method that may raise is a function from the state to either an error or a result,
  paired with the state it leaves behind. The state is returned on both sides: an exception does
  not undo what the method wrote before it, unless the method restores a snapshot itself.
\<close>

type_synonym ('e, 's, 'a) act = "'s \<Rightarrow> ('e + 'a) \<times> 's"

definition ret :: "'a \<Rightarrow> ('e, 's, 'a) act" where
  "ret x = (\<lambda>s. (Inr x, s))"

definition raise :: "'e \<Rightarrow> ('e, 's, 'a) act" where
  "raise e = (\<lambda>s. (Inl e, s))"

definition bnd :: "('e, 's, 'a) act \<Rightarrow> ('a \<Rightarrow> ('e, 's, 'b) act) \<Rightarrow> ('e, 's, 'b) act" where
  "bnd m f = (\<lambda>s. case m s of (Inl e, t) \<Rightarrow> (Inl e, t) | (Inr x, t) \<Rightarrow> f x t)"

definition reads :: "('s \<Rightarrow> 'a) \<Rightarrow> ('e, 's, 'a) act" where
  "reads f = (\<lambda>s. (Inr (f s), s))"

definition writes :: "('s \<Rightarrow> 's) \<Rightarrow> ('e, 's, unit) act" where
  "writes f = (\<lambda>s. (Inr (), f s))"

definition need :: "'e + 'a \<Rightarrow> ('e, 's, 'a) act" where
  "need r = (\<lambda>s. (r, s))"

definition ensure :: "bool \<Rightarrow> 'e \<Rightarrow> ('e, 's, unit) act" where
  "ensure c e = (if c then ret () else raise e)"

text \<open>Run a fallible function on one component of the state; an error leaves the state alone.\<close>

definition modify ::
  "('s \<Rightarrow> 't) \<Rightarrow> (('t \<Rightarrow> 't) \<Rightarrow> 's \<Rightarrow> 's) \<Rightarrow> ('t \<Rightarrow> 'e + 't) \<Rightarrow> ('e, 's, unit) act" where
  "modify get upd f =
     (\<lambda>s. case f (get s) of Inl e \<Rightarrow> (Inl e, s) | Inr t \<Rightarrow> (Inr (), upd (\<lambda>_. t) s))"

text \<open>\<open>try: m except: restore the snapshot taken before m; raise\<close>.\<close>

definition rollback :: "('s \<Rightarrow> 's \<Rightarrow> 's) \<Rightarrow> ('e, 's, 'a) act \<Rightarrow> ('e, 's, 'a) act" where
  "rollback restore m =
     (\<lambda>s. case m s of (Inl e, t) \<Rightarrow> (Inl e, restore s t) | (Inr x, t) \<Rightarrow> (Inr x, t))"

lemma ret_run [simp, act_simps]: "ret x s = (Inr x, s)"
  by (simp add: ret_def)

lemma raise_run [simp, act_simps]: "raise e s = (Inl e, s)"
  by (simp add: raise_def)

lemma reads_run [simp, act_simps]: "reads f s = (Inr (f s), s)"
  by (simp add: reads_def)

lemma writes_run [simp, act_simps]: "writes f s = (Inr (), f s)"
  by (simp add: writes_def)

lemma need_run [simp, act_simps]: "need r s = (r, s)"
  by (simp add: need_def)

lemma ensure_run [act_simps]: "ensure c e s = (if c then (Inr (), s) else (Inl e, s))"
  by (simp add: ensure_def)

lemma modify_run:
  "modify get upd f s = (case f (get s) of Inl e \<Rightarrow> (Inl e, s) | Inr t \<Rightarrow> (Inr (), upd (\<lambda>_. t) s))"
  by (simp add: modify_def)

lemma modify_Inr_iff:
  "modify get upd f s = (Inr x, t) \<longleftrightarrow> (\<exists>u. f (get s) = Inr u \<and> t = upd (\<lambda>_. u) s)"
  by (auto simp: modify_def split: sum.splits)

lemma modify_Inl_iff:
  "modify get upd f s = (Inl e, t) \<longleftrightarrow> f (get s) = Inl e \<and> t = s"
  by (auto simp: modify_def split: sum.splits)

lemma bnd_ret_run [simp]: "bnd (ret x) f s = f x s"
  by (simp add: bnd_def)

lemma bnd_raise_run [simp]: "bnd (raise e) f s = (Inl e, s)"
  by (simp add: bnd_def)

lemma bnd_reads_run [simp]: "bnd (reads g) f s = f (g s) s"
  by (simp add: bnd_def)

lemma bnd_writes_run [simp]: "bnd (writes g) f s = f () (g s)"
  by (simp add: bnd_def)

lemma bnd_need_Inr [simp]: "bnd (need (Inr x)) f s = f x s"
  by (simp add: bnd_def)

lemma bnd_need_Inl [simp]: "bnd (need (Inl e)) f s = (Inl e, s)"
  by (simp add: bnd_def)

lemma bnd_ensure_run [simp]: "bnd (ensure c e) f s = (if c then f () s else (Inl e, s))"
  by (simp add: bnd_def ensure_def)

lemma bnd_modify:
  "bnd (modify get upd f) h s =
     (case f (get s) of Inl e \<Rightarrow> (Inl e, s) | Inr t \<Rightarrow> h () (upd (\<lambda>_. t) s))"
  by (simp add: bnd_def modify_def split: sum.splits)

lemma bnd_rollback:
  "bnd (rollback restore m) h s =
     (case m s of (Inl e, t) \<Rightarrow> (Inl e, restore s t) | (Inr x, t) \<Rightarrow> h x t)"
  by (simp add: bnd_def rollback_def split: prod.splits sum.splits)

lemma bnd_assoc: "bnd (bnd m f) g = bnd m (\<lambda>x. bnd (f x) g)"
  by (rule ext) (simp add: bnd_def split: prod.splits sum.splits)

lemma bnd_Inr_iff:
  "bnd m f s = (Inr y, t) \<longleftrightarrow> (\<exists>x u. m s = (Inr x, u) \<and> f x u = (Inr y, t))"
  by (auto simp: bnd_def split: prod.splits sum.splits)

lemma bnd_Inl_iff:
  "bnd m f s = (Inl e, t) \<longleftrightarrow>
     m s = (Inl e, t) \<or> (\<exists>x u. m s = (Inr x, u) \<and> f x u = (Inl e, t))"
  by (auto simp: bnd_def split: prod.splits sum.splits)

lemma bnd_step: "m s = (Inr x, t) \<Longrightarrow> bnd m f s = f x t"
  by (simp add: bnd_def)

lemma bnd_stop: "m s = (Inl e, t) \<Longrightarrow> bnd m f s = (Inl e, t)"
  by (simp add: bnd_def)

lemma bnd_need_Inr_iff:
  "bnd (need r) f s = (Inr y, t) \<longleftrightarrow> (\<exists>x. r = Inr x \<and> f x s = (Inr y, t))"
  by (auto simp: bnd_Inr_iff)

lemma rollback_Inr_iff [simp]: "rollback restore m s = (Inr x, t) \<longleftrightarrow> m s = (Inr x, t)"
  by (auto simp: rollback_def split: prod.splits sum.splits)

lemma rollback_Inl_iff:
  "rollback restore m s = (Inl e, t) \<longleftrightarrow> (\<exists>u. m s = (Inl e, u) \<and> t = restore s u)"
  by (auto simp: rollback_def split: prod.splits sum.splits)

subsection \<open>Preservation, whether the action returns or raises\<close>

definition keeps :: "('s \<Rightarrow> bool) \<Rightarrow> ('e, 's, 'a) act \<Rightarrow> bool" where
  "keeps P m \<longleftrightarrow> (\<forall>s. P s \<longrightarrow> P (snd (m s)))"

lemma keepsI [intro?]: "(\<And>s. P s \<Longrightarrow> P (snd (m s))) \<Longrightarrow> keeps P m"
  by (simp add: keeps_def)

lemma keepsD: "keeps P m \<Longrightarrow> P s \<Longrightarrow> P (snd (m s))"
  by (simp add: keeps_def)

lemma keeps_run: "keeps P m \<Longrightarrow> P s \<Longrightarrow> m s = (r, t) \<Longrightarrow> P t"
  by (auto simp: keeps_def)

lemma keeps_ret [intro, simp]: "keeps P (ret x)"
  by (simp add: keeps_def)

lemma keeps_raise [intro, simp]: "keeps P (raise e)"
  by (simp add: keeps_def)

lemma keeps_reads [intro, simp]: "keeps P (reads f)"
  by (simp add: keeps_def)

lemma keeps_need [intro, simp]: "keeps P (need r)"
  by (simp add: keeps_def)

lemma keeps_ensure [intro, simp]: "keeps P (ensure c e)"
  by (simp add: ensure_def)

lemma keeps_bnd [intro]: "keeps P m \<Longrightarrow> (\<And>x. keeps P (f x)) \<Longrightarrow> keeps P (bnd m f)"
  by (fastforce simp: keeps_def bnd_def split: prod.splits sum.splits)

lemma keeps_if [intro]: "(c \<Longrightarrow> keeps P m) \<Longrightarrow> (\<not> c \<Longrightarrow> keeps P n) \<Longrightarrow> keeps P (if c then m else n)"
  by simp

lemma keeps_writes: "(\<And>s. P s \<Longrightarrow> P (f s)) \<Longrightarrow> keeps P (writes f)"
  by (simp add: keeps_def)

lemma keeps_modify:
  "(\<And>s t. P s \<Longrightarrow> f (get s) = Inr t \<Longrightarrow> P (upd (\<lambda>_. t) s)) \<Longrightarrow> keeps P (modify get upd f)"
  by (auto simp: keeps_def modify_def split: sum.splits)

lemma keeps_rollback:
  "keeps P m \<Longrightarrow> (\<And>s t. P s \<Longrightarrow> P t \<Longrightarrow> P (restore s t)) \<Longrightarrow> keeps P (rollback restore m)"
  by (fastforce simp: keeps_def rollback_def split: prod.splits sum.splits)

section \<open>Mapping a fallible function over a list\<close>

text \<open>A list comprehension whose body may raise stops at the first error.\<close>

fun mapE :: "('a \<Rightarrow> 'e + 'b) \<Rightarrow> 'a list \<Rightarrow> 'e + 'b list" where
  "mapE f [] = Inr []"
| "mapE f (x # xs) =
     (case f x of Inl e \<Rightarrow> Inl e
      | Inr y \<Rightarrow> (case mapE f xs of Inl e \<Rightarrow> Inl e | Inr ys \<Rightarrow> Inr (y # ys)))"

lemma mapE_Inr_length: "mapE f xs = Inr ys \<Longrightarrow> length ys = length xs"
  by (induction xs arbitrary: ys) (auto split: sum.splits)

lemma mapE_Inr_nth: "mapE f xs = Inr ys \<Longrightarrow> i < length xs \<Longrightarrow> f (xs ! i) = Inr (ys ! i)"
  by (induction xs arbitrary: ys i) (auto simp: nth_Cons split: sum.splits nat.splits)

lemma mapE_Inr_set: "mapE f xs = Inr ys \<Longrightarrow> y \<in> set ys \<Longrightarrow> \<exists>x\<in>set xs. f x = Inr y"
  by (induction xs arbitrary: ys) (auto split: sum.splits)

lemma mapE_Inr_mem: "mapE f xs = Inr ys \<Longrightarrow> x \<in> set xs \<Longrightarrow> \<exists>y\<in>set ys. f x = Inr y"
  by (induction xs arbitrary: ys) (auto split: sum.splits)

lemma mapE_all: "(\<And>x. x \<in> set xs \<Longrightarrow> f x = Inr (g x)) \<Longrightarrow> mapE f xs = Inr (map g xs)"
  by (induction xs) auto

text \<open>\<open>all(p(x) for x in xs)\<close> with a predicate that may raise: it stops at the first \<open>False\<close>.\<close>

fun allE :: "('a \<Rightarrow> 'e + bool) \<Rightarrow> 'a list \<Rightarrow> 'e + bool" where
  "allE p [] = Inr True"
| "allE p (x # xs) =
     (case p x of Inl e \<Rightarrow> Inl e | Inr b \<Rightarrow> if b then allE p xs else Inr False)"

lemma allE_Inr_True: "allE p xs = Inr True \<longleftrightarrow> (\<forall>x\<in>set xs. p x = Inr True)"
  by (induction xs) (auto split: sum.splits)

text \<open>\<open>d.get(k)\<close> of a string value, used as a condition: an empty string counts as absent.\<close>

definition truthy :: "string option \<Rightarrow> string option" where
  "truthy v = (case v of None \<Rightarrow> None | Some x \<Rightarrow> if x = [] then None else Some x)"

lemma truthy_Some_iff [simp]: "truthy v = Some x \<longleftrightarrow> v = Some x \<and> x \<noteq> []"
  by (auto simp: truthy_def split: option.splits)

section \<open>JSON values\<close>

text \<open>
  Values of type \<open>Any\<close> that the code passes through JSON: objects are insertion-ordered
  association lists, numbers are integers or rationals (Python floats, without their rounding).
\<close>

datatype json =
    JNull
  | JBool bool
  | JInt int
  | JNum rat
  | JStr string
  | JArr "json list"
  | JObj "(string \<times> json) list"

section \<open>Insertion-ordered dictionaries\<close>

text \<open>
  A Python \<open>dict\<close> keeps insertion order, and assigning to a present key keeps its position:
  that is \<open>AList.update\<close>. \<open>values()\<close> is \<open>map snd\<close>.
\<close>

lemma map_of_update [simp]: "map_of (AList.update k v al) = (map_of al)(k \<mapsto> v)"
  by (rule update_conv')

lemma keys_update: "fst ` set (AList.update k v al) = insert k (fst ` set al)"
  by (simp add: dom_update)

lemma distinct_keys_update: "distinct (map fst al) \<Longrightarrow> distinct (map fst (AList.update k v al))"
  by (rule distinct_update)

lemma update_fresh: "map_of al k = None \<Longrightarrow> AList.update k v al = al @ [(k, v)]"
  by (induction al) (auto split: if_splits)

lemma map_of_mem: "map_of al k = Some v \<Longrightarrow> (k, v) \<in> set al"
  by (rule map_of_SomeD)

lemma mem_map_of: "distinct (map fst al) \<Longrightarrow> (k, v) \<in> set al \<Longrightarrow> map_of al k = Some v"
  by (rule map_of_is_SomeI)

section \<open>Sorted sets and prefixes of strings\<close>

text \<open>\<open>sorted(set(xs))\<close>: strictly ascending, duplicates dropped.\<close>

definition sorted_set :: "'a::linorder list \<Rightarrow> 'a list" where
  "sorted_set xs = sort (remdups xs)"

lemma set_sorted_set [simp]: "set (sorted_set xs) = set xs"
  by (simp add: sorted_set_def)

lemma distinct_sorted_set [simp]: "distinct (sorted_set xs)"
  by (simp add: sorted_set_def)

lemma sorted_sorted_set [simp]: "sorted (sorted_set xs)"
  by (simp add: sorted_set_def)

lemma sorted_set_Nil_iff [simp]: "sorted_set xs = [] \<longleftrightarrow> xs = []"
  by (metis empty_set set_empty set_sorted_set)

lemma sorted_set_cong: "set xs = set ys \<Longrightarrow> sorted_set xs = sorted_set ys"
  by (rule sorted_distinct_set_unique) auto

definition starts_with :: "string \<Rightarrow> string \<Rightarrow> bool" where
  "starts_with s p \<longleftrightarrow> take (length p) s = p"

lemma starts_with_append [simp]: "starts_with (p @ s) p"
  by (simp add: starts_with_def)

end
