(* ===== verification/Records.thy ===== *)
theory Records
  imports Prelude
begin

text \<open>
  The record kinds of the runtime kernel, as the JSON contracts under \<open>src/runtime/contracts\<close>
  fix them and \<open>src/founderos_runtime\<close> reads them: one Isabelle record per kind with the keys the
  modelled code reads or writes (an optional key is an option; the remaining keys of a contract
  travel together in a \<open>_rest\<close> object that no operation opens), typed references, actors, the
  error classes, and the sum of the kinds over which references are resolved, with Python's
  \<open>record[key]\<close> (a \<open>KeyError\<close> when absent) and \<open>record.get(key)\<close>. Timestamps are integers in
  milliseconds, the resolution \<open>utc_now\<close> prints, except \<open>apr_expires_at\<close>, which a client chooses:
  it is the instant \<open>datetime.fromisoformat\<close> reads from it, in microseconds.
\<close>

section \<open>Errors\<close>

text \<open>The classes of \<open>errors.py\<close> the kernel raises, and Python's \<open>ValueError\<close> and \<open>KeyError\<close>.\<close>

datatype kerror =
    ContractViolation
  | DuplicateRecord
  | RecordNotFound
  | Conflict
  | ReferenceIntegrity
  | StateMutation
  | ValueErr
  | KeyErr

section \<open>References and actors\<close>

record typed_ref =
  ref_kind :: string
  ref_id :: string
  ref_version :: "string option"
  ref_revision :: "int option"

definition plain_ref :: "string \<Rightarrow> string \<Rightarrow> typed_ref" where
  "plain_ref k i = \<lparr>ref_kind = k, ref_id = i, ref_version = None, ref_revision = None\<rparr>"

definition revision_ref :: "string \<Rightarrow> string \<Rightarrow> int \<Rightarrow> typed_ref" where
  "revision_ref k i n = \<lparr>ref_kind = k, ref_id = i, ref_version = None, ref_revision = Some n\<rparr>"

record actor =
  actor_type :: string
  actor_id :: string
  actor_name :: "string option"

text \<open>The \<open>failure\<close> object of a run.\<close>

record failure =
  fail_code :: string
  fail_message :: string
  fail_retryable :: bool
  fail_recovery :: string

section \<open>Records\<close>

type_synonym json_object = "(string \<times> json) list"

record entity =
  ent_id :: string
  ent_metadata :: "json_object option"

record project = entity +
  prj_revision :: int
  prj_status :: string
  prj_name :: string
  prj_founder :: "string \<times> string"
  prj_domain :: string
  prj_current_state :: string
  prj_completed_refs :: "typed_ref list"
  prj_pending_types :: "string list"
  prj_decision_refs :: "typed_ref list"
  prj_risks :: "string list"
  prj_next_action :: string
  prj_last_sequence :: int
  prj_created_at :: int
  prj_updated_at :: int

record artifact = entity +
  art_version :: string
  art_revision :: int
  art_project_ref :: typed_ref
  art_type :: string
  art_status :: string
  art_content_uri :: string
  art_content_digest :: string
  art_confidence :: "rat option"
  art_evaluation_refs :: "typed_ref list option"
  art_approval_refs :: "typed_ref list option"
  art_updated_at :: int
  art_rest :: json_object

record decision = entity +
  dec_version :: string
  dec_revision :: int
  dec_project_ref :: typed_ref
  dec_title :: string
  dec_status :: string
  dec_confidence :: "rat option"
  dec_rest :: json_object

text \<open>What \<open>_RunService\<close> knows of a run: the keys both kinds of run share.\<close>

record run_record = entity +
  run_revision :: int
  run_project_ref :: typed_ref
  run_status :: string
  run_attempt :: int
  run_failure :: "failure option"
  run_created_at :: int
  run_updated_at :: int
  run_started_at :: "int option"
  run_completed_at :: "int option"

record workflow_run = run_record +
  wfr_workflow_ref :: typed_ref
  wfr_entry_state :: string
  wfr_requested_exit :: "string option"
  wfr_input_refs :: "typed_ref list"
  wfr_output_refs :: "typed_ref list"
  wfr_agent_run_refs :: "typed_ref list"
  wfr_evaluation_refs :: "typed_ref list"
  wfr_approval_refs :: "typed_ref list"

record agent_run = run_record +
  agr_workflow_run_ref :: typed_ref
  agr_agent_ref :: typed_ref
  agr_input_refs :: "typed_ref list"
  agr_output_refs :: "typed_ref list"
  agr_rest :: json_object

record event = entity +
  evt_project_ref :: typed_ref
  evt_sequence :: int
  evt_type :: string
  evt_actor :: actor
  evt_subject_ref :: typed_ref
  evt_correlation :: string
  evt_payload :: json_object
  evt_causation_ref :: "typed_ref option"
  evt_occurred_at :: int
  evt_recorded_at :: int

record approval = entity +
  apr_revision :: int
  apr_project_ref :: typed_ref
  apr_subject_ref :: typed_ref
  apr_status :: string
  apr_decided_by :: "actor option"
  apr_rationale :: "string option"
  apr_expires_at :: "int option"
  apr_decided_at :: "int option"
  apr_rest :: json_object

record evaluation = entity +
  evl_project_ref :: typed_ref
  evl_target_ref :: typed_ref
  evl_status :: string
  evl_outcome :: string
  evl_confidence :: "rat option"
  evl_rest :: json_object

record guard_result =
  guard_id :: string
  guard_passed :: bool
  guard_evidence :: "typed_ref list option"
  guard_at :: int

record transition = entity +
  trn_project_ref :: typed_ref
  trn_status :: string
  trn_from :: string
  trn_to :: string
  trn_trigger :: string
  trn_requested_by :: actor
  trn_expected_revision :: int
  trn_resulting_revision :: "int option"
  trn_guard_results :: "guard_result list"
  trn_approval_refs :: "typed_ref list"
  trn_workflow_run_ref :: "typed_ref option"
  trn_rejection :: "string option"
  trn_requested_at :: int
  trn_decided_at :: int

record agent = entity +
  agt_version :: string
  agt_status :: string
  agt_rest :: json_object

record workflow = entity +
  wfl_version :: string
  wfl_status :: string
  wfl_max_attempts :: int
  wfl_rest :: json_object

section \<open>A record of any kind\<close>

text \<open>What \<open>resolve_reference\<close> returns: a dictionary whose kind the caller does not check.\<close>

datatype any_record =
    AnyAgent agent
  | AnyArtifact artifact
  | AnyWorkflow workflow
  | AnyDecision decision
  | AnyProject project
  | AnyWorkflowRun workflow_run
  | AnyAgentRun agent_run
  | AnyTransition transition
  | AnyEvaluation evaluation
  | AnyApproval approval
  | AnyEvent event

fun any_id :: "any_record \<Rightarrow> string" where
  "any_id (AnyAgent r) = ent_id r"
| "any_id (AnyArtifact r) = ent_id r"
| "any_id (AnyWorkflow r) = ent_id r"
| "any_id (AnyDecision r) = ent_id r"
| "any_id (AnyProject r) = ent_id r"
| "any_id (AnyWorkflowRun r) = ent_id r"
| "any_id (AnyAgentRun r) = ent_id r"
| "any_id (AnyTransition r) = ent_id r"
| "any_id (AnyEvaluation r) = ent_id r"
| "any_id (AnyApproval r) = ent_id r"
| "any_id (AnyEvent r) = ent_id r"

fun any_kind :: "any_record \<Rightarrow> string" where
  "any_kind (AnyAgent r) = ''agent''"
| "any_kind (AnyArtifact r) = ''artifact''"
| "any_kind (AnyWorkflow r) = ''workflow''"
| "any_kind (AnyDecision r) = ''decision''"
| "any_kind (AnyProject r) = ''project''"
| "any_kind (AnyWorkflowRun r) = ''workflow_run''"
| "any_kind (AnyAgentRun r) = ''agent_run''"
| "any_kind (AnyTransition r) = ''transition''"
| "any_kind (AnyEvaluation r) = ''evaluation''"
| "any_kind (AnyApproval r) = ''approval''"
| "any_kind (AnyEvent r) = ''event''"

text \<open>\<open>target.get("version")\<close>, \<open>target.get("revision")\<close> and \<open>target.get("project_ref")\<close>.\<close>

fun any_version :: "any_record \<Rightarrow> string option" where
  "any_version (AnyAgent r) = Some (agt_version r)"
| "any_version (AnyArtifact r) = Some (art_version r)"
| "any_version (AnyWorkflow r) = Some (wfl_version r)"
| "any_version (AnyDecision r) = Some (dec_version r)"
| "any_version _ = None"

fun any_revision :: "any_record \<Rightarrow> int option" where
  "any_revision (AnyArtifact r) = Some (art_revision r)"
| "any_revision (AnyDecision r) = Some (dec_revision r)"
| "any_revision (AnyProject r) = Some (prj_revision r)"
| "any_revision (AnyWorkflowRun r) = Some (run_revision r)"
| "any_revision (AnyAgentRun r) = Some (run_revision r)"
| "any_revision (AnyApproval r) = Some (apr_revision r)"
| "any_revision _ = None"

fun any_project_ref :: "any_record \<Rightarrow> typed_ref option" where
  "any_project_ref (AnyArtifact r) = Some (art_project_ref r)"
| "any_project_ref (AnyDecision r) = Some (dec_project_ref r)"
| "any_project_ref (AnyWorkflowRun r) = Some (run_project_ref r)"
| "any_project_ref (AnyAgentRun r) = Some (run_project_ref r)"
| "any_project_ref (AnyTransition r) = Some (trn_project_ref r)"
| "any_project_ref (AnyEvaluation r) = Some (evl_project_ref r)"
| "any_project_ref (AnyApproval r) = Some (apr_project_ref r)"
| "any_project_ref (AnyEvent r) = Some (evt_project_ref r)"
| "any_project_ref _ = None"

text \<open>\<open>record["status"]\<close>: every kind but the event has the key.\<close>

fun any_status :: "any_record \<Rightarrow> kerror + string" where
  "any_status (AnyAgent r) = Inr (agt_status r)"
| "any_status (AnyArtifact r) = Inr (art_status r)"
| "any_status (AnyWorkflow r) = Inr (wfl_status r)"
| "any_status (AnyDecision r) = Inr (dec_status r)"
| "any_status (AnyProject r) = Inr (prj_status r)"
| "any_status (AnyWorkflowRun r) = Inr (run_status r)"
| "any_status (AnyAgentRun r) = Inr (run_status r)"
| "any_status (AnyTransition r) = Inr (trn_status r)"
| "any_status (AnyEvaluation r) = Inr (evl_status r)"
| "any_status (AnyApproval r) = Inr (apr_status r)"
| "any_status (AnyEvent r) = Inl KeyErr"

text \<open>
  \<open>record["artifact_type"]\<close>, \<open>record["outcome"]\<close>, \<open>record["current_state"]\<close>,
  \<open>record["workflow_ref"]\<close> and \<open>record["failure_policy"]["max_attempts"]\<close>.
\<close>

fun any_artifact_type :: "any_record \<Rightarrow> kerror + string" where
  "any_artifact_type (AnyArtifact r) = Inr (art_type r)"
| "any_artifact_type _ = Inl KeyErr"

fun any_outcome :: "any_record \<Rightarrow> kerror + string" where
  "any_outcome (AnyEvaluation r) = Inr (evl_outcome r)"
| "any_outcome _ = Inl KeyErr"

fun any_current_state :: "any_record \<Rightarrow> kerror + string" where
  "any_current_state (AnyProject r) = Inr (prj_current_state r)"
| "any_current_state _ = Inl KeyErr"

fun any_workflow_ref :: "any_record \<Rightarrow> kerror + typed_ref" where
  "any_workflow_ref (AnyWorkflowRun r) = Inr (wfr_workflow_ref r)"
| "any_workflow_ref _ = Inl KeyErr"

fun any_max_attempts :: "any_record \<Rightarrow> kerror + int" where
  "any_max_attempts (AnyWorkflow r) = Inr (wfl_max_attempts r)"
| "any_max_attempts _ = Inl KeyErr"

text \<open>
  \<open>record.get("confidence_score")\<close>, \<open>record.get("expires_at")\<close> and
  \<open>record.get("decided_by", {}).get("type")\<close>.
\<close>

fun any_confidence :: "any_record \<Rightarrow> rat option" where
  "any_confidence (AnyEvaluation r) = evl_confidence r"
| "any_confidence (AnyArtifact r) = art_confidence r"
| "any_confidence (AnyDecision r) = dec_confidence r"
| "any_confidence _ = None"

fun any_expires_at :: "any_record \<Rightarrow> int option" where
  "any_expires_at (AnyApproval r) = apr_expires_at r"
| "any_expires_at _ = None"

fun any_decider_type :: "any_record \<Rightarrow> string option" where
  "any_decider_type (AnyApproval r) = map_option actor_type (apr_decided_by r)"
| "any_decider_type _ = None"

text \<open>The \<open>revision\<close> key as \<open>InMemoryRepository\<close> reads it, per kind.\<close>

definition project_rev :: "project \<Rightarrow> int option" where "project_rev r = Some (prj_revision r)"
definition artifact_rev :: "artifact \<Rightarrow> int option" where "artifact_rev r = Some (art_revision r)"
definition run_rev :: "'a run_record_scheme \<Rightarrow> int option" where
  "run_rev r = Some (run_revision r)"
definition approval_rev :: "approval \<Rightarrow> int option" where
  "approval_rev r = Some (apr_revision r)"

text \<open>
  \<open>record["metadata"] = {**record.get("metadata", {}), "correlation_id": c}\<close>.
\<close>

definition with_correlation :: "string \<Rightarrow> 'a entity_scheme \<Rightarrow> 'a entity_scheme" where
  "with_correlation c r =
     r\<lparr>ent_metadata := Some (AList.update ''correlation_id'' (JStr c)
          (case ent_metadata r of None \<Rightarrow> [] | Some m \<Rightarrow> m))\<rparr>"

lemma with_correlation_id [simp]: "ent_id (with_correlation c r) = ent_id r"
  by (simp add: with_correlation_def)

end
