(* ===== verification/Ids.thy ===== *)
theory Ids
  imports Prelude "HOL-Library.Word"
begin

text \<open>
  Canonical identifiers, \<open>src/founderos_runtime/ids.py\<close>: the type prefixes, the Crockford base 32
  encoder \<open>_encode_ulid\<close> as the loop it is (characters written from index 25 down, five bits at a
  time) and \<open>new_id\<close>. The clock and the random source are arguments. The lemmas show that the
  encoder computes the base 32 digits, so that 130-bit values have distinct identifiers of fixed
  length whose string order is the numeric order: identifiers sort by creation time.
\<close>

section \<open>Definitions\<close>

definition ulid_alphabet :: string where
  "ulid_alphabet = ''0123456789ABCDEFGHJKMNPQRSTVWXYZ''"

definition id_prefixes :: "(string \<times> string) list" where
  "id_prefixes =
     [(''agent'', ''agt''), (''artifact'', ''art''), (''workflow'', ''wfl''), (''state'', ''sta''),
      (''decision'', ''dec''), (''project'', ''prj''), (''workflow_run'', ''wfr''),
      (''agent_run'', ''agr''), (''transition'', ''trn''), (''evaluation'', ''evl''),
      (''approval'', ''apr''), (''event'', ''evt'')]"

text \<open>The loop over \<open>range(25, -1, -1)\<close>: \<open>encode_loop (i + 1)\<close> writes index \<open>i\<close>.\<close>

primrec encode_loop :: "nat \<Rightarrow> string \<Rightarrow> int \<Rightarrow> string" where
  "encode_loop 0 cs v = cs"
| "encode_loop (Suc i) cs v =
     encode_loop i (cs[i := ulid_alphabet ! nat (and v 31)]) (drop_bit 5 v)"

definition encode_ulid :: "int \<Rightarrow> string" where
  "encode_ulid v = encode_loop 26 (replicate 26 (CHR ''0'')) v"

text \<open>\<open>(timestamp_ms << 80) | secrets.randbits(80)\<close>.\<close>

definition ulid_value :: "int \<Rightarrow> int \<Rightarrow> int" where
  "ulid_value ts rnd = or (push_bit 80 ts) rnd"

text \<open>\<open>None\<close> is the \<open>ValueError\<close> for an unsupported kind.\<close>

definition new_id :: "string \<Rightarrow> int \<Rightarrow> int \<Rightarrow> string option" where
  "new_id k ts rnd =
     (case map_of id_prefixes k of None \<Rightarrow> None
      | Some p \<Rightarrow> Some (p @ ''_'' @ encode_ulid (ulid_value ts rnd)))"

section \<open>The encoder computes base 32 digits\<close>

primrec base32 :: "nat \<Rightarrow> int \<Rightarrow> string" where
  "base32 0 v = []"
| "base32 (Suc n) v = base32 n (v div 32) @ [ulid_alphabet ! nat (v mod 32)]"

lemma length_base32 [simp]: "length (base32 n v) = n"
  by (induction n arbitrary: v) auto

lemma and_31: "and v 31 = v mod 32" for v :: int
  using take_bit_eq_mask[of 5 v] by (simp add: mask_eq_exp_minus_1 take_bit_eq_mod)

lemma drop_bit_5: "drop_bit 5 v = v div 32" for v :: int
  by (simp add: drop_bit_eq_div)

lemma encode_loop_base32:
  "n \<le> length cs \<Longrightarrow> encode_loop n cs v = base32 n v @ drop n cs"
proof (induction n arbitrary: cs v)
  case (Suc n)
  then have "drop n (cs[n := c]) = c # drop (Suc n) cs" for c
    by (simp add: Cons_nth_drop_Suc[symmetric])
  with Suc show ?case
    by (simp add: and_31 drop_bit_5)
qed simp

lemma encode_ulid_base32: "encode_ulid v = base32 26 v"
  by (simp add: encode_ulid_def encode_loop_base32 del: encode_loop.simps)

lemma alphabet_sorted: "sorted_wrt (<) ulid_alphabet"
  by code_simp

lemma length_alphabet: "length ulid_alphabet = 32"
  by code_simp

lemma alphabet_less: "a < b \<Longrightarrow> b < 32 \<Longrightarrow> ulid_alphabet ! a < ulid_alphabet ! b"
  using alphabet_sorted by (simp add: sorted_wrt_iff_nth_less length_alphabet)

lemma less_snoc_same: "x < y \<Longrightarrow> xs @ [x] < xs @ [y]" for xs :: "'a::linorder list"
  by (simp add: list_less_def lexord_append_leftI)

lemma less_snoc_pref:
  "xs < ys \<Longrightarrow> length ys \<le> length xs \<Longrightarrow> xs @ us < ys @ vs" for xs :: "'a::linorder list"
  by (simp add: list_less_def lexord_sufI)

lemma base32_less:
  "0 \<le> v \<Longrightarrow> v < w \<Longrightarrow> w < 32 ^ n \<Longrightarrow> base32 n v < base32 n w"
proof (induction n arbitrary: v w)
  case (Suc n)
  have w: "w div 32 < 32 ^ n" using Suc.prems(3) by (simp add: div_less_iff_less_mult)
  show ?case
  proof (cases "v div 32 < w div 32")
    case True
    with Suc.IH[of "v div 32" "w div 32"] Suc.prems w show ?thesis
      by (simp add: less_snoc_pref pos_imp_zdiv_nonneg_iff)
  next
    case False
    with Suc.prems have eq: "v div 32 = w div 32"
      by (meson less_imp_le nle_le not_less order.trans zdiv_mono1 zero_less_numeral)
    with Suc.prems have "v mod 32 < w mod 32"
      by (metis add_less_cancel_left mult_div_mod_eq)
    with eq show ?thesis
      by (simp add: less_snoc_same alphabet_less nat_less_iff)
  qed
qed simp

lemma encode_ulid_less: "0 \<le> v \<Longrightarrow> v < w \<Longrightarrow> w < 2 ^ 130 \<Longrightarrow> encode_ulid v < encode_ulid w"
  using base32_less[of v w 26] by (simp add: encode_ulid_base32)

lemma encode_ulid_eq_iff:
  assumes "0 \<le> v" "v < 2 ^ 130" "0 \<le> w" "w < 2 ^ 130"
  shows "encode_ulid v = encode_ulid w \<longleftrightarrow> v = w"
  using encode_ulid_less[of v w] encode_ulid_less[of w v] assms
  by (metis linorder_cases order_less_irrefl)

lemma ulid_value_add:
  assumes "0 \<le> rnd" "rnd < 2 ^ 80"
  shows "ulid_value ts rnd = ts * 2 ^ 80 + rnd"
proof -
  have "rnd = take_bit 80 rnd" using assms by (simp add: take_bit_int_eq_self)
  then have "\<not> bit (push_bit 80 ts) n \<or> \<not> bit rnd n" for n
    by (metis bit_push_bit_iff_int bit_take_bit_iff not_le)
  then have "push_bit 80 ts + rnd = ulid_value ts rnd"
    unfolding ulid_value_def by (intro disjunctive_add) auto
  then show ?thesis by (simp add: push_bit_eq_mult)
qed

lemma ulid_value_less:
  assumes "0 \<le> r" "r < 2 ^ 80" "0 \<le> r'" "r' < 2 ^ 80" "ts < ts'"
  shows "ulid_value ts r < ulid_value ts' r'"
  using assms by (simp add: ulid_value_add)

end
