(* ===== verification/Repositories.thy ===== *)
theory Repositories
  imports Records Ids
begin

text \<open>
  \<open>src/founderos_runtime/repositories.py\<close>: the in-memory repository of one record kind, the project
  repository with its state guard, the append-only event repository with its per-project streams.
  A repository is the insertion-ordered dictionary \<open>_records\<close>; every method is a function that
  returns the new dictionary or the error raised (and then nothing was written). Deep copies are
  invisible in a value semantics. Two interfaces are stated as locales and interpreted on these
  definitions: \<open>keyed_store\<close> (what a lookup returns after an insert) and \<open>event_log\<close> (what a
  stream is after an append), from which follow identity uniqueness and gap-free sequences.
\<close>

section \<open>One repository\<close>

type_synonym 'r table = "(string \<times> 'r) list"

definition validate :: "('r \<Rightarrow> bool) \<Rightarrow> 'r \<Rightarrow> kerror + 'r" where
  "validate ok r = (if ok r then Inr r else Inl ContractViolation)"

text \<open>\<open>_insert_validated\<close>, \<open>get\<close>, \<open>all\<close> and \<open>create\<close>.\<close>

definition repo_insert ::
  "'a entity_scheme \<Rightarrow> 'a entity_scheme table \<Rightarrow> kerror + 'a entity_scheme table" where
  "repo_insert r t =
     (if map_of t (ent_id r) \<noteq> None then Inl DuplicateRecord
      else Inr (AList.update (ent_id r) r t))"

definition repo_get :: "'r table \<Rightarrow> string \<Rightarrow> kerror + 'r" where
  "repo_get t i = (case map_of t i of None \<Rightarrow> Inl RecordNotFound | Some r \<Rightarrow> Inr r)"

definition repo_all :: "'r table \<Rightarrow> 'r list" where
  "repo_all t = map snd t"

definition repo_create ::
  "('a entity_scheme \<Rightarrow> bool) \<Rightarrow> 'a entity_scheme \<Rightarrow> 'a entity_scheme table
     \<Rightarrow> kerror + 'a entity_scheme \<times> 'a entity_scheme table" where
  "repo_create ok r t =
     (case validate ok r of Inl e \<Rightarrow> Inl e
      | Inr v \<Rightarrow> (case repo_insert v t of Inl e \<Rightarrow> Inl e | Inr t' \<Rightarrow> Inr (v, t')))"

text \<open>\<open>import_records\<close>: validate everything, then refuse a non-empty target or a repeated identity.\<close>

definition repo_import ::
  "('a entity_scheme \<Rightarrow> bool) \<Rightarrow> 'a entity_scheme list \<Rightarrow> 'a entity_scheme table
     \<Rightarrow> kerror + 'a entity_scheme table" where
  "repo_import ok rs t =
     (case mapE (validate ok) rs of Inl e \<Rightarrow> Inl e
      | Inr vs \<Rightarrow>
          if t \<noteq> [] then Inl Conflict
          else if \<not> distinct (map ent_id vs) then Inl DuplicateRecord
          else Inr (map (\<lambda>r. (ent_id r, r)) vs))"

text \<open>
  \<open>_replace_validated\<close>: immutable kinds refuse, the identity must exist, an expected revision must
  be the stored one, and a stored revision must be incremented exactly once.
\<close>

definition repo_replace_validated ::
  "('a entity_scheme \<Rightarrow> int option) \<Rightarrow> bool \<Rightarrow> 'a entity_scheme \<Rightarrow> int option
     \<Rightarrow> 'a entity_scheme table \<Rightarrow> kerror + 'a entity_scheme table" where
  "repo_replace_validated rv immutable r expected t =
     (if immutable then Inl Conflict
      else (case map_of t (ent_id r) of
          None \<Rightarrow> Inl RecordNotFound
        | Some cur \<Rightarrow>
            if expected \<noteq> None \<and> rv cur \<noteq> expected then Inl Conflict
            else if (case rv cur of None \<Rightarrow> False | Some n \<Rightarrow> rv r \<noteq> Some (n + 1))
              then Inl Conflict
            else Inr (AList.update (ent_id r) r t)))"

definition repo_replace ::
  "('a entity_scheme \<Rightarrow> bool) \<Rightarrow> ('a entity_scheme \<Rightarrow> int option) \<Rightarrow> bool \<Rightarrow> 'a entity_scheme
     \<Rightarrow> int option \<Rightarrow> 'a entity_scheme table
     \<Rightarrow> kerror + 'a entity_scheme \<times> 'a entity_scheme table" where
  "repo_replace ok rv immutable r expected t =
     (case validate ok r of Inl e \<Rightarrow> Inl e
      | Inr v \<Rightarrow> (case repo_replace_validated rv immutable v expected t of
            Inl e \<Rightarrow> Inl e | Inr t' \<Rightarrow> Inr (v, t')))"

text \<open>\<open>ProjectRepository.replace\<close>.\<close>

definition project_replace ::
  "(project \<Rightarrow> bool) \<Rightarrow> project \<Rightarrow> int option \<Rightarrow> bool \<Rightarrow> project table
     \<Rightarrow> kerror + project \<times> project table" where
  "project_replace ok r expected allow_state_change t =
     (case validate ok r of Inl e \<Rightarrow> Inl e
      | Inr v \<Rightarrow> (case repo_get t (ent_id r) of Inl e \<Rightarrow> Inl e
        | Inr cur \<Rightarrow>
            if \<not> allow_state_change \<and> prj_current_state cur \<noteq> prj_current_state v
            then Inl StateMutation
            else (case repo_replace_validated project_rev False v expected t of
                Inl e \<Rightarrow> Inl e | Inr t' \<Rightarrow> Inr (v, t'))))"

subsection \<open>Facts about one repository\<close>

lemma validate_Inr_iff [simp]: "validate ok r = Inr v \<longleftrightarrow> ok r \<and> v = r"
  by (auto simp: validate_def)

lemma validate_Inl_iff [simp]: "validate ok r = Inl e \<longleftrightarrow> \<not> ok r \<and> e = ContractViolation"
  by (auto simp: validate_def)

lemma repo_insert_Inr_iff:
  "repo_insert r t = Inr t' \<longleftrightarrow> map_of t (ent_id r) = None \<and> t' = t @ [(ent_id r, r)]"
  by (auto simp: repo_insert_def update_fresh)

lemma repo_insert_Inl_iff:
  "repo_insert r t = Inl e \<longleftrightarrow> map_of t (ent_id r) \<noteq> None \<and> e = DuplicateRecord"
  by (auto simp: repo_insert_def)

lemma repo_get_Inr_iff: "repo_get t i = Inr r \<longleftrightarrow> map_of t i = Some r"
  by (auto simp: repo_get_def split: option.splits)

lemma repo_get_Inl_iff: "repo_get t i = Inl e \<longleftrightarrow> map_of t i = None \<and> e = RecordNotFound"
  by (auto simp: repo_get_def split: option.splits)

lemma repo_replace_validated_Inr_iff:
  "repo_replace_validated rv imm r expected t = Inr t' \<longleftrightarrow>
     \<not> imm \<and> (\<exists>cur. map_of t (ent_id r) = Some cur
        \<and> (expected = None \<or> rv cur = expected)
        \<and> (\<forall>n. rv cur = Some n \<longrightarrow> rv r = Some (n + 1)))
     \<and> t' = AList.update (ent_id r) r t"
  by (auto simp: repo_replace_validated_def split: option.splits if_splits)

lemmas repo_iffs = repo_insert_Inr_iff repo_insert_Inl_iff repo_get_Inr_iff repo_get_Inl_iff
  repo_replace_validated_Inr_iff

text \<open>
  The representation invariant: identities are the keys, and are distinct.
\<close>

definition table_ok :: "'a entity_scheme table \<Rightarrow> bool" where
  "table_ok t \<longleftrightarrow> distinct (map fst t) \<and> (\<forall>(i, r)\<in>set t. ent_id r = i)"

lemma table_ok_Nil [simp]: "table_ok []"
  by (simp add: table_ok_def)

lemma table_ok_get: "table_ok t \<Longrightarrow> map_of t i = Some r \<Longrightarrow> ent_id r = i"
  by (auto simp: table_ok_def dest: map_of_SomeD)

lemma table_ok_insert: "table_ok t \<Longrightarrow> repo_insert r t = Inr t' \<Longrightarrow> table_ok t'"
  by (auto simp: repo_insert_Inr_iff table_ok_def map_of_eq_None_iff)

lemma set_update_subset: "set (AList.update k v al) \<subseteq> insert (k, v) (set al)"
  by (induction al) auto

lemma table_ok_update: "table_ok t \<Longrightarrow> table_ok (AList.update (ent_id r) r t)"
  using set_update_subset[of "ent_id r" r t]
  by (auto simp: table_ok_def distinct_update)

lemma table_ok_replace:
  "table_ok t \<Longrightarrow> repo_replace_validated rv imm r x t = Inr t' \<Longrightarrow> table_ok t'"
  by (auto simp: repo_replace_validated_Inr_iff table_ok_update)

lemma table_ok_import: "repo_import ok rs t = Inr t' \<Longrightarrow> table_ok t'"
  by (auto simp: repo_import_def table_ok_def comp_def split: sum.splits if_splits)

section \<open>The keyed-store interface\<close>

locale keyed_store =
  fixes find :: "'t \<Rightarrow> string \<Rightarrow> 'r option"
    and key :: "'r \<Rightarrow> string"
    and insert_new :: "'r \<Rightarrow> 't \<Rightarrow> kerror + 't"
    and listing :: "'t \<Rightarrow> 'r list"
  assumes insert_ok: "find t (key r) = None \<Longrightarrow>
      \<exists>t'. insert_new r t = Inr t' \<and> find t' = (find t)(key r \<mapsto> r)
         \<and> listing t' = listing t @ [r]"
    and insert_dup: "find t (key r) \<noteq> None \<Longrightarrow> insert_new r t = Inl DuplicateRecord"
begin

lemma insert_Inr:
  assumes "insert_new r t = Inr t'"
  shows "find t (key r) = None" and "find t' = (find t)(key r \<mapsto> r)"
    and "listing t' = listing t @ [r]"
  using insert_ok[of t r] insert_dup[of t r] assms by force+

lemma insert_keeps: "insert_new r t = Inr t' \<Longrightarrow> find t i = Some x \<Longrightarrow> find t' i = Some x"
  using insert_Inr[of r t t'] by auto

lemma insert_again: "insert_new r t = Inr t' \<Longrightarrow> key r' = key r \<Longrightarrow> insert_new r' t' = Inl DuplicateRecord"
  using insert_Inr[of r t t'] by (intro insert_dup) simp

primrec insert_all :: "'r list \<Rightarrow> 't \<Rightarrow> kerror + 't" where
  "insert_all [] t = Inr t"
| "insert_all (r # rs) t =
     (case insert_new r t of Inl e \<Rightarrow> Inl e | Inr t' \<Rightarrow> insert_all rs t')"

lemma insert_all_listing: "insert_all rs t = Inr t' \<Longrightarrow> listing t' = listing t @ rs"
  by (induction rs arbitrary: t) (auto simp: insert_Inr split: sum.splits)

lemma insert_all_absent:
  "insert_all rs t = Inr t' \<Longrightarrow> find t i \<noteq> None \<Longrightarrow> r \<in> set rs \<Longrightarrow> key r \<noteq> i"
proof (induction rs arbitrary: t)
  case (Cons q rs)
  then obtain u where "insert_new q t = Inr u" "insert_all rs u = Inr t'"
    by (auto split: sum.splits)
  with Cons insert_Inr(1)[of q t u] insert_keeps[of q t u i] show ?case by auto
qed simp

lemma insert_all_find:
  "insert_all rs t = Inr t' \<Longrightarrow>
     find t' i = (case List.find (\<lambda>r. key r = i) rs of None \<Rightarrow> find t i | Some r \<Rightarrow> Some r)"
proof (induction rs arbitrary: t)
  case (Cons r rs)
  then obtain u where u: "insert_new r t = Inr u" "insert_all rs u = Inr t'"
    by (auto split: sum.splits)
  have "List.find (\<lambda>r. key r = i) rs = None" if "key r = i"
    using insert_all_absent[OF u(2), of i] insert_Inr(2)[OF u(1)] that
    by (auto simp: find_None_iff)
  with Cons.IH[OF u(2)] insert_Inr(2)[OF u(1)] show ?case
    by (auto split: option.splits)
qed simp

end

lemma repo_insert_fresh:
  "map_of t (ent_id r) = None \<Longrightarrow>
     \<exists>t'. repo_insert r t = Inr t' \<and> map_of t' = (map_of t)(ent_id r \<mapsto> r)
        \<and> repo_all t' = repo_all t @ [r]"
  by (simp add: repo_insert_def repo_all_def) (simp add: update_fresh)

interpretation table: keyed_store map_of ent_id repo_insert repo_all
  by (rule keyed_store.intro) (erule repo_insert_fresh, simp add: repo_insert_def)

section \<open>The event repository\<close>

text \<open>
  \<open>EventRepository\<close>: the records, and per project the list of its event ids. The \<open>defaultdict\<close>
  may hold empty lists for projects that were only asked about; no operation distinguishes them
  from absent ones, and the model does not store them.
\<close>

record event_store =
  ev_records :: "event table"
  ev_streams :: "(string \<times> string list) list"

definition empty_events :: event_store where
  "empty_events = \<lparr>ev_records = [], ev_streams = []\<rparr>"

definition stream_ids :: "event_store \<Rightarrow> string \<Rightarrow> string list" where
  "stream_ids s p = (case map_of (ev_streams s) p of None \<Rightarrow> [] | Some ids \<Rightarrow> ids)"

definition event_project :: "event \<Rightarrow> string" where
  "event_project e = ref_id (evt_project_ref e)"

definition next_sequence :: "event_store \<Rightarrow> string \<Rightarrow> int" where
  "next_sequence s p = int (length (stream_ids s p)) + 1"

definition append_validated :: "event \<Rightarrow> event_store \<Rightarrow> kerror + event_store" where
  "append_validated e s =
     (if evt_sequence e \<noteq> next_sequence s (event_project e) then Inl Conflict
      else (case repo_insert e (ev_records s) of
          Inl err \<Rightarrow> Inl err
        | Inr recs \<Rightarrow> Inr \<lparr>ev_records = recs,
            ev_streams = AList.update (event_project e)
              (stream_ids s (event_project e) @ [ent_id e]) (ev_streams s)\<rparr>))"

definition append_event ::
  "(event \<Rightarrow> bool) \<Rightarrow> event \<Rightarrow> event_store \<Rightarrow> kerror + event \<times> event_store" where
  "append_event ok e s =
     (case validate ok e of Inl err \<Rightarrow> Inl err
      | Inr v \<Rightarrow> (case append_validated v s of Inl err \<Rightarrow> Inl err | Inr s' \<Rightarrow> Inr (v, s')))"

text \<open>\<open>self._records[event_id]\<close> for each id of the stream.\<close>

definition for_project :: "event_store \<Rightarrow> string \<Rightarrow> kerror + event list" where
  "for_project s p =
     mapE (\<lambda>i. case map_of (ev_records s) i of None \<Rightarrow> Inl KeyErr | Some e \<Rightarrow> Inr e)
       (stream_ids s p)"

text \<open>\<open>import_events\<close> appends one by one and stops at the first error.\<close>

primrec append_all :: "(event \<Rightarrow> bool) \<Rightarrow> event list \<Rightarrow> event_store \<Rightarrow> kerror option \<times> event_store" where
  "append_all ok [] s = (None, s)"
| "append_all ok (e # es) s =
     (case append_event ok e s of Inl err \<Rightarrow> (Some err, s) | Inr (v, s') \<Rightarrow> append_all ok es s')"

definition import_events ::
  "(event \<Rightarrow> bool) \<Rightarrow> event list \<Rightarrow> event_store \<Rightarrow> kerror option \<times> event_store" where
  "import_events ok es s =
     (if repo_all (ev_records s) \<noteq> [] then (Some Conflict, s) else append_all ok es s)"

subsection \<open>Its representation invariant\<close>

text \<open>Every id of a stream is recorded, under the event of that id and of that project.\<close>

definition events_ok :: "event_store \<Rightarrow> bool" where
  "events_ok s \<longleftrightarrow> table_ok (ev_records s)
     \<and> (\<forall>p. \<forall>i\<in>set (stream_ids s p). \<exists>e. map_of (ev_records s) i = Some e \<and> event_project e = p)"

definition stream :: "event_store \<Rightarrow> string \<Rightarrow> event list" where
  "stream s p = map (\<lambda>i. the (map_of (ev_records s) i)) (stream_ids s p)"

lemma for_project_stream: "events_ok s \<Longrightarrow> for_project s p = Inr (stream s p)"
  unfolding for_project_def stream_def
  by (rule mapE_all) (fastforce simp: events_ok_def)

lemma events_ok_fresh:
  "events_ok s \<Longrightarrow> map_of (ev_records s) i = None \<Longrightarrow> i \<notin> set (stream_ids s p)"
  unfolding events_ok_def by force

lemma length_stream: "length (stream s p) = length (stream_ids s p)"
  by (simp add: stream_def)

lemma stream_project: "events_ok s \<Longrightarrow> e \<in> set (stream s p) \<Longrightarrow> event_project e = p"
  by (fastforce simp: events_ok_def stream_def)

lemma events_ok_empty [simp]: "events_ok empty_events"
  by (simp add: events_ok_def empty_events_def stream_ids_def)

lemma append_validated_Inr_iff:
  "append_validated e s = Inr s' \<longleftrightarrow>
     evt_sequence e = next_sequence s (event_project e)
     \<and> map_of (ev_records s) (ent_id e) = None
     \<and> s' = \<lparr>ev_records = ev_records s @ [(ent_id e, e)],
              ev_streams = AList.update (event_project e)
                (stream_ids s (event_project e) @ [ent_id e]) (ev_streams s)\<rparr>"
  by (auto simp: append_validated_def repo_insert_Inr_iff repo_insert_Inl_iff split: sum.splits)

lemma append_stream_ids:
  "append_validated e s = Inr s' \<Longrightarrow>
     stream_ids s' p = (if p = event_project e then stream_ids s p @ [ent_id e] else stream_ids s p)"
  by (auto simp: append_validated_Inr_iff stream_ids_def)

lemma append_find:
  "append_validated e s = Inr s' \<Longrightarrow>
     map_of (ev_records s') = (map_of (ev_records s))(ent_id e \<mapsto> e)"
  by (rule ext) (auto simp: append_validated_Inr_iff map_add_def split: option.splits)

lemma events_ok_append:
  assumes "events_ok s" "append_validated e s = Inr s'"
  shows "events_ok s'"
proof -
  have fresh: "map_of (ev_records s) (ent_id e) = None"
    using assms(2) by (simp add: append_validated_Inr_iff)
  have "table_ok (ev_records s')"
    using assms by (auto simp: append_validated_Inr_iff events_ok_def table_ok_def map_of_eq_None_iff)
  moreover have "\<exists>x. map_of (ev_records s') i = Some x \<and> event_project x = p"
    if "i \<in> set (stream_ids s' p)" for i p
  proof (cases "i = ent_id e")
    case True
    with that fresh show ?thesis
      using events_ok_fresh[OF assms(1), of i p]
      by (auto simp: append_find[OF assms(2)] append_stream_ids[OF assms(2)] split: if_splits)
  next
    case False
    with that have "i \<in> set (stream_ids s p)"
      by (auto simp: append_stream_ids[OF assms(2)] split: if_splits)
    with False assms(1) show ?thesis
      by (auto simp: events_ok_def append_find[OF assms(2)])
  qed
  ultimately show ?thesis by (simp add: events_ok_def)
qed

lemma stream_append:
  assumes "events_ok s" "append_validated e s = Inr s'"
  shows "stream s' p = (if p = event_project e then stream s p @ [e] else stream s p)"
proof -
  have fresh: "map_of (ev_records s) (ent_id e) = None"
    using assms(2) by (simp add: append_validated_Inr_iff)
  have "ent_id e \<notin> set (stream_ids s p)"
    using events_ok_fresh[OF assms(1) fresh] .
  then show ?thesis
    by (auto simp: stream_def append_stream_ids[OF assms(2)] append_find[OF assms(2)])
qed

section \<open>The event-log interface\<close>

locale event_log =
  fixes good :: "'s \<Rightarrow> bool"
    and log :: "'s \<Rightarrow> string \<Rightarrow> 'e list"
    and owner :: "'e \<Rightarrow> string"
    and number :: "'e \<Rightarrow> int"
    and push :: "'e \<Rightarrow> 's \<Rightarrow> kerror + 's"
  assumes push_good: "good s \<Longrightarrow> push e s = Inr s' \<Longrightarrow> good s'"
    and push_number: "good s \<Longrightarrow> push e s = Inr s' \<Longrightarrow> number e = int (length (log s (owner e))) + 1"
    and push_log: "good s \<Longrightarrow> push e s = Inr s' \<Longrightarrow>
          log s' p = (if p = owner e then log s p @ [e] else log s p)"
begin

definition gap_free :: "'s \<Rightarrow> bool" where
  "gap_free s \<longleftrightarrow> (\<forall>p. map number (log s p) = map int [1..<length (log s p) + 1])"

lemma gap_free_push: "good s \<Longrightarrow> gap_free s \<Longrightarrow> push e s = Inr s' \<Longrightarrow> gap_free s'"
  unfolding gap_free_def
proof
  fix p
  assume g: "good s" "push e s = Inr s'"
    and "\<forall>p. map number (log s p) = map int [1..<length (log s p) + 1]"
  then have "map number (log s p) = map int [1..<length (log s p) + 1]" by blast
  then show "map number (log s' p) = map int [1..<length (log s' p) + 1]"
    by (cases "p = owner e") (simp_all add: push_log[OF g] push_number[OF g] del: upt_Suc add: upt_Suc_append)
qed

lemma push_extends: "good s \<Longrightarrow> push e s = Inr s' \<Longrightarrow> \<exists>es. log s' p = log s p @ es"
  by (auto simp: push_log)

lemma gap_free_nth: "gap_free s \<Longrightarrow> i < length (log s p) \<Longrightarrow> number (log s p ! i) = int i + 1"
proof -
  assume g: "gap_free s" and i: "i < length (log s p)"
  then have "map number (log s p) ! i = map int [1..<length (log s p) + 1] ! i"
    by (simp add: gap_free_def)
  with i show ?thesis by (simp add: nth_append del: upt_Suc)
qed

inductive pushes :: "'s \<Rightarrow> 's \<Rightarrow> bool" where
  none: "pushes s s"
| one: "pushes s t \<Longrightarrow> push e t = Inr u \<Longrightarrow> pushes s u"

lemma pushes_good: "pushes s t \<Longrightarrow> good s \<Longrightarrow> good t"
  by (induction rule: pushes.induct) (auto intro: push_good)

lemma pushes_gap_free: "pushes s t \<Longrightarrow> good s \<Longrightarrow> gap_free s \<Longrightarrow> gap_free t"
  by (induction rule: pushes.induct) (auto intro: gap_free_push pushes_good)

lemma pushes_extend: "pushes s t \<Longrightarrow> good s \<Longrightarrow> \<exists>es. log t p = log s p @ es"
proof (induction rule: pushes.induct)
  case (one s t e u)
  then obtain es fs where "log t p = log s p @ es" "log u p = log t p @ fs"
    using push_extends pushes_good by blast
  then show ?case by simp
qed simp

end

interpretation events: event_log events_ok stream event_project evt_sequence append_validated
  by unfold_locales
    (auto simp: events_ok_append stream_append length_stream next_sequence_def
       append_validated_Inr_iff)

end
