(* ===== verification/Kernel.thy ===== *)
theory Kernel
  imports Repositories
begin

text \<open>
  The kernel state and what every service of \<open>src/founderos_runtime\<close> shares: the composition root
  \<open>RuntimeRepositories\<close> (one table per kind, the event store, the correlation maps of the services),
  typed-reference resolution, and event construction (\<open>events.py\<close>). The environment \<open>env\<close> holds
  what is not source: the wall clock and the random source, read at a tick counter, and the verdict
  of the JSON Schema validator (a third-party library) for each kind.
\<close>

section \<open>Environment and state\<close>

record env =
  clock :: "nat \<Rightarrow> int"
  random80 :: "nat \<Rightarrow> int"
  valid_project :: "project \<Rightarrow> bool"
  valid_artifact :: "artifact \<Rightarrow> bool"
  valid_decision :: "decision \<Rightarrow> bool"
  valid_workflow_run :: "workflow_run \<Rightarrow> bool"
  valid_agent_run :: "agent_run \<Rightarrow> bool"
  valid_event :: "event \<Rightarrow> bool"
  valid_approval :: "approval \<Rightarrow> bool"
  valid_evaluation :: "evaluation \<Rightarrow> bool"
  valid_transition :: "transition \<Rightarrow> bool"
  valid_agent :: "agent \<Rightarrow> bool"
  valid_workflow :: "workflow \<Rightarrow> bool"

record kernel =
  k_projects :: "project table"
  k_artifacts :: "artifact table"
  k_decisions :: "decision table"
  k_workflow_runs :: "workflow_run table"
  k_agent_runs :: "agent_run table"
  k_events :: event_store
  k_approvals :: "approval table"
  k_evaluations :: "evaluation table"
  k_transitions :: "transition table"
  k_agents :: "agent table"
  k_workflows :: "workflow table"
  k_create_corr :: "(string \<times> string) list"
  k_trans_corr :: "((string \<times> string) \<times> string) list"
  k_tick :: nat

definition empty_kernel :: kernel where
  "empty_kernel = \<lparr>k_projects = [], k_artifacts = [], k_decisions = [], k_workflow_runs = [],
     k_agent_runs = [], k_events = empty_events, k_approvals = [], k_evaluations = [],
     k_transitions = [], k_agents = [], k_workflows = [], k_create_corr = [], k_trans_corr = [],
     k_tick = 0\<rparr>"

type_synonym 'a kact = "(kerror, kernel, 'a) act"

text \<open>\<open>datetime.now(UTC)\<close> in microseconds, \<open>utc_now()\<close> in milliseconds, \<open>new_id(kind)\<close>.\<close>

definition now_us :: "env \<Rightarrow> int kact" where
  "now_us E = (\<lambda>k. (Inr (clock E (k_tick k)), k\<lparr>k_tick := k_tick k + 1\<rparr>))"

definition utc_now :: "env \<Rightarrow> int kact" where
  "utc_now E = (\<lambda>k. (Inr (clock E (k_tick k) div 1000), k\<lparr>k_tick := k_tick k + 1\<rparr>))"

definition id_at :: "env \<Rightarrow> string \<Rightarrow> nat \<Rightarrow> string option" where
  "id_at E kd n = new_id kd (clock E n div 1000) (random80 E n)"

definition fresh_id :: "env \<Rightarrow> string \<Rightarrow> string kact" where
  "fresh_id E kd = (\<lambda>k. (case id_at E kd (k_tick k) of None \<Rightarrow> Inl ValueErr | Some i \<Rightarrow> Inr i,
     k\<lparr>k_tick := k_tick k + 1\<rparr>))"

section \<open>Reference resolution\<close>

definition kind_prefixes :: "(string \<times> string) list" where
  "kind_prefixes =
     [(''agent'', ''agt_''), (''artifact'', ''art_''), (''workflow'', ''wfl_''),
      (''state'', ''sta_''), (''decision'', ''dec_''), (''project'', ''prj_''),
      (''workflow_run'', ''wfr_''), (''agent_run'', ''agr_''), (''transition'', ''trn_''),
      (''evaluation'', ''evl_''), (''approval'', ''apr_''), (''event'', ''evt_'')]"

text \<open>\<open>repository_for_kind(kind).get(id)\<close>: the kind \<open>state\<close> has a prefix but no repository.\<close>

definition get_any :: "kernel \<Rightarrow> string \<Rightarrow> string \<Rightarrow> kerror + any_record" where
  "get_any k kd i =
     (if kd = ''agent'' then map_sum id AnyAgent (repo_get (k_agents k) i)
      else if kd = ''artifact'' then map_sum id AnyArtifact (repo_get (k_artifacts k) i)
      else if kd = ''workflow'' then map_sum id AnyWorkflow (repo_get (k_workflows k) i)
      else if kd = ''decision'' then map_sum id AnyDecision (repo_get (k_decisions k) i)
      else if kd = ''project'' then map_sum id AnyProject (repo_get (k_projects k) i)
      else if kd = ''workflow_run'' then map_sum id AnyWorkflowRun (repo_get (k_workflow_runs k) i)
      else if kd = ''agent_run'' then map_sum id AnyAgentRun (repo_get (k_agent_runs k) i)
      else if kd = ''transition'' then map_sum id AnyTransition (repo_get (k_transitions k) i)
      else if kd = ''evaluation'' then map_sum id AnyEvaluation (repo_get (k_evaluations k) i)
      else if kd = ''approval'' then map_sum id AnyApproval (repo_get (k_approvals k) i)
      else if kd = ''event'' then map_sum id AnyEvent (repo_get (ev_records (k_events k)) i)
      else Inl ReferenceIntegrity)"

text \<open>
  \<open>resolve_reference\<close>: the prefix of the kind, the record, the version and revision the reference
  pins, the owner of the record and, for a project, its identity. The project id is \<open>None\<close> (or
  empty) where the caller gives none.
\<close>

definition resolve_reference ::
  "kernel \<Rightarrow> typed_ref \<Rightarrow> string option \<Rightarrow> kerror + any_record" where
  "resolve_reference k ref pid =
     (case map_of kind_prefixes (ref_kind ref) of
        None \<Rightarrow> Inl ReferenceIntegrity
      | Some prefix \<Rightarrow>
          if \<not> starts_with (ref_id ref) prefix then Inl ReferenceIntegrity
          else (case get_any k (ref_kind ref) (ref_id ref) of
              Inl e \<Rightarrow> Inl e
            | Inr target \<Rightarrow>
                if ref_version ref \<noteq> None \<and> any_version target \<noteq> ref_version ref
                then Inl ReferenceIntegrity
                else if ref_revision ref \<noteq> None \<and> any_revision target \<noteq> ref_revision ref
                then Inl ReferenceIntegrity
                else (case (truthy pid, truthy (map_option ref_id (any_project_ref target))) of
                    (Some p, Some own) \<Rightarrow>
                      if own \<noteq> p then Inl ReferenceIntegrity
                      else if ref_kind ref = ''project'' \<and> any_id target \<noteq> p
                      then Inl ReferenceIntegrity else Inr target
                  | (Some p, None) \<Rightarrow>
                      if ref_kind ref = ''project'' \<and> any_id target \<noteq> p
                      then Inl ReferenceIntegrity else Inr target
                  | (None, _) \<Rightarrow> Inr target)))"

definition resolve_all ::
  "kernel \<Rightarrow> typed_ref list \<Rightarrow> string \<Rightarrow> kerror + any_record list" where
  "resolve_all k refs pid = mapE (\<lambda>r. resolve_reference k r (Some pid)) refs"

section \<open>Building and appending events\<close>

definition build_event ::
  "env \<Rightarrow> string \<Rightarrow> string \<Rightarrow> actor \<Rightarrow> typed_ref \<Rightarrow> string \<Rightarrow> json_object \<Rightarrow> typed_ref option
     \<Rightarrow> event kact" where
  "build_event E pid etype actr subject corr payload causation =
     bnd (utc_now E) (\<lambda>now.
     bnd (fresh_id E ''event'') (\<lambda>i.
     bnd (reads (\<lambda>k. next_sequence (k_events k) pid)) (\<lambda>n.
     ret \<lparr>ent_id = i, ent_metadata = None, evt_project_ref = plain_ref ''project'' pid,
          evt_sequence = n, evt_type = etype, evt_actor = actr, evt_subject_ref = subject,
          evt_correlation = corr, evt_payload = payload, evt_causation_ref = causation,
          evt_occurred_at = now, evt_recorded_at = now\<rparr>)))"

definition validate_in :: "('r \<Rightarrow> bool) \<Rightarrow> 'r \<Rightarrow> 'r kact" where
  "validate_in ok r = need (validate ok r)"

definition get_in :: "(kernel \<Rightarrow> 'r table) \<Rightarrow> string \<Rightarrow> 'r kact" where
  "get_in tbl i = bnd (reads (\<lambda>k. repo_get (tbl k) i)) need"

text \<open>\<open>self.repositories.events.append(event)\<close>.\<close>

definition append_to_log :: "env \<Rightarrow> event \<Rightarrow> unit kact" where
  "append_to_log E e =
     bnd (validate_in (valid_event E) e) (\<lambda>v.
     modify k_events k_events_update (append_validated v))"

text \<open>The snapshot of the event log and of one table that an \<open>except\<close> clause restores.\<close>

definition restore_events :: "kernel \<Rightarrow> kernel \<Rightarrow> kernel" where
  "restore_events s t = t\<lparr>k_events := k_events s\<rparr>"

section \<open>Facts\<close>

lemma fresh_id_Inr_iff:
  "fresh_id E kd k = (Inr i, k') \<longleftrightarrow>
     id_at E kd (k_tick k) = Some i \<and> k' = k\<lparr>k_tick := k_tick k + 1\<rparr>"
  by (auto simp: fresh_id_def split: option.splits)

lemma utc_now_run: "utc_now E k = (Inr (clock E (k_tick k) div 1000), k\<lparr>k_tick := k_tick k + 1\<rparr>)"
  by (simp add: utc_now_def)

lemma validate_in_run [act_simps]: "validate_in ok r k = (validate ok r, k)"
  by (simp add: validate_in_def)

lemma get_in_run [act_simps]: "get_in tbl i k = (repo_get (tbl k) i, k)"
  by (simp add: get_in_def)

lemma bnd_get_in:
  "bnd (get_in tbl i) f k = (case repo_get (tbl k) i of Inl e \<Rightarrow> (Inl e, k) | Inr x \<Rightarrow> f x k)"
  by (simp add: bnd_def get_in_run split: sum.splits)

lemma bnd_utc_now: "bnd (utc_now E) f k = f (clock E (k_tick k) div 1000) (k\<lparr>k_tick := k_tick k + 1\<rparr>)"
  by (simp add: utc_now_run bnd_def)

lemma prefix_of_kind: "map_of kind_prefixes kd = map_option (\<lambda>p. p @ ''_'') (map_of id_prefixes kd)"
  by (simp add: kind_prefixes_def id_prefixes_def)

text \<open>An identifier made for a kind has the prefix a reference of that kind must have.\<close>

lemma new_id_prefix:
  "new_id kd ts r = Some i \<Longrightarrow> \<exists>p. map_of kind_prefixes kd = Some p \<and> starts_with i p"
  by (auto simp: new_id_def prefix_of_kind starts_with_def split: option.splits)

lemma get_any_kind: "get_any k kd i = Inr r \<Longrightarrow> any_kind r = kd"
  by (auto simp: get_any_def map_sum_def split: if_splits sum.splits)

lemma resolve_reference_get:
  "resolve_reference k ref pid = Inr r \<Longrightarrow>
     get_any k (ref_kind ref) (ref_id ref) = Inr r"
  by (auto simp: resolve_reference_def split: option.splits sum.splits if_splits prod.splits)

lemma resolve_reference_kind: "resolve_reference k ref pid = Inr r \<Longrightarrow> any_kind r = ref_kind ref"
  by (rule get_any_kind[OF resolve_reference_get])

lemma resolve_all_mem:
  "resolve_all k refs pid = Inr rs \<Longrightarrow> r \<in> set rs \<Longrightarrow>
     \<exists>ref\<in>set refs. resolve_reference k ref (Some pid) = Inr r"
  unfolding resolve_all_def by (drule (1) mapE_Inr_set)

text \<open>
  Two states that differ in the tick counter only: what every failed operation with a rollback
  leaves behind.
\<close>

definition same_data :: "kernel \<Rightarrow> kernel \<Rightarrow> bool" where
  "same_data k k' \<longleftrightarrow> (\<exists>n. k' = k\<lparr>k_tick := n\<rparr>)"

lemma same_data_refl [simp]: "same_data k k"
  unfolding same_data_def by (rule exI[of _ "k_tick k"]) simp

lemma same_data_tick [simp]: "same_data k (k\<lparr>k_tick := n\<rparr>)"
  by (auto simp: same_data_def)

lemma same_dataE: "same_data k k' \<Longrightarrow> (\<And>n. k' = k\<lparr>k_tick := n\<rparr> \<Longrightarrow> P) \<Longrightarrow> P"
  by (auto simp: same_data_def)

lemma same_data_tick_left [simp]: "same_data (k\<lparr>k_tick := n\<rparr>) u \<longleftrightarrow> same_data k u"
  by (cases k; cases u) (auto simp: same_data_def)

lemma same_data_tick_right [simp]: "same_data k (u\<lparr>k_tick := n\<rparr>) \<longleftrightarrow> same_data k u"
  by (cases k; cases u) (auto simp: same_data_def)

lemma same_data_trans: "same_data a b \<Longrightarrow> same_data b c \<Longrightarrow> same_data a c"
  by (auto simp: same_data_def)

lemma build_event_Inr:
  assumes "build_event E pid t a sub corr pl cz k = (Inr e, k')"
  shows "k' = k\<lparr>k_tick := k_tick k + 2\<rparr>" "evt_type e = t" "event_project e = pid"
    "evt_sequence e = next_sequence (k_events k) pid" "evt_payload e = pl" "evt_actor e = a"
    "evt_subject_ref e = sub" "evt_correlation e = corr"
    "id_at E ''event'' (k_tick k + 1) = Some (ent_id e)"
    "evt_project_ref e = plain_ref ''project'' pid"
  using assms
  by (auto simp: build_event_def bnd_utc_now bnd_Inr_iff fresh_id_Inr_iff event_project_def
      plain_ref_def)

lemmas build_event_facts = build_event_Inr(2-10)

lemma bnd_fresh_id:
  "bnd (fresh_id E kd) f k =
     (case id_at E kd (k_tick k) of None \<Rightarrow> (Inl ValueErr, k\<lparr>k_tick := k_tick k + 1\<rparr>)
      | Some i \<Rightarrow> f i (k\<lparr>k_tick := k_tick k + 1\<rparr>))"
  by (simp add: bnd_def fresh_id_def split: option.splits)

lemma build_event_same: "build_event E pid t a sub corr pl cz k = (r, k') \<Longrightarrow> same_data k k'"
  by (auto simp: build_event_def bnd_utc_now bnd_fresh_id split: option.splits)

text \<open>Reference resolution does not read the tick counter.\<close>

lemma get_any_tick [simp]: "get_any (k\<lparr>k_tick := n\<rparr>) = get_any k"
  by (intro ext) (simp add: get_any_def)

lemma resolve_reference_tick [simp]: "resolve_reference (k\<lparr>k_tick := n\<rparr>) = resolve_reference k"
  by (intro ext) (simp only: resolve_reference_def get_any_tick)

lemma resolve_all_tick [simp]: "resolve_all (k\<lparr>k_tick := n\<rparr>) = resolve_all k"
  by (intro ext) (simp only: resolve_all_def resolve_reference_tick)

text \<open>Reference resolution, read backwards.\<close>

lemma resolve_reference_Inr:
  assumes "resolve_reference k ref pid = Inr r"
  shows "\<exists>p. map_of kind_prefixes (ref_kind ref) = Some p \<and> starts_with (ref_id ref) p"
    and "ref_version ref \<noteq> None \<Longrightarrow> any_version r = ref_version ref"
    and "ref_revision ref \<noteq> None \<Longrightarrow> any_revision r = ref_revision ref"
    and "pid = Some p \<Longrightarrow> p \<noteq> [] \<Longrightarrow> any_project_ref r = Some ow \<Longrightarrow> ref_id ow \<noteq> [] \<Longrightarrow> ref_id ow = p"
    and "pid = Some p \<Longrightarrow> p \<noteq> [] \<Longrightarrow> ref_kind ref = ''project'' \<Longrightarrow> any_id r = p"
  using assms
  by (auto simp: resolve_reference_def truthy_def split: option.splits sum.splits if_splits)

section \<open>The representation invariant of the kernel\<close>

definition tables_ok :: "kernel \<Rightarrow> bool" where
  "tables_ok k \<longleftrightarrow> table_ok (k_projects k) \<and> table_ok (k_artifacts k) \<and> table_ok (k_decisions k)
     \<and> table_ok (k_workflow_runs k) \<and> table_ok (k_agent_runs k) \<and> events_ok (k_events k)
     \<and> table_ok (k_approvals k) \<and> table_ok (k_evaluations k) \<and> table_ok (k_transitions k)
     \<and> table_ok (k_agents k) \<and> table_ok (k_workflows k)"

lemma tables_ok_empty: "tables_ok empty_kernel"
  by (simp add: tables_ok_def empty_kernel_def)

lemma any_id_get: "tables_ok k \<Longrightarrow> get_any k kd i = Inr r \<Longrightarrow> any_id r = i"
  by (auto simp: get_any_def map_sum_def repo_get_Inr_iff tables_ok_def events_ok_def
      dest: table_ok_get split: if_splits sum.splits)

end
