(* ===== verification/ProjectState.thy ===== *)
theory ProjectState
  imports Kernel
begin

text \<open>
  \<open>src/founderos_runtime/project_state.py\<close>: the Project aggregate. \<open>replay_project_events\<close> derives
  the state, revision and last aggregate sequence of a project from its event stream;
  \<open>create_project\<close> and \<open>update_details\<close> write the record and its event together, restoring both
  on an error. The lemmas show how replay extends along an append, which is what keeps every
  stored project equal to the replay of its stream.
\<close>

section \<open>Replaying an event stream\<close>

text \<open>The summary dictionary; state and revision are whatever JSON the payload holds.\<close>

record summary =
  sm_state :: json
  sm_revision :: json
  sm_last :: int

definition payload_get :: "event \<Rightarrow> string \<Rightarrow> kerror + json" where
  "payload_get e key =
     (case map_of (evt_payload e) key of None \<Rightarrow> Inl KeyErr | Some v \<Rightarrow> Inr v)"

text \<open>One iteration of the loop, after its sequence check.\<close>

definition replay_event :: "event \<Rightarrow> summary option \<Rightarrow> kerror + summary option" where
  "replay_event e sm =
     (if evt_type e = ''project.created'' then
        (case sm of Some _ \<Rightarrow> Inl Conflict
         | None \<Rightarrow> (case payload_get e ''current_state'' of Inl x \<Rightarrow> Inl x
           | Inr st \<Rightarrow> (case payload_get e ''revision'' of Inl x \<Rightarrow> Inl x
             | Inr rv \<Rightarrow> Inr (Some \<lparr>sm_state = st, sm_revision = rv, sm_last = evt_sequence e\<rparr>))))
      else (case sm of None \<Rightarrow> Inl Conflict
        | Some s \<Rightarrow>
            if evt_type e = ''transition.applied'' then
              (case payload_get e ''from_state'' of Inl x \<Rightarrow> Inl x
               | Inr from \<Rightarrow>
                  if from \<noteq> sm_state s then Inl Conflict
                  else (case payload_get e ''to_state'' of Inl x \<Rightarrow> Inl x
                    | Inr to \<Rightarrow> (case payload_get e ''resulting_project_revision'' of Inl x \<Rightarrow> Inl x
                      | Inr rv \<Rightarrow>
                          Inr (Some \<lparr>sm_state = to, sm_revision = rv, sm_last = evt_sequence e\<rparr>))))
            else if evt_type e = ''project.updated'' then
              (case payload_get e ''revision'' of Inl x \<Rightarrow> Inl x
               | Inr rv \<Rightarrow> Inr (Some (s\<lparr>sm_revision := rv, sm_last := evt_sequence e\<rparr>)))
            else Inr (Some s)))"

fun replay_from :: "int \<Rightarrow> event list \<Rightarrow> summary option \<Rightarrow> kerror + summary option" where
  "replay_from n [] sm = Inr sm"
| "replay_from n (e # es) sm =
     (if evt_sequence e \<noteq> n then Inl Conflict
      else (case replay_event e sm of Inl x \<Rightarrow> Inl x | Inr sm' \<Rightarrow> replay_from (n + 1) es sm'))"

definition replay_project_events :: "event list \<Rightarrow> kerror + summary" where
  "replay_project_events es =
     (case replay_from 1 es None of Inl x \<Rightarrow> Inl x
      | Inr None \<Rightarrow> Inl Conflict
      | Inr (Some s) \<Rightarrow> Inr s)"

section \<open>The service\<close>

definition restore_project_events :: "kernel \<Rightarrow> kernel \<Rightarrow> kernel" where
  "restore_project_events s t = t\<lparr>k_projects := k_projects s, k_events := k_events s\<rparr>"

text \<open>\<open>create_project\<close>: the record it builds, and the call.\<close>

definition new_project ::
  "string \<Rightarrow> int \<Rightarrow> string \<Rightarrow> string \<Rightarrow> string \<Rightarrow> string \<Rightarrow> string \<Rightarrow> project" where
  "new_project pid now nm fid fname dmn corr =
     \<lparr>ent_id = pid, ent_metadata = Some [(''correlation_id'', JStr corr)],
      prj_revision = 1, prj_status = ''active'', prj_name = nm, prj_founder = (fid, fname),
      prj_domain = dmn, prj_current_state = ''NO_PROJECT'', prj_completed_refs = [],
      prj_pending_types = [], prj_decision_refs = [], prj_risks = [],
      prj_next_action = ''Begin founder setup'', prj_last_sequence = 1,
      prj_created_at = now, prj_updated_at = now\<rparr>"

definition create_project ::
  "env \<Rightarrow> string \<Rightarrow> string \<Rightarrow> string \<Rightarrow> string \<Rightarrow> actor \<Rightarrow> string \<Rightarrow> project kact" where
  "create_project E nm fid fname dmn actr corr =
     bnd (reads (\<lambda>k. truthy (map_of (k_create_corr k) corr))) (\<lambda>existing.
     case existing of
       Some pid \<Rightarrow> get_in k_projects pid
     | None \<Rightarrow>
         bnd (utc_now E) (\<lambda>now.
         bnd (fresh_id E ''project'') (\<lambda>pid.
         bnd (validate_in (valid_project E) (new_project pid now nm fid fname dmn corr)) (\<lambda>p.
         bnd (build_event E pid ''project.created'' actr (revision_ref ''project'' pid 1) corr
               [(''name'', JStr nm), (''current_state'', JStr ''NO_PROJECT''), (''revision'', JInt 1)]
               None) (\<lambda>ev.
         bnd (validate_in (valid_event E) ev) (\<lambda>e.
         bnd (rollback restore_project_events
               (bnd (modify k_projects k_projects_update (repo_insert p)) (\<lambda>_.
                bnd (modify k_events k_events_update (append_validated e)) (\<lambda>_.
                writes (\<lambda>k. k\<lparr>k_create_corr := AList.update corr pid (k_create_corr k)\<rparr>)))))
           (\<lambda>_. ret p)))))))"

text \<open>\<open>update_details\<close>: the record it builds, and the call.\<close>

definition updated_project ::
  "project \<Rightarrow> int \<Rightarrow> string option \<Rightarrow> string list option \<Rightarrow> project" where
  "updated_project cur now next_action risks =
     (let u = cur\<lparr>prj_revision := prj_revision cur + 1, prj_updated_at := now\<rparr>;
          u = (case next_action of None \<Rightarrow> u | Some a \<Rightarrow> u\<lparr>prj_next_action := a\<rparr>)
      in (case risks of None \<Rightarrow> u | Some rs \<Rightarrow> u\<lparr>prj_risks := rs\<rparr>))"

definition update_details ::
  "env \<Rightarrow> string \<Rightarrow> int \<Rightarrow> actor \<Rightarrow> string \<Rightarrow> string option \<Rightarrow> string list option \<Rightarrow> project kact" where
  "update_details E pid expected actr corr next_action risks =
     bnd (get_in k_projects pid) (\<lambda>cur.
     bnd (utc_now E) (\<lambda>now.
     (let upd = updated_project cur now next_action risks in
     bnd (build_event E pid ''project.updated'' actr (revision_ref ''project'' pid (prj_revision upd))
           corr [(''revision'', JInt (prj_revision upd)), (''next_action'', JStr (prj_next_action upd))]
           None) (\<lambda>ev.
     bnd (validate_in (valid_project E) (upd\<lparr>prj_last_sequence := evt_sequence ev\<rparr>)) (\<lambda>p.
     bnd (validate_in (valid_event E) ev) (\<lambda>e.
     bnd (rollback restore_project_events
           (bnd (modify k_projects k_projects_update
                  (repo_replace_validated project_rev False p (Some expected))) (\<lambda>_.
            modify k_events k_events_update (append_validated e))))
       (\<lambda>_. ret p)))))))"

section \<open>Replay along an append\<close>

lemma replay_from_append:
  "replay_from n (es @ [e]) sm =
     (case replay_from n es sm of Inl x \<Rightarrow> Inl x
      | Inr sm' \<Rightarrow> if evt_sequence e \<noteq> n + int (length es) then Inl Conflict else replay_event e sm')"
  by (induction es arbitrary: n sm) (auto split: sum.splits simp: algebra_simps)

lemma replay_project_append:
  assumes "replay_project_events es = Inr s" "evt_sequence e = int (length es) + 1"
  shows "replay_project_events (es @ [e]) =
     (case replay_event e (Some s) of Inl x \<Rightarrow> Inl x
      | Inr None \<Rightarrow> Inl Conflict | Inr (Some s') \<Rightarrow> Inr s')"
  using assms
  by (auto simp: replay_project_events_def replay_from_append split: sum.splits option.splits)

lemma replay_numbered:
  "replay_from n es sm = Inr sm' \<Longrightarrow> i < length es \<Longrightarrow> evt_sequence (es ! i) = n + int i"
proof (induction es arbitrary: n sm i)
  case (Cons e es)
  then show ?case
    by (cases i) (auto split: if_splits sum.splits dest: Cons.IH simp: algebra_simps)
qed simp

text \<open>The event types replay does not look at.\<close>

definition neutral :: "string \<Rightarrow> bool" where
  "neutral t \<longleftrightarrow> t \<noteq> ''project.created'' \<and> t \<noteq> ''transition.applied'' \<and> t \<noteq> ''project.updated''"

lemma replay_append_neutral:
  assumes "replay_project_events es = Inr s" "evt_sequence e = int (length es) + 1"
    and "neutral (evt_type e)"
  shows "replay_project_events (es @ [e]) = Inr s"
  using assms(3) by (simp add: replay_project_append[OF assms(1,2)] replay_event_def neutral_def)

lemma replay_append_updated:
  assumes "replay_project_events es = Inr s" "evt_sequence e = int (length es) + 1"
    and "evt_type e = ''project.updated''" "payload_get e ''revision'' = Inr rv"
  shows "replay_project_events (es @ [e]) =
     Inr (s\<lparr>sm_revision := rv, sm_last := int (length es) + 1\<rparr>)"
  using assms(2-) by (simp add: replay_project_append[OF assms(1,2)] replay_event_def)

lemma replay_append_applied:
  assumes "replay_project_events es = Inr s" "evt_sequence e = int (length es) + 1"
    and "evt_type e = ''transition.applied''" "payload_get e ''from_state'' = Inr (sm_state s)"
    and "payload_get e ''to_state'' = Inr to"
    and "payload_get e ''resulting_project_revision'' = Inr rv"
  shows "replay_project_events (es @ [e]) =
     Inr \<lparr>sm_state = to, sm_revision = rv, sm_last = int (length es) + 1\<rparr>"
  using assms(2-) by (simp add: replay_project_append[OF assms(1,2)] replay_event_def)

lemma replay_created:
  assumes "evt_sequence e = 1" "evt_type e = ''project.created''"
    and "payload_get e ''current_state'' = Inr st" "payload_get e ''revision'' = Inr rv"
  shows "replay_project_events [e] = Inr \<lparr>sm_state = st, sm_revision = rv, sm_last = 1\<rparr>"
  using assms by (simp add: replay_project_events_def replay_event_def)

section \<open>Stored projects agree with their streams\<close>

definition summary_of :: "project \<Rightarrow> summary" where
  "summary_of p = \<lparr>sm_state = JStr (prj_current_state p), sm_revision = JInt (prj_revision p),
     sm_last = prj_last_sequence p\<rparr>"

definition consistent :: "kernel \<Rightarrow> bool" where
  "consistent k \<longleftrightarrow> (\<forall>pid p. map_of (k_projects k) pid = Some p \<longrightarrow>
     replay_project_events (stream (k_events k) pid) = Inr (summary_of p))"

lemma consistent_same: "same_data k k' \<Longrightarrow> consistent k' = consistent k"
  by (auto simp: consistent_def same_data_def)

lemma tables_ok_same: "same_data k k' \<Longrightarrow> tables_ok k' = tables_ok k"
  by (auto simp: tables_ok_def same_data_def)

text \<open>Appending an event replay ignores, without touching the projects.\<close>

lemma consistent_append_neutral:
  assumes "events_ok (k_events k)" "consistent k"
    and "append_validated e (k_events k) = Inr ev" "neutral (evt_type e)"
    and "k_projects k' = k_projects k" "k_events k' = ev"
  shows "consistent k'"
  unfolding consistent_def
proof (intro allI impI)
  fix pid p
  assume "map_of (k_projects k') pid = Some p"
  then have r: "replay_project_events (stream (k_events k) pid) = Inr (summary_of p)"
    using assms by (simp add: consistent_def)
  then show "replay_project_events (stream (k_events k') pid) = Inr (summary_of p)"
    using assms(3,4,6) replay_append_neutral[OF r]
      events.push_number[OF assms(1,3)] events.push_log[OF assms(1,3), of pid]
    by (cases "pid = event_project e") auto
qed

text \<open>Writing one project together with the event appended to its stream.\<close>

lemma consistent_write:
  assumes "events_ok (k_events k)" "consistent k"
    and "append_validated e (k_events k) = Inr ev" "event_project e = pid"
    and "k_projects k' = AList.update pid p' (k_projects k)" "k_events k' = ev"
    and "replay_project_events (stream (k_events k) pid @ [e]) = Inr (summary_of p')"
  shows "consistent k'"
  unfolding consistent_def
proof (intro allI impI)
  fix q p
  assume "map_of (k_projects k') q = Some p"
  then show "replay_project_events (stream (k_events k') q) = Inr (summary_of p)"
    using assms events.push_log[OF assms(1,3), of q]
    by (cases "q = pid") (auto simp: consistent_def)
qed

text \<open>What a returning \<open>create_project\<close> has done, when the correlation is new.\<close>

lemma create_project_Inr:
  assumes run: "create_project E nm fid fname dmn a corr k = (Inr p, k')"
    and new: "truthy (map_of (k_create_corr k) corr) = None"
  shows "\<exists>e ev now. id_at E ''project'' (k_tick k + 1) = Some (ent_id p)
      \<and> p = new_project (ent_id p) now nm fid fname dmn corr
      \<and> valid_project E p \<and> valid_event E e
      \<and> map_of (k_projects k) (ent_id p) = None
      \<and> append_validated e (k_events k) = Inr ev \<and> event_project e = ent_id p
      \<and> evt_type e = ''project.created'' \<and> evt_actor e = a
      \<and> evt_payload e = [(''name'', JStr nm), (''current_state'', JStr ''NO_PROJECT''),
                         (''revision'', JInt 1)]
      \<and> k' = k\<lparr>k_projects := k_projects k @ [(ent_id p, p)], k_events := ev,
               k_create_corr := AList.update corr (ent_id p) (k_create_corr k), k_tick := k_tick k + 4\<rparr>"
proof -
  let ?k1 = "k\<lparr>k_tick := k_tick k + 2\<rparr>" and ?now = "clock E (k_tick k) div 1000"
  let ?p = "\<lambda>i. new_project i ?now nm fid fname dmn corr"
  from run new obtain i e k2 k3 where
    i: "id_at E ''project'' (k_tick k + 1) = Some i" and vp: "valid_project E (?p i)" and
    b: "build_event E i ''project.created'' a (revision_ref ''project'' i 1) corr
          [(''name'', JStr nm), (''current_state'', JStr ''NO_PROJECT''), (''revision'', JInt 1)]
          None ?k1 = (Inr e, k2)" and
    ve: "valid_event E e" and p: "p = ?p i" and
    r: "bnd (modify k_projects k_projects_update (repo_insert p)) (\<lambda>_.
          bnd (modify k_events k_events_update (append_validated e)) (\<lambda>_.
          writes (\<lambda>k. k\<lparr>k_create_corr := AList.update corr i (k_create_corr k)\<rparr>))) k2
        = (Inr (), k')"
    unfolding create_project_def
    by (auto simp: bnd_Inr_iff act_simps utc_now_run fresh_id_Inr_iff)
  have id: "ent_id p = i" by (simp add: p new_project_def)
  from r show ?thesis
    using i vp ve p id build_event_facts[OF b]
    by (auto simp: bnd_Inr_iff modify_Inr_iff repo_insert_Inr_iff build_event_Inr(1)[OF b])
qed

text \<open>An error of a block under \<open>restore_project_events\<close> leaves the data as it was.\<close>

lemma modify_projects_events_stop:
  assumes "rollback restore_project_events
      (bnd (modify k_projects k_projects_update f) (\<lambda>_. m)) k = (Inl x, k')"
    and "\<And>t y u. m t = (Inl y, u) \<Longrightarrow> \<exists>es. u = t\<lparr>k_events := es\<rparr>"
  shows "same_data k k'"
proof -
  have "\<exists>ps es. u = k\<lparr>k_projects := ps, k_events := es\<rparr>"
    if "bnd (modify k_projects k_projects_update f) (\<lambda>_. m) k = (Inl x, u)" for u
    using that assms(2)
    by (fastforce simp: bnd_Inl_iff modify_Inr_iff modify_Inl_iff
        intro: exI[of _ "k_projects k"] exI[of _ "k_events k"])
  with assms(1) show ?thesis
    by (auto simp: rollback_Inl_iff restore_project_events_def)
qed

lemma self_events: "\<exists>es. t = t\<lparr>k_events := es\<rparr>" for t :: kernel
  by (rule exI[of _ "k_events t"]) simp

lemma modify_events_stop:
  "modify k_events k_events_update f t = (Inl y, u) \<Longrightarrow> \<exists>es. u = t\<lparr>k_events := es\<rparr>"
  for t u :: kernel
  by (auto simp: modify_Inl_iff intro!: self_events)

lemma create_project_Inl:
  assumes "create_project E nm fid fname dmn a corr k = (Inl x, k')"
  shows "same_data k k'"
proof (cases "truthy (map_of (k_create_corr k) corr)")
  case None
  let ?blk = "\<lambda>p e i. bnd (modify k_projects k_projects_update (repo_insert p)) (\<lambda>_.
      bnd (modify k_events k_events_update (append_validated e)) (\<lambda>_.
      writes (\<lambda>k. k\<lparr>k_create_corr := AList.update corr i (k_create_corr k)\<rparr>)))"
  have blk: "same_data s t" if "rollback restore_project_events (?blk p e i) s = (Inl y, t)"
    for p e i s t y
    by (rule modify_projects_events_stop[OF that])
       (auto simp: bnd_Inl_iff modify_Inl_iff intro!: self_events)
  from assms None show ?thesis
    unfolding create_project_def
    by (auto simp: bnd_utc_now bnd_fresh_id bnd_Inl_iff[of "build_event _ _ _ _ _ _ _ _"]
          bnd_Inl_iff[of "validate_in _ _"] bnd_Inl_iff[of "rollback _ _"] act_simps
        dest!: blk build_event_same split: option.splits elim!: same_data_trans[rotated])
next
  case (Some pid)
  with assms show ?thesis
    by (auto simp: create_project_def act_simps)
qed

lemma updated_project_facts [simp]:
  "ent_id (updated_project cur now na rs) = ent_id cur"
  "prj_revision (updated_project cur now na rs) = prj_revision cur + 1"
  "prj_current_state (updated_project cur now na rs) = prj_current_state cur"
  "prj_status (updated_project cur now na rs) = prj_status cur"
  "prj_completed_refs (updated_project cur now na rs) = prj_completed_refs cur"
  by (simp_all add: updated_project_def Let_def split: option.splits)

text \<open>What a returning \<open>update_details\<close> has done.\<close>

lemma update_details_Inr:
  assumes run: "update_details E pid expected a corr na rs k = (Inr p, k')"
    and ok: "tables_ok k"
  shows "\<exists>cur now e ev. map_of (k_projects k) pid = Some cur \<and> ent_id cur = pid
      \<and> p = (updated_project cur now na rs)\<lparr>prj_last_sequence := evt_sequence e\<rparr>
      \<and> prj_revision cur = expected
      \<and> append_validated e (k_events k) = Inr ev \<and> event_project e = pid
      \<and> evt_type e = ''project.updated'' \<and> payload_get e ''revision'' = Inr (JInt (prj_revision p))
      \<and> k' = k\<lparr>k_projects := AList.update pid p (k_projects k), k_events := ev,
               k_tick := k_tick k + 3\<rparr>"
proof -
  from run obtain cur where cur: "map_of (k_projects k) pid = Some cur"
    by (auto simp: update_details_def bnd_Inr_iff act_simps repo_get_Inr_iff)
  with ok have id: "ent_id cur = pid"
    by (auto simp: tables_ok_def dest: table_ok_get)
  let ?k1 = "k\<lparr>k_tick := k_tick k + 1\<rparr>" and ?now = "clock E (k_tick k) div 1000"
  let ?u = "updated_project cur ?now na rs"
  from run cur obtain e k2 where
    b: "build_event E pid ''project.updated'' a (revision_ref ''project'' pid (prj_revision ?u)) corr
          [(''revision'', JInt (prj_revision ?u)), (''next_action'', JStr (prj_next_action ?u))]
          None ?k1 = (Inr e, k2)" and
    p: "p = ?u\<lparr>prj_last_sequence := evt_sequence e\<rparr>" and
    r: "bnd (modify k_projects k_projects_update
              (repo_replace_validated project_rev False p (Some expected))) (\<lambda>_.
          modify k_events k_events_update (append_validated e)) k2 = (Inr (), k')"
    unfolding update_details_def Let_def
    by (auto simp: bnd_Inr_iff act_simps utc_now_run repo_get_Inr_iff simp del: updated_project_facts)
  have "payload_get e ''revision'' = Inr (JInt (prj_revision p))"
    by (simp add: payload_get_def build_event_facts[OF b] p)
  moreover have "ent_id p = pid" by (simp add: p id)
  moreover from r cur obtain ev where "append_validated e (k_events k) = Inr ev"
    "prj_revision cur = expected"
    "k' = k\<lparr>k_projects := AList.update pid p (k_projects k), k_events := ev,
               k_tick := k_tick k + 3\<rparr>"
    by (auto simp: bnd_Inr_iff modify_Inr_iff repo_replace_validated_Inr_iff project_rev_def
        build_event_Inr(1)[OF b] \<open>ent_id p = pid\<close>)
  ultimately show ?thesis
    using cur id p build_event_facts(1,2)[OF b] by blast
qed

lemma update_details_Inl:
  assumes "update_details E pid expected a corr na rs k = (Inl x, k')"
  shows "same_data k k'"
proof -
  have blk: "same_data s t" if "rollback restore_project_events
      (bnd (modify k_projects k_projects_update f) (\<lambda>_.
       modify k_events k_events_update g)) s = (Inl y, t)" for f g s t y
    by (rule modify_projects_events_stop[OF that]) (rule modify_events_stop)
  from assms show ?thesis
    unfolding update_details_def Let_def
    by (auto simp: bnd_utc_now bnd_Inl_iff[of "get_in _ _"] bnd_Inl_iff[of "build_event _ _ _ _ _ _ _ _"]
          bnd_Inl_iff[of "validate_in _ _"] bnd_Inl_iff[of "rollback _ _"] act_simps
        dest!: blk build_event_same split: option.splits elim!: same_data_trans[rotated])
qed

section \<open>Both operations keep the stored projects equal to their replays\<close>

lemma create_project_consistent:
  assumes run: "create_project E nm fid fname dmn a corr k = (r, k')"
    and ok: "tables_ok k" "consistent k"
    and fresh: "\<And>i. id_at E ''project'' (k_tick k + 1) = Some i \<Longrightarrow> stream_ids (k_events k) i = []"
  shows "tables_ok k' \<and> consistent k'"
proof (cases r)
  case (Inl x)
  with create_project_Inl[of E nm fid fname dmn a corr k x k'] run ok show ?thesis
    by (simp add: tables_ok_same consistent_same)
next
  case (Inr p)
  show ?thesis
  proof (cases "truthy (map_of (k_create_corr k) corr)")
    case (Some pid)
    with run ok show ?thesis by (auto simp: create_project_def act_simps)
  next
    case None
    from create_project_Inr[OF run[unfolded Inr] None] obtain e ev now where
      f: "id_at E ''project'' (k_tick k + 1) = Some (ent_id p)"
        "p = new_project (ent_id p) now nm fid fname dmn corr"
        "map_of (k_projects k) (ent_id p) = None"
        "append_validated e (k_events k) = Inr ev" "event_project e = ent_id p"
        "evt_type e = ''project.created''"
        "evt_payload e = [(''name'', JStr nm), (''current_state'', JStr ''NO_PROJECT''),
                         (''revision'', JInt 1)]"
        "k' = k\<lparr>k_projects := k_projects k @ [(ent_id p, p)], k_events := ev,
               k_create_corr := AList.update corr (ent_id p) (k_create_corr k), k_tick := k_tick k + 4\<rparr>"
      by blast
    have evok: "events_ok (k_events k)" using ok by (simp add: tables_ok_def)
    have empty: "stream (k_events k) (ent_id p) = []"
      using fresh[OF f(1)] by (simp add: stream_def)
    have "evt_sequence e = 1"
      using events.push_number[OF evok f(4)] f(5) empty by simp
    then have "replay_project_events (stream (k_events k) (ent_id p) @ [e]) = Inr (summary_of p)"
      unfolding empty append_Nil
      using f(2) by (subst replay_created[OF _ f(6)])
        (simp_all add: payload_get_def f(7) summary_of_def new_project_def, (metis project.select_convs)+)?
    then have "consistent k'"
      using consistent_write[OF evok ok(2) f(4,5), of k' p] f(3,8) by (simp add: update_fresh)
    moreover have "tables_ok k'"
      using ok(1) f(3,8) events_ok_append[OF evok f(4)]
        table_ok_insert[of "k_projects k" p "k_projects k @ [(ent_id p, p)]"]
      by (simp add: tables_ok_def repo_insert_Inr_iff)
    ultimately show ?thesis by simp
  qed
qed

lemma update_details_consistent:
  assumes run: "update_details E pid expected a corr na rs k = (r, k')"
    and ok: "tables_ok k" "consistent k"
  shows "tables_ok k' \<and> consistent k'"
proof (cases r)
  case (Inl x)
  with update_details_Inl[of E pid expected a corr na rs k x k'] run ok show ?thesis
    by (simp add: tables_ok_same consistent_same)
next
  case (Inr p)
  from update_details_Inr[OF run[unfolded Inr] ok(1)] obtain cur now e ev where
    f: "map_of (k_projects k) pid = Some cur" "ent_id cur = pid"
      "p = (updated_project cur now na rs)\<lparr>prj_last_sequence := evt_sequence e\<rparr>"
      "append_validated e (k_events k) = Inr ev" "event_project e = pid"
      "evt_type e = ''project.updated''" "payload_get e ''revision'' = Inr (JInt (prj_revision p))"
      "k' = k\<lparr>k_projects := AList.update pid p (k_projects k), k_events := ev,
               k_tick := k_tick k + 3\<rparr>"
    by blast
  have evok: "events_ok (k_events k)" using ok by (simp add: tables_ok_def)
  have "replay_project_events (stream (k_events k) pid) = Inr (summary_of cur)"
    using ok(2) f(1) by (simp add: consistent_def)
  moreover have seq: "evt_sequence e = int (length (stream (k_events k) pid)) + 1"
    using events.push_number[OF evok f(4)] f(5) by simp
  ultimately have "replay_project_events (stream (k_events k) pid @ [e]) = Inr (summary_of p)"
    using f(3,6,7) by (subst replay_append_updated) (auto simp: summary_of_def)
  then have "consistent k'"
    using consistent_write[OF evok ok(2) f(4,5), of k' p] f(8) by simp
  moreover have "tables_ok k'"
    using ok(1) f(2,3,8) events_ok_append[OF evok f(4)] table_ok_update[of "k_projects k" p]
    by (simp add: tables_ok_def)
  ultimately show ?thesis by simp
qed

section \<open>The kernel invariant, preserved action by action\<close>

definition kernel_inv :: "kernel \<Rightarrow> bool" where
  "kernel_inv k \<longleftrightarrow> tables_ok k \<and> consistent k"

lemma kernel_inv_same: "same_data k k' \<Longrightarrow> kernel_inv k' = kernel_inv k"
  by (simp add: kernel_inv_def tables_ok_same consistent_same)

lemma keeps_inv_same: "(\<And>k r k'. m k = (r, k') \<Longrightarrow> same_data k k') \<Longrightarrow> keeps kernel_inv m"
  unfolding keeps_def by (metis kernel_inv_same prod.collapse)

lemma keeps_inv_clock [intro, simp]:
  "keeps kernel_inv (utc_now E)" "keeps kernel_inv (now_us E)" "keeps kernel_inv (fresh_id E kd)"
  by (rule keeps_inv_same, auto simp: utc_now_def now_us_def fresh_id_def)+

lemma keeps_inv_read [intro, simp]:
  "keeps kernel_inv (get_in tbl i)" "keeps kernel_inv (validate_in ok r)"
  "keeps kernel_inv (build_event E pid t a sub corr pl cz)"
  by (rule keeps_inv_same, auto simp: get_in_run validate_in_run dest: build_event_same)+

lemma keeps_inv_append:
  assumes "neutral (evt_type e)"
  shows "keeps kernel_inv (modify k_events k_events_update (append_validated e))"
proof (rule keeps_modify)
  fix k ev
  assume k: "kernel_inv k" and a: "append_validated e (k_events k) = Inr ev"
  then have ok: "events_ok (k_events k)" "tables_ok k" "consistent k"
    by (simp_all add: kernel_inv_def tables_ok_def)
  have "consistent (k\<lparr>k_events := ev\<rparr>)"
    by (rule consistent_append_neutral[OF ok(1,3) a assms]) simp_all
  with ok(2) events_ok_append[OF ok(1) a] show "kernel_inv (k_events_update (\<lambda>_. ev) k)"
    by (simp add: kernel_inv_def tables_ok_def)
qed

lemma keeps_inv_log: "neutral (evt_type e) \<Longrightarrow> keeps kernel_inv (append_to_log E e)"
  unfolding append_to_log_def
  by (rule keepsI) (auto simp: bnd_def validate_in_run validate_def intro: keepsD[OF keeps_inv_append])

lemma keeps_inv_tables [intro]:
  "keeps kernel_inv (modify k_workflow_runs k_workflow_runs_update (repo_insert wr))"
  "keeps kernel_inv (modify k_agent_runs k_agent_runs_update (repo_insert ar))"
  "keeps kernel_inv (modify k_artifacts k_artifacts_update (repo_insert af))"
  "keeps kernel_inv (modify k_evaluations k_evaluations_update (repo_insert el))"
  "keeps kernel_inv (modify k_approvals k_approvals_update (repo_insert ap))"
  "keeps kernel_inv (modify k_decisions k_decisions_update (repo_insert dc))"
  "keeps kernel_inv (modify k_artifacts k_artifacts_update
     (repo_replace_validated artifact_rev False af x))"
  "keeps kernel_inv (modify k_approvals k_approvals_update
     (repo_replace_validated approval_rev False ap x))"
  by (rule keeps_modify; force simp: kernel_inv_def tables_ok_def consistent_def
      dest: table_ok_insert table_ok_replace)+

end
