(* ===== verification/StateMachine.thy ===== *)
theory StateMachine
  imports ProjectState
begin

text \<open>
  \<open>src/founderos_runtime/state_machine.py\<close>: the guarded, atomic transitions of a project. The route
  table with the evidence each route requires, the evidence checks in the order \<open>transition\<close> runs
  them, the rejected and the applied outcome, each writing its record and its event together, and
  the idempotence map. Guard messages and recovery texts are not modelled; guard ids, verdicts,
  evidence and rejection codes are.
\<close>

section \<open>Routes\<close>

record route_requirement =
  rq_artifacts :: "string list"
  rq_workflow :: "string list"
  rq_evaluation :: bool
  rq_decision :: bool
  rq_approval :: bool

definition requirement ::
  "string list \<Rightarrow> string list \<Rightarrow> bool \<Rightarrow> bool \<Rightarrow> bool \<Rightarrow> route_requirement" where
  "requirement arts wfs evl dcs apr = \<lparr>rq_artifacts = arts, rq_workflow = wfs, rq_evaluation = evl,
     rq_decision = dcs, rq_approval = apr\<rparr>"

definition routes :: "((string \<times> string) \<times> route_requirement) list" where
  "routes =
   [((''NO_PROJECT'', ''FOUNDER_SETUP''), requirement [] [''queued'', ''running''] False False False),
    ((''FOUNDER_SETUP'', ''FOUNDER_BRIEF_COMPLETE''),
       requirement [''founder_brief''] [''succeeded''] True False True),
    ((''FOUNDER_BRIEF_COMPLETE'', ''DISCOVERY_RUNNING''),
       requirement [] [''running''] False False True),
    ((''DISCOVERY_RUNNING'', ''OPPORTUNITY_SELECTED''),
       requirement [''opportunity_report''] [''succeeded''] False True True),
    ((''OPPORTUNITY_SELECTED'', ''VALIDATION_RUNNING''),
       requirement [] [''running''] False False True),
    ((''VALIDATION_RUNNING'', ''VALIDATION_PASSED''),
       requirement [''validation_report''] [''succeeded''] True False True),
    ((''VALIDATION_RUNNING'', ''DISCOVERY_RUNNING''), requirement [] [] False True True),
    ((''VALIDATION_PASSED'', ''PRODUCT_DESIGN_RUNNING''),
       requirement [] [''running''] False False True),
    ((''PRODUCT_DESIGN_RUNNING'', ''PRD_COMPLETE''),
       requirement [''prd''] [''succeeded''] False True True),
    ((''PRD_COMPLETE'', ''ARCHITECTURE_RUNNING''), requirement [] [''running''] False False True),
    ((''ARCHITECTURE_RUNNING'', ''ARCHITECTURE_COMPLETE''),
       requirement [''architecture'', ''database_design'', ''api_specification'', ''security_model'']
         [''succeeded''] False False True),
    ((''ARCHITECTURE_COMPLETE'', ''AI_DESIGN_RUNNING''),
       requirement [] [''running''] False False True),
    ((''AI_DESIGN_RUNNING'', ''AI_ARCHITECTURE_COMPLETE''),
       requirement [''ai_architecture'', ''evaluation_plan''] [''succeeded''] False False True),
    ((''AI_ARCHITECTURE_COMPLETE'', ''DEVELOPMENT_PLANNING''),
       requirement [] [''running''] False False True),
    ((''DEVELOPMENT_PLANNING'', ''SPRINT_READY''),
       requirement [''sprint_plan'', ''implementation_backlog''] [''succeeded''] False False True),
    ((''SPRINT_READY'', ''MVP_BUILDING''), requirement [] [] False False True),
    ((''MVP_BUILDING'', ''QA_RUNNING''), requirement [] [''running''] False False True),
    ((''QA_RUNNING'', ''READY_FOR_BETA''), requirement [] [''succeeded''] True False True),
    ((''READY_FOR_BETA'', ''LAUNCH_RUNNING''),
       requirement [''beta_launch_plan'', ''gtm_plan'', ''sales_playbook'', ''support_plan'']
         [] False False True),
    ((''LAUNCH_RUNNING'', ''CUSTOMERS_ACQUIRED''),
       requirement [''customer_evidence''] [] False True True),
    ((''CUSTOMERS_ACQUIRED'', ''CEO_REVIEW''), requirement [] [''running''] False False True),
    ((''CEO_REVIEW'', ''SCALING''),
       requirement [''ceo_review''] [''succeeded''] False True True)]"

definition known_states :: "string list" where
  "known_states = remdups (concat (map (\<lambda>((a, b), _). [a, b]) routes))"

definition allowed_transitions :: "string \<Rightarrow> string list" where
  "allowed_transitions st = sort (map (snd \<circ> fst) (filter (\<lambda>r. fst (fst r) = st) routes))"

definition route_requirement_for :: "string \<Rightarrow> string \<Rightarrow> route_requirement option" where
  "route_requirement_for a b = map_of routes (a, b)"

section \<open>Commands and evidence\<close>

record command =
  cmd_project :: string
  cmd_from :: string
  cmd_to :: string
  cmd_expected :: int
  cmd_trigger :: string
  cmd_actor :: actor
  cmd_correlation :: string
  cmd_workflow_ref :: "typed_ref option"
  cmd_artifacts :: "typed_ref list"
  cmd_evaluations :: "typed_ref list"
  cmd_decisions :: "typed_ref list"
  cmd_approvals :: "typed_ref list"

text \<open>
  The evidence checks return the verdict and the evidence references; \<open>except (RecordNotFoundError,
  ReferenceIntegrityError)\<close> turns those two errors of the resolution into a failed guard.
\<close>

definition caught :: "kerror \<Rightarrow> bool" where
  "caught e \<longleftrightarrow> e = RecordNotFound \<or> e = ReferenceIntegrity"

type_synonym verdict = "bool \<times> typed_ref list"

definition resolve_workflow :: "kernel \<Rightarrow> command \<Rightarrow> route_requirement \<Rightarrow> kerror + verdict" where
  "resolve_workflow k c rq =
     (case cmd_workflow_ref c of None \<Rightarrow> Inr (False, [])
      | Some ref \<Rightarrow> (case resolve_reference k ref (Some (cmd_project c)) of
            Inl e \<Rightarrow> if caught e then Inr (False, []) else Inl e
          | Inr w \<Rightarrow> (case any_status w of Inl e \<Rightarrow> Inl e
              | Inr st \<Rightarrow> Inr (st \<in> set (rq_workflow rq), [ref]))))"

text \<open>\<open>{record["artifact_type"] for record in artifacts if record["status"] == "approved"}\<close>.\<close>

fun approved_types :: "any_record list \<Rightarrow> kerror + string list" where
  "approved_types [] = Inr []"
| "approved_types (r # rs) =
     (case any_status r of Inl e \<Rightarrow> Inl e
      | Inr st \<Rightarrow>
          if st = ''approved'' then
            (case any_artifact_type r of Inl e \<Rightarrow> Inl e
             | Inr t \<Rightarrow> (case approved_types rs of Inl e \<Rightarrow> Inl e | Inr ts \<Rightarrow> Inr (t # ts)))
          else approved_types rs)"

definition check_artifacts :: "kernel \<Rightarrow> command \<Rightarrow> route_requirement \<Rightarrow> kerror + verdict" where
  "check_artifacts k c rq =
     (case resolve_all k (cmd_artifacts c) (cmd_project c) of
        Inl e \<Rightarrow> if caught e then Inr (False, cmd_artifacts c) else Inl e
      | Inr rs \<Rightarrow> (case approved_types rs of Inl e \<Rightarrow> Inl e
          | Inr ts \<Rightarrow> Inr (set (rq_artifacts rq) \<subseteq> set ts, cmd_artifacts c)))"

text \<open>The conjunction over one evaluation stops at the first false conjunct.\<close>

definition evaluation_passes :: "any_record \<Rightarrow> kerror + bool" where
  "evaluation_passes r =
     (case any_status r of Inl e \<Rightarrow> Inl e
      | Inr st \<Rightarrow>
          if st \<noteq> ''completed'' then Inr False
          else (case any_outcome r of Inl e \<Rightarrow> Inl e
            | Inr oc \<Rightarrow>
                if oc \<noteq> ''pass'' then Inr False
                else Inr (case any_confidence r of None \<Rightarrow> True | Some q \<Rightarrow> q \<ge> 7 / 10)))"

definition check_evaluations :: "kernel \<Rightarrow> command \<Rightarrow> kerror + verdict" where
  "check_evaluations k c =
     (case resolve_all k (cmd_evaluations c) (cmd_project c) of
        Inl e \<Rightarrow> if caught e then Inr (False, cmd_evaluations c) else Inl e
      | Inr rs \<Rightarrow>
          if rs = [] then Inr (False, cmd_evaluations c)
          else (case allE evaluation_passes rs of Inl e \<Rightarrow> Inl e
            | Inr b \<Rightarrow> Inr (b, cmd_evaluations c)))"

definition decision_passes :: "any_record \<Rightarrow> kerror + bool" where
  "decision_passes r = (case any_status r of Inl e \<Rightarrow> Inl e | Inr st \<Rightarrow> Inr (st = ''approved''))"

definition check_decisions :: "kernel \<Rightarrow> command \<Rightarrow> kerror + verdict" where
  "check_decisions k c =
     (case resolve_all k (cmd_decisions c) (cmd_project c) of
        Inl e \<Rightarrow> if caught e then Inr (False, cmd_decisions c) else Inl e
      | Inr rs \<Rightarrow>
          if rs = [] then Inr (False, cmd_decisions c)
          else (case allE decision_passes rs of Inl e \<Rightarrow> Inl e
            | Inr b \<Rightarrow> Inr (b, cmd_decisions c)))"

text \<open>
  The loop over the approvals does not stop, but \<open>passed and ...\<close> no longer reads the status once
  \<open>passed\<close> is false.
\<close>

fun approvals_loop :: "int \<Rightarrow> bool \<Rightarrow> any_record list \<Rightarrow> kerror + bool" where
  "approvals_loop now passed [] = Inr passed"
| "approvals_loop now passed (r # rs) =
     (let current = (case any_expires_at r of None \<Rightarrow> True | Some t \<Rightarrow> t > now);
          human = (any_decider_type r = Some ''human'')
      in if passed then
           (case any_status r of Inl e \<Rightarrow> Inl e
            | Inr st \<Rightarrow> approvals_loop now (st = ''approved'' \<and> current \<and> human) rs)
         else approvals_loop now False rs)"

definition check_approvals :: "env \<Rightarrow> command \<Rightarrow> verdict kact" where
  "check_approvals E c =
     bnd (reads (\<lambda>k. resolve_all k (cmd_approvals c) (cmd_project c))) (\<lambda>res.
     case res of
       Inl e \<Rightarrow> if caught e then ret (False, cmd_approvals c) else raise e
     | Inr rs \<Rightarrow> bnd (now_us E) (\<lambda>now.
         bnd (need (approvals_loop now (rs \<noteq> []) rs)) (\<lambda>b. ret (b, cmd_approvals c))))"

section \<open>Outcomes\<close>

definition guard ::
  "env \<Rightarrow> guard_result list \<Rightarrow> string \<Rightarrow> bool \<Rightarrow> typed_ref list \<Rightarrow> guard_result list kact" where
  "guard E gs gid passed ev =
     bnd (utc_now E) (\<lambda>now. ret (gs @ [\<lparr>guard_id = gid, guard_passed = passed,
       guard_evidence = (if ev = [] then None else Some ev), guard_at = now\<rparr>]))"

text \<open>\<open>_base_transition\<close> with the status-specific keys the caller adds.\<close>

definition base_transition ::
  "env \<Rightarrow> command \<Rightarrow> string \<Rightarrow> int \<Rightarrow> guard_result list \<Rightarrow> string \<Rightarrow> int option \<Rightarrow> string option
     \<Rightarrow> transition kact" where
  "base_transition E c tid req gs st result_rev code =
     bnd (utc_now E) (\<lambda>decided.
     ret \<lparr>ent_id = tid, ent_metadata = Some [(''correlation_id'', JStr (cmd_correlation c))],
          trn_project_ref = plain_ref ''project'' (cmd_project c), trn_status = st,
          trn_from = cmd_from c, trn_to = cmd_to c, trn_trigger = cmd_trigger c,
          trn_requested_by = cmd_actor c, trn_expected_revision = cmd_expected c,
          trn_resulting_revision = result_rev, trn_guard_results = gs,
          trn_approval_refs = cmd_approvals c, trn_workflow_run_ref = cmd_workflow_ref c,
          trn_rejection = code, trn_requested_at = req, trn_decided_at = decided\<rparr>)"

definition restore_transitions_events :: "kernel \<Rightarrow> kernel \<Rightarrow> kernel" where
  "restore_transitions_events s t =
     t\<lparr>k_transitions := k_transitions s, k_events := k_events s\<rparr>"

definition restore_all_three :: "kernel \<Rightarrow> kernel \<Rightarrow> kernel" where
  "restore_all_three s t =
     t\<lparr>k_projects := k_projects s, k_transitions := k_transitions s, k_events := k_events s\<rparr>"

definition remember :: "command \<Rightarrow> string \<Rightarrow> unit kact" where
  "remember c tid = writes (\<lambda>k. k\<lparr>k_trans_corr :=
     AList.update (cmd_project c, cmd_correlation c) tid (k_trans_corr k)\<rparr>)"

definition reject ::
  "env \<Rightarrow> command \<Rightarrow> string \<Rightarrow> int \<Rightarrow> guard_result list \<Rightarrow> string \<Rightarrow> transition kact" where
  "reject E c tid req gs code =
     bnd (base_transition E c tid req gs ''rejected'' None (Some code)) (\<lambda>r0.
     bnd (validate_in (valid_transition E) r0) (\<lambda>r.
     bnd (build_event E (cmd_project c) ''transition.rejected'' (cmd_actor c)
           (plain_ref ''transition'' tid) (cmd_correlation c)
           [(''from_state'', JStr (cmd_from c)), (''to_state'', JStr (cmd_to c)),
            (''rejection_code'', JStr code)] None) (\<lambda>ev.
     bnd (validate_in (valid_event E) ev) (\<lambda>e.
     bnd (rollback restore_transitions_events
           (bnd (modify k_transitions k_transitions_update (repo_insert r)) (\<lambda>_.
            bnd (modify k_events k_events_update (append_validated e)) (\<lambda>_.
            remember c tid))))
       (\<lambda>_. ret r)))))"

text \<open>The loop that adds the command's artifact references the project does not list yet.\<close>

definition ref_key :: "typed_ref \<Rightarrow> string \<times> string \<times> string option" where
  "ref_key r = (ref_kind r, ref_id r, ref_version r)"

fun add_completed :: "typed_ref list \<Rightarrow> typed_ref list \<Rightarrow> typed_ref list" where
  "add_completed done [] = done"
| "add_completed done (r # rs) =
     (if ref_key r \<in> ref_key ` set done then add_completed done rs
      else add_completed (done @ [r]) rs)"

definition artifact_types_of :: "kernel \<Rightarrow> command \<Rightarrow> kerror + string list" where
  "artifact_types_of k c =
     mapE (\<lambda>ref. case resolve_reference k ref (Some (cmd_project c)) of Inl e \<Rightarrow> Inl e
             | Inr r \<Rightarrow> any_artifact_type r) (cmd_artifacts c)"

definition applied_project :: "command \<Rightarrow> project \<Rightarrow> int \<Rightarrow> int \<Rightarrow> string list \<Rightarrow> project" where
  "applied_project c p seq now types =
     p\<lparr>prj_current_state := cmd_to c, prj_revision := prj_revision p + 1,
       prj_last_sequence := seq, prj_updated_at := now,
       prj_next_action := ''Continue from '' @ cmd_to c,
       prj_completed_refs := add_completed (prj_completed_refs p) (cmd_artifacts c),
       prj_pending_types := filter (\<lambda>t. t \<notin> set types) (prj_pending_types p)\<rparr>"

definition apply_transition ::
  "env \<Rightarrow> command \<Rightarrow> string \<Rightarrow> int \<Rightarrow> guard_result list \<Rightarrow> project \<Rightarrow> transition kact" where
  "apply_transition E c tid req gs p =
     bnd (base_transition E c tid req gs ''applied'' (Some (prj_revision p + 1)) None) (\<lambda>r0.
     bnd (validate_in (valid_transition E) r0) (\<lambda>r.
     bnd (build_event E (cmd_project c) ''transition.applied'' (cmd_actor c)
           (plain_ref ''transition'' tid) (cmd_correlation c)
           [(''from_state'', JStr (cmd_from c)), (''to_state'', JStr (cmd_to c)),
            (''resulting_project_revision'', JInt (prj_revision p + 1))] None) (\<lambda>ev.
     bnd (validate_in (valid_event E) ev) (\<lambda>e.
     bnd (utc_now E) (\<lambda>now.
     bnd (reads (\<lambda>k. artifact_types_of k c)) (\<lambda>types0.
     bnd (need types0) (\<lambda>types.
     bnd (validate_in (valid_project E) (applied_project c p (evt_sequence e) now types)) (\<lambda>p'.
     bnd (rollback restore_all_three
           (bnd (modify k_transitions k_transitions_update (repo_insert r)) (\<lambda>_.
            bnd (modify k_events k_events_update (append_validated e)) (\<lambda>_.
            bnd (modify k_projects k_projects_update
                  (repo_replace_validated project_rev False p' (Some (cmd_expected c)))) (\<lambda>_.
            remember c tid)))))
       (\<lambda>_. ret r)))))))))"

section \<open>The transition\<close>

text \<open>One guard of the chain: record its result, then go on or reject with the code.\<close>

definition guarded ::
  "env \<Rightarrow> command \<Rightarrow> string \<Rightarrow> int \<Rightarrow> string \<Rightarrow> string \<Rightarrow> verdict \<Rightarrow> guard_result list
     \<Rightarrow> (guard_result list \<Rightarrow> transition kact) \<Rightarrow> transition kact" where
  "guarded E c tid req gid code v gs cont =
     bnd (guard E gs gid (fst v) (snd v)) (\<lambda>gs'.
     if fst v then cont gs' else reject E c tid req gs' code)"

text \<open>The evidence guards of a route, each only when the route requires it.\<close>

definition evidence_guard ::
  "env \<Rightarrow> command \<Rightarrow> string \<Rightarrow> int \<Rightarrow> bool \<Rightarrow> string \<Rightarrow> string \<Rightarrow> verdict kact \<Rightarrow> guard_result list
     \<Rightarrow> (guard_result list \<Rightarrow> transition kact) \<Rightarrow> transition kact" where
  "evidence_guard E c tid req required gid code check gs cont =
     (if required then bnd check (\<lambda>v. guarded E c tid req gid code v gs cont) else cont gs)"

definition checked :: "(kernel \<Rightarrow> kerror + verdict) \<Rightarrow> verdict kact" where
  "checked f = bnd (reads f) need"

text \<open>The evidence the route requires, in the order of the code, then the applied outcome.\<close>

definition evidence_chain ::
  "env \<Rightarrow> command \<Rightarrow> string \<Rightarrow> int \<Rightarrow> project \<Rightarrow> route_requirement \<Rightarrow> guard_result list
     \<Rightarrow> transition kact" where
  "evidence_chain E c tid req p rq g4 =
     evidence_guard E c tid req (rq_workflow rq \<noteq> []) ''workflow_succeeded'' ''GUARD_FAILED''
       (checked (\<lambda>k. resolve_workflow k c rq)) g4 (\<lambda>g5.
     evidence_guard E c tid req (rq_artifacts rq \<noteq> []) ''artifact_status'' ''GUARD_FAILED''
       (checked (\<lambda>k. check_artifacts k c rq)) g5 (\<lambda>g6.
     evidence_guard E c tid req (rq_evaluation rq) ''evaluation_passed'' ''GUARD_FAILED''
       (checked (\<lambda>k. check_evaluations k c)) g6 (\<lambda>g7.
     evidence_guard E c tid req (rq_decision rq) ''decision_recorded'' ''GUARD_FAILED''
       (checked (\<lambda>k. check_decisions k c)) g7 (\<lambda>g8.
     evidence_guard E c tid req (rq_approval rq) ''approval_granted'' ''APPROVAL_MISSING''
       (check_approvals E c) g8 (\<lambda>g9.
     apply_transition E c tid req g9 p)))))"

definition transition :: "env \<Rightarrow> command \<Rightarrow> transition kact" where
  "transition E c =
     bnd (reads (\<lambda>k. truthy (map_of (k_trans_corr k) (cmd_project c, cmd_correlation c)))) (\<lambda>existing.
     case existing of
       Some tid \<Rightarrow> get_in k_transitions tid
     | None \<Rightarrow>
         bnd (get_in k_projects (cmd_project c)) (\<lambda>p.
         bnd (fresh_id E ''transition'') (\<lambda>tid.
         bnd (utc_now E) (\<lambda>req.
         guarded E c tid req ''project_active'' ''PROJECT_NOT_ACTIVE''
           (prj_status p = ''active'', []) [] (\<lambda>g1.
         guarded E c tid req ''project_revision_matches'' ''STALE_REVISION''
           (prj_revision p = cmd_expected c, []) g1 (\<lambda>g2.
         guarded E c tid req ''state_matches'' ''INVALID_TRANSITION''
           (prj_current_state p = cmd_from c, []) g2 (\<lambda>g3.
         guarded E c tid req ''transition_allowed'' ''INVALID_TRANSITION''
           (map_of routes (cmd_from c, cmd_to c) \<noteq> None, []) g3 (\<lambda>g4.
         (case map_of routes (cmd_from c, cmd_to c) of
            None \<Rightarrow> raise ValueErr
          | Some rq \<Rightarrow> evidence_chain E c tid req p rq g4)))))))))"

section \<open>The two outcomes\<close>

lemma modify_stop_same:
  "modify get upd f k = (Inl x, t) \<Longrightarrow> t = k"
  by (auto simp: modify_Inl_iff)

lemma reject_Inr:
  assumes "reject E c tid req gs code k = (Inr r, k')"
  shows "trn_status r = ''rejected'' \<and> trn_rejection r = Some code \<and> trn_guard_results r = gs
    \<and> ent_id r = tid \<and> trn_from r = cmd_from c \<and> trn_to r = cmd_to c
    \<and> trn_resulting_revision r = None \<and> valid_transition E r
    \<and> map_of (k_transitions k) tid = None
    \<and> (\<exists>e ev n. append_validated e (k_events k) = Inr ev \<and> event_project e = cmd_project c
        \<and> evt_type e = ''transition.rejected'' \<and> valid_event E e
        \<and> k' = k\<lparr>k_transitions := k_transitions k @ [(tid, r)], k_events := ev,
             k_trans_corr := AList.update (cmd_project c, cmd_correlation c) tid (k_trans_corr k),
             k_tick := n\<rparr>)"
proof -
  from assms obtain r0 k1 e k2 where
    r0: "base_transition E c tid req gs ''rejected'' None (Some code) k = (Inr r0, k1)" and
    v: "valid_transition E r0" and
    b: "build_event E (cmd_project c) ''transition.rejected'' (cmd_actor c)
           (plain_ref ''transition'' tid) (cmd_correlation c)
           [(''from_state'', JStr (cmd_from c)), (''to_state'', JStr (cmd_to c)),
            (''rejection_code'', JStr code)] None k1 = (Inr e, k2)" and
    ve: "valid_event E e" and
    blk: "bnd (modify k_transitions k_transitions_update (repo_insert r0)) (\<lambda>_.
            bnd (modify k_events k_events_update (append_validated e)) (\<lambda>_.
            remember c tid)) k2 = (Inr (), k')" and r: "r = r0"
    unfolding reject_def by (auto simp: bnd_Inr_iff act_simps)
  from r0 have r0': "k1 = k\<lparr>k_tick := k_tick k + 1\<rparr>" "ent_id r0 = tid"
    "trn_status r0 = ''rejected''" "trn_rejection r0 = Some code" "trn_guard_results r0 = gs"
    "trn_from r0 = cmd_from c" "trn_to r0 = cmd_to c" "trn_resulting_revision r0 = None"
    by (auto simp: base_transition_def bnd_utc_now)
  from blk r0' build_event_Inr(1)[OF b] obtain ev where
    "map_of (k_transitions k) tid = None" "append_validated e (k_events k) = Inr ev"
    "k' = k\<lparr>k_transitions := k_transitions k @ [(tid, r)], k_events := ev,
             k_trans_corr := AList.update (cmd_project c, cmd_correlation c) tid (k_trans_corr k),
             k_tick := k_tick k + 3\<rparr>"
    by (auto simp: bnd_Inr_iff modify_Inr_iff repo_insert_Inr_iff remember_def r)
  with r0' r v ve build_event_facts(1,2)[OF b] show ?thesis by blast
qed

lemma reject_Inl:
  assumes "reject E c tid req gs code k = (Inl x, k')"
  shows "same_data k k'"
proof -
  have blk: "same_data s t" if "rollback restore_transitions_events
      (bnd (modify k_transitions k_transitions_update f) (\<lambda>_.
       bnd (modify k_events k_events_update g) (\<lambda>_. remember c tid))) s = (Inl y, t)" for f g s t y
    using that
    by (auto simp: rollback_Inl_iff bnd_Inl_iff modify_Inr_iff modify_Inl_iff remember_def
        restore_transitions_events_def)
  from assms show ?thesis
    unfolding reject_def
    by (auto simp: base_transition_def bnd_utc_now bnd_Inl_iff[of "bnd _ _"]
          bnd_Inl_iff[of "build_event _ _ _ _ _ _ _ _"]
          bnd_Inl_iff[of "validate_in _ _"] bnd_Inl_iff[of "rollback _ _"] bnd_Inr_iff[of "utc_now _"]
          act_simps utc_now_run
        dest!: blk build_event_same elim!: same_data_trans[rotated])
qed

lemma applied_project_facts [simp]:
  "ent_id (applied_project c p n now ts) = ent_id p"
  "prj_revision (applied_project c p n now ts) = prj_revision p + 1"
  "prj_current_state (applied_project c p n now ts) = cmd_to c"
  "prj_last_sequence (applied_project c p n now ts) = n"
  "prj_status (applied_project c p n now ts) = prj_status p"
  by (simp_all add: applied_project_def)

lemma apply_transition_Inr:
  assumes "apply_transition E c tid req gs p k = (Inr r, k')" and id: "ent_id p = cmd_project c"
    and p: "map_of (k_projects k) (cmd_project c) = Some p"
  shows "trn_status r = ''applied'' \<and> trn_rejection r = None \<and> trn_guard_results r = gs
    \<and> ent_id r = tid \<and> trn_from r = cmd_from c \<and> trn_to r = cmd_to c
    \<and> trn_resulting_revision r = Some (prj_revision p + 1)
    \<and> prj_revision p = cmd_expected c \<and> map_of (k_transitions k) tid = None
    \<and> (\<exists>e ev n now types. append_validated e (k_events k) = Inr ev
        \<and> event_project e = cmd_project c \<and> evt_type e = ''transition.applied''
        \<and> evt_payload e = [(''from_state'', JStr (cmd_from c)), (''to_state'', JStr (cmd_to c)),
             (''resulting_project_revision'', JInt (prj_revision p + 1))]
        \<and> artifact_types_of k c = Inr types
        \<and> k' = k\<lparr>k_projects := AList.update (cmd_project c)
                    (applied_project c p (evt_sequence e) now types) (k_projects k),
             k_transitions := k_transitions k @ [(tid, r)], k_events := ev,
             k_trans_corr := AList.update (cmd_project c, cmd_correlation c) tid (k_trans_corr k),
             k_tick := n\<rparr>)"
proof -
  from assms(1) obtain r0 k1 e k2 types where
    r0: "base_transition E c tid req gs ''applied'' (Some (prj_revision p + 1)) None k = (Inr r0, k1)" and
    b: "build_event E (cmd_project c) ''transition.applied'' (cmd_actor c)
           (plain_ref ''transition'' tid) (cmd_correlation c)
           [(''from_state'', JStr (cmd_from c)), (''to_state'', JStr (cmd_to c)),
            (''resulting_project_revision'', JInt (prj_revision p + 1))] None k1 = (Inr e, k2)" and
    ty: "artifact_types_of (k2\<lparr>k_tick := k_tick k2 + 1\<rparr>) c = Inr types" and
    blk: "bnd (modify k_transitions k_transitions_update (repo_insert r0)) (\<lambda>_.
            bnd (modify k_events k_events_update (append_validated e)) (\<lambda>_.
            bnd (modify k_projects k_projects_update
                  (repo_replace_validated project_rev False
                    (applied_project c p (evt_sequence e) (clock E (k_tick k2) div 1000) types)
                    (Some (cmd_expected c)))) (\<lambda>_.
            remember c tid))) (k2\<lparr>k_tick := k_tick k2 + 1\<rparr>) = (Inr (), k')" and r: "r = r0"
    unfolding apply_transition_def
    by (auto simp: bnd_Inr_iff[of "base_transition _ _ _ _ _ _ _ _"] bnd_Inr_iff[of "validate_in _ _"]
        bnd_Inr_iff[of "build_event _ _ _ _ _ _ _ _"] bnd_Inr_iff[of "rollback _ _"]
        bnd_Inr_iff[of "need _"] bnd_utc_now act_simps)
  let ?p' = "applied_project c p (evt_sequence e) (clock E (k_tick k2) div 1000) types"
  from r0 have r0': "k1 = k\<lparr>k_tick := k_tick k + 1\<rparr>" "ent_id r0 = tid"
    "trn_status r0 = ''applied''" "trn_rejection r0 = None" "trn_guard_results r0 = gs"
    "trn_from r0 = cmd_from c" "trn_to r0 = cmd_to c"
    "trn_resulting_revision r0 = Some (prj_revision p + 1)"
    by (auto simp: base_transition_def bnd_utc_now)
  have ty': "artifact_types_of k c = Inr types"
    using ty by (simp add: build_event_Inr(1)[OF b] r0'(1) artifact_types_of_def)
  from blk r0' build_event_Inr(1)[OF b] obtain ev where
    "map_of (k_transitions k) tid = None" "append_validated e (k_events k) = Inr ev"
    "prj_revision p = cmd_expected c"
    "k' = k\<lparr>k_projects := AList.update (cmd_project c) ?p' (k_projects k),
             k_transitions := k_transitions k @ [(tid, r)], k_events := ev,
             k_trans_corr := AList.update (cmd_project c, cmd_correlation c) tid (k_trans_corr k),
             k_tick := k_tick k + 4\<rparr>"
    by (auto simp: bnd_Inr_iff modify_Inr_iff repo_insert_Inr_iff repo_replace_validated_Inr_iff
        remember_def r id p project_rev_def)
  with r0' r ty' build_event_facts(1,2,4)[OF b] show ?thesis by blast
qed

lemma apply_transition_Inl:
  assumes "apply_transition E c tid req gs p k = (Inl x, k')"
  shows "same_data k k'"
proof -
  have blk: "same_data s t" if "rollback restore_all_three
      (bnd (modify k_transitions k_transitions_update f) (\<lambda>_.
       bnd (modify k_events k_events_update g) (\<lambda>_.
       bnd (modify k_projects k_projects_update h) (\<lambda>_. remember c tid)))) s = (Inl y, t)"
    for f g h s t y
    using that
    by (auto simp: rollback_Inl_iff bnd_Inl_iff modify_Inr_iff modify_Inl_iff remember_def
        restore_all_three_def)
  from assms show ?thesis
    unfolding apply_transition_def
    by (auto simp: base_transition_def bnd_utc_now bnd_Inl_iff[of "bnd _ _"]
          bnd_Inl_iff[of "build_event _ _ _ _ _ _ _ _"] bnd_Inl_iff[of "need _"]
          bnd_Inl_iff[of "validate_in _ _"] bnd_Inl_iff[of "rollback _ _"] bnd_Inr_iff[of "utc_now _"]
          act_simps utc_now_run
        dest!: blk build_event_same elim!: same_data_trans[rotated])
qed

section \<open>The guard chain\<close>

definition all_passed :: "guard_result list \<Rightarrow> bool" where
  "all_passed gs \<longleftrightarrow> (\<forall>g\<in>set gs. guard_passed g)"

definition rejection_codes :: "string set" where
  "rejection_codes = {''PROJECT_NOT_ACTIVE'', ''STALE_REVISION'', ''INVALID_TRANSITION'',
     ''GUARD_FAILED'', ''APPROVAL_MISSING''}"

text \<open>
  What a suffix of the chain, run from a state with the data of \<open>k\<close>, may end in: an error that
  changed nothing; the applied outcome, all guards passed and the evidence established; or the
  rejected outcome, the last guard failed and the ones before it passed.
\<close>

definition chain_end ::
  "env \<Rightarrow> command \<Rightarrow> string \<Rightarrow> int \<Rightarrow> project \<Rightarrow> kernel \<Rightarrow> bool
     \<Rightarrow> (kerror + transition) \<times> kernel \<Rightarrow> bool" where
  "chain_end E c tid req p k evidence res \<longleftrightarrow>
     (case res of
        (Inl x, k') \<Rightarrow> same_data k k'
      | (Inr t, k') \<Rightarrow>
          (\<exists>k1 gs. same_data k k1 \<and> all_passed gs \<and> evidence
             \<and> apply_transition E c tid req gs p k1 = (Inr t, k'))
        \<or> (\<exists>k1 gs g code. same_data k k1 \<and> all_passed gs \<and> \<not> guard_passed g
             \<and> code \<in> rejection_codes
             \<and> reject E c tid req (gs @ [g]) code k1 = (Inr t, k')))"

lemma chain_end_apply:
  assumes "same_data k k1" "all_passed gs" "evidence"
  shows "chain_end E c tid req p k evidence (apply_transition E c tid req gs p k1)"
proof -
  obtain r k' where r: "apply_transition E c tid req gs p k1 = (r, k')" by force
  show ?thesis
    using assms r apply_transition_Inl[of E c tid req gs p k1 _ k']
    by (cases r) (auto simp: chain_end_def intro: same_data_trans)
qed

lemma chain_end_reject:
  assumes "same_data k k1" "all_passed gs" "\<not> guard_passed g" "code \<in> rejection_codes"
  shows "chain_end E c tid req p k evidence (reject E c tid req (gs @ [g]) code k1)"
proof -
  obtain r k' where r: "reject E c tid req (gs @ [g]) code k1 = (r, k')" by force
  show ?thesis
  proof (cases r)
    case (Inl x)
    with assms r reject_Inl[of E c tid req "gs @ [g]" code k1 _ k'] show ?thesis
      by (auto simp: chain_end_def intro: same_data_trans)
  next
    case (Inr t)
    with assms r show ?thesis unfolding chain_end_def by fastforce
  qed
qed

lemma chain_end_guarded:
  assumes "same_data k k1" "all_passed gs" "code \<in> rejection_codes"
    and "\<And>k2 gs'. fst v \<Longrightarrow> same_data k k2 \<Longrightarrow> all_passed gs' \<Longrightarrow>
           chain_end E c tid req p k evidence (cont gs' k2)"
  shows "chain_end E c tid req p k evidence (guarded E c tid req gid code v gs cont k1)"
proof (cases "fst v")
  case True
  have "all_passed (gs @ [\<lparr>guard_id = gid, guard_passed = True, guard_evidence = ev, guard_at = t\<rparr>])"
    for ev t using assms(2) by (auto simp: all_passed_def)
  with True assms(1,4) show ?thesis
    by (simp add: guarded_def guard_def bnd_utc_now bnd_def[of "bnd _ _"])
next
  case False
  with assms(1-3) show ?thesis
    by (simp add: guarded_def guard_def bnd_utc_now bnd_def[of "bnd _ _"] chain_end_reject)
qed

lemma chain_end_evidence:
  assumes "same_data k k1" "all_passed gs" "code \<in> rejection_codes"
    and "\<And>x k2. check k1 = (x, k2) \<Longrightarrow> same_data k1 k2"
    and "\<And>k2 gs'. (required \<Longrightarrow> \<exists>v k0. check k1 = (Inr v, k0) \<and> fst v) \<Longrightarrow> same_data k k2 \<Longrightarrow>
           all_passed gs' \<Longrightarrow> chain_end E c tid req p k evidence (cont gs' k2)"
  shows "chain_end E c tid req p k evidence
           (evidence_guard E c tid req required gid code check gs cont k1)"
proof (cases required)
  case False
  with assms(1,2,5) show ?thesis by (simp add: evidence_guard_def)
next
  case True
  obtain x k2 where x: "check k1 = (x, k2)" by force
  with assms(1,4) have s: "same_data k k2" using same_data_trans by blast
  show ?thesis
  proof (cases x)
    case (Inl y)
    with x True s show ?thesis
      by (simp add: evidence_guard_def chain_end_def bnd_stop)
  next
    case (Inr v)
    have "chain_end E c tid req p k evidence (guarded E c tid req gid code v gs cont k2)"
      by (rule chain_end_guarded[OF s assms(2,3)], rule assms(5)) (use x Inr in auto)
    with x Inr True show ?thesis by (simp add: evidence_guard_def bnd_step)
  qed
qed

section \<open>What the evidence checks establish\<close>

definition workflow_evidence :: "kernel \<Rightarrow> command \<Rightarrow> route_requirement \<Rightarrow> bool" where
  "workflow_evidence k c rq \<longleftrightarrow>
     (\<exists>ref w st. cmd_workflow_ref c = Some ref
        \<and> resolve_reference k ref (Some (cmd_project c)) = Inr w
        \<and> any_status w = Inr st \<and> st \<in> set (rq_workflow rq))"

definition artifact_evidence :: "kernel \<Rightarrow> command \<Rightarrow> route_requirement \<Rightarrow> bool" where
  "artifact_evidence k c rq \<longleftrightarrow>
     (\<forall>t\<in>set (rq_artifacts rq). \<exists>ref\<in>set (cmd_artifacts c). \<exists>a.
        resolve_reference k ref (Some (cmd_project c)) = Inr (AnyArtifact a)
        \<and> art_type a = t \<and> art_status a = ''approved'')"

definition evaluation_evidence :: "kernel \<Rightarrow> command \<Rightarrow> bool" where
  "evaluation_evidence k c \<longleftrightarrow> cmd_evaluations c \<noteq> []
     \<and> (\<forall>ref\<in>set (cmd_evaluations c). \<exists>v.
          resolve_reference k ref (Some (cmd_project c)) = Inr (AnyEvaluation v)
          \<and> evl_status v = ''completed'' \<and> evl_outcome v = ''pass''
          \<and> (\<forall>q. evl_confidence v = Some q \<longrightarrow> 7 / 10 \<le> q))"

definition decision_evidence :: "kernel \<Rightarrow> command \<Rightarrow> bool" where
  "decision_evidence k c \<longleftrightarrow> cmd_decisions c \<noteq> []
     \<and> (\<forall>ref\<in>set (cmd_decisions c). \<exists>r.
          resolve_reference k ref (Some (cmd_project c)) = Inr r \<and> any_status r = Inr ''approved'')"

definition approval_evidence :: "kernel \<Rightarrow> command \<Rightarrow> int \<Rightarrow> bool" where
  "approval_evidence k c now \<longleftrightarrow> cmd_approvals c \<noteq> []
     \<and> (\<forall>ref\<in>set (cmd_approvals c). \<exists>a d.
          resolve_reference k ref (Some (cmd_project c)) = Inr (AnyApproval a)
          \<and> apr_status a = ''approved'' \<and> apr_decided_by a = Some d \<and> actor_type d = ''human''
          \<and> (\<forall>t. apr_expires_at a = Some t \<longrightarrow> now < t))"

lemma approved_types_mem:
  "approved_types rs = Inr ts \<Longrightarrow> t \<in> set ts \<Longrightarrow>
     \<exists>a. AnyArtifact a \<in> set rs \<and> art_type a = t \<and> art_status a = ''approved''"
proof (induction rs arbitrary: ts)
  case (Cons r rs)
  then show ?case
    by (cases r) (fastforce split: sum.splits if_splits)+
qed simp

lemma approvals_loop_True:
  "approvals_loop now b rs = Inr True \<longleftrightarrow> b \<and> (\<forall>r\<in>set rs. any_status r = Inr ''approved''
     \<and> any_decider_type r = Some ''human'' \<and> (\<forall>t. any_expires_at r = Some t \<longrightarrow> now < t))"
  by (induction rs arbitrary: b) (auto simp: Let_def split: sum.splits option.splits)

lemma resolve_workflow_evidence:
  "resolve_workflow k c rq = Inr v \<Longrightarrow> fst v \<Longrightarrow> workflow_evidence k c rq"
  by (auto simp: resolve_workflow_def workflow_evidence_def split: option.splits sum.splits if_splits)

lemma check_artifacts_evidence:
  assumes "check_artifacts k c rq = Inr v" "fst v"
  shows "artifact_evidence k c rq"
proof -
  from assms obtain rs ts where
    rs: "resolve_all k (cmd_artifacts c) (cmd_project c) = Inr rs" and
    ts: "approved_types rs = Inr ts" "set (rq_artifacts rq) \<subseteq> set ts"
    by (auto simp: check_artifacts_def split: sum.splits if_splits)
  show ?thesis
    unfolding artifact_evidence_def
    using approved_types_mem[OF ts(1)] resolve_all_mem[OF rs] ts(2) by (metis subsetD)
qed

lemma evaluation_passes_True:
  "evaluation_passes r = Inr True \<longleftrightarrow> (\<exists>v. r = AnyEvaluation v \<and> evl_status v = ''completed''
     \<and> evl_outcome v = ''pass'' \<and> (\<forall>q. evl_confidence v = Some q \<longrightarrow> 7 / 10 \<le> q))"
  by (cases r) (auto simp: evaluation_passes_def split: sum.splits option.splits)

lemma resolve_all_each:
  "resolve_all k refs pid = Inr rs \<Longrightarrow> ref \<in> set refs \<Longrightarrow>
     \<exists>r\<in>set rs. resolve_reference k ref (Some pid) = Inr r"
  unfolding resolve_all_def by (rule mapE_Inr_mem)

lemma resolve_all_Nil: "resolve_all k refs pid = Inr rs \<Longrightarrow> rs = [] \<longleftrightarrow> refs = []"
  using mapE_Inr_length[of _ refs rs] by (fastforce simp: resolve_all_def)

lemma check_evaluations_evidence:
  assumes "check_evaluations k c = Inr v" "fst v"
  shows "evaluation_evidence k c"
proof -
  from assms obtain rs where
    rs: "resolve_all k (cmd_evaluations c) (cmd_project c) = Inr rs" "rs \<noteq> []" and
    ok: "\<forall>r\<in>set rs. evaluation_passes r = Inr True"
    by (auto simp: check_evaluations_def allE_Inr_True[symmetric] split: sum.splits if_splits)
  then show ?thesis
    unfolding evaluation_evidence_def evaluation_passes_True
    using resolve_all_each[OF rs(1)] resolve_all_Nil[OF rs(1)] by fastforce
qed

lemma check_decisions_evidence:
  assumes "check_decisions k c = Inr v" "fst v"
  shows "decision_evidence k c"
proof -
  from assms obtain rs where
    rs: "resolve_all k (cmd_decisions c) (cmd_project c) = Inr rs" "rs \<noteq> []" and
    ok: "\<forall>r\<in>set rs. decision_passes r = Inr True"
    by (auto simp: check_decisions_def allE_Inr_True[symmetric] split: sum.splits if_splits)
  have "any_status r = Inr ''approved''" if "r \<in> set rs" for r
    using ok that by (cases "any_status r") (auto simp: decision_passes_def)
  then show ?thesis
    unfolding decision_evidence_def
    using resolve_all_each[OF rs(1)] resolve_all_Nil[OF rs(1)] rs(2) by blast
qed

lemma check_approvals_evidence:
  assumes "check_approvals E c k = (Inr v, k')" "fst v"
  shows "\<exists>n. approval_evidence k c (clock E n)"
proof -
  from assms obtain rs where
    rs: "resolve_all k (cmd_approvals c) (cmd_project c) = Inr rs" and
    ok: "approvals_loop (clock E (k_tick k)) (rs \<noteq> []) rs = Inr True"
    by (auto simp: check_approvals_def now_us_def bnd_Inr_iff split: sum.splits if_splits)
  have "approval_evidence k c (clock E (k_tick k))"
    unfolding approval_evidence_def
  proof (intro conjI ballI)
    show "cmd_approvals c \<noteq> []"
      using ok resolve_all_Nil[OF rs] by (auto simp: approvals_loop_True)
    fix ref assume "ref \<in> set (cmd_approvals c)"
    then obtain r where r: "r \<in> set rs" "resolve_reference k ref (Some (cmd_project c)) = Inr r"
      using resolve_all_each[OF rs] by blast
    with ok show "\<exists>a d. resolve_reference k ref (Some (cmd_project c)) = Inr (AnyApproval a)
          \<and> apr_status a = ''approved'' \<and> apr_decided_by a = Some d \<and> actor_type d = ''human''
          \<and> (\<forall>t. apr_expires_at a = Some t \<longrightarrow> clock E (k_tick k) < t)"
      by (cases r) (auto simp: approvals_loop_True)
  qed
  then show ?thesis ..
qed

lemma check_approvals_same: "check_approvals E c k = (x, k') \<Longrightarrow> same_data k k'"
  by (auto simp: check_approvals_def now_us_def bnd_def split: sum.splits if_splits)

lemma checked_run: "checked f k = (f k, k)"
  by (simp add: checked_def)

end
