(* ===== verification/Transitions.thy ===== *)
theory Transitions
  imports StateMachine
begin

text \<open>
  What \<open>StateMachine.transition\<close> does: every call replays a remembered outcome, fails without
  changing the data, or records exactly one applied or rejected outcome (\<open>transition_cases\<close>); the
  applied outcome rests on the evidence the route requires; both outcomes keep every stored project
  equal to the replay of its stream; and a command that satisfies every guard is applied.
\<close>

section \<open>Every transition ends in one of three ways\<close>

definition evidence_ok :: "env \<Rightarrow> kernel \<Rightarrow> command \<Rightarrow> route_requirement \<Rightarrow> bool" where
  "evidence_ok E k c rq \<longleftrightarrow>
     (rq_workflow rq \<noteq> [] \<longrightarrow> workflow_evidence k c rq)
   \<and> (rq_artifacts rq \<noteq> [] \<longrightarrow> artifact_evidence k c rq)
   \<and> (rq_evaluation rq \<longrightarrow> evaluation_evidence k c)
   \<and> (rq_decision rq \<longrightarrow> decision_evidence k c)
   \<and> (rq_approval rq \<longrightarrow> (\<exists>n. approval_evidence k c (clock E n)))"

definition transition_guards :: "env \<Rightarrow> kernel \<Rightarrow> command \<Rightarrow> project \<Rightarrow> bool" where
  "transition_guards E k c p \<longleftrightarrow>
     prj_status p = ''active'' \<and> prj_revision p = cmd_expected c \<and> prj_current_state p = cmd_from c
   \<and> (\<exists>rq. map_of routes (cmd_from c, cmd_to c) = Some rq \<and> evidence_ok E k c rq)"

lemma evidence_same:
  assumes "same_data k k1"
  shows "resolve_reference k1 = resolve_reference k" "resolve_all k1 = resolve_all k"
    "workflow_evidence k1 c rq = workflow_evidence k c rq"
    "artifact_evidence k1 c rq = artifact_evidence k c rq"
    "evaluation_evidence k1 c = evaluation_evidence k c"
    "decision_evidence k1 c = decision_evidence k c"
    "approval_evidence k1 c now = approval_evidence k c now"
  using assms
  by (auto simp: same_data_def workflow_evidence_def artifact_evidence_def evaluation_evidence_def
      decision_evidence_def approval_evidence_def)

lemma evidence_chain_end:
  assumes k1: "same_data k k1" "all_passed gs"
    and impl: "evidence_ok E k c rq \<Longrightarrow> evidence"
  shows "chain_end E c tid req p k evidence (evidence_chain E c tid req p rq gs k1)"
proof -
  have codes: "''GUARD_FAILED'' \<in> rejection_codes" "''APPROVAL_MISSING'' \<in> rejection_codes"
    by (simp_all add: rejection_codes_def)
  have wf: "workflow_evidence k c rq"
    if "checked (\<lambda>k. resolve_workflow k c rq) u = (Inr v, u')" "fst v" "same_data k u" for u u' v
    using that resolve_workflow_evidence[of u c rq v] evidence_same(3)[OF that(3)] by (auto simp: checked_run)
  have ar: "artifact_evidence k c rq"
    if "checked (\<lambda>k. check_artifacts k c rq) u = (Inr v, u')" "fst v" "same_data k u" for u u' v
    using that check_artifacts_evidence[of u c rq v] evidence_same(4)[OF that(3)] by (auto simp: checked_run)
  have ev: "evaluation_evidence k c"
    if "checked (\<lambda>k. check_evaluations k c) u = (Inr v, u')" "fst v" "same_data k u" for u u' v
    using that check_evaluations_evidence[of u c v] evidence_same(5)[OF that(3)] by (auto simp: checked_run)
  have de: "decision_evidence k c"
    if "checked (\<lambda>k. check_decisions k c) u = (Inr v, u')" "fst v" "same_data k u" for u u' v
    using that check_decisions_evidence[of u c v] evidence_same(6)[OF that(3)] by (auto simp: checked_run)
  have ap: "\<exists>n. approval_evidence k c (clock E n)"
    if "check_approvals E c u = (Inr v, u')" "fst v" "same_data k u" for u u' v
    using check_approvals_evidence[OF that(1,2)] evidence_same(7)[OF that(3)] by blast
  show ?thesis
    unfolding evidence_chain_def
  proof (rule chain_end_evidence[OF k1 codes(1)], simp add: checked_run, goal_cases)
    case w: (1 k5 g5)
    show ?case
    proof (rule chain_end_evidence[OF w(2,3) codes(1)], simp add: checked_run, goal_cases)
      case a: (1 k6 g6)
      show ?case
      proof (rule chain_end_evidence[OF a(2,3) codes(1)], simp add: checked_run, goal_cases)
        case e: (1 k7 g7)
        show ?case
        proof (rule chain_end_evidence[OF e(2,3) codes(1)], simp add: checked_run, goal_cases)
          case d: (1 k8 g8)
          show ?case
          proof (rule chain_end_evidence[OF d(2,3) codes(2)], erule check_approvals_same, goal_cases)
            case h: (1 k9 g9)
            have "rq_workflow rq \<noteq> [] \<Longrightarrow> workflow_evidence k c rq" using w(1) k1(1) wf by blast
            moreover have "rq_artifacts rq \<noteq> [] \<Longrightarrow> artifact_evidence k c rq"
              using a(1) w(2) ar by blast
            moreover have "rq_evaluation rq \<Longrightarrow> evaluation_evidence k c" using e(1) a(2) ev by blast
            moreover have "rq_decision rq \<Longrightarrow> decision_evidence k c" using d(1) e(2) de by blast
            moreover have "rq_approval rq \<Longrightarrow> \<exists>n. approval_evidence k c (clock E n)"
              using h(1) d(2) ap by blast
            ultimately show ?case
              using h(2,3) impl by (intro chain_end_apply) (auto simp: evidence_ok_def)
          qed
        qed
      qed
    qed
  qed
qed

lemma transition_new:
  assumes new: "truthy (map_of (k_trans_corr k) (cmd_project c, cmd_correlation c)) = None"
    and p: "map_of (k_projects k) (cmd_project c) = Some p"
    and tid: "id_at E ''transition'' (k_tick k) = Some tid"
  shows "chain_end E c tid (clock E (k_tick k + 1) div 1000) p k (transition_guards E k c p)
           (transition E c k)"
proof -
  have codes: "''PROJECT_NOT_ACTIVE'' \<in> rejection_codes" "''STALE_REVISION'' \<in> rejection_codes"
    "''INVALID_TRANSITION'' \<in> rejection_codes"
    by (simp_all add: rejection_codes_def)
  have start: "transition E c k =
      guarded E c tid (clock E (k_tick k + 1) div 1000) ''project_active'' ''PROJECT_NOT_ACTIVE''
           (prj_status p = ''active'', []) [] (\<lambda>g1.
         guarded E c tid (clock E (k_tick k + 1) div 1000) ''project_revision_matches'' ''STALE_REVISION''
           (prj_revision p = cmd_expected c, []) g1 (\<lambda>g2.
         guarded E c tid (clock E (k_tick k + 1) div 1000) ''state_matches'' ''INVALID_TRANSITION''
           (prj_current_state p = cmd_from c, []) g2 (\<lambda>g3.
         guarded E c tid (clock E (k_tick k + 1) div 1000) ''transition_allowed'' ''INVALID_TRANSITION''
           (map_of routes (cmd_from c, cmd_to c) \<noteq> None, []) g3 (\<lambda>g4.
         (case map_of routes (cmd_from c, cmd_to c) of
            None \<Rightarrow> raise ValueErr
          | Some rq \<Rightarrow> evidence_chain E c tid (clock E (k_tick k + 1) div 1000) p rq g4)))))
        (k\<lparr>k_tick := k_tick k + 2\<rparr>)"
    using new p tid
    by (simp add: transition_def bnd_get_in bnd_fresh_id bnd_utc_now repo_get_def
        cong: option.case_cong)
  show ?thesis
    unfolding start
  proof (rule chain_end_guarded[OF _ _ codes(1)], simp, simp add: all_passed_def, goal_cases)
    case a: (1 k1 g1)
    show ?case
    proof (rule chain_end_guarded[OF a(2,3) codes(2)], goal_cases)
      case r: (1 k2 g2)
      show ?case
      proof (rule chain_end_guarded[OF r(2,3) codes(3)], goal_cases)
        case s: (1 k3 g3)
        show ?case
        proof (rule chain_end_guarded[OF s(2,3) codes(3)], goal_cases)
          case t: (1 k4 g4)
          then obtain rq where rq: "map_of routes (cmd_from c, cmd_to c) = Some rq" by auto
          show ?case
            unfolding rq option.case
            by (rule evidence_chain_end[OF t(2,3)])
              (use a(1) r(1) s(1) rq in \<open>simp add: transition_guards_def\<close>)
        qed
      qed
    qed
  qed
qed

definition remembered :: "kernel \<Rightarrow> command \<Rightarrow> string option" where
  "remembered k c = truthy (map_of (k_trans_corr k) (cmd_project c, cmd_correlation c))"

lemma transition_remembered:
  "remembered k c = Some tid \<Longrightarrow> transition E c k = (repo_get (k_transitions k) tid, k)"
  unfolding remembered_def transition_def by (simp only: bnd_reads_run option.case get_in_run)

text \<open>
  The applied outcome as a change of the data, without the clock: \<open>applied_step k c p t e k'\<close>.
\<close>

definition applied_step ::
  "kernel \<Rightarrow> command \<Rightarrow> project \<Rightarrow> transition \<Rightarrow> event \<Rightarrow> kernel \<Rightarrow> bool" where
  "applied_step k c p t e k' \<longleftrightarrow>
     trn_status t = ''applied'' \<and> trn_from t = cmd_from c \<and> trn_to t = cmd_to c
   \<and> trn_resulting_revision t = Some (prj_revision p + 1) \<and> all_passed (trn_guard_results t)
   \<and> map_of (k_transitions k) (ent_id t) = None
   \<and> event_project e = cmd_project c \<and> evt_type e = ''transition.applied''
   \<and> evt_payload e = [(''from_state'', JStr (cmd_from c)), (''to_state'', JStr (cmd_to c)),
        (''resulting_project_revision'', JInt (prj_revision p + 1))]
   \<and> (\<exists>ev n now types. append_validated e (k_events k) = Inr ev
        \<and> artifact_types_of k c = Inr types
        \<and> k' = k\<lparr>k_projects := AList.update (cmd_project c)
                    (applied_project c p (evt_sequence e) now types) (k_projects k),
             k_transitions := k_transitions k @ [(ent_id t, t)], k_events := ev,
             k_trans_corr := AList.update (cmd_project c, cmd_correlation c) (ent_id t) (k_trans_corr k),
             k_tick := n\<rparr>)"

definition rejected_step ::
  "kernel \<Rightarrow> command \<Rightarrow> transition \<Rightarrow> event \<Rightarrow> kernel \<Rightarrow> bool" where
  "rejected_step k c t e k' \<longleftrightarrow>
     trn_status t = ''rejected'' \<and> trn_from t = cmd_from c \<and> trn_to t = cmd_to c
   \<and> trn_resulting_revision t = None
   \<and> (\<exists>code\<in>rejection_codes. trn_rejection t = Some code)
   \<and> (\<exists>gs g. trn_guard_results t = gs @ [g] \<and> all_passed gs \<and> \<not> guard_passed g)
   \<and> map_of (k_transitions k) (ent_id t) = None
   \<and> event_project e = cmd_project c \<and> evt_type e = ''transition.rejected''
   \<and> (\<exists>ev n. append_validated e (k_events k) = Inr ev
        \<and> k' = k\<lparr>k_transitions := k_transitions k @ [(ent_id t, t)], k_events := ev,
             k_trans_corr := AList.update (cmd_project c, cmd_correlation c) (ent_id t) (k_trans_corr k),
             k_tick := n\<rparr>)"

lemma applied_step_same:
  assumes "same_data k k1" "applied_step k1 c p t e k'"
  shows "applied_step k c p t e k'"
proof -
  from assms(1) obtain n where "k1 = k\<lparr>k_tick := n\<rparr>" by (rule same_dataE)
  with assms(2) show ?thesis unfolding applied_step_def by (simp add: artifact_types_of_def)
qed

lemma rejected_step_same:
  assumes "same_data k k1" "rejected_step k1 c t e k'"
  shows "rejected_step k c t e k'"
proof -
  from assms(1) obtain n where "k1 = k\<lparr>k_tick := n\<rparr>" by (rule same_dataE)
  with assms(2) show ?thesis unfolding rejected_step_def by simp
qed

lemma apply_transition_step:
  assumes "apply_transition E c tid req gs p k = (Inr t, k')" "ent_id p = cmd_project c"
    and "map_of (k_projects k) (cmd_project c) = Some p" "all_passed gs"
  shows "\<exists>e. applied_step k c p t e k'"
  using apply_transition_Inr[OF assms(1-3)] assms(4) unfolding applied_step_def by blast

lemma reject_step:
  assumes "reject E c tid req (gs @ [g]) code k = (Inr t, k')"
    and "all_passed gs" "\<not> guard_passed g" "code \<in> rejection_codes"
  shows "\<exists>e. rejected_step k c t e k'"
  using reject_Inr[OF assms(1)] assms(2-4) unfolding rejected_step_def by blast

lemma transition_cases:
  assumes run: "transition E c k = (r, k')" and ok: "tables_ok k"
  obtains (again) tid where "remembered k c = Some tid" "r = repo_get (k_transitions k) tid" "k' = k"
  | (failed) x where "remembered k c = None" "r = Inl x" "same_data k k'"
  | (applied) t p e where "remembered k c = None" "r = Inr t"
      "map_of (k_projects k) (cmd_project c) = Some p" "transition_guards E k c p"
      "applied_step k c p t e k'" "ent_id t \<noteq> []"
  | (rejected) t p e where "remembered k c = None" "r = Inr t"
      "map_of (k_projects k) (cmd_project c) = Some p" "rejected_step k c t e k'" "ent_id t \<noteq> []"
proof (cases "remembered k c")
  case (Some tid)
  show thesis
    by (rule again[OF Some]) (use run transition_remembered[OF Some] in auto)
next
  case None
  note new = None[unfolded remembered_def]
  show thesis
  proof (cases "map_of (k_projects k) (cmd_project c)")
    case n: None
    with run new have "r = Inl RecordNotFound" "k' = k"
      by (auto simp: transition_def bnd_get_in repo_get_def)
    then show thesis by (intro failed[OF None]) auto
  next
    case (Some p)
    with ok have id: "ent_id p = cmd_project c"
      by (auto simp: tables_ok_def dest: table_ok_get)
    show thesis
    proof (cases "id_at E ''transition'' (k_tick k)")
      case n: None
      with run new Some have "r = Inl ValueErr" "same_data k k'"
        by (auto simp: transition_def bnd_get_in bnd_fresh_id repo_get_def)
      then show thesis by (intro failed[OF None]) auto
    next
      case tid: (Some tid)
      have tid_new: "tid \<noteq> []"
        using tid by (auto simp: id_at_def new_id_def split: option.splits)
      from transition_new[OF new Some tid] run
      have end_: "chain_end E c tid (clock E (k_tick k + 1) div 1000) p k (transition_guards E k c p) (r, k')"
        by simp
      show thesis
      proof (cases r)
        case (Inl x)
        with end_ have "same_data k k'" by (simp add: chain_end_def)
        with Inl show thesis by (rule failed[OF None])
      next
        case (Inr t)
        show thesis
          using end_[unfolded chain_end_def Inr prod.case sum.case]
        proof (elim disjE exE conjE, goal_cases)
          case a: (1 k1 gs)
          then have "map_of (k_projects k1) (cmd_project c) = Some p"
            using Some by (auto simp: same_data_def)
          from apply_transition_step[OF a(4) id this a(2)] obtain e where "applied_step k1 c p t e k'" ..
          moreover have "ent_id t \<noteq> []"
            using apply_transition_Inr[OF a(4) id \<open>map_of (k_projects k1) _ = _\<close>] tid_new by simp
          ultimately show thesis
            by (rule applied[OF None Inr Some a(3) applied_step_same[OF a(1)]])
        next
          case b: (2 k1 gs g code)
          from reject_step[OF b(5,2,3,4)] obtain e where "rejected_step k1 c t e k'" ..
          moreover have "ent_id t \<noteq> []" using reject_Inr[OF b(5)] tid_new by simp
          ultimately show thesis
            by (rule rejected[OF None Inr Some rejected_step_same[OF b(1)]])
        qed
      qed
    qed
  qed
qed

section \<open>Transitions keep the stored projects equal to their replays\<close>

lemma applied_step_consistent:
  assumes st: "applied_step k c p t e k'" and p: "map_of (k_projects k) (cmd_project c) = Some p"
    and g: "prj_current_state p = cmd_from c" and ok: "tables_ok k" "consistent k"
  shows "tables_ok k' \<and> consistent k'"
proof -
  from st obtain ev n now types where
    e: "event_project e = cmd_project c" "evt_type e = ''transition.applied''"
      "evt_payload e = [(''from_state'', JStr (cmd_from c)), (''to_state'', JStr (cmd_to c)),
        (''resulting_project_revision'', JInt (prj_revision p + 1))]"
      "append_validated e (k_events k) = Inr ev" and
    t: "map_of (k_transitions k) (ent_id t) = None" and
    k': "k' = k\<lparr>k_projects := AList.update (cmd_project c)
                    (applied_project c p (evt_sequence e) now types) (k_projects k),
             k_transitions := k_transitions k @ [(ent_id t, t)], k_events := ev,
             k_trans_corr := AList.update (cmd_project c, cmd_correlation c) (ent_id t) (k_trans_corr k),
             k_tick := n\<rparr>"
    unfolding applied_step_def by blast
  let ?p' = "applied_project c p (evt_sequence e) now types"
  have id: "ent_id p = cmd_project c"
    using ok(1) p by (auto simp: tables_ok_def dest: table_ok_get)
  have evok: "events_ok (k_events k)" using ok(1) by (simp add: tables_ok_def)
  have r: "replay_project_events (stream (k_events k) (cmd_project c)) = Inr (summary_of p)"
    using ok(2) p by (simp add: consistent_def)
  have seq: "evt_sequence e = int (length (stream (k_events k) (cmd_project c))) + 1"
    using events.push_number[OF evok e(4)] e(1) by simp
  have "replay_project_events (stream (k_events k) (cmd_project c) @ [e]) = Inr (summary_of ?p')"
    using seq by (subst replay_append_applied[OF r seq e(2)])
      (simp_all add: payload_get_def e(3) summary_of_def g)
  then have "consistent k'"
    using consistent_write[OF evok ok(2) e(4,1), of k' ?p'] by (simp add: k')
  moreover have "tables_ok k'"
    using ok(1) t events_ok_append[OF evok e(4)] table_ok_update[of "k_projects k" ?p']
      table_ok_insert[of "k_transitions k" t "k_transitions k @ [(ent_id t, t)]"]
    by (simp add: tables_ok_def k' id repo_insert_Inr_iff)
  ultimately show ?thesis by simp
qed

lemma rejected_step_consistent:
  assumes st: "rejected_step k c t e k'" and ok: "tables_ok k" "consistent k"
  shows "tables_ok k' \<and> consistent k'"
proof -
  from st obtain ev n where
    e: "evt_type e = ''transition.rejected''" "append_validated e (k_events k) = Inr ev" and
    t: "map_of (k_transitions k) (ent_id t) = None" and
    k': "k' = k\<lparr>k_transitions := k_transitions k @ [(ent_id t, t)], k_events := ev,
             k_trans_corr := AList.update (cmd_project c, cmd_correlation c) (ent_id t) (k_trans_corr k),
             k_tick := n\<rparr>"
    unfolding rejected_step_def by blast
  have evok: "events_ok (k_events k)" using ok(1) by (simp add: tables_ok_def)
  have "consistent k'"
    by (rule consistent_append_neutral[OF evok ok(2) e(2)]) (simp_all add: neutral_def e(1) k')
  moreover have "tables_ok k'"
    using ok(1) t events_ok_append[OF evok e(2)]
      table_ok_insert[of "k_transitions k" t "k_transitions k @ [(ent_id t, t)]"]
    by (simp add: tables_ok_def k' repo_insert_Inr_iff)
  ultimately show ?thesis by simp
qed

lemma transition_consistent:
  assumes run: "transition E c k = (r, k')" and ok: "tables_ok k" "consistent k"
  shows "tables_ok k' \<and> consistent k'"
  using run ok(1)
proof (cases rule: transition_cases)
  case again
  with ok show ?thesis by simp
next
  case failed
  with ok show ?thesis by (simp add: tables_ok_same consistent_same)
next
  case (applied t p e)
  with applied_step_consistent[OF applied(5,3)] ok show ?thesis by (simp add: transition_guards_def)
next
  case (rejected t p e)
  with rejected_step_consistent[OF rejected(4)] ok show ?thesis by simp
qed

section \<open>A command that satisfies every guard is applied\<close>

lemma guarded_pass:
  "fst v \<Longrightarrow> guarded E c tid req gid code v gs cont k =
     cont (gs @ [\<lparr>guard_id = gid, guard_passed = True,
       guard_evidence = (if snd v = [] then None else Some (snd v)),
       guard_at = clock E (k_tick k) div 1000\<rparr>]) (k\<lparr>k_tick := k_tick k + 1\<rparr>)"
  by (simp add: guarded_def guard_def bnd_utc_now bnd_def[of "bnd _ _"])

lemma guarded_fail:
  "\<not> fst v \<Longrightarrow> guarded E c tid req gid code v gs cont k =
     reject E c tid req (gs @ [\<lparr>guard_id = gid, guard_passed = False,
       guard_evidence = (if snd v = [] then None else Some (snd v)),
       guard_at = clock E (k_tick k) div 1000\<rparr>]) code (k\<lparr>k_tick := k_tick k + 1\<rparr>)"
  by (simp add: guarded_def guard_def bnd_utc_now bnd_def[of "bnd _ _"])

text \<open>One evidence guard passes: the clock advances once for it, and by \<open>d\<close> in the check itself.\<close>

lemma evidence_guard_pass:
  assumes "required \<Longrightarrow> \<exists>ev. check (k\<lparr>k_tick := n\<rparr>) = (Inr (True, ev), k\<lparr>k_tick := n + d\<rparr>)"
    and "all_passed gs"
  shows "\<exists>gs'. all_passed gs' \<and>
     evidence_guard E c tid req required gid code check gs cont (k\<lparr>k_tick := n\<rparr>) =
       cont gs' (k\<lparr>k_tick := (if required then n + d + 1 else n)\<rparr>)"
proof (cases required)
  case True
  with assms(1) obtain ev where "check (k\<lparr>k_tick := n\<rparr>) = (Inr (True, ev), k\<lparr>k_tick := n + d\<rparr>)" by blast
  with True assms(2) show ?thesis
    by (intro exI[of _ "gs @ [\<lparr>guard_id = gid, guard_passed = True,
       guard_evidence = (if ev = [] then None else Some ev), guard_at = clock E (n + d) div 1000\<rparr>]"])
      (auto simp: evidence_guard_def bnd_step guarded_pass all_passed_def)
next
  case False
  with assms(2) show ?thesis by (auto simp: evidence_guard_def)
qed

lemma evidence_guard_reaches:
  assumes "required \<Longrightarrow> \<exists>ev. check (k\<lparr>k_tick := n\<rparr>) = (Inr (True, ev), k\<lparr>k_tick := n + d\<rparr>)"
    and "all_passed gs"
    and "\<And>gs'. all_passed gs' \<Longrightarrow>
           \<exists>g. all_passed g \<and> cont gs' (k\<lparr>k_tick := (if required then n + d + 1 else n)\<rparr>) = target g"
  shows "\<exists>g. all_passed g \<and>
     evidence_guard E c tid req required gid code check gs cont (k\<lparr>k_tick := n\<rparr>) = target g"
  using evidence_guard_pass[where check = check and k = k and d = d and n = n and cont = cont,
      OF assms(1,2)] assms(3) by metis

text \<open>The checks succeed on the data of \<open>k\<close>, whatever the clock shows.\<close>

definition checks_pass :: "env \<Rightarrow> kernel \<Rightarrow> command \<Rightarrow> route_requirement \<Rightarrow> bool" where
  "checks_pass E k c rq \<longleftrightarrow>
     (rq_workflow rq \<noteq> [] \<longrightarrow> map_sum id fst (resolve_workflow k c rq) = Inr True)
   \<and> (rq_artifacts rq \<noteq> [] \<longrightarrow> map_sum id fst (check_artifacts k c rq) = Inr True)
   \<and> (rq_evaluation rq \<longrightarrow> map_sum id fst (check_evaluations k c) = Inr True)
   \<and> (rq_decision rq \<longrightarrow> map_sum id fst (check_decisions k c) = Inr True)
   \<and> (rq_approval rq \<longrightarrow> (\<exists>n. map_sum id fst (fst (check_approvals E c (k\<lparr>k_tick := n\<rparr>))) = Inr True)
        \<and> (\<forall>rs. resolve_all k (cmd_approvals c) (cmd_project c) = Inr rs
             \<longrightarrow> (\<forall>r\<in>set rs. any_expires_at r = None)))"

text \<open>The clock reading at which the outcome is written.\<close>

definition ticks_used :: "route_requirement \<Rightarrow> nat" where
  "ticks_used rq = 6 + (if rq_workflow rq \<noteq> [] then 1 else 0) + (if rq_artifacts rq \<noteq> [] then 1 else 0)
     + (if rq_evaluation rq then 1 else 0) + (if rq_decision rq then 1 else 0)
     + (if rq_approval rq then 2 else 0)"

lemma checked_pass:
  assumes "map_sum id fst (f k) = Inr True" "f (k\<lparr>k_tick := n\<rparr>) = f k"
  shows "\<exists>ev. checked f (k\<lparr>k_tick := n\<rparr>) = (Inr (True, ev), k\<lparr>k_tick := n + 0\<rparr>)"
  using assms by (cases "f k") (auto simp: checked_run)

lemma approvals_pass:
  assumes "map_sum id fst (fst (check_approvals E c (k\<lparr>k_tick := m\<rparr>))) = Inr True"
    and "\<forall>rs. resolve_all k (cmd_approvals c) (cmd_project c) = Inr rs
             \<longrightarrow> (\<forall>r\<in>set rs. any_expires_at r = None)"
  shows "\<exists>ev. check_approvals E c (k\<lparr>k_tick := n\<rparr>) = (Inr (True, ev), k\<lparr>k_tick := n + 1\<rparr>)"
proof -
  from assms(1) obtain rs where rs: "resolve_all k (cmd_approvals c) (cmd_project c) = Inr rs"
    by (auto simp: check_approvals_def split: sum.splits if_splits)
  with assms(1) have "approvals_loop (clock E m) (rs \<noteq> []) rs = Inr True"
    by (auto simp: check_approvals_def now_us_def bnd_def split: sum.splits)
  then have "approvals_loop (clock E n) (rs \<noteq> []) rs = Inr True"
    using assms(2) rs by (auto simp: approvals_loop_True)
  with rs show ?thesis
    by (simp add: check_approvals_def now_us_def bnd_def)
qed

lemma evidence_chain_pass:
  assumes ok: "checks_pass E k c rq" and gs: "all_passed gs"
  shows "\<exists>gs'. all_passed gs' \<and> evidence_chain E c tid req p rq gs (k\<lparr>k_tick := n + 6\<rparr>) =
     apply_transition E c tid req gs' p (k\<lparr>k_tick := n + ticks_used rq\<rparr>)"
proof -
  have tick: "resolve_workflow (k\<lparr>k_tick := m\<rparr>) c rq = resolve_workflow k c rq"
    "check_artifacts (k\<lparr>k_tick := m\<rparr>) c rq = check_artifacts k c rq"
    "check_evaluations (k\<lparr>k_tick := m\<rparr>) c = check_evaluations k c"
    "check_decisions (k\<lparr>k_tick := m\<rparr>) c = check_decisions k c" for m
    by (simp_all add: resolve_workflow_def check_artifacts_def check_evaluations_def
        check_decisions_def cong: option.case_cong)
  have wf: "rq_workflow rq \<noteq> [] \<Longrightarrow> \<exists>ev. checked (\<lambda>k. resolve_workflow k c rq) (k\<lparr>k_tick := m\<rparr>)
      = (Inr (True, ev), k\<lparr>k_tick := m + 0\<rparr>)" for m
    using ok tick(1) by (intro checked_pass) (auto simp: checks_pass_def)
  have ar: "rq_artifacts rq \<noteq> [] \<Longrightarrow> \<exists>ev. checked (\<lambda>k. check_artifacts k c rq) (k\<lparr>k_tick := m\<rparr>)
      = (Inr (True, ev), k\<lparr>k_tick := m + 0\<rparr>)" for m
    using ok tick(2) by (intro checked_pass) (auto simp: checks_pass_def)
  have ev: "rq_evaluation rq \<Longrightarrow> \<exists>ev. checked (\<lambda>k. check_evaluations k c) (k\<lparr>k_tick := m\<rparr>)
      = (Inr (True, ev), k\<lparr>k_tick := m + 0\<rparr>)" for m
    using ok tick(3) by (intro checked_pass) (auto simp: checks_pass_def)
  have de: "rq_decision rq \<Longrightarrow> \<exists>ev. checked (\<lambda>k. check_decisions k c) (k\<lparr>k_tick := m\<rparr>)
      = (Inr (True, ev), k\<lparr>k_tick := m + 0\<rparr>)" for m
    using ok tick(4) by (intro checked_pass) (auto simp: checks_pass_def)
  have ap: "rq_approval rq \<Longrightarrow> \<exists>ev. check_approvals E c (k\<lparr>k_tick := m\<rparr>)
      = (Inr (True, ev), k\<lparr>k_tick := m + 1\<rparr>)" for m
    using ok approvals_pass[where n = m] unfolding checks_pass_def by blast
  let ?b = "\<lambda>P. if P then 1 else (0::nat)"
  have total: "(if rq_approval rq then n + 6 + ?b (rq_workflow rq \<noteq> []) + ?b (rq_artifacts rq \<noteq> [])
      + ?b (rq_evaluation rq) + ?b (rq_decision rq) + 1 + 1
      else n + 6 + ?b (rq_workflow rq \<noteq> []) + ?b (rq_artifacts rq \<noteq> [])
      + ?b (rq_evaluation rq) + ?b (rq_decision rq)) = n + ticks_used rq"
    by (simp add: ticks_used_def)
  have step: "(if P then m + 0 + 1 else m) = m + ?b P" for P and m :: nat by simp
  show ?thesis
    unfolding evidence_chain_def
    by (rule evidence_guard_reaches[where check = "checked (\<lambda>k. resolve_workflow k c rq)" and d = 0
          and k = k, OF wf gs], assumption, unfold step,
        rule evidence_guard_reaches[where check = "checked (\<lambda>k. check_artifacts k c rq)" and d = 0
          and k = k, OF ar], assumption+, unfold step,
        rule evidence_guard_reaches[where check = "checked (\<lambda>k. check_evaluations k c)" and d = 0
          and k = k, OF ev], assumption+, unfold step,
        rule evidence_guard_reaches[where check = "checked (\<lambda>k. check_decisions k c)" and d = 0
          and k = k, OF de], assumption+, unfold step,
        rule evidence_guard_reaches[where check = "check_approvals E c" and d = 1
          and k = k, OF ap], assumption+, unfold total, blast)
qed

text \<open>The contracts accept what the state machine writes.\<close>

definition contracts_accept :: "env \<Rightarrow> bool" where
  "contracts_accept E \<longleftrightarrow>
     (\<forall>t. valid_transition E t) \<and> (\<forall>e. valid_event E e) \<and> (\<forall>p. valid_project E p)"

lemma apply_transition_succeeds:
  assumes "contracts_accept E" and p: "map_of (k_projects k) (cmd_project c) = Some p"
    and id: "ent_id p = cmd_project c" and rv: "prj_revision p = cmd_expected c"
    and tid: "map_of (k_transitions k) tid = None"
    and eid: "id_at E ''event'' (k_tick k + 2) = Some eid" "map_of (ev_records (k_events k)) eid = None"
    and ty: "artifact_types_of k c = Inr types"
  shows "\<exists>t k'. apply_transition E c tid req gs p k = (Inr t, k')"
proof -
  have tick: "artifact_types_of (k\<lparr>k_tick := n\<rparr>) c = Inr types" for n
    using ty by (simp add: artifact_types_of_def)
  show ?thesis
    using assms(1) eid p id rv tid tick
    by (simp add: apply_transition_def base_transition_def build_event_def contracts_accept_def
        bnd_utc_now bnd_fresh_id bnd_assoc bnd_rollback bnd_modify validate_in_def validate_def repo_insert_def
        append_validated_def event_project_def plain_ref_def repo_replace_validated_def project_rev_def
        remember_def)
qed

lemma transition_passes:
  assumes new: "remembered k c = None" and p: "map_of (k_projects k) (cmd_project c) = Some p"
    and tid: "id_at E ''transition'' (k_tick k) = Some tid"
    and g: "prj_status p = ''active''" "prj_revision p = cmd_expected c"
      "prj_current_state p = cmd_from c"
    and rq: "map_of routes (cmd_from c, cmd_to c) = Some rq" and ok: "checks_pass E k c rq"
  shows "\<exists>gs. all_passed gs \<and> transition E c k =
     apply_transition E c tid (clock E (k_tick k + 1) div 1000) gs p
       (k\<lparr>k_tick := k_tick k + ticks_used rq\<rparr>)"
proof -
  have "\<exists>gs0. all_passed gs0 \<and> transition E c k =
      evidence_chain E c tid (clock E (k_tick k + 1) div 1000) p rq gs0 (k\<lparr>k_tick := k_tick k + 6\<rparr>)"
    using new p tid g rq
    by (simp add: transition_def remembered_def bnd_get_in bnd_fresh_id bnd_utc_now repo_get_def
        guarded_pass all_passed_def numeral_eq_Suc cong: option.case_cong)
      (rule exI, rule conjI[rotated], rule refl, simp)
  then show ?thesis
    using evidence_chain_pass[OF ok] by metis
qed

lemma reject_succeeds:
  assumes "contracts_accept E" and tid: "map_of (k_transitions k) tid = None"
    and eid: "id_at E ''event'' (k_tick k + 2) = Some eid" "map_of (ev_records (k_events k)) eid = None"
  shows "\<exists>t k'. reject E c tid req gs code k = (Inr t, k')"
  using assms
  by (simp add: reject_def base_transition_def build_event_def contracts_accept_def
        bnd_utc_now bnd_fresh_id bnd_assoc bnd_rollback bnd_modify validate_in_def validate_def
        repo_insert_def append_validated_def event_project_def plain_ref_def remember_def)

text \<open>The first failing guard decides: here the revision guard.\<close>

lemma transition_stale:
  assumes new: "remembered k c = None" and p: "map_of (k_projects k) (cmd_project c) = Some p"
    and tid: "id_at E ''transition'' (k_tick k) = Some tid"
    and g: "prj_status p = ''active''" "prj_revision p \<noteq> cmd_expected c"
  shows "\<exists>gs. transition E c k =
     reject E c tid (clock E (k_tick k + 1) div 1000) gs ''STALE_REVISION'' (k\<lparr>k_tick := k_tick k + 4\<rparr>)"
  using new p tid g
  by (simp add: transition_def remembered_def bnd_get_in bnd_fresh_id bnd_utc_now repo_get_def
        guarded_pass guarded_fail numeral_eq_Suc cong: option.case_cong)
    (rule exI, rule refl)

end
