(* ===== verification/Runs.thy ===== *)
theory Runs
  imports ProjectState
begin

text \<open>
  \<open>src/founderos_runtime/runs.py\<close>: the lifecycles of workflow runs and agent runs. The base class
  \<open>_RunService\<close> is a group of operations over the keys both kinds share, parameterised as the
  class is by its subclasses' attributes (the kind, the lifecycle table, the event types, the
  repository); \<open>retry\<close> and the failure cascade from an agent run to its workflow run follow.
\<close>

section \<open>Lifecycle tables\<close>

definition workflow_allowed :: "(string \<times> string list) list" where
  "workflow_allowed =
     [(''queued'', [''running'', ''cancelled'']),
      (''running'', [''waiting_for_input'', ''waiting_for_approval'', ''succeeded'', ''failed'', ''cancelled'']),
      (''waiting_for_input'', [''running'', ''failed'', ''cancelled'']),
      (''waiting_for_approval'', [''running'', ''failed'', ''cancelled'']),
      (''succeeded'', []), (''failed'', []), (''cancelled'', [])]"

definition agent_allowed :: "(string \<times> string list) list" where
  "agent_allowed =
     [(''queued'', [''running'', ''cancelled'']), (''running'', [''succeeded'', ''failed'', ''cancelled'']),
      (''succeeded'', []), (''failed'', []), (''cancelled'', [])]"

definition workflow_events :: "(string \<times> string) list" where
  "workflow_events = [(''running'', ''workflow.started''), (''succeeded'', ''workflow.completed''),
     (''failed'', ''workflow.failed'')]"

definition agent_events :: "(string \<times> string) list" where
  "agent_events = [(''running'', ''agent.started''), (''succeeded'', ''agent.completed''),
     (''failed'', ''agent.failed'')]"

section \<open>The base service\<close>

record 'r run_service =
  svc_kind :: string
  svc_allowed :: "(string \<times> string list) list"
  svc_events :: "(string \<times> string) list"
  svc_table :: "kernel \<Rightarrow> 'r table"
  svc_update :: "('r table \<Rightarrow> 'r table) \<Rightarrow> kernel \<Rightarrow> kernel"
  svc_valid :: "env \<Rightarrow> 'r \<Rightarrow> bool"

definition workflow_service :: "workflow_run run_service" where
  "workflow_service = \<lparr>svc_kind = ''workflow_run'', svc_allowed = workflow_allowed,
     svc_events = workflow_events, svc_table = k_workflow_runs, svc_update = k_workflow_runs_update,
     svc_valid = valid_workflow_run\<rparr>"

definition agent_service :: "agent_run run_service" where
  "agent_service = \<lparr>svc_kind = ''agent_run'', svc_allowed = agent_allowed,
     svc_events = agent_events, svc_table = k_agent_runs, svc_update = k_agent_runs_update,
     svc_valid = valid_agent_run\<rparr>"

text \<open>The record \<open>set_status\<close> writes; \<open>None\<close> is the \<open>ValueError\<close> for a missing failure.\<close>

definition with_status ::
  "'a run_record_scheme \<Rightarrow> string \<Rightarrow> int \<Rightarrow> failure option \<Rightarrow> 'a run_record_scheme option" where
  "with_status cur st now fail =
     (let u = cur\<lparr>run_status := st, run_revision := run_revision cur + 1, run_updated_at := now,
            run_started_at := (if st = ''running'' \<and> run_started_at cur = None then Some now
              else run_started_at cur),
            run_completed_at := (if st \<in> {''succeeded'', ''failed'', ''cancelled''} then Some now
              else run_completed_at cur)\<rparr>
      in if st = ''failed'' then map_option (\<lambda>f. u\<lparr>run_failure := Some f\<rparr>) fail else Some u)"

definition restore_run_events :: "'a run_record_scheme run_service \<Rightarrow> kernel \<Rightarrow> kernel \<Rightarrow> kernel" where
  "restore_run_events svc s t = svc_update svc (\<lambda>_. svc_table svc s) (t\<lparr>k_events := k_events s\<rparr>)"

definition set_status ::
  "env \<Rightarrow> 'a run_record_scheme run_service \<Rightarrow> string \<Rightarrow> string \<Rightarrow> int \<Rightarrow> actor \<Rightarrow> string
     \<Rightarrow> failure option \<Rightarrow> 'a run_record_scheme kact" where
  "set_status E svc rid st expected actr corr fail =
     bnd (get_in (svc_table svc) rid) (\<lambda>cur.
     bnd (need (case map_of (svc_allowed svc) (run_status cur) of None \<Rightarrow> Inl KeyErr | Some a \<Rightarrow> Inr a)) (\<lambda>nexts.
     bnd (ensure (st \<in> set nexts) ValueErr) (\<lambda>_.
     bnd (utc_now E) (\<lambda>now.
     bnd (need (case with_status cur st now fail of None \<Rightarrow> Inl ValueErr | Some u \<Rightarrow> Inr u)) (\<lambda>u.
     bnd (validate_in (svc_valid svc E) u) (\<lambda>v.
     case map_of (svc_events svc) st of
       None \<Rightarrow>
         bnd (modify (svc_table svc) (svc_update svc)
               (repo_replace_validated run_rev False v (Some expected))) (\<lambda>_. ret v)
     | Some etype \<Rightarrow>
         bnd (build_event E (ref_id (run_project_ref u)) etype actr
               (revision_ref (svc_kind svc) rid (run_revision u)) corr
               [(''status'', JStr st), (''revision'', JInt (run_revision u))] None) (\<lambda>ev.
         bnd (validate_in (valid_event E) ev) (\<lambda>e.
         bnd (rollback (restore_run_events svc)
               (bnd (modify (svc_table svc) (svc_update svc)
                      (repo_replace_validated run_rev False v (Some expected))) (\<lambda>_.
                modify k_events k_events_update (append_validated e))))
           (\<lambda>_. ret v)))))))))"

section \<open>Creating runs\<close>

text \<open>\<open>WorkflowRunService.create\<close>; \<open>None\<close> and the empty list are the omitted optional arguments.\<close>

definition correlation_metadata :: "string option \<Rightarrow> json_object option" where
  "correlation_metadata corr =
     map_option (\<lambda>x. [(''correlation_id'', JStr x)]) (truthy corr)"

definition create_workflow_run ::
  "env \<Rightarrow> typed_ref \<Rightarrow> typed_ref \<Rightarrow> string \<Rightarrow> string option \<Rightarrow> typed_ref list \<Rightarrow> int \<Rightarrow> string option
     \<Rightarrow> workflow_run kact" where
  "create_workflow_run E pref wref entry exit_state inputs attempt corr =
     bnd (reads (\<lambda>k. resolve_reference k pref (Some (ref_id pref)))) (\<lambda>r1.
     bnd (need r1) (\<lambda>proj.
     bnd (reads (\<lambda>k. resolve_reference k wref None)) (\<lambda>r2.
     bnd (need r2) (\<lambda>_.
     bnd (need (any_status proj)) (\<lambda>pstat.
     bnd (ensure (pstat = ''active'') ValueErr) (\<lambda>_.
     bnd (need (any_current_state proj)) (\<lambda>cst.
     bnd (ensure (cst = entry) ValueErr) (\<lambda>_.
     bnd (utc_now E) (\<lambda>now.
     bnd (fresh_id E ''workflow_run'') (\<lambda>i.
     bnd (validate_in (valid_workflow_run E)
           \<lparr>ent_id = i, ent_metadata = correlation_metadata corr, run_revision = 1,
            run_project_ref = pref, run_status = ''queued'', run_attempt = attempt,
            run_failure = None, run_created_at = now, run_updated_at = now, run_started_at = None,
            run_completed_at = None, wfr_workflow_ref = wref, wfr_entry_state = entry,
            wfr_requested_exit = truthy exit_state, wfr_input_refs = inputs, wfr_output_refs = [],
            wfr_agent_run_refs = [], wfr_evaluation_refs = [], wfr_approval_refs = []\<rparr>) (\<lambda>r.
     bnd (modify k_workflow_runs k_workflow_runs_update (repo_insert r)) (\<lambda>_. ret r))))))))))))"

definition create_agent_run ::
  "env \<Rightarrow> typed_ref \<Rightarrow> typed_ref \<Rightarrow> typed_ref \<Rightarrow> typed_ref list \<Rightarrow> int \<Rightarrow> string option
     \<Rightarrow> agent_run kact" where
  "create_agent_run E pref wref aref inputs attempt corr =
     bnd (reads (\<lambda>k. resolve_reference k pref (Some (ref_id pref)))) (\<lambda>r1.
     bnd (need r1) (\<lambda>_.
     bnd (reads (\<lambda>k. resolve_reference k wref (Some (ref_id pref)))) (\<lambda>r2.
     bnd (need r2) (\<lambda>wrun.
     bnd (reads (\<lambda>k. resolve_reference k aref None)) (\<lambda>r3.
     bnd (need r3) (\<lambda>_.
     bnd (need (any_status wrun)) (\<lambda>st.
     bnd (ensure (st \<in> {''running'', ''waiting_for_input''}) ValueErr) (\<lambda>_.
     bnd (utc_now E) (\<lambda>now.
     bnd (fresh_id E ''agent_run'') (\<lambda>i.
     bnd (validate_in (valid_agent_run E)
           \<lparr>ent_id = i, ent_metadata = correlation_metadata corr, run_revision = 1,
            run_project_ref = pref, run_status = ''queued'', run_attempt = attempt,
            run_failure = None, run_created_at = now, run_updated_at = now, run_started_at = None,
            run_completed_at = None, agr_workflow_run_ref = wref, agr_agent_ref = aref,
            agr_input_refs = inputs, agr_output_refs = [], agr_rest = []\<rparr>) (\<lambda>r.
     bnd (modify k_agent_runs k_agent_runs_update (repo_insert r)) (\<lambda>_. ret r))))))))))))"

text \<open>
  \<open>retry\<close>: \<open>failed["failure"]["retryable"]\<close> is a \<open>KeyError\<close> when a failed run has no failure;
  the correlation id is read back from the metadata (a value that is not a string is not passed on
  as one, and contracts admit only what the services wrote).
\<close>

definition metadata_correlation :: "json_object option \<Rightarrow> string option" where
  "metadata_correlation m =
     (case m of None \<Rightarrow> None
      | Some o' \<Rightarrow> (case map_of o' ''correlation_id'' of Some (JStr c) \<Rightarrow> Some c | _ \<Rightarrow> None))"

definition retry :: "env \<Rightarrow> string \<Rightarrow> agent_run kact" where
  "retry E rid =
     bnd (get_in k_agent_runs rid) (\<lambda>f.
     bnd (ensure (run_status f = ''failed'') ValueErr) (\<lambda>_.
     bnd (need (case run_failure f of None \<Rightarrow> Inl KeyErr | Some x \<Rightarrow> Inr x)) (\<lambda>fl.
     bnd (ensure (fail_retryable fl) ValueErr) (\<lambda>_.
     create_agent_run E (run_project_ref f) (agr_workflow_run_ref f) (agr_agent_ref f)
       (agr_input_refs f) (run_attempt f + 1) (metadata_correlation (ent_metadata f))))))"

section \<open>The failure cascade\<close>

definition retry_exhausted :: failure where
  "retry_exhausted = \<lparr>fail_code = ''AGENT_RETRY_EXHAUSTED'',
     fail_message = ''Agent retry policy exhausted'', fail_retryable = False,
     fail_recovery = ''Request a human recovery decision or start a new WorkflowRun''\<rparr>"

text \<open>
  \<open>AgentRunService.set_status\<close>. The reference to the workflow run may name any kind; the keys read
  from the resolved record are those of a workflow run, and the cascade writes the run of that id.
\<close>

definition set_agent_status ::
  "env \<Rightarrow> string \<Rightarrow> string \<Rightarrow> int \<Rightarrow> actor \<Rightarrow> string \<Rightarrow> failure option \<Rightarrow> agent_run kact" where
  "set_agent_status E rid st expected actr corr fail =
     bnd (set_status E agent_service rid st expected actr corr fail) (\<lambda>u.
     if st \<noteq> ''failed'' then ret u
     else
       bnd (reads (\<lambda>k. resolve_reference k (agr_workflow_run_ref u) (Some (ref_id (run_project_ref u))))) (\<lambda>r1.
       bnd (need r1) (\<lambda>wrun.
       bnd (need (any_workflow_ref wrun)) (\<lambda>wref.
       bnd (reads (\<lambda>k. resolve_reference k wref None)) (\<lambda>r2.
       bnd (need r2) (\<lambda>wflow.
       bnd (need (any_max_attempts wflow)) (\<lambda>maxa.
       bnd (need (any_status wrun)) (\<lambda>wst.
       if run_attempt u \<ge> maxa \<and> wst \<notin> {''failed'', ''cancelled'', ''succeeded''} then
         bnd (need (case any_revision wrun of None \<Rightarrow> Inl KeyErr | Some n \<Rightarrow> Inr n)) (\<lambda>wrev.
         bnd (set_status E workflow_service (any_id wrun) ''failed'' wrev actr
               (corr @ '':workflow'') (Some retry_exhausted)) (\<lambda>_. ret u))
       else ret u))))))))"

section \<open>What the base service promises, for any kind of run\<close>

lemma with_status_iff:
  "with_status cur st now fail = Some u \<longleftrightarrow>
    (st = ''failed'' \<longrightarrow> fail \<noteq> None) \<and>
    u = cur\<lparr>run_status := st, run_revision := run_revision cur + 1, run_updated_at := now,
            run_started_at := (if st = ''running'' \<and> run_started_at cur = None then Some now
              else run_started_at cur),
            run_completed_at := (if st \<in> {''succeeded'', ''failed'', ''cancelled''} then Some now
              else run_completed_at cur),
            run_failure := (if st = ''failed'' then fail else run_failure cur)\<rparr>"
  by (cases "st = ''failed''"; cases fail) (auto simp: with_status_def Let_def)

lemma with_status_facts:
  assumes "with_status cur st now fail = Some u"
  shows "ent_id u = ent_id cur" "run_status u = st" "run_revision u = run_revision cur + 1"
    "run_project_ref u = run_project_ref cur" "run_attempt u = run_attempt cur"
    "run_failure u = (if st = ''failed'' then fail else run_failure cur)"
    "run_started_at u = (if st = ''running'' \<and> run_started_at cur = None then Some now
       else run_started_at cur)"
    "st = ''failed'' \<Longrightarrow> fail \<noteq> None"
    "run_record.more u = run_record.more cur"
  using assms by - (simp only: with_status_iff, simp)+

text \<open>
  The interface the subclasses provide: the table is a component of the kernel of its own, apart
  from the projects, the events and the clock, and holds well-formed records.
\<close>

locale run_kind =
  fixes svc :: "'a run_record_scheme run_service"
  assumes table_put: "svc_table svc (svc_update svc (\<lambda>_. t) k) = t"
    and put_put: "svc_update svc (\<lambda>_. t) (svc_update svc (\<lambda>_. u) k) = svc_update svc (\<lambda>_. t) k"
    and put_same: "svc_update svc (\<lambda>_. svc_table svc k) k = k"
    and table_frame: "svc_table svc (k\<lparr>k_events := e\<rparr>) = svc_table svc k"
      "svc_table svc (k\<lparr>k_tick := n\<rparr>) = svc_table svc k"
    and put_frame: "(svc_update svc (\<lambda>_. t) k)\<lparr>k_events := e\<rparr> = svc_update svc (\<lambda>_. t) (k\<lparr>k_events := e\<rparr>)"
      "(svc_update svc (\<lambda>_. t) k)\<lparr>k_tick := n\<rparr> = svc_update svc (\<lambda>_. t) (k\<lparr>k_tick := n\<rparr>)"
    and put_others: "k_projects (svc_update svc (\<lambda>_. t) k) = k_projects k"
      "k_events (svc_update svc (\<lambda>_. t) k) = k_events k"
      "k_tick (svc_update svc (\<lambda>_. t) k) = k_tick k"
    and put_ok: "tables_ok k \<Longrightarrow> table_ok t \<Longrightarrow> tables_ok (svc_update svc (\<lambda>_. t) k)"
    and table_is_ok: "tables_ok k \<Longrightarrow> table_ok (svc_table svc k)"
    and neutral_events: "(st, etype) \<in> set (svc_events svc) \<Longrightarrow> neutral etype"
begin

definition wrote :: "kernel \<Rightarrow> string \<Rightarrow> 'a run_record_scheme \<Rightarrow> kernel \<Rightarrow> bool" where
  "wrote k rid v k' \<longleftrightarrow> (\<exists>n. let t = AList.update rid v (svc_table svc k) in
       k' = svc_update svc (\<lambda>_. t) (k\<lparr>k_tick := n\<rparr>)
     \<or> (\<exists>e ev. neutral (evt_type e) \<and> append_validated e (k_events k) = Inr ev
          \<and> event_project e = ref_id (run_project_ref v)
          \<and> (run_status v, evt_type e) \<in> set (svc_events svc)
          \<and> k' = svc_update svc (\<lambda>_. t) (k\<lparr>k_tick := n, k_events := ev\<rparr>)))"

lemma set_status_Inr:
  assumes run: "set_status E svc rid st expected a corr fail k = (Inr v, k')"
    and ok: "table_ok (svc_table svc k)"
  obtains cur nexts now where "map_of (svc_table svc k) rid = Some cur" "ent_id cur = rid"
    "map_of (svc_allowed svc) (run_status cur) = Some nexts" "st \<in> set nexts"
    "run_revision cur = expected" "with_status cur st now fail = Some v" "svc_valid svc E v"
    "wrote k rid v k'"
proof -
  from run obtain cur nexts u where
    cur: "map_of (svc_table svc k) rid = Some cur" and
    nx: "map_of (svc_allowed svc) (run_status cur) = Some nexts" "st \<in> set nexts" and
    u: "with_status cur st (clock E (k_tick k) div 1000) fail = Some u" and
    vv: "svc_valid svc E u" and
    rest: "(case map_of (svc_events svc) st of
       None \<Rightarrow>
         bnd (modify (svc_table svc) (svc_update svc)
               (repo_replace_validated run_rev False u (Some expected))) (\<lambda>_. ret u)
     | Some etype \<Rightarrow>
         bnd (build_event E (ref_id (run_project_ref u)) etype a
               (revision_ref (svc_kind svc) rid (run_revision u)) corr
               [(''status'', JStr st), (''revision'', JInt (run_revision u))] None) (\<lambda>ev.
         bnd (validate_in (valid_event E) ev) (\<lambda>e.
         bnd (rollback (restore_run_events svc)
               (bnd (modify (svc_table svc) (svc_update svc)
                      (repo_replace_validated run_rev False u (Some expected))) (\<lambda>_.
                modify k_events k_events_update (append_validated e))))
           (\<lambda>_. ret u)))) (k\<lparr>k_tick := k_tick k + 1\<rparr>) = (Inr v, k')"
    unfolding set_status_def
    by (auto simp: bnd_get_in bnd_utc_now bnd_need_Inr_iff bnd_Inr_iff[of "validate_in _ _"] act_simps
        repo_get_def split: option.split_asm if_split_asm)
  have id: "ent_id cur = rid" "ent_id u = rid"
    using table_ok_get[OF ok cur] with_status_facts(1)[OF u] by auto
  have facts: "v = u \<and> run_revision cur = expected \<and> wrote k rid u k'"
  proof (cases "map_of (svc_events svc) st")
    case None
    with rest cur id show ?thesis
      unfolding wrote_def Let_def
      by (auto simp: bnd_Inr_iff modify_Inr_iff repo_replace_validated_Inr_iff run_rev_def table_frame)
  next
    case (Some etype)
    from Some rest obtain e k2 where
      b: "build_event E (ref_id (run_project_ref u)) etype a
               (revision_ref (svc_kind svc) rid (run_revision u)) corr
               [(''status'', JStr st), (''revision'', JInt (run_revision u))] None
               (k\<lparr>k_tick := k_tick k + 1\<rparr>) = (Inr e, k2)" and
      m: "bnd (modify (svc_table svc) (svc_update svc)
                      (repo_replace_validated run_rev False u (Some expected))) (\<lambda>_.
                modify k_events k_events_update (append_validated e)) k2 = (Inr (), k')" and
      vu: "v = u"
      by (auto simp: bnd_Inr_iff[of "build_event _ _ _ _ _ _ _ _"] bnd_Inr_iff[of "validate_in _ _"]
          bnd_Inr_iff[of "rollback _ _"] act_simps)
    from Some have mem: "(st, etype) \<in> set (svc_events svc)" by (rule map_of_SomeD)
    from m cur id obtain ev where "run_revision cur = expected" "append_validated e (k_events k) = Inr ev"
      "k' = svc_update svc (\<lambda>_. AList.update rid u (svc_table svc k))
             (k\<lparr>k_tick := k_tick k + 3, k_events := ev\<rparr>)"
      by (auto simp: bnd_Inr_iff modify_Inr_iff repo_replace_validated_Inr_iff run_rev_def
          table_frame put_others put_frame build_event_Inr(1)[OF b] numeral_eq_Suc)
    with mem neutral_events[OF mem] build_event_facts(1,2)[OF b] with_status_facts(2)[OF u] vu
    show ?thesis unfolding wrote_def Let_def by metis
  qed
  then have v: "u = v" by simp
  show thesis by (rule that[OF cur id(1) nx _ u[unfolded v] vv[unfolded v]]) (use facts in auto)
qed

lemma set_status_Inl:
  assumes "set_status E svc rid st expected a corr fail k = (Inl x, k')"
  shows "same_data k k'"
proof -
  have restore: "restore_run_events svc s (svc_update svc (\<lambda>_. t) s) = s" for s t
  proof -
    have "(svc_update svc (\<lambda>_. t) s)\<lparr>k_events := k_events s\<rparr> = svc_update svc (\<lambda>_. t) s"
      by (simp add: put_frame)
    then show ?thesis by (simp add: restore_run_events_def put_put put_same)
  qed
  have restore_id: "restore_run_events svc s s = s" for s
    by (simp add: restore_run_events_def put_same)
  have blk: "same_data s t" if "rollback (restore_run_events svc)
      (bnd (modify (svc_table svc) (svc_update svc) f) (\<lambda>_.
       modify k_events k_events_update g)) s = (Inl y, t)" for f g s t y
    using that
    by (auto simp: rollback_Inl_iff bnd_Inl_iff modify_Inr_iff modify_Inl_iff restore restore_id)
  from assms show ?thesis
    unfolding set_status_def
    by (auto simp: bnd_get_in bnd_utc_now bnd_Inl_iff[of "need _"] bnd_Inl_iff[of "build_event _ _ _ _ _ _ _ _"]
          bnd_Inl_iff[of "validate_in _ _"] bnd_Inl_iff[of "rollback _ _"]
          bnd_Inl_iff[of "modify _ _ _"] modify_Inl_iff act_simps
        dest!: blk build_event_same split: option.splits sum.splits if_splits
        elim!: same_data_trans[rotated])
qed

lemma wrote_consistent:
  assumes w: "wrote k rid v k'" and id: "ent_id v = rid" and ok: "tables_ok k" "consistent k"
  shows "tables_ok k' \<and> consistent k'"
proof -
  let ?t = "AList.update rid v (svc_table svc k)"
  have t: "table_ok ?t" using table_ok_update[OF table_is_ok[OF ok(1)], of v] id by simp
  from w consider n where "k' = svc_update svc (\<lambda>_. ?t) (k\<lparr>k_tick := n\<rparr>)"
    | n e ev where "neutral (evt_type e)" "append_validated e (k_events k) = Inr ev"
        "k' = svc_update svc (\<lambda>_. ?t) (k\<lparr>k_tick := n, k_events := ev\<rparr>)"
    unfolding wrote_def Let_def by blast
  then show ?thesis
  proof cases
    case 1
    have "tables_ok (k\<lparr>k_tick := n\<rparr>)" using ok(1) by (simp add: tables_ok_def)
    with put_ok[OF _ t] ok(2) 1 show ?thesis
      by (simp add: consistent_def put_others)
  next
    case 2
    have evok: "events_ok (k_events k)" using ok(1) by (simp add: tables_ok_def)
    have "tables_ok (k\<lparr>k_tick := n, k_events := ev\<rparr>)"
      using ok(1) events_ok_append[OF evok 2(2)] by (simp add: tables_ok_def)
    with put_ok[OF _ t] have "tables_ok k'" by (simp add: 2(3))
    moreover have "consistent k'"
      by (rule consistent_append_neutral[OF evok ok(2) 2(2,1)]) (simp_all add: 2(3) put_others)
    ultimately show ?thesis by simp
  qed
qed

lemma set_status_consistent:
  assumes run: "set_status E svc rid st expected a corr fail k = (r, k')"
    and ok: "tables_ok k" "consistent k"
  shows "tables_ok k' \<and> consistent k'"
proof (cases r)
  case (Inl x)
  with set_status_Inl[OF run[unfolded Inl]] ok show ?thesis
    by (simp add: tables_ok_same consistent_same)
next
  case (Inr v)
  show ?thesis
    by (rule set_status_Inr[OF run[unfolded Inr] table_is_ok[OF ok(1)]])
      (metis wrote_consistent[OF _ _ ok] with_status_facts(1))
qed

text \<open>The status of a stored run only moves along the lifecycle table.\<close>

lemma set_status_moves:
  assumes run: "set_status E svc rid st expected a corr fail k = (r, k')" and ok: "tables_ok k"
    and cur: "map_of (svc_table svc k) i = Some x"
  shows "\<exists>y. map_of (svc_table svc k') i = Some y \<and>
    (y = x \<or> i = rid \<and> run_revision y = run_revision x + 1
       \<and> (\<exists>nexts. map_of (svc_allowed svc) (run_status x) = Some nexts \<and> run_status y \<in> set nexts))"
proof (cases r)
  case (Inl e)
  from set_status_Inl[OF run[unfolded Inl]] obtain n where "k' = k\<lparr>k_tick := n\<rparr>"
    by (rule same_dataE)
  with cur show ?thesis by (simp add: table_frame)
next
  case (Inr v)
  show ?thesis
  proof (rule set_status_Inr[OF run[unfolded Inr] table_is_ok[OF ok]])
    fix c nexts now
    assume a: "map_of (svc_table svc k) rid = Some c"
      "map_of (svc_allowed svc) (run_status c) = Some nexts" "st \<in> set nexts"
      "with_status c st now fail = Some v" "wrote k rid v k'"
    have "svc_table svc k' = AList.update rid v (svc_table svc k)"
      using a(5) unfolding wrote_def Let_def by (auto simp: table_put)
    then show ?thesis
      using a cur with_status_facts(2,3)[OF a(4)] by (cases "i = rid") auto
  qed
qed

end

interpretation workflows: run_kind workflow_service
  by unfold_locales
    (auto simp: workflow_service_def workflow_events_def tables_ok_def neutral_def)

interpretation agents: run_kind agent_service
  by unfold_locales
    (auto simp: agent_service_def agent_events_def tables_ok_def neutral_def)

section \<open>Every run operation keeps the kernel invariant\<close>

lemma create_workflow_run_keeps: "keeps kernel_inv (create_workflow_run E pref wref en ex ins n corr)"
  unfolding create_workflow_run_def by (intro keeps_bnd keeps_inv_tables) auto

lemma create_agent_run_keeps: "keeps kernel_inv (create_agent_run E pref wref aref ins n corr)"
  unfolding create_agent_run_def by (intro keeps_bnd keeps_inv_tables) auto

lemma retry_keeps: "keeps kernel_inv (retry E rid)"
  unfolding retry_def by (intro keeps_bnd create_agent_run_keeps) auto

lemma set_workflow_status_keeps:
  "keeps kernel_inv (set_status E workflow_service rid st expected a corr fail)"
  by (rule keepsI) (metis workflows.set_status_consistent kernel_inv_def prod.collapse)

lemma set_agent_base_keeps:
  "keeps kernel_inv (set_status E agent_service rid st expected a corr fail)"
  by (rule keepsI) (metis agents.set_status_consistent kernel_inv_def prod.collapse)

lemma set_agent_status_keeps: "keeps kernel_inv (set_agent_status E rid st expected a corr fail)"
  unfolding set_agent_status_def
  by (intro keeps_bnd keeps_if set_agent_base_keeps set_workflow_status_keeps) auto

end
