(* ===== verification/Lifecycle.thy ===== *)
theory Lifecycle
  imports ProjectState
begin

text \<open>
  \<open>src/founderos_runtime/lifecycle.py\<close>: the artifact, evaluation, approval and decision services.
  Each writes its record through the repository and then appends an event; nothing restores the
  record when the event is refused, so these operations are not atomic (\<open>create_artifact_orphan\<close>).
\<close>

section \<open>References and events\<close>

text \<open>\<open>ids.reference(kind, record, include_version=, include_revision=)\<close>.\<close>

definition reference :: "string \<Rightarrow> any_record \<Rightarrow> bool \<Rightarrow> bool \<Rightarrow> typed_ref" where
  "reference kd r include_version include_revision =
     \<lparr>ref_kind = kd, ref_id = any_id r,
      ref_version = (if include_version then any_version r else None),
      ref_revision = (if include_revision then any_revision r else None)\<rparr>"

definition lifecycle_event ::
  "env \<Rightarrow> string \<Rightarrow> string \<Rightarrow> actor \<Rightarrow> typed_ref \<Rightarrow> string \<Rightarrow> json_object \<Rightarrow> unit kact" where
  "lifecycle_event E pid etype actr subject corr payload =
     bnd (build_event E pid etype actr subject corr payload None) (append_to_log E)"

section \<open>Artifacts\<close>

definition create_artifact :: "env \<Rightarrow> artifact \<Rightarrow> actor \<Rightarrow> string \<Rightarrow> artifact kact" where
  "create_artifact E r actr corr =
     bnd (validate_in (valid_artifact E) (with_correlation corr r)) (\<lambda>a.
     bnd (modify k_artifacts k_artifacts_update (repo_insert a)) (\<lambda>_.
     bnd (lifecycle_event E (ref_id (art_project_ref a)) ''artifact.created'' actr
           (reference ''artifact'' (AnyArtifact a) True False) corr
           [(''artifact_type'', JStr (art_type a)), (''status'', JStr (art_status a))]) (\<lambda>_.
     ret a)))"

definition approved_artifact :: "artifact \<Rightarrow> int \<Rightarrow> typed_ref \<Rightarrow> typed_ref list \<Rightarrow> artifact" where
  "approved_artifact a now apr evls =
     a\<lparr>art_revision := art_revision a + 1, art_status := ''approved'', art_updated_at := now,
       art_approval_refs := Some [apr], art_evaluation_refs := Some evls\<rparr>"

definition approve_artifact ::
  "env \<Rightarrow> string \<Rightarrow> typed_ref \<Rightarrow> typed_ref list \<Rightarrow> actor \<Rightarrow> string \<Rightarrow> artifact kact" where
  "approve_artifact E aid apr evls actr corr =
     bnd (get_in k_artifacts aid) (\<lambda>a.
     bnd (utc_now E) (\<lambda>now.
     bnd (validate_in (valid_artifact E) (approved_artifact a now apr evls)) (\<lambda>u.
     bnd (modify k_artifacts k_artifacts_update
           (repo_replace_validated artifact_rev False u (Some (art_revision a)))) (\<lambda>_.
     bnd (lifecycle_event E (ref_id (art_project_ref a)) ''artifact.approved'' actr
           (reference ''artifact'' (AnyArtifact u) True False) corr
           [(''status'', JStr ''approved'')]) (\<lambda>_.
     ret u)))))"

section \<open>Evaluations and decisions\<close>

definition create_evaluation :: "env \<Rightarrow> evaluation \<Rightarrow> actor \<Rightarrow> string \<Rightarrow> evaluation kact" where
  "create_evaluation E r actr corr =
     bnd (validate_in (valid_evaluation E) (with_correlation corr r)) (\<lambda>v.
     bnd (modify k_evaluations k_evaluations_update (repo_insert v)) (\<lambda>_.
     bnd (lifecycle_event E (ref_id (evl_project_ref v)) ''evaluation.completed'' actr
           (reference ''evaluation'' (AnyEvaluation v) False False) corr
           [(''outcome'', JStr (evl_outcome v))]) (\<lambda>_.
     ret v)))"

text \<open>The event type is \<open>decision.approved\<close> whatever the status of the decision.\<close>

definition create_decision :: "env \<Rightarrow> decision \<Rightarrow> actor \<Rightarrow> string \<Rightarrow> decision kact" where
  "create_decision E r actr corr =
     bnd (validate_in (valid_decision E) (with_correlation corr r)) (\<lambda>d.
     bnd (modify k_decisions k_decisions_update (repo_insert d)) (\<lambda>_.
     bnd (lifecycle_event E (ref_id (dec_project_ref d)) ''decision.approved'' actr
           (reference ''decision'' (AnyDecision d) True False) corr
           [(''status'', JStr (dec_status d)), (''title'', JStr (dec_title d))]) (\<lambda>_.
     ret d)))"

section \<open>Approvals\<close>

definition request_approval :: "env \<Rightarrow> approval \<Rightarrow> actor \<Rightarrow> string \<Rightarrow> approval kact" where
  "request_approval E r actr corr =
     bnd (validate_in (valid_approval E) (with_correlation corr r)) (\<lambda>a.
     bnd (modify k_approvals k_approvals_update (repo_insert a)) (\<lambda>_.
     bnd (lifecycle_event E (ref_id (apr_project_ref a)) ''approval.requested'' actr
           (reference ''approval'' (AnyApproval a) False False) corr
           [(''status'', JStr (apr_status a))]) (\<lambda>_.
     ret a)))"

definition decided_approval :: "approval \<Rightarrow> actor \<Rightarrow> string \<Rightarrow> int \<Rightarrow> approval" where
  "decided_approval a actr why now =
     a\<lparr>apr_revision := apr_revision a + 1, apr_status := ''approved'', apr_decided_by := Some actr,
       apr_rationale := Some why, apr_decided_at := Some now\<rparr>"

definition approve :: "env \<Rightarrow> string \<Rightarrow> actor \<Rightarrow> string \<Rightarrow> string \<Rightarrow> approval kact" where
  "approve E aid actr why corr =
     bnd (ensure (actor_type actr = ''human'') ValueErr) (\<lambda>_.
     bnd (get_in k_approvals aid) (\<lambda>a.
     if apr_status a = ''approved'' then ret a
     else
       bnd (ensure (apr_status a = ''pending'') ValueErr) (\<lambda>_.
       bnd (utc_now E) (\<lambda>now.
       bnd (validate_in (valid_approval E) (decided_approval a actr why now)) (\<lambda>u.
       bnd (modify k_approvals k_approvals_update
             (repo_replace_validated approval_rev False u (Some (apr_revision a)))) (\<lambda>_.
       bnd (lifecycle_event E (ref_id (apr_project_ref a)) ''approval.decided'' actr
             (reference ''approval'' (AnyApproval u) False True) corr
             [(''status'', JStr ''approved'')]) (\<lambda>_.
       ret u)))))))"

section \<open>The services keep the kernel invariant\<close>

lemma lifecycle_event_keeps:
  assumes "neutral etype"
  shows "keeps kernel_inv (lifecycle_event E pid etype a sub corr payload)"
proof (rule keepsI)
  fix k assume k: "kernel_inv k"
  obtain r k1 where b: "build_event E pid etype a sub corr payload None k = (r, k1)" by force
  with k have k1: "kernel_inv k1" by (auto intro: keeps_run[OF keeps_inv_read(3)])
  show "kernel_inv (snd (lifecycle_event E pid etype a sub corr payload k))"
  proof (cases r)
    case (Inl x)
    with b k1 show ?thesis by (simp add: lifecycle_event_def bnd_stop)
  next
    case (Inr e)
    with b have "neutral (evt_type e)" using build_event_facts(1) assms by blast
    with b k1 Inr show ?thesis
      by (simp add: lifecycle_event_def bnd_step keepsD[OF keeps_inv_log])
  qed
qed

lemma lifecycle_keeps:
  "keeps kernel_inv (create_artifact E ar a corr)"
  "keeps kernel_inv (approve_artifact E aid apr evls a corr)"
  "keeps kernel_inv (create_evaluation E ev a corr)"
  "keeps kernel_inv (create_decision E dc a corr)"
  "keeps kernel_inv (request_approval E ap a corr)"
  "keeps kernel_inv (approve E aid a why corr)"
  unfolding create_artifact_def approve_artifact_def create_evaluation_def create_decision_def
    request_approval_def approve_def
  by (intro keeps_bnd keeps_if keeps_inv_tables lifecycle_event_keeps;
      simp add: neutral_def)+

section \<open>Approving\<close>

lemma approve_Inr:
  assumes run: "approve E aid a why corr k = (Inr u, k')" and ok: "tables_ok k"
  obtains (already) "map_of (k_approvals k) aid = Some u" "apr_status u = ''approved''" "k' = k"
  | (decided) x now where "map_of (k_approvals k) aid = Some x" "apr_status x = ''pending''"
      "u = decided_approval x a why now" "map_of (k_approvals k') aid = Some u"
      "actor_type a = ''human''"
proof -
  from run obtain x where x: "map_of (k_approvals k) aid = Some x" and h: "actor_type a = ''human''"
    by (auto simp: approve_def bnd_get_in repo_get_def split: if_splits option.splits)
  have id: "ent_id x = aid" using ok x by (auto simp: tables_ok_def dest: table_ok_get)
  show thesis
  proof (cases "apr_status x = ''approved''")
    case True
    with run x h have "u = x" "k' = k" by (auto simp: approve_def bnd_get_in repo_get_def)
    with True x already show thesis by blast
  next
    case False
    let ?now = "clock E (k_tick k) div 1000"
    let ?u = "decided_approval x a why ?now"
    have idu: "ent_id ?u = aid" by (simp add: decided_approval_def id)
    from False run x h obtain k1 r where
      st: "apr_status x = ''pending''" and u: "u = ?u" and
      ev: "lifecycle_event E (ref_id (apr_project_ref x)) ''approval.decided'' a
             (reference ''approval'' (AnyApproval ?u) False True) corr
             [(''status'', JStr ''approved'')]
             (k\<lparr>k_tick := k_tick k + 1, k_approvals := AList.update aid ?u (k_approvals k)\<rparr>) = (Inr r, k')"
      by (auto simp: approve_def bnd_get_in repo_get_def bnd_utc_now bnd_modify validate_in_run
          bnd_Inr_iff[of "validate_in _ _"] bnd_Inr_iff[of "lifecycle_event _ _ _ _ _ _ _"]
          repo_replace_validated_def idu approval_rev_def split: if_splits option.splits sum.splits)
    have "k_approvals k' = AList.update aid ?u (k_approvals k)"
      using ev by (auto simp: lifecycle_event_def append_to_log_def bnd_Inr_iff modify_Inr_iff
          validate_in_run dest!: build_event_Inr(1))
    with decided[OF x st u _ h] u show thesis by simp
  qed
qed

section \<open>A refused event leaves the record behind\<close>

lemma create_artifact_orphan:
  assumes "valid_artifact E (with_correlation corr r)" "map_of (k_artifacts k) (ent_id r) = None"
    and "\<And>e. evt_correlation e = corr \<Longrightarrow> \<not> valid_event E e"
  shows "\<exists>k'. create_artifact E r a corr k = (Inl ContractViolation, k')
     \<and> map_of (k_artifacts k') (ent_id r) = Some (with_correlation corr r)
     \<and> k_events k' = k_events k"
proof -
  have "\<exists>eid. id_at E ''event'' n = Some eid" for n
    by (simp add: id_at_def new_id_def id_prefixes_def)
  then obtain eid where "id_at E ''event'' (k_tick k + 1) = Some eid" by blast
  with assms show ?thesis
    by (simp add: create_artifact_def validate_in_def validate_def bnd_modify repo_insert_def
        lifecycle_event_def build_event_def append_to_log_def bnd_assoc bnd_utc_now bnd_fresh_id)
qed

end
