(* ===== verification/Demo.thy ===== *)
theory Demo
  imports Transitions
begin

text \<open>
  A concrete environment and concrete kernels the witnesses of the kernel theorems run on: the
  clock advances one second per reading, the random source counts, and every record satisfies its
  contract. \<open>demo_ready\<close> holds one project in \<open>FOUNDER_SETUP\<close> with all the evidence the route to
  \<open>FOUNDER_BRIEF_COMPLETE\<close> requires.
\<close>

definition demo_env :: env where
  "demo_env = \<lparr>clock = (\<lambda>n. 1000000 * int n), random80 = int, valid_project = (\<lambda>_. True),
     valid_artifact = (\<lambda>_. True), valid_decision = (\<lambda>_. True), valid_workflow_run = (\<lambda>_. True),
     valid_agent_run = (\<lambda>_. True), valid_event = (\<lambda>_. True), valid_approval = (\<lambda>_. True),
     valid_evaluation = (\<lambda>_. True), valid_transition = (\<lambda>_. True),
     valid_agent = (\<lambda>_. True), valid_workflow = (\<lambda>_. True)\<rparr>"

definition demo_human :: actor where
  "demo_human = \<lparr>actor_type = ''human'', actor_id = ''founder'', actor_name = None\<rparr>"

definition demo_pref :: typed_ref where
  "demo_pref = plain_ref ''project'' ''prj_A''"

definition demo_project :: project where
  "demo_project = (new_project ''prj_A'' 0 ''P'' ''f'' ''F'' ''d'' ''c0'')
     \<lparr>prj_revision := 2, prj_current_state := ''FOUNDER_SETUP'', prj_last_sequence := 0\<rparr>"

definition demo_run :: "string \<Rightarrow> workflow_run" where
  "demo_run st = \<lparr>ent_id = ''wfr_A'', ent_metadata = None, run_revision = 1,
     run_project_ref = demo_pref, run_status = st, run_attempt = 1, run_failure = None,
     run_created_at = 0, run_updated_at = 0, run_started_at = Some 0, run_completed_at = None,
     wfr_workflow_ref = plain_ref ''workflow'' ''wfl_A'', wfr_entry_state = ''NO_PROJECT'',
     wfr_requested_exit = None, wfr_input_refs = [], wfr_output_refs = [],
     wfr_agent_run_refs = [], wfr_evaluation_refs = [], wfr_approval_refs = []\<rparr>"

definition demo_brief :: artifact where
  "demo_brief = \<lparr>ent_id = ''art_A'', ent_metadata = None, art_version = ''1.0.0'', art_revision = 2,
     art_project_ref = demo_pref, art_type = ''founder_brief'', art_status = ''approved'',
     art_content_uri = ''memory://brief'', art_content_digest = ''sha256:0'',
     art_confidence = None, art_evaluation_refs = None, art_approval_refs = None,
     art_updated_at = 0, art_rest = []\<rparr>"

definition demo_evaluation :: evaluation where
  "demo_evaluation = \<lparr>ent_id = ''evl_A'', ent_metadata = None, evl_project_ref = demo_pref,
     evl_target_ref = plain_ref ''artifact'' ''art_A'', evl_status = ''completed'',
     evl_outcome = ''pass'', evl_confidence = Some 1, evl_rest = []\<rparr>"

definition demo_approval :: approval where
  "demo_approval = \<lparr>ent_id = ''apr_A'', ent_metadata = None, apr_revision = 2,
     apr_project_ref = demo_pref, apr_subject_ref = plain_ref ''artifact'' ''art_A'',
     apr_status = ''approved'', apr_decided_by = Some demo_human, apr_rationale = Some ''ok'',
     apr_expires_at = None, apr_decided_at = Some 0, apr_rest = []\<rparr>"

definition demo_command :: "string \<Rightarrow> string \<Rightarrow> int \<Rightarrow> string \<Rightarrow> command" where
  "demo_command a b n corr = \<lparr>cmd_project = ''prj_A'', cmd_from = a, cmd_to = b, cmd_expected = n,
     cmd_trigger = ''advance'', cmd_actor = demo_human, cmd_correlation = corr,
     cmd_workflow_ref = Some (plain_ref ''workflow_run'' ''wfr_A''), cmd_artifacts = [],
     cmd_evaluations = [], cmd_decisions = [], cmd_approvals = []\<rparr>"

definition demo_ready :: kernel where
  "demo_ready = empty_kernel\<lparr>k_projects := [(''prj_A'', demo_project)],
     k_workflow_runs := [(''wfr_A'', demo_run ''succeeded'')],
     k_artifacts := [(''art_A'', demo_brief)], k_evaluations := [(''evl_A'', demo_evaluation)],
     k_approvals := [(''apr_A'', demo_approval)]\<rparr>"

definition demo_brief_command :: command where
  "demo_brief_command = (demo_command ''FOUNDER_SETUP'' ''FOUNDER_BRIEF_COMPLETE'' 2 ''c2'')
     \<lparr>cmd_artifacts := [plain_ref ''artifact'' ''art_A''],
      cmd_evaluations := [plain_ref ''evaluation'' ''evl_A''],
      cmd_approvals := [plain_ref ''approval'' ''apr_A'']\<rparr>"

definition demo_requirement :: route_requirement where
  "demo_requirement = requirement [''founder_brief''] [''succeeded''] True False True"

lemma demo_contracts: "contracts_accept demo_env"
  by (simp add: contracts_accept_def demo_env_def)

lemma demo_tables: "tables_ok demo_ready"
  by (simp add: tables_ok_def demo_ready_def empty_kernel_def table_ok_def demo_project_def
      new_project_def demo_run_def demo_brief_def demo_evaluation_def demo_approval_def)

lemma demo_remembered: "remembered demo_ready demo_brief_command = None"
  by (simp add: remembered_def demo_ready_def empty_kernel_def truthy_def)

lemma demo_stored: "map_of (k_projects demo_ready) (cmd_project demo_brief_command) = Some demo_project"
  by (simp add: demo_ready_def demo_brief_command_def demo_command_def)

lemma demo_route:
  "map_of routes (cmd_from demo_brief_command, cmd_to demo_brief_command) = Some demo_requirement"
  by code_simp

lemma demo_transition_id: "\<exists>tid. id_at demo_env ''transition'' (k_tick demo_ready) = Some tid"
  by (simp add: id_at_def new_id_def id_prefixes_def)

lemma demo_event_id:
  "\<exists>eid. id_at demo_env ''event'' n = Some eid \<and> map_of (ev_records (k_events demo_ready)) eid = None"
  by (simp add: id_at_def new_id_def id_prefixes_def demo_ready_def empty_kernel_def empty_events_def)

lemma demo_workflow:
  "map_sum id fst (resolve_workflow demo_ready demo_brief_command demo_requirement) = Inr True"
  by code_simp

lemma demo_artifacts:
  "map_sum id fst (check_artifacts demo_ready demo_brief_command demo_requirement) = Inr True"
  by code_simp

lemma demo_evaluations:
  "map_sum id fst (check_evaluations demo_ready demo_brief_command) = Inr True"
  by code_simp

lemma demo_approvals:
  "map_sum id fst (fst (check_approvals demo_env demo_brief_command (demo_ready\<lparr>k_tick := 0\<rparr>))) = Inr True"
  by code_simp

lemma demo_approvals_unexpiring:
  "resolve_all demo_ready (cmd_approvals demo_brief_command) (cmd_project demo_brief_command)
     = Inr [AnyApproval demo_approval]"
  by code_simp

lemma demo_types: "artifact_types_of demo_ready demo_brief_command = Inr [''founder_brief'']"
  by code_simp

lemma demo_checks: "checks_pass demo_env demo_ready demo_brief_command demo_requirement"
  unfolding checks_pass_def
  using demo_workflow demo_artifacts demo_evaluations demo_approvals
  by (auto simp: demo_approvals_unexpiring demo_approval_def demo_requirement_def requirement_def)

end
