(* ===== verification/KernelSystem.thy ===== *)
theory KernelSystem
  imports Transitions Runs Lifecycle Demo
begin

text \<open>
  The runtime kernel as a transition system: one step is one call of one service operation, whatever
  it returns or raises (each runs under the repository lock). The invariants of every reachable
  kernel: tables and streams well formed, stored projects equal to the replay of their streams,
  streams gap-free and append-only, and every applied transition an edge of the route table.
\<close>

section \<open>Steps\<close>

text \<open>
  A new project needs an identifier no event stream is kept under: the id is drawn from 80 random
  bits, and a stream recorded for a project before it exists would not replay.
\<close>

definition fresh_project_id :: "env \<Rightarrow> kernel \<Rightarrow> bool" where
  "fresh_project_id E k \<longleftrightarrow>
     (case id_at E ''project'' (k_tick k + 1) of None \<Rightarrow> True | Some i \<Rightarrow> stream_ids (k_events k) i = [])"

inductive kernel_step :: "env \<Rightarrow> kernel \<Rightarrow> kernel \<Rightarrow> bool" for E where
  step_create_project: "fresh_project_id E k \<Longrightarrow> create_project E nm fid fnm dmn a corr k = (r, k')
     \<Longrightarrow> kernel_step E k k'"
| step_update_details: "update_details E pid n a corr na rs k = (r, k') \<Longrightarrow> kernel_step E k k'"
| step_transition: "transition E c k = (rt, k') \<Longrightarrow> kernel_step E k k'"
| step_create_workflow_run: "create_workflow_run E pref wref en ex ins n oc k = (rw, k')
     \<Longrightarrow> kernel_step E k k'"
| step_workflow_status: "set_status E workflow_service rid st n a corr fail k = (rw, k')
     \<Longrightarrow> kernel_step E k k'"
| step_create_agent_run: "create_agent_run E pref wref aref ins n oc k = (ra, k')
     \<Longrightarrow> kernel_step E k k'"
| step_agent_status: "set_agent_status E rid st n a corr fail k = (ra, k') \<Longrightarrow> kernel_step E k k'"
| step_retry: "retry E rid k = (ra, k') \<Longrightarrow> kernel_step E k k'"
| step_create_artifact: "create_artifact E ar a corr k = (rf, k') \<Longrightarrow> kernel_step E k k'"
| step_approve_artifact: "approve_artifact E aid apr evls a corr k = (rf, k') \<Longrightarrow> kernel_step E k k'"
| step_create_evaluation: "create_evaluation E el a corr k = (re, k') \<Longrightarrow> kernel_step E k k'"
| step_create_decision: "create_decision E dc a corr k = (rd, k') \<Longrightarrow> kernel_step E k k'"
| step_request_approval: "request_approval E ap a corr k = (rp, k') \<Longrightarrow> kernel_step E k k'"
| step_approve: "approve E aid a why corr k = (rp, k') \<Longrightarrow> kernel_step E k k'"
| step_register_agent: "repo_create (valid_agent E) ag (k_agents k) = Inr (ag', t)
     \<Longrightarrow> kernel_step E k (k\<lparr>k_agents := t\<rparr>)"
| step_register_workflow: "repo_create (valid_workflow E) wo (k_workflows k) = Inr (wo', u)
     \<Longrightarrow> kernel_step E k (k\<lparr>k_workflows := u\<rparr>)"

inductive reachable :: "env \<Rightarrow> kernel \<Rightarrow> bool" for E where
  reach_start: "reachable E empty_kernel"
| reach_step: "reachable E k \<Longrightarrow> kernel_step E k k' \<Longrightarrow> reachable E k'"

section \<open>The invariant of the stored data\<close>

lemma kernel_inv_empty: "kernel_inv empty_kernel"
  using tables_ok_empty by (simp add: kernel_inv_def consistent_def) (simp add: empty_kernel_def)

lemma repo_create_ok: "repo_create ok r t = Inr (v, t') \<Longrightarrow> table_ok t \<Longrightarrow> table_ok t'"
  by (auto simp: repo_create_def intro: table_ok_insert split: sum.splits)

lemma kernel_step_inv:
  assumes "kernel_step E k k'" "kernel_inv k"
  shows "kernel_inv k'"
  using assms
proof cases
  case (step_create_project nm fid fnm dmn a corr r)
  have "tables_ok k' \<and> consistent k'"
    by (rule create_project_consistent[OF step_create_project(2)])
      (use assms(2) step_create_project(1) in \<open>auto simp: kernel_inv_def fresh_project_id_def\<close>)
  then show ?thesis by (simp add: kernel_inv_def)
next
  case step_update_details
  with update_details_consistent assms(2) show ?thesis unfolding kernel_inv_def by blast
next
  case step_transition
  with transition_consistent assms(2) show ?thesis unfolding kernel_inv_def by blast
next
  case (step_register_agent ag ag' t)
  with assms(2) show ?thesis
    by (auto simp: kernel_inv_def tables_ok_def consistent_def intro: repo_create_ok)
next
  case (step_register_workflow wo wo' u)
  with assms(2) show ?thesis
    by (auto simp: kernel_inv_def tables_ok_def consistent_def intro: repo_create_ok)
qed (use assms(2) in \<open>auto intro: keeps_run[OF create_workflow_run_keeps]
      keeps_run[OF set_workflow_status_keeps] keeps_run[OF create_agent_run_keeps]
      keeps_run[OF set_agent_status_keeps] keeps_run[OF retry_keeps] lifecycle_keeps[THEN keeps_run]\<close>)

lemma reachable_inv: "reachable E k \<Longrightarrow> kernel_inv k"
  by (induction rule: reachable.induct) (auto intro: kernel_inv_empty kernel_step_inv)

section \<open>The invariant of the event log\<close>

text \<open>
  An applied-transition event names an edge of the route table, and a creation event starts a
  project in \<open>NO_PROJECT\<close>.
\<close>

definition routed_event :: "event \<Rightarrow> bool" where
  "routed_event e \<longleftrightarrow> (evt_type e = ''transition.applied'' \<longrightarrow>
     (\<exists>a b. payload_get e ''from_state'' = Inr (JStr a) \<and> payload_get e ''to_state'' = Inr (JStr b)
        \<and> map_of routes (a, b) \<noteq> None))
   \<and> (evt_type e = ''project.created'' \<longrightarrow> payload_get e ''current_state'' = Inr (JStr ''NO_PROJECT''))"

inductive log_reach :: "event_store \<Rightarrow> event_store \<Rightarrow> bool" where
  log_none: "log_reach s s"
| log_one: "log_reach s t \<Longrightarrow> append_validated e t = Inr u \<Longrightarrow> routed_event e \<Longrightarrow> log_reach s u"

lemma log_reach_pushes: "log_reach s t \<Longrightarrow> events.pushes s t"
  by (induction rule: log_reach.induct) (auto intro: events.pushes.intros)

definition log_from :: "event_store \<Rightarrow> kernel \<Rightarrow> bool" where
  "log_from s k \<longleftrightarrow> log_reach s (k_events k)"

lemma neutral_routed: "neutral (evt_type e) \<Longrightarrow> routed_event e"
  by (simp add: neutral_def routed_event_def)

lemma log_same: "same_data k k' \<Longrightarrow> log_from s k' = log_from s k"
  by (auto simp: same_data_def log_from_def)

lemma keeps_log_same: "(\<And>k r k'. m k = (r, k') \<Longrightarrow> same_data k k') \<Longrightarrow> keeps (log_from s) m"
  unfolding keeps_def by (metis log_same prod.collapse)

lemma keeps_log_read [intro, simp]:
  "keeps (log_from s) (utc_now E)" "keeps (log_from s) (now_us E)" "keeps (log_from s) (fresh_id E kd)"
  "keeps (log_from s) (get_in tbl i)" "keeps (log_from s) (validate_in ok r)"
  "keeps (log_from s) (build_event E pid t a sub corr pl cz)"
  by (rule keeps_log_same,
      auto simp: utc_now_def now_us_def fresh_id_def get_in_run validate_in_run dest: build_event_same)+

lemma keeps_log_tables [intro]:
  "keeps (log_from s) (modify k_workflow_runs k_workflow_runs_update f1)"
  "keeps (log_from s) (modify k_agent_runs k_agent_runs_update f2)"
  "keeps (log_from s) (modify k_artifacts k_artifacts_update f3)"
  "keeps (log_from s) (modify k_evaluations k_evaluations_update f4)"
  "keeps (log_from s) (modify k_approvals k_approvals_update f5)"
  "keeps (log_from s) (modify k_decisions k_decisions_update f6)"
  by (rule keeps_modify; simp add: log_from_def)+

lemma log_lifecycle_event:
  assumes "neutral etype"
  shows "keeps (log_from s) (lifecycle_event E pid etype a sub corr payload)"
proof (rule keepsI)
  fix k assume k: "log_from s k"
  obtain r k1 where b: "build_event E pid etype a sub corr payload None k = (r, k1)" by force
  with k have k1: "log_from s k1" by (auto intro: keeps_run[OF keeps_log_read(6)])
  show "log_from s (snd (lifecycle_event E pid etype a sub corr payload k))"
  proof (cases r)
    case (Inl x)
    with b k1 show ?thesis by (simp add: lifecycle_event_def bnd_stop)
  next
    case (Inr e)
    with b have "neutral (evt_type e)" using build_event_facts(1) assms by blast
    then have "routed_event e" by (rule neutral_routed)
    with b k1 Inr show ?thesis
      by (auto simp: lifecycle_event_def bnd_step append_to_log_def bnd_def validate_in_run
          validate_def modify_run log_from_def intro: log_one split: sum.splits)
  qed
qed

lemma log_lifecycle:
  "keeps (log_from s) (create_artifact E ar a corr)"
  "keeps (log_from s) (approve_artifact E aid apr evls a corr)"
  "keeps (log_from s) (create_evaluation E ev a corr)"
  "keeps (log_from s) (create_decision E dc a corr)"
  "keeps (log_from s) (request_approval E ap a corr)"
  "keeps (log_from s) (approve E aid a why corr)"
  unfolding create_artifact_def approve_artifact_def create_evaluation_def create_decision_def
    request_approval_def approve_def
  by (intro keeps_bnd keeps_if keeps_log_tables log_lifecycle_event;
      simp add: neutral_def)+

lemma log_runs:
  "keeps (log_from s) (create_workflow_run E pref wref en ex ins n oc)"
  "keeps (log_from s) (create_agent_run E pref wref' aref ins' n' oc')"
  unfolding create_workflow_run_def create_agent_run_def
  by (intro keeps_bnd keeps_log_tables; simp)+

lemma log_retry: "keeps (log_from s) (retry E rid)"
  unfolding retry_def by (intro keeps_bnd log_runs) auto

context run_kind
begin

lemma wrote_log: "wrote k rid v k' \<Longrightarrow> log_from s k \<Longrightarrow> log_from s k'"
  unfolding wrote_def Let_def log_from_def
  by (auto simp: put_others intro: log_one neutral_routed)

lemma set_status_log:
  assumes "set_status E svc rid st expected a corr fail k = (r, k')" "tables_ok k" "log_from s k"
  shows "log_from s k'"
proof (cases r)
  case (Inl x)
  with set_status_Inl[OF assms(1)[unfolded Inl]] assms(3) show ?thesis by (simp add: log_same)
next
  case (Inr v)
  show ?thesis
    by (rule set_status_Inr[OF assms(1)[unfolded Inr] table_is_ok[OF assms(2)]])
      (metis wrote_log assms(3))
qed

end

definition log_inv :: "event_store \<Rightarrow> kernel \<Rightarrow> bool" where
  "log_inv s k \<longleftrightarrow> kernel_inv k \<and> log_from s k"

lemma keeps_both: "keeps P m \<Longrightarrow> keeps Q m \<Longrightarrow> keeps (\<lambda>k. P k \<and> Q k) m"
  by (simp add: keeps_def)

lemma log_set_status:
  "keeps (log_inv s) (set_status E workflow_service rid st n a corr fail)"
  "keeps (log_inv s) (set_status E agent_service rid st n a corr fail)"
  unfolding log_inv_def keeps_def
  by (metis workflows.set_status_log set_workflow_status_keeps keepsD kernel_inv_def prod.collapse)
    (metis agents.set_status_log set_agent_base_keeps keepsD kernel_inv_def prod.collapse)

lemma log_set_agent_status: "keeps (log_inv s) (set_agent_status E rid st n a corr fail)"
  unfolding set_agent_status_def
  by (intro keeps_bnd keeps_if log_set_status) auto

lemma create_project_again:
  "truthy (map_of (k_create_corr k) corr) = Some pid \<Longrightarrow>
     create_project E nm fid fnm dmn a corr k = (repo_get (k_projects k) pid, k)"
  unfolding create_project_def by (simp only: bnd_reads_run option.case get_in_run)

lemma log_create_project:
  assumes "create_project E nm fid fnm dmn a corr k = (r, k')" "log_from s k"
  shows "log_from s k'"
proof (cases r)
  case (Inl x)
  with create_project_Inl[OF assms(1)[unfolded Inl]] assms(2) show ?thesis by (simp add: log_same)
next
  case (Inr p)
  show ?thesis
  proof (cases "truthy (map_of (k_create_corr k) corr)")
    case None
    from create_project_Inr[OF assms(1)[unfolded Inr] None] obtain e ev where
      "append_validated e (k_events k) = Inr ev" "evt_type e = ''project.created''" "k_events k' = ev"
      "evt_payload e = [(''name'', JStr nm), (''current_state'', JStr ''NO_PROJECT''),
                         (''revision'', JInt 1)]"
      by auto
    with assms(2) show ?thesis
      by (auto simp: log_from_def routed_event_def payload_get_def intro: log_one)
  qed (use assms create_project_again in auto)
qed

lemma log_update_details:
  assumes "update_details E pid n a corr na rs k = (r, k')" "tables_ok k" "log_from s k"
  shows "log_from s k'"
proof (cases r)
  case (Inl x)
  with update_details_Inl[OF assms(1)[unfolded Inl]] assms(3) show ?thesis by (simp add: log_same)
next
  case (Inr p)
  from update_details_Inr[OF assms(1)[unfolded Inr] assms(2)] obtain e ev where
    "append_validated e (k_events k) = Inr ev" "evt_type e = ''project.updated''" "k_events k' = ev"
    by auto
  with assms(3) show ?thesis
    by (auto simp: log_from_def routed_event_def intro: log_one)
qed

lemma log_transition:
  assumes "transition E c k = (r, k')" "tables_ok k" "log_from s k"
  shows "log_from s k'"
  using assms(1,2)
proof (cases rule: transition_cases)
  case (applied t p e)
  from applied(4) have rt: "map_of routes (cmd_from c, cmd_to c) \<noteq> None"
    by (auto simp: transition_guards_def)
  from applied(5) obtain ev where "append_validated e (k_events k) = Inr ev" "k_events k' = ev"
    "evt_type e = ''transition.applied''"
    "evt_payload e = [(''from_state'', JStr (cmd_from c)), (''to_state'', JStr (cmd_to c)),
        (''resulting_project_revision'', JInt (prj_revision p + 1))]"
    by (auto simp: applied_step_def)
  with rt assms(3) show ?thesis
    by (auto simp: log_from_def routed_event_def payload_get_def intro: log_one)
next
  case (rejected t p e)
  then obtain ev where "append_validated e (k_events k) = Inr ev" "k_events k' = ev"
    "evt_type e = ''transition.rejected''"
    by (auto simp: rejected_step_def)
  with assms(3) show ?thesis
    by (auto simp: log_from_def routed_event_def intro: log_one)
qed (use assms(3) in \<open>auto simp: log_same\<close>)

lemma kernel_step_log:
  assumes st: "kernel_step E k k'" and inv: "kernel_inv k" and l: "log_from s k"
  shows "log_from s k'"
proof -
  have ok: "tables_ok k" using inv by (simp add: kernel_inv_def)
  have li: "log_inv s k" using inv l by (simp add: log_inv_def)
  from st show ?thesis
  proof cases
    case step_workflow_status
    from keeps_run[OF log_set_status(1) li this] show ?thesis by (simp add: log_inv_def)
  next
    case step_agent_status
    from keeps_run[OF log_set_agent_status li this] show ?thesis by (simp add: log_inv_def)
  next
    case step_transition
    with log_transition ok l show ?thesis by blast
  next
    case step_update_details
    with log_update_details ok l show ?thesis by blast
  next
    case step_create_project
    with log_create_project l show ?thesis by blast
  next
    case step_register_agent
    with l show ?thesis by (simp add: log_from_def)
  next
    case step_register_workflow
    with l show ?thesis by (simp add: log_from_def)
  qed (use l in \<open>auto intro: keeps_run[OF log_runs(1)] keeps_run[OF log_runs(2)]
        keeps_run[OF log_retry] log_lifecycle[THEN keeps_run]\<close>)
qed

lemma steps_log:
  "(kernel_step E)\<^sup>*\<^sup>* k k' \<Longrightarrow> kernel_inv k \<Longrightarrow> kernel_inv k' \<and> log_from (k_events k) k'"
proof (induction rule: rtranclp_induct)
  case base
  then show ?case by (simp add: log_from_def log_none)
next
  case (step y z)
  then show ?case using kernel_step_inv kernel_step_log by blast
qed

lemma reachable_log: "reachable E k \<Longrightarrow> log_from empty_events k"
proof (induction rule: reachable.induct)
  case reach_start
  then show ?case by (simp add: log_from_def empty_kernel_def log_none)
next
  case (reach_step k k')
  then show ?case using kernel_step_log reachable_inv by blast
qed

end
