(* ===== verification/KernelTheorems.thy ===== *)
theory KernelTheorems
  imports KernelSystem
begin

text \<open>
  The properties of the runtime kernel: of its log and its stored projects in every reachable
  state, of the guarded transition, of the run lifecycles and of the services, with their witnesses
  on the kernels of \<open>Demo\<close>.
\<close>

section \<open>A reachable kernel to apply the theorems to\<close>

definition demo_created :: kernel where
  "demo_created = snd (create_project demo_env ''P'' ''f'' ''F'' ''d'' demo_human ''c0'' empty_kernel)"

definition demo_created_id :: string where
  "demo_created_id = the (id_at demo_env ''project'' 1)"

lemma demo_created_reachable: "reachable demo_env demo_created"
  by (rule reach_step[OF reach_start], rule step_create_project[where r = "fst (create_project demo_env
        ''P'' ''f'' ''F'' ''d'' demo_human ''c0'' empty_kernel)"])
    (simp_all add: fresh_project_id_def empty_kernel_def empty_events_def stream_ids_def demo_created_def
      split: option.split)

lemma demo_created_stored:
  "\<exists>p. map_of (k_projects demo_created) demo_created_id = Some p
     \<and> prj_current_state p = ''NO_PROJECT'' \<and> prj_revision p = 1"
  by (simp add: demo_created_def demo_created_id_def create_project_def empty_kernel_def truthy_def
      bnd_utc_now bnd_fresh_id id_at_def new_id_def id_prefixes_def validate_in_def validate_def
      demo_env_def build_event_def bnd_assoc bnd_rollback bnd_modify repo_insert_def new_project_def
      append_validated_def next_sequence_def stream_ids_def empty_events_def event_project_def
      plain_ref_def)

section \<open>Every stored project is the replay of its event stream\<close>

text \<open>
  C1: In every reachable kernel the event stream of a stored project can be read, and replaying it
  gives exactly the project's stored state, revision and last event sequence.
\<close>

theorem replay_matches_store:
  assumes "reachable E k" "map_of (k_projects k) pid = Some p"
  shows "\<exists>es. for_project (k_events k) pid = Inr es
     \<and> replay_project_events es = Inr (summary_of p)"
proof -
  have "tables_ok k" "consistent k" using reachable_inv[OF assms(1)] by (simp_all add: kernel_inv_def)
  then show ?thesis
    using for_project_stream[of "k_events k" pid] assms(2) by (simp add: tables_ok_def consistent_def)
qed

theorem replay_matches_store_witness:
  "\<exists>es p. for_project (k_events demo_created) demo_created_id = Inr es
     \<and> replay_project_events es = Inr (summary_of p) \<and> prj_revision p = 1"
  using demo_created_stored replay_matches_store[OF demo_created_reachable] by blast

section \<open>Event streams are gap-free and append-only\<close>

text \<open>
  C4: In every reachable kernel the stream of every project is readable, its events belong to the
  project and are numbered 1, 2, 3, ... without a gap; and whatever operations run afterwards, the
  later stream is the earlier one followed by the events appended since.
\<close>

theorem streams_gap_free_append_only:
  assumes "reachable E k" "(kernel_step E)\<^sup>*\<^sup>* k k'"
  shows "\<exists>es fs. for_project (k_events k) pid = Inr es \<and> for_project (k_events k') pid = Inr (es @ fs)
     \<and> map evt_sequence (es @ fs) = map int [1..<length (es @ fs) + 1]
     \<and> (\<forall>e\<in>set (es @ fs). event_project e = pid)"
proof -
  have inv: "kernel_inv k" by (rule reachable_inv[OF assms(1)])
  have ev: "events_ok (k_events k)" using inv by (simp add: kernel_inv_def tables_ok_def)
  have k': "kernel_inv k'" "log_from (k_events k) k'" using steps_log[OF assms(2) inv] by auto
  then have ev': "events_ok (k_events k')" by (simp add: kernel_inv_def tables_ok_def)
  have p: "events.pushes empty_events (k_events k)" "events.pushes (k_events k) (k_events k')"
    using reachable_log[OF assms(1)] k'(2) by (auto simp: log_from_def log_reach_pushes)
  have "events.gap_free empty_events"
    by (simp add: events.gap_free_def stream_def stream_ids_def empty_events_def)
  then have g: "events.gap_free (k_events k')"
    using events.pushes_gap_free[OF p(1) events_ok_empty] events.pushes_gap_free[OF p(2) ev] by blast
  obtain fs where fs: "stream (k_events k') pid = stream (k_events k) pid @ fs"
    using events.pushes_extend[OF p(2) ev] by blast
  show ?thesis
    using for_project_stream[OF ev, of pid] for_project_stream[OF ev', of pid] fs g
      stream_project[OF ev', of _ pid]
    unfolding events.gap_free_def by metis
qed

theorem streams_gap_free_append_only_witness:
  "\<exists>es fs. for_project (k_events demo_created) demo_created_id = Inr es
     \<and> for_project (k_events demo_created) demo_created_id = Inr (es @ fs)
     \<and> map evt_sequence (es @ fs) = map int [1..<length (es @ fs) + 1]"
  using streams_gap_free_append_only[OF demo_created_reachable rtranclp.rtrancl_refl,
      of demo_created_id] by blast

section \<open>The history of a project is a walk in the route table\<close>

definition applied_edge :: "event \<Rightarrow> (string \<times> string) option" where
  "applied_edge e =
     (if evt_type e = ''transition.applied'' then
        (case (payload_get e ''from_state'', payload_get e ''to_state'') of
           (Inr (JStr a), Inr (JStr b)) \<Rightarrow> Some (a, b) | _ \<Rightarrow> None)
      else None)"

fun applied_edges :: "event list \<Rightarrow> (string \<times> string) list" where
  "applied_edges [] = []"
| "applied_edges (e # es) =
     (case applied_edge e of None \<Rightarrow> applied_edges es | Some x \<Rightarrow> x # applied_edges es)"

lemma applied_edges_append: "applied_edges (es @ fs) = applied_edges es @ applied_edges fs"
  by (induction es) (auto split: option.split)

fun route_walk :: "string \<Rightarrow> (string \<times> string) list \<Rightarrow> string \<Rightarrow> bool" where
  "route_walk a [] b \<longleftrightarrow> a = b"
| "route_walk a ((x, y) # es) b \<longleftrightarrow> x = a \<and> map_of routes (x, y) \<noteq> None \<and> route_walk y es b"

lemma route_walk_snoc:
  "route_walk a (es @ [(x, y)]) b \<longleftrightarrow> route_walk a es x \<and> map_of routes (x, y) \<noteq> None \<and> y = b"
  by (induction a es x rule: route_walk.induct) auto

text \<open>
  Replay checks that each applied transition leaves from the state reached so far; with every applied
  event an edge of the table, a successful replay is a walk.
\<close>

lemma replay_walk:
  "replay_from n es None = Inr (Some s) \<Longrightarrow> \<forall>e\<in>set es. routed_event e
     \<Longrightarrow> \<forall>e\<in>set es. evt_type e = ''project.created'' \<longrightarrow> payload_get e ''current_state'' = Inr (JStr c)
     \<Longrightarrow> \<exists>b. sm_state s = JStr b \<and> route_walk c (applied_edges es) b"
proof (induction es arbitrary: s rule: rev_induct)
  case (snoc e es)
  from snoc.prems(1) obtain sm where sm: "replay_from n es None = Inr sm"
    "replay_event e sm = Inr (Some s)"
    by (auto simp: replay_from_append split: sum.splits if_splits)
  show ?case
  proof (cases sm)
    case None
    with sm(2) have cr: "evt_type e = ''project.created''" by (auto simp: replay_event_def split: if_splits)
    have "es = []"
    proof (rule ccontr)
      assume "es \<noteq> []"
      then obtain e0 es0 where "es = e0 # es0" by (cases es) auto
      moreover have "replay_from m fs (Some x) \<noteq> Inr None" for m fs x
      proof (induction fs arbitrary: m x)
        case (Cons f fs)
        then show ?case
          by (auto simp: replay_event_def split: sum.splits option.splits if_splits)
      qed simp
      ultimately show False using sm(1) None
        by (auto simp: replay_event_def split: sum.splits option.splits if_splits)
    qed
    with cr sm(2) None snoc.prems(3) show ?thesis
      by (auto simp: replay_event_def applied_edge_def split: sum.splits)
  next
    case (Some s0)
    from snoc.IH[OF sm(1)[unfolded Some]] snoc.prems(2,3) obtain b where
      b: "sm_state s0 = JStr b" "route_walk c (applied_edges es) b" by auto
    show ?thesis
    proof (cases "evt_type e = ''transition.applied''")
      case True
      with snoc.prems(2) obtain x y where xy: "payload_get e ''from_state'' = Inr (JStr x)"
        "payload_get e ''to_state'' = Inr (JStr y)" "map_of routes (x, y) \<noteq> None"
        by (auto simp: routed_event_def)
      with True sm(2) Some b(1) have "x = b" "sm_state s = JStr y"
        by (auto simp: replay_event_def split: if_splits sum.splits)
      with True xy b(2) show ?thesis
        by (simp add: applied_edges_append applied_edge_def route_walk_snoc)
    next
      case False
      with sm(2) Some have "sm_state s = sm_state s0"
        by (auto simp: replay_event_def split: if_splits sum.splits)
      with False b show ?thesis by (simp add: applied_edges_append applied_edge_def)
    qed
  qed
qed simp

text \<open>
  C9: In every reachable kernel, the applied transitions in the stream of a stored project form a
  walk along the route table from \<open>NO_PROJECT\<close> to the project's current state.
\<close>

theorem project_history_is_route_walk:
  assumes "reachable E k" "map_of (k_projects k) pid = Some p"
  shows "\<exists>es. for_project (k_events k) pid = Inr es
     \<and> route_walk ''NO_PROJECT'' (applied_edges es) (prj_current_state p)"
proof -
  let ?es = "stream (k_events k) pid"
  have inv: "kernel_inv k" by (rule reachable_inv[OF assms(1)])
  then have ok: "events_ok (k_events k)" "replay_project_events ?es = Inr (summary_of p)"
    using assms(2) by (simp_all add: kernel_inv_def tables_ok_def consistent_def)
  have "\<forall>e\<in>set (stream (k_events k) q). routed_event e" for q
  proof -
    have "log_reach s t \<Longrightarrow> events_ok s \<Longrightarrow> (\<forall>e\<in>set (stream s q). routed_event e)
        \<Longrightarrow> events_ok t \<and> (\<forall>e\<in>set (stream t q). routed_event e)" for s t
      by (induction rule: log_reach.induct) (auto simp: stream_append events_ok_append split: if_splits)
    moreover have "stream empty_events q = []"
      by (simp add: stream_def stream_ids_def empty_events_def)
    ultimately show ?thesis
      using reachable_log[OF assms(1)] by (simp add: log_from_def)
  qed
  then have r: "\<forall>e\<in>set ?es. routed_event e" by blast
  from ok(2) have "replay_from 1 ?es None = Inr (Some (summary_of p))"
    by (auto simp: replay_project_events_def split: sum.splits option.splits)
  from replay_walk[OF this r, of "''NO_PROJECT''"] r
  have "route_walk ''NO_PROJECT'' (applied_edges ?es) (prj_current_state p)"
    by (auto simp: routed_event_def summary_of_def)
  with for_project_stream[OF ok(1)] show ?thesis by blast
qed

theorem project_history_is_route_walk_witness:
  "\<exists>es (p::project). for_project (k_events demo_created) demo_created_id = Inr es
     \<and> route_walk ''NO_PROJECT'' (applied_edges es) (prj_current_state p)
     \<and> prj_revision p = 1"
proof -
  obtain p where "map_of (k_projects demo_created) demo_created_id = Some p" "prj_revision p = 1"
    using demo_created_stored by blast
  with project_history_is_route_walk[OF demo_created_reachable, of demo_created_id p]
  show ?thesis by blast
qed

section \<open>Transitions\<close>

text \<open>
  C2: A transition that returns an applied record for a new correlation found the project active, at
  the expected revision and in the source state, on a route of the table, with every piece of
  evidence the route requires; all its guard results passed, the project is stored in the target
  state at the next revision, and no other project, run, artifact, approval, evaluation or decision
  changed.
\<close>

theorem applied_transition_sound:
  assumes run: "transition E c k = (Inr t, k')" and ok: "tables_ok k"
    and new: "remembered k c = None" and st: "trn_status t = ''applied''"
  shows "\<exists>p p' rq. map_of (k_projects k) (cmd_project c) = Some p
     \<and> prj_status p = ''active'' \<and> prj_revision p = cmd_expected c \<and> prj_current_state p = cmd_from c
     \<and> map_of routes (cmd_from c, cmd_to c) = Some rq \<and> evidence_ok E k c rq
     \<and> all_passed (trn_guard_results t)
     \<and> map_of (k_projects k') = (map_of (k_projects k))(cmd_project c \<mapsto> p')
     \<and> prj_current_state p' = cmd_to c \<and> prj_revision p' = prj_revision p + 1
     \<and> map_of (k_transitions k') (ent_id t) = Some t
     \<and> k_workflow_runs k' = k_workflow_runs k \<and> k_agent_runs k' = k_agent_runs k
     \<and> k_artifacts k' = k_artifacts k \<and> k_approvals k' = k_approvals k
     \<and> k_evaluations k' = k_evaluations k \<and> k_decisions k' = k_decisions k"
  using run ok
proof (cases rule: transition_cases)
  case (applied t' p e)
  then have t: "t' = t" by simp
  from applied(5) obtain now types where
    k': "k_projects k' = AList.update (cmd_project c)
           (applied_project c p (evt_sequence e) now types) (k_projects k)"
      "k_transitions k' = k_transitions k @ [(ent_id t, t)]"
      "map_of (k_transitions k) (ent_id t) = None" "all_passed (trn_guard_results t)"
    and rest: "k_workflow_runs k' = k_workflow_runs k" "k_agent_runs k' = k_agent_runs k"
     "k_artifacts k' = k_artifacts k" "k_approvals k' = k_approvals k"
     "k_evaluations k' = k_evaluations k" "k_decisions k' = k_decisions k"
    unfolding applied_step_def t by auto
  from applied(4) obtain rq where "map_of routes (cmd_from c, cmd_to c) = Some rq" "evidence_ok E k c rq"
    "prj_status p = ''active''" "prj_revision p = cmd_expected c" "prj_current_state p = cmd_from c"
    unfolding transition_guards_def by blast
  moreover have "map_of (k_transitions k') (ent_id t) = Some t" by (simp add: k'(2,3) map_add_def)
  ultimately show ?thesis
    using applied(3) k'(1,4) rest
    by (intro exI[of _ p] exI[of _ "applied_project c p (evt_sequence e) now types"] exI[of _ rq])
      simp
next
  case (rejected t' p e)
  with st show ?thesis by (simp add: rejected_step_def)
qed (use new in auto)

lemma demo_brief_applied:
  "\<exists>t k'. transition demo_env demo_brief_command demo_ready = (Inr t, k')
     \<and> trn_status t = ''applied''"
proof -
  obtain tid where tid: "id_at demo_env ''transition'' (k_tick demo_ready) = Some tid"
    using demo_transition_id by blast
  have p: "prj_status demo_project = ''active''" "prj_revision demo_project = cmd_expected demo_brief_command"
    "prj_current_state demo_project = cmd_from demo_brief_command"
    "ent_id demo_project = cmd_project demo_brief_command"
    by (simp_all add: demo_project_def new_project_def demo_brief_command_def demo_command_def)
  let ?k = "demo_ready\<lparr>k_tick := k_tick demo_ready + ticks_used demo_requirement\<rparr>"
  from transition_passes[OF demo_remembered demo_stored tid p(1-3) demo_route demo_checks]
  obtain gs where run: "transition demo_env demo_brief_command demo_ready =
      apply_transition demo_env demo_brief_command tid (clock demo_env (k_tick demo_ready + 1) div 1000)
        gs demo_project ?k" by blast
  obtain eid where eid: "id_at demo_env ''event'' (k_tick ?k + 2) = Some eid"
    "map_of (ev_records (k_events ?k)) eid = None"
    using demo_event_id by fastforce
  have f: "map_of (k_projects ?k) (cmd_project demo_brief_command) = Some demo_project"
    "artifact_types_of ?k demo_brief_command = Inr [''founder_brief'']"
    using demo_stored demo_types by (simp_all add: artifact_types_of_def)
  have "map_of (k_transitions ?k) tid = None" by (simp add: demo_ready_def empty_kernel_def)
  from apply_transition_succeeds[OF demo_contracts f(1) p(4,2) this eid f(2)]
  obtain t k' where t: "apply_transition demo_env demo_brief_command tid
      (clock demo_env (k_tick demo_ready + 1) div 1000) gs demo_project ?k = (Inr t, k')" by blast
  then have "trn_status t = ''applied''"
    using apply_transition_Inr[OF t p(4) f(1)] by simp
  with run t show ?thesis by auto
qed

theorem applied_transition_sound_witness:
  "\<exists>t k' p'. transition demo_env demo_brief_command demo_ready = (Inr t, k')
     \<and> map_of (k_projects k') (cmd_project demo_brief_command) = Some p'
     \<and> prj_current_state p' = ''FOUNDER_BRIEF_COMPLETE''"
proof -
  obtain t k' where t: "transition demo_env demo_brief_command demo_ready = (Inr t, k')"
    "trn_status t = ''applied''" using demo_brief_applied by blast
  show ?thesis
    using applied_transition_sound[OF t(1) demo_tables demo_remembered t(2)] t(1)
    by (auto simp: demo_brief_command_def demo_command_def)
qed


definition demo_stale_command :: command where
  "demo_stale_command = demo_brief_command\<lparr>cmd_expected := 7\<rparr>"

lemma demo_stale_rejected:
  "\<exists>t k'. transition demo_env demo_stale_command demo_ready = (Inr t, k')
     \<and> trn_status t = ''rejected'' \<and> trn_rejection t = Some ''STALE_REVISION''"
proof -
  obtain tid where tid: "id_at demo_env ''transition'' (k_tick demo_ready) = Some tid"
    using demo_transition_id by blast
  have p: "remembered demo_ready demo_stale_command = None"
    "map_of (k_projects demo_ready) (cmd_project demo_stale_command) = Some demo_project"
    "prj_status demo_project = ''active''" "prj_revision demo_project \<noteq> cmd_expected demo_stale_command"
    using demo_remembered demo_stored
    by (simp_all add: remembered_def demo_project_def new_project_def demo_stale_command_def)
  let ?k = "demo_ready\<lparr>k_tick := k_tick demo_ready + 4\<rparr>"
  from transition_stale[OF p(1,2) tid p(3,4)] obtain gs where
    run: "transition demo_env demo_stale_command demo_ready =
      reject demo_env demo_stale_command tid (clock demo_env (k_tick demo_ready + 1) div 1000) gs
        ''STALE_REVISION'' ?k" by blast
  obtain eid where eid: "id_at demo_env ''event'' (k_tick ?k + 2) = Some eid"
    "map_of (ev_records (k_events ?k)) eid = None"
    using demo_event_id by fastforce
  have "map_of (k_transitions ?k) tid = None" by (simp add: demo_ready_def empty_kernel_def)
  from reject_succeeds[OF demo_contracts this eid] obtain t k' where
    t: "reject demo_env demo_stale_command tid (clock demo_env (k_tick demo_ready + 1) div 1000) gs
        ''STALE_REVISION'' ?k = (Inr t, k')" by blast
  with run reject_Inr[OF t] show ?thesis by auto
qed


text \<open>
  C22: Idempotence. Once a transition has returned a record, any later command with the same project
  and correlation returns that record and changes nothing.
\<close>

theorem transition_idempotent:
  assumes run: "transition E c k = (Inr t, k')" and ok: "tables_ok k"
    and c': "cmd_project c' = cmd_project c" "cmd_correlation c' = cmd_correlation c"
  shows "transition E' c' k' = (Inr t, k')"
proof -
  have rc: "remembered k' c' = remembered k' c" by (simp add: remembered_def c')
  have "\<exists>tid. remembered k' c = Some tid \<and> repo_get (k_transitions k') tid = Inr t"
    using run ok
  proof (cases rule: transition_cases)
    case (again tid)
    then show ?thesis by auto
  next
    case (applied t' p e)
    then have st: "applied_step k c p t e k'" by simp
    moreover have "ent_id t \<noteq> []" using applied(2,6) by simp
    ultimately show ?thesis
      by (auto simp: applied_step_def remembered_def repo_get_def map_add_def)
  next
    case (rejected t' p e)
    then have st: "rejected_step k c t e k'" by simp
    moreover have "ent_id t \<noteq> []" using rejected(2,5) by simp
    ultimately show ?thesis
      by (auto simp: rejected_step_def remembered_def repo_get_def map_add_def)
  qed simp
  with transition_remembered[of k' c' _ E'] rc show ?thesis by auto
qed

theorem transition_idempotent_witness:
  "\<exists>t k'. transition demo_env demo_brief_command demo_ready = (Inr t, k')
     \<and> transition demo_env demo_stale_command k' = (Inr t, k')"
proof -
  obtain t k' where t: "transition demo_env demo_brief_command demo_ready = (Inr t, k')"
    using demo_brief_applied by blast
  have "cmd_project demo_stale_command = cmd_project demo_brief_command"
    "cmd_correlation demo_stale_command = cmd_correlation demo_brief_command"
    by (simp_all add: demo_stale_command_def)
  from transition_idempotent[OF t demo_tables this, of demo_env] t show ?thesis by blast
qed



section \<open>A gap in the decision guard\<close>

text \<open>
  The decision guard does not require a decision. Naming the approvals of a command again as its
  decisions satisfies it: whenever the approval guard passes, so does the decision guard of the
  command whose decision references are its approval references. (The schema of a reference fixes
  no kind, and the guard looks only at the status.)
\<close>

lemma decision_guard_accepts_approvals:
  assumes "check_approvals E c k = (Inr (True, ev), k')" "cmd_decisions c = cmd_approvals c"
  shows "check_decisions k c = Inr (True, cmd_decisions c)"
proof -
  from assms(1) obtain rs where rs: "resolve_all k (cmd_approvals c) (cmd_project c) = Inr rs"
    and ok: "approvals_loop (clock E (k_tick k)) (rs \<noteq> []) rs = Inr True"
    by (auto simp: check_approvals_def now_us_def bnd_Inr_iff split: sum.splits if_splits)
  then have "rs \<noteq> []" "\<forall>r\<in>set rs. decision_passes r = Inr True"
    by (auto simp: approvals_loop_True decision_passes_def)
  then have "allE decision_passes rs = Inr True" by (simp add: allE_Inr_True)
  with rs assms(2) \<open>rs \<noteq> []\<close> show ?thesis by (simp add: check_decisions_def)
qed

definition demo_no_decision_command :: command where
  "demo_no_decision_command = demo_brief_command\<lparr>cmd_decisions := cmd_approvals demo_brief_command\<rparr>"

lemma decision_guard_accepts_approvals_witness:
  "check_decisions demo_ready demo_no_decision_command
     = Inr (True, [plain_ref ''approval'' ''apr_A'']) \<and> k_decisions demo_ready = []"
proof -
  have "check_approvals demo_env demo_no_decision_command demo_ready
      = (Inr (True, [plain_ref ''approval'' ''apr_A'']), demo_ready\<lparr>k_tick := 1\<rparr>)"
    by (simp add: check_approvals_def now_us_def bnd_def demo_no_decision_command_def
        demo_brief_command_def demo_command_def resolve_all_def resolve_reference_def plain_ref_def
        kind_prefixes_def starts_with_def get_any_def repo_get_def demo_ready_def demo_approval_def
        demo_pref_def truthy_def demo_human_def empty_kernel_def)
  from decision_guard_accepts_approvals[OF this]
  show ?thesis
    by (simp add: demo_no_decision_command_def demo_brief_command_def demo_ready_def empty_kernel_def)
qed

end
