(* ===== verification/ServiceTheorems.thy ===== *)
theory ServiceTheorems
  imports KernelTheorems
begin

text \<open>
  Properties of the services of the runtime kernel: finished workflow runs are final in every
  execution, an exhausted retry policy fails the workflow run, approvals are decided by humans, a
  stale update is refused, a failed operation leaves the data as it was (and where the lifecycle
  services do not), references never cross projects, and identifiers are ordered by time.
\<close>

section \<open>Finished workflow runs are final\<close>

definition finished :: "string \<Rightarrow> bool" where
  "finished st \<longleftrightarrow> st \<in> {''succeeded'', ''failed'', ''cancelled''}"

definition kept :: "workflow_run table \<Rightarrow> kernel \<Rightarrow> bool" where
  "kept T k \<longleftrightarrow> (\<forall>i x. map_of T i = Some x \<longrightarrow> finished (run_status x)
     \<longrightarrow> map_of (k_workflow_runs k) i = Some x)"

lemma finished_allowed:
  "finished st \<Longrightarrow> map_of workflow_allowed st = Some nexts \<Longrightarrow> nexts = []"
  by (auto simp: finished_def workflow_allowed_def)

lemma kept_same_runs: "k_workflow_runs k' = k_workflow_runs k \<Longrightarrow> kept T k' = kept T k"
  by (simp add: kept_def)

lemma keeps_kept_same:
  "(\<And>k r k'. m k = (r, k') \<Longrightarrow> k_workflow_runs k' = k_workflow_runs k) \<Longrightarrow> keeps (kept T) m"
  unfolding keeps_def by (metis kept_same_runs prod.collapse)

lemma same_data_runs: "same_data k k' \<Longrightarrow> k_workflow_runs k' = k_workflow_runs k"
  by (auto simp: same_data_def)

lemma keeps_kept_read [intro, simp]:
  "keeps (kept T) (utc_now E)" "keeps (kept T) (now_us E)" "keeps (kept T) (fresh_id E kd)"
  "keeps (kept T) (get_in tbl i)" "keeps (kept T) (validate_in ok r)"
  "keeps (kept T) (build_event E pid t a sub corr pl cz)"
  by (rule keeps_kept_same, auto simp: utc_now_def now_us_def fresh_id_def get_in_run validate_in_run
        dest: build_event_same same_data_runs)+

lemma keeps_kept_tables [intro]:
  "keeps (kept T) (modify k_agent_runs k_agent_runs_update f2)"
  "keeps (kept T) (modify k_artifacts k_artifacts_update f3)"
  "keeps (kept T) (modify k_evaluations k_evaluations_update f4)"
  "keeps (kept T) (modify k_approvals k_approvals_update f5)"
  "keeps (kept T) (modify k_decisions k_decisions_update f6)"
  "keeps (kept T) (modify k_events k_events_update f7)"
  by (rule keeps_modify; simp add: kept_def)+

lemma keeps_kept_insert:
  "keeps (kept T) (modify k_workflow_runs k_workflow_runs_update (repo_insert r))"
  by (rule keeps_modify) (auto simp: kept_def repo_insert_Inr_iff map_add_def split: option.splits)

lemma kept_lifecycle:
  "keeps (kept T) (create_artifact E ar a corr)"
  "keeps (kept T) (approve_artifact E aid apr evls a corr)"
  "keeps (kept T) (create_evaluation E ev a corr)"
  "keeps (kept T) (create_decision E dc a corr)"
  "keeps (kept T) (request_approval E ap a corr)"
  "keeps (kept T) (approve E aid a why corr)"
  unfolding create_artifact_def approve_artifact_def create_evaluation_def create_decision_def
    request_approval_def approve_def lifecycle_event_def append_to_log_def
  by (intro keeps_bnd keeps_if keeps_kept_tables; simp)+

lemma kept_runs:
  "keeps (kept T) (create_workflow_run E pref wref en ex ins n oc)"
  "keeps (kept T) (create_agent_run E pref wref' aref ins' n' oc')"
  "keeps (kept T) (retry E rid)"
  unfolding create_workflow_run_def create_agent_run_def retry_def
  by (intro keeps_bnd keeps_kept_tables keeps_kept_insert; simp)+

definition kept_inv :: "workflow_run table \<Rightarrow> kernel \<Rightarrow> bool" where
  "kept_inv T k \<longleftrightarrow> kernel_inv k \<and> kept T k"

lemma kept_set_workflow_status:
  "keeps (kept_inv T) (set_status E workflow_service rid st n a corr fail)"
proof (rule keepsI)
  fix k assume k: "kept_inv T k"
  obtain r k' where run: "set_status E workflow_service rid st n a corr fail k = (r, k')" by force
  have ok: "tables_ok k" using k by (simp add: kept_inv_def kernel_inv_def)
  have "map_of (k_workflow_runs k') i = Some x"
    if "map_of T i = Some x" "finished (run_status x)" for i x
  proof -
    have "map_of (k_workflow_runs k) i = Some x" using k that by (simp add: kept_inv_def kept_def)
    with workflows.set_status_moves[OF run ok, of i x] show ?thesis
      using finished_allowed[OF that(2)] by (fastforce simp: workflow_service_def)
  qed
  moreover have "kernel_inv k'"
    using keeps_run[OF set_workflow_status_keeps _ run] k by (simp add: kept_inv_def)
  ultimately show "kept_inv T (snd (set_status E workflow_service rid st n a corr fail k))"
    by (simp add: run kept_inv_def kept_def)
qed

lemma agent_status_frame:
  assumes run: "set_status E agent_service rid st n a corr fail k = (r, k')" and ok: "tables_ok k"
  shows "k_workflow_runs k' = k_workflow_runs k \<and> k_workflows k' = k_workflows k"
proof (cases r)
  case (Inl x)
  from agents.set_status_Inl[OF run[unfolded Inl]] show ?thesis by (auto simp: same_data_def)
next
  case (Inr v)
  have "k_workflow_runs y = k_workflow_runs k \<and> k_workflows y = k_workflows k"
    if "agents.wrote k rid v y" for y
    using that unfolding agents.wrote_def Let_def by (auto simp: agent_service_def)
  with agents.set_status_Inr[OF run[unfolded Inr] agents.table_is_ok[OF ok]] show ?thesis by blast
qed

lemma kept_set_agent_base:
  "keeps (kept_inv T) (set_status E agent_service rid st n a corr fail)"
proof (rule keepsI)
  fix k assume k: "kept_inv T k"
  obtain r k' where run: "set_status E agent_service rid st n a corr fail k = (r, k')" by force
  have ok: "tables_ok k" using k by (simp add: kept_inv_def kernel_inv_def)
  have "k_workflow_runs k' = k_workflow_runs k" using agent_status_frame[OF run ok] by simp
  moreover have "kernel_inv k'"
    using keeps_run[OF set_agent_base_keeps _ run] k by (simp add: kept_inv_def)
  ultimately show "kept_inv T (snd (set_status E agent_service rid st n a corr fail k))"
    using k by (simp add: run kept_inv_def kept_def)
qed

lemma kept_set_agent_status: "keeps (kept_inv T) (set_agent_status E rid st n a corr fail)"
  unfolding set_agent_status_def
  by (intro keeps_bnd keeps_if kept_set_agent_base kept_set_workflow_status) auto

lemma update_details_runs:
  assumes "update_details E pid n a corr na rs k = (r, k')" "tables_ok k"
  shows "k_workflow_runs k' = k_workflow_runs k"
proof (cases r)
  case (Inl x)
  from update_details_Inl[OF assms(1)[unfolded Inl]] show ?thesis by (rule same_data_runs)
next
  case (Inr p)
  from update_details_Inr[OF assms(1)[unfolded Inr] assms(2)] show ?thesis by auto
qed

lemma create_project_runs:
  assumes "create_project E nm fid fnm dmn a corr k = (r, k')"
  shows "k_workflow_runs k' = k_workflow_runs k"
proof (cases r)
  case (Inl x)
  from create_project_Inl[OF assms(1)[unfolded Inl]] show ?thesis by (rule same_data_runs)
next
  case (Inr p)
  show ?thesis
  proof (cases "truthy (map_of (k_create_corr k) corr)")
    case None
    from create_project_Inr[OF assms(1)[unfolded Inr] None] show ?thesis by auto
  qed (use assms create_project_again in auto)
qed

lemma transition_runs:
  assumes "transition E c k = (r, k')" "tables_ok k"
  shows "k_workflow_runs k' = k_workflow_runs k"
  using assms
proof (cases rule: transition_cases)
  case (applied t p e)
  then show ?thesis by (auto simp: applied_step_def)
next
  case (rejected t p e)
  then show ?thesis by (auto simp: rejected_step_def)
qed (auto simp: same_data_runs)

lemma kernel_step_kept:
  assumes st: "kernel_step E k k'" and inv: "kept_inv T k"
  shows "kept_inv T k'"
proof -
  have ki: "kernel_inv k" "kept T k" using inv by (simp_all add: kept_inv_def)
  have ok: "tables_ok k" using ki by (simp add: kernel_inv_def)
  have k': "kernel_inv k'" by (rule kernel_step_inv[OF st ki(1)])
  from st have "kept T k'"
  proof cases
    case step_workflow_status
    from keeps_run[OF kept_set_workflow_status inv this] show ?thesis by (simp add: kept_inv_def)
  next
    case step_agent_status
    from keeps_run[OF kept_set_agent_status inv this] show ?thesis by (simp add: kept_inv_def)
  next
    case step_transition
    from transition_runs[OF this ok] ki(2) show ?thesis by (simp add: kept_def)
  next
    case step_update_details
    from update_details_runs[OF this ok] ki(2) show ?thesis by (simp add: kept_def)
  next
    case step_create_project
    from create_project_runs[OF step_create_project(2)] ki(2) show ?thesis by (simp add: kept_def)
  next
    case step_register_agent
    with ki(2) show ?thesis by (simp add: kept_def)
  next
    case step_register_workflow
    with ki(2) show ?thesis by (simp add: kept_def)
  qed (use ki(2) in \<open>auto intro: kept_runs[THEN keeps_run] kept_lifecycle[THEN keeps_run]\<close>)
  with k' show ?thesis by (simp add: kept_inv_def)
qed

text \<open>
  C18: A workflow run that is succeeded, failed or cancelled in a kernel that satisfies the kernel
  invariant, as every reachable kernel does, is the same record in every kernel any sequence of
  operations leads to.
\<close>

theorem finished_workflow_runs_are_final:
  assumes "kernel_inv k" "(kernel_step E)\<^sup>*\<^sup>* k k'"
    and "map_of (k_workflow_runs k) i = Some x" "finished (run_status x)"
  shows "map_of (k_workflow_runs k') i = Some x"
proof -
  have "kept_inv (k_workflow_runs k) k'"
    using assms(2)
  proof (induction rule: rtranclp_induct)
    case base
    show ?case using assms(1) by (simp add: kept_inv_def kept_def)
  qed (rule kernel_step_kept)
  with assms(3,4) show ?thesis by (simp add: kept_inv_def kept_def)
qed

definition demo_runs :: "string \<Rightarrow> kernel" where
  "demo_runs st = empty_kernel\<lparr>k_workflow_runs := [(''wfr_A'', demo_run st)]\<rparr>"

lemma demo_runs_inv: "kernel_inv (demo_runs st)"
  by (simp add: kernel_inv_def tables_ok_def consistent_def demo_runs_def empty_kernel_def
      table_ok_def demo_run_def)

theorem finished_workflow_runs_are_final_witness:
  "map_of (k_workflow_runs (snd (set_status demo_env workflow_service ''wfr_A'' ''running'' 1
     demo_human ''c'' None (demo_runs ''succeeded'')))) ''wfr_A'' = Some (demo_run ''succeeded'')"
proof -
  have "kernel_step demo_env (demo_runs ''succeeded'') (snd (set_status demo_env workflow_service
     ''wfr_A'' ''running'' 1 demo_human ''c'' None (demo_runs ''succeeded'')))"
    by (rule step_workflow_status) (rule prod.collapse[symmetric])
  then have "(kernel_step demo_env)\<^sup>*\<^sup>* (demo_runs ''succeeded'') (snd (set_status demo_env
     workflow_service ''wfr_A'' ''running'' 1 demo_human ''c'' None (demo_runs ''succeeded'')))"
    by (rule r_into_rtranclp)
  from finished_workflow_runs_are_final[OF demo_runs_inv this]
  show ?thesis by (simp add: demo_runs_def demo_run_def finished_def)
qed

section \<open>A queued run cannot be cancelled\<close>

text \<open>
  The clause of the contract (\<open>workflow-run.schema.json\<close>, \<open>allOf\<close>): every status but \<open>queued\<close>
  requires \<open>started_at\<close>.
\<close>

definition started_clause :: "'a run_record_scheme \<Rightarrow> bool" where
  "started_clause w \<longleftrightarrow> (run_status w \<in> {''running'', ''waiting_for_input'', ''waiting_for_approval'',
     ''succeeded'', ''failed'', ''cancelled''} \<longrightarrow> run_started_at w \<noteq> None)"

text \<open>
  The lifecycle table lets a queued workflow run be cancelled, but the contract makes that
  impossible: with the contract's clause on \<open>started_at\<close>, cancelling a queued run that never started
  always raises a contract violation and changes nothing.
\<close>

lemma queued_run_cannot_be_cancelled:
  assumes "\<And>w. valid_workflow_run E w \<Longrightarrow> started_clause w"
    and "map_of (k_workflow_runs k) rid = Some cur" "run_status cur = ''queued''"
      "run_started_at cur = None"
  shows "\<exists>k'. set_status E workflow_service rid ''cancelled'' n a corr fail k = (Inl ContractViolation, k')
     \<and> same_data k k'"
proof -
  let ?u = "\<lambda>now. cur\<lparr>run_status := ''cancelled'', run_revision := run_revision cur + 1,
    run_updated_at := now, run_completed_at := Some now\<rparr>"
  have u: "with_status cur ''cancelled'' now fail = Some (?u now)" for now
    using assms(4) by (simp add: with_status_def)
  have "\<not> valid_workflow_run E (?u now)" for now
    using assms(1)[of "?u now"] assms(4) by (auto simp: started_clause_def)
  with assms(2,3) u show ?thesis
    by (simp add: set_status_def workflow_service_def bnd_get_in repo_get_def workflow_allowed_def
        bnd_utc_now validate_in_def validate_def)
qed

definition demo_contract_env :: env where
  "demo_contract_env = demo_env\<lparr>valid_workflow_run := started_clause\<rparr>"

lemma queued_run_cannot_be_cancelled_witness:
  "\<exists>k'. set_status demo_contract_env workflow_service ''wfr_A'' ''cancelled'' 1 demo_human ''c'' None
     (empty_kernel\<lparr>k_workflow_runs := [(''wfr_A'', (demo_run ''queued'')\<lparr>run_started_at := None\<rparr>)]\<rparr>)
     = (Inl ContractViolation, k')"
  using queued_run_cannot_be_cancelled[of demo_contract_env
      "empty_kernel\<lparr>k_workflow_runs := [(''wfr_A'', (demo_run ''queued'')\<lparr>run_started_at := None\<rparr>)]\<rparr>"
      "''wfr_A''" "(demo_run ''queued'')\<lparr>run_started_at := None\<rparr>" 1 demo_human "''c''" None]
  by (auto simp: demo_contract_env_def demo_run_def)

section \<open>An exhausted retry policy fails the workflow run\<close>

text \<open>
  C19: When an agent run is set to failed and the call returns, its workflow run and workflow exist,
  and if the attempt has reached the workflow's maximum, the workflow run is finished afterwards:
  it already was, or it is now failed with \<open>AGENT_RETRY_EXHAUSTED\<close> at the next revision.
\<close>

theorem retry_exhaustion_fails_workflow_run:
  assumes run: "set_agent_status E rid ''failed'' n a corr fail k = (Inr u, k')" and inv: "kernel_inv k"
  shows "\<exists>w wl. map_of (k_workflow_runs k) (ref_id (agr_workflow_run_ref u)) = Some w
     \<and> map_of (k_workflows k) (ref_id (wfr_workflow_ref w)) = Some wl
     \<and> (wfl_max_attempts wl \<le> run_attempt u \<longrightarrow>
          (\<exists>w'. map_of (k_workflow_runs k') (ref_id (agr_workflow_run_ref u)) = Some w'
             \<and> (if finished (run_status w) then w' = w
                else run_status w' = ''failed'' \<and> run_failure w' = Some retry_exhausted
                   \<and> run_revision w' = run_revision w + 1)))"
proof -
  let ?wid = "ref_id (agr_workflow_run_ref u)"
  have ok: "tables_ok k" using inv by (simp add: kernel_inv_def)
  let ?tail = "\<lambda>u0 wrun maxa wst. if run_attempt u0 \<ge> maxa \<and> wst \<notin> {''failed'', ''cancelled'', ''succeeded''} then
         bnd (need (case any_revision wrun of None \<Rightarrow> Inl KeyErr | Some n \<Rightarrow> Inr n)) (\<lambda>wrev.
         bnd (set_status E workflow_service (any_id wrun) ''failed'' wrev a
               (corr @ '':workflow'') (Some retry_exhausted)) (\<lambda>_. ret u0))
       else ret u0"
  from run obtain u0 k1 where
    base0: "set_status E agent_service rid ''failed'' n a corr fail k = (Inr u0, k1)" and
    rest0: "bnd (need (resolve_reference k1 (agr_workflow_run_ref u0) (Some (ref_id (run_project_ref u0))))) (\<lambda>wrun.
       bnd (need (any_workflow_ref wrun)) (\<lambda>wref.
       bnd (need (resolve_reference k1 wref None)) (\<lambda>wflow.
       bnd (need (any_max_attempts wflow)) (\<lambda>maxa.
       bnd (need (any_status wrun)) (\<lambda>wst. ?tail u0 wrun maxa wst))))) k1 = (Inr u, k')"
    unfolding set_agent_status_def bnd_Inr_iff[of "set_status _ _ _ _ _ _ _ _"]
    by (auto simp: bnd_need_Inr_iff)
  from rest0 obtain wrun wref wflow maxa wst where
    r: "resolve_reference k1 (agr_workflow_run_ref u0) (Some (ref_id (run_project_ref u0))) = Inr wrun"
      "any_workflow_ref wrun = Inr wref" "resolve_reference k1 wref None = Inr wflow"
      "any_max_attempts wflow = Inr maxa" "any_status wrun = Inr wst" and
    tl: "?tail u0 wrun maxa wst k1 = (Inr u, k')"
    unfolding bnd_need_Inr_iff by blast
  have uu: "u0 = u" using tl by (auto simp: bnd_Inr_iff split: if_splits)
  note base = base0[unfolded uu] and r1 = r(1,2)[unfolded uu] and r2 = r(3,4) and st = r(5)
    and rest = tl[unfolded uu]
  have "kernel_inv k1" using keeps_run[OF set_agent_base_keeps inv base] .
  then have same: "k_workflow_runs k1 = k_workflow_runs k" "k_workflows k1 = k_workflows k" "tables_ok k1"
    using agent_status_frame[OF base ok] by (simp_all add: kernel_inv_def)
  obtain w where w: "wrun = AnyWorkflowRun w" "wref = wfr_workflow_ref w"
    using r1(2) by (cases wrun) auto
  obtain wl where wl: "wflow = AnyWorkflow wl" "maxa = wfl_max_attempts wl"
    using r2(2) by (cases wflow) auto
  have lw: "map_of (k_workflow_runs k) ?wid = Some w"
    using resolve_reference_get[OF r1(1)] w same(1)
    by (auto simp: get_any_def repo_get_def map_sum_def split: if_splits option.splits sum.splits)
  have ll: "map_of (k_workflows k) (ref_id (wfr_workflow_ref w)) = Some wl"
    using resolve_reference_get[OF r2(1)] wl w(2) same(2)
    by (auto simp: get_any_def repo_get_def map_sum_def split: if_splits option.splits sum.splits)
  have id: "ent_id w = ?wid" using ok lw by (auto simp: tables_ok_def dest: table_ok_get)
  have "\<exists>w'. map_of (k_workflow_runs k') ?wid = Some w'
             \<and> (if finished (run_status w) then w' = w
                else run_status w' = ''failed'' \<and> run_failure w' = Some retry_exhausted
                   \<and> run_revision w' = run_revision w + 1)"
    if max: "wfl_max_attempts wl \<le> run_attempt u"
  proof (cases "finished (run_status w)")
    case True
    then have "k' = k1" using rest st w by (auto simp: finished_def)
    with lw same(1) True show ?thesis by simp
  next
    case False
    then have "\<exists>v. set_status E workflow_service ?wid ''failed'' (run_revision w) a
               (corr @ '':workflow'') (Some retry_exhausted) k1 = (Inr v, k')"
      using rest st w wl max id by (auto simp: finished_def bnd_Inr_iff)
    then obtain v where v: "set_status E workflow_service ?wid ''failed'' (run_revision w) a
               (corr @ '':workflow'') (Some retry_exhausted) k1 = (Inr v, k')" ..
    show ?thesis
    proof (rule workflows.set_status_Inr[OF v workflows.table_is_ok[OF same(3)]])
      fix cur nexts now
      assume c: "map_of (svc_table workflow_service k1) ?wid = Some cur"
        "with_status cur ''failed'' now (Some retry_exhausted) = Some v" "workflows.wrote k1 ?wid v k'"
      from c(1) lw same(1) have "cur = w" by (simp add: workflow_service_def)
      moreover from c(3) have "map_of (k_workflow_runs k') ?wid = Some v"
        unfolding workflows.wrote_def Let_def by (auto simp: workflow_service_def)
      ultimately show ?thesis using False with_status_facts[OF c(2)] by simp
    qed
  qed
  with lw ll show ?thesis by blast
qed

definition demo_agent_run :: agent_run where
  "demo_agent_run = \<lparr>ent_id = ''agr_A'', ent_metadata = None, run_revision = 1,
     run_project_ref = demo_pref, run_status = ''running'', run_attempt = 2, run_failure = None,
     run_created_at = 0, run_updated_at = 0, run_started_at = Some 0, run_completed_at = None,
     agr_workflow_run_ref = plain_ref ''workflow_run'' ''wfr_A'',
     agr_agent_ref = plain_ref ''agent'' ''agt_A'', agr_input_refs = [], agr_output_refs = [],
     agr_rest = []\<rparr>"

definition demo_workflow :: workflow where
  "demo_workflow = \<lparr>ent_id = ''wfl_A'', ent_metadata = None, wfl_version = ''1.0.0'',
     wfl_status = ''active'', wfl_max_attempts = 2, wfl_rest = []\<rparr>"

definition demo_agents :: kernel where
  "demo_agents = empty_kernel\<lparr>k_workflow_runs := [(''wfr_A'', demo_run ''running'')],
     k_agent_runs := [(''agr_A'', demo_agent_run)], k_workflows := [(''wfl_A'', demo_workflow)]\<rparr>"

lemma demo_agents_inv: "kernel_inv demo_agents"
  by (simp add: kernel_inv_def tables_ok_def consistent_def demo_agents_def empty_kernel_def
      table_ok_def demo_run_def demo_agent_run_def demo_workflow_def)

lemma demo_event_id_eq: "id_at demo_env ''event'' n = Some (''evt_'' @ encode_ulid (ulid_value (1000 * int n) (int n)))"
  by (simp add: id_at_def new_id_def id_prefixes_def demo_env_def)

lemma demo_ids_differ: "encode_ulid (ulid_value 2000 2) \<noteq> encode_ulid (ulid_value 5000 5)"
  by (simp add: encode_ulid_eq_iff ulid_value_add)

lemma demo_agent_fails:
  "\<exists>u k'. set_agent_status demo_env ''agr_A'' ''failed'' 1 demo_human ''c'' (Some retry_exhausted)
     demo_agents = (Inr u, k') \<and> agr_workflow_run_ref u = plain_ref ''workflow_run'' ''wfr_A''
     \<and> run_attempt u = 2"
  by (simp add: set_agent_status_def set_status_def agent_service_def workflow_service_def bnd_assoc
      bnd_get_in repo_get_def demo_agents_def demo_agent_run_def agent_allowed_def with_status_def
      bnd_utc_now validate_in_def validate_def agent_events_def demo_env_def build_event_def
      bnd_fresh_id id_at_def new_id_def id_prefixes_def empty_kernel_def empty_events_def
      bnd_rollback bnd_modify repo_replace_validated_def run_rev_def append_validated_def
      next_sequence_def stream_ids_def event_project_def plain_ref_def repo_insert_def
      resolve_reference_def kind_prefixes_def starts_with_def get_any_def truthy_def demo_run_def
      demo_pref_def demo_workflow_def workflow_allowed_def workflow_events_def demo_ids_differ demo_ids_differ[symmetric]
      modify_run)

theorem retry_exhaustion_fails_workflow_run_witness:
  "\<exists>u k' w'. set_agent_status demo_env ''agr_A'' ''failed'' 1 demo_human ''c'' (Some retry_exhausted)
     demo_agents = (Inr u, k')
     \<and> map_of (k_workflow_runs k') ''wfr_A'' = Some w' \<and> run_status w' = ''failed''"
proof -
  obtain u k' where u: "set_agent_status demo_env ''agr_A'' ''failed'' 1 demo_human ''c''
      (Some retry_exhausted) demo_agents = (Inr u, k')"
    "agr_workflow_run_ref u = plain_ref ''workflow_run'' ''wfr_A''" "run_attempt u = 2"
    using demo_agent_fails by blast
  from retry_exhaustion_fails_workflow_run[OF u(1) demo_agents_inv] u show ?thesis
    by (fastforce simp: demo_agents_def plain_ref_def demo_run_def demo_workflow_def finished_def)
qed

section \<open>Failed operations change nothing\<close>


text \<open>An environment in which the second creation draws the event id of the first.\<close>

definition demo_clash_env :: env where
  "demo_clash_env = demo_env\<lparr>clock := (\<lambda>_. 0), random80 := (\<lambda>n. if n = 7 then 3 else int n)\<rparr>"

definition demo_clash :: kernel where
  "demo_clash = snd (create_project demo_clash_env ''P'' ''f'' ''F'' ''d'' demo_human ''c0'' empty_kernel)"

lemma demo_project_ids_differ: "encode_ulid (ulid_value 0 1) \<noteq> encode_ulid (ulid_value 0 5)"
  by (simp add: encode_ulid_eq_iff ulid_value_add)

lemma demo_clash_fails:
  "\<exists>k'. create_project demo_clash_env ''P'' ''f'' ''F'' ''d'' demo_human ''c1'' demo_clash
     = (Inl DuplicateRecord, k')"
  by (simp add: demo_clash_def create_project_def empty_kernel_def truthy_def
      bnd_utc_now bnd_fresh_id id_at_def new_id_def id_prefixes_def validate_in_def validate_def
      demo_env_def demo_clash_env_def build_event_def bnd_assoc bnd_rollback bnd_modify repo_insert_def
      new_project_def append_validated_def next_sequence_def stream_ids_def empty_events_def
      event_project_def plain_ref_def demo_project_ids_differ demo_project_ids_differ[symmetric])

lemma demo_clash_tables: "tables_ok demo_clash"
proof -
  obtain r where "create_project demo_clash_env ''P'' ''f'' ''F'' ''d'' demo_human ''c0'' empty_kernel
      = (r, demo_clash)" by (metis demo_clash_def prod.collapse)
  then show ?thesis
    using create_project_consistent[of demo_clash_env _ _ _ _ _ _ empty_kernel r demo_clash]
      kernel_inv_empty
    by (simp add: kernel_inv_def empty_kernel_def empty_events_def stream_ids_def)
qed


section \<open>Optimistic concurrency\<close>


lemma demo_update:
  "\<exists>p k'. update_details demo_env ''prj_A'' 2 demo_human ''u'' (Some ''next'') None demo_ready = (Inr p, k')"
  by (simp add: update_details_def Let_def bnd_get_in repo_get_def demo_ready_def demo_project_def
      new_project_def updated_project_def bnd_utc_now build_event_def bnd_assoc bnd_fresh_id id_at_def
      new_id_def id_prefixes_def empty_kernel_def empty_events_def demo_env_def validate_in_def
      validate_def bnd_rollback bnd_modify repo_replace_validated_def project_rev_def
      append_validated_def next_sequence_def stream_ids_def event_project_def plain_ref_def
      repo_insert_def modify_run)


section \<open>Approvals\<close>

text \<open>
  When \<open>approve\<close> returns, the stored approval is approved; unless it already was, it was pending,
  and it is now decided by the human of the call with the rationale given, at the next revision.
\<close>

theorem approve_decides_pending_by_human:
  assumes run: "approve E aid a why corr k = (Inr u, k')" and ok: "tables_ok k"
  shows "map_of (k_approvals k') aid = Some u \<and> apr_status u = ''approved''
     \<and> (map_of (k_approvals k) aid = Some u \<and> k' = k
        \<or> (\<exists>x. map_of (k_approvals k) aid = Some x \<and> apr_status x = ''pending''
             \<and> apr_revision u = apr_revision x + 1 \<and> apr_decided_by u = Some a
             \<and> apr_rationale u = Some why \<and> actor_type a = ''human''))"
  using run ok
proof (cases rule: approve_Inr)
  case already
  then show ?thesis by auto
next
  case (decided x now)
  then show ?thesis by (simp add: decided_approval_def)
qed

definition demo_pending :: kernel where
  "demo_pending = demo_ready\<lparr>k_approvals := [(''apr_A'', demo_approval\<lparr>apr_status := ''pending''\<rparr>)]\<rparr>"

lemma demo_approve:
  "\<exists>u k'. approve demo_env ''apr_A'' demo_human ''fine'' ''c'' demo_pending = (Inr u, k')
     \<and> apr_rationale u = Some ''fine''"
  by (simp add: approve_def demo_human_def bnd_get_in repo_get_def demo_pending_def demo_ready_def
      demo_approval_def bnd_utc_now validate_in_def validate_def demo_env_def bnd_modify
      repo_replace_validated_def decided_approval_def approval_rev_def lifecycle_event_def
      build_event_def bnd_assoc bnd_fresh_id id_at_def new_id_def id_prefixes_def empty_kernel_def
      empty_events_def append_to_log_def append_validated_def next_sequence_def stream_ids_def
      event_project_def plain_ref_def repo_insert_def modify_run)

theorem approve_decides_pending_by_human_witness:
  "\<exists>u k'. approve demo_env ''apr_A'' demo_human ''fine'' ''c'' demo_pending = (Inr u, k')
     \<and> map_of (k_approvals k') ''apr_A'' = Some u \<and> apr_decided_by u = Some demo_human"
proof -
  obtain u k' where u: "approve demo_env ''apr_A'' demo_human ''fine'' ''c'' demo_pending = (Inr u, k')"
    using demo_approve by blast
  have "tables_ok demo_pending"
    using demo_tables by (simp add: demo_pending_def tables_ok_def table_ok_def demo_approval_def)
  from approve_decides_pending_by_human[OF u this] u show ?thesis
    by (auto simp: demo_pending_def demo_approval_def)
qed

section \<open>A refused event leaves the artifact behind\<close>

text \<open>
  The lifecycle services are not atomic. When the event of a new artifact is refused by its
  contract, \<open>create_artifact\<close> raises, and the artifact is stored all the same, with no event in the
  log.
\<close>

lemma refused_event_orphans_artifact:
  assumes "valid_artifact E (with_correlation corr r)" "map_of (k_artifacts k) (ent_id r) = None"
    and "\<And>e. evt_correlation e = corr \<Longrightarrow> \<not> valid_event E e"
  shows "\<exists>k'. create_artifact E r a corr k = (Inl ContractViolation, k')
     \<and> map_of (k_artifacts k') (ent_id r) = Some (with_correlation corr r)
     \<and> k_events k' = k_events k"
  using create_artifact_orphan[OF assms(1,2)] assms(3) by blast

text \<open>The event contract bounds the correlation id by 200 characters; here, by 3.\<close>

definition demo_strict_env :: env where
  "demo_strict_env = demo_env\<lparr>valid_event := (\<lambda>e. length (evt_correlation e) \<le> 3)\<rparr>"

lemma refused_event_orphans_artifact_witness:
  "\<exists>k'. create_artifact demo_strict_env demo_brief demo_human ''long'' empty_kernel
     = (Inl ContractViolation, k') \<and> map_of (k_artifacts k') ''art_A'' \<noteq> None"
  using refused_event_orphans_artifact[of demo_strict_env "''long''" demo_brief empty_kernel demo_human]
  by (auto simp: demo_strict_env_def demo_env_def empty_kernel_def demo_brief_def)

section \<open>References\<close>

text \<open>
  A reference resolved on behalf of a project yields the record of that kind and identity, at
  the pinned version and revision, and never a record another project owns.
\<close>

theorem resolved_reference_is_exact:
  assumes "resolve_reference k ref (Some pid) = Inr r" "tables_ok k" "pid \<noteq> []"
  shows "any_kind r = ref_kind ref \<and> any_id r = ref_id ref
     \<and> (\<forall>v. ref_version ref = Some v \<longrightarrow> any_version r = Some v)
     \<and> (\<forall>n. ref_revision ref = Some n \<longrightarrow> any_revision r = Some n)
     \<and> (\<forall>ow. any_project_ref r = Some ow \<longrightarrow> ref_id ow \<in> {pid, []})"
  using resolve_reference_kind[OF assms(1)] any_id_get[OF assms(2) resolve_reference_get[OF assms(1)]]
    resolve_reference_Inr[OF assms(1)] assms(3)
  by auto

theorem resolved_reference_is_exact_witness:
  "any_id (AnyArtifact demo_brief) = ''art_A''"
  using resolved_reference_is_exact[of demo_ready "plain_ref ''artifact'' ''art_A''" "''prj_A''"
      "AnyArtifact demo_brief"] demo_tables
  by (simp add: plain_ref_def resolve_reference_def kind_prefixes_def starts_with_def get_any_def
      demo_ready_def repo_get_def truthy_def demo_brief_def demo_pref_def)

section \<open>Persisting and importing\<close>

lemma append_all_snoc:
  "append_all ok (es @ [e]) s = (case append_all ok es s of (Some x, t) \<Rightarrow> (Some x, t)
     | (None, t) \<Rightarrow> (case append_event ok e t of Inl x \<Rightarrow> (Some x, t) | Inr (v, u) \<Rightarrow> (None, u)))"
  by (induction es arbitrary: s) (auto split: sum.splits option.splits prod.splits)

lemma log_reach_import:
  "log_reach s t \<Longrightarrow> s = empty_events \<Longrightarrow>
     append_all (\<lambda>_. True) (repo_all (ev_records t)) empty_events = (None, t)"
proof (induction rule: log_reach.induct)
  case (log_none s)
  then show ?case by (simp add: repo_all_def empty_events_def)
next
  case (log_one s t e u)
  then have "append_event (\<lambda>_. True) e t = Inr (e, u)" by (simp add: append_event_def validate_def)
  moreover have "repo_all (ev_records u) = repo_all (ev_records t) @ [e]"
    using log_one.hyps(2) by (auto simp: append_validated_Inr_iff repo_all_def)
  ultimately show ?case using log_one by (simp add: append_all_snoc)
qed



section \<open>Identifiers\<close>

text \<open>
  Identifiers are canonical and ordered by time: an identifier has 30 characters; two identifiers
  of one kind compare as strings the way their (timestamp, random) pairs compare, so one created in
  a later millisecond sorts later; and identifiers are equal only for the same timestamp and random
  bits (48-bit timestamps, 80 random bits).
\<close>

theorem identifiers_ordered_by_time:
  assumes "new_id kd ts r = Some i" "new_id kd ts' r' = Some j"
    and "0 \<le> ts" "ts < 2 ^ 48" "0 \<le> ts'" "ts' < 2 ^ 48" "0 \<le> r" "r < 2 ^ 80" "0 \<le> r'" "r' < 2 ^ 80"
  shows "length i = 30 \<and> (i = j \<longleftrightarrow> ts = ts' \<and> r = r')
     \<and> (ts < ts' \<or> ts = ts' \<and> r < r' \<longrightarrow> i < j)"
proof -
  obtain p where p: "map_of id_prefixes kd = Some p"
    "i = p @ ''_'' @ encode_ulid (ulid_value ts r)" "j = p @ ''_'' @ encode_ulid (ulid_value ts' r')"
    using assms(1,2) by (auto simp: new_id_def split: option.splits)
  have "(kd, p) \<in> set id_prefixes" using p(1) by (rule map_of_SomeD)
  then have len: "length p = 3" by (auto simp: id_prefixes_def)
  let ?v = "ts * 2 ^ 80 + r" and ?w = "ts' * 2 ^ 80 + r'"
  have v: "ulid_value ts r = ?v" "ulid_value ts' r' = ?w"
    using assms(7-10) by (simp_all add: ulid_value_add)
  have b: "0 \<le> ?v" "?v < 2 ^ 130" "0 \<le> ?w" "?w < 2 ^ 130" using assms by simp_all
  have less: "ts < ts' \<or> ts = ts' \<and> r < r' \<Longrightarrow> ?v < ?w"
    using assms(7-10) by auto
  have more: "ts' < ts \<or> ts' = ts \<and> r' < r \<Longrightarrow> ?w < ?v"
    using assms(7-10) by auto
  have eq: "?v = ?w \<longleftrightarrow> ts = ts' \<and> r = r'"
    using less more by (cases ts ts' rule: linorder_cases; cases r r' rule: linorder_cases) auto
  have "i = j \<longleftrightarrow> ?v = ?w" using p v encode_ulid_eq_iff[OF b(1,2,3,4)] by simp
  moreover have "i < j" if "?v < ?w"
    using encode_ulid_less[OF b(1) that b(4)] p v
    by (simp add: list_less_def lexord_append_leftI)
  moreover have "length i = 30" using p(2) len by (simp add: encode_ulid_base32)
  ultimately show ?thesis using eq less by blast
qed

theorem identifiers_ordered_by_time_witness:
  "the (new_id ''event'' 1700000000000 5) < the (new_id ''event'' 1700000000001 0)"
proof -
  obtain i j where "new_id ''event'' 1700000000000 5 = Some i" "new_id ''event'' 1700000000001 0 = Some j"
    by (auto simp: new_id_def id_prefixes_def)
  with identifiers_ordered_by_time[OF this] show ?thesis by simp
qed

end
