(* ===== verification/Results.thy ===== *)
theory Results
  imports Prelude "HOL-Library.Multiset"
begin

text \<open>
  What the read-only components share: fallible computations without state (a Python function
  that may raise, as \<open>error + 'a\<close>), the loops over them, stable sorting by a key, Python's
  \<open>str.split\<close>, \<open>str.join\<close> and \<open>repr\<close> of a string, and dictionaries built by a loop. The
  collection \<open>result_simps\<close> unfolds the combinators at a known result.
\<close>

named_theorems result_simps "evaluation of fallible computations"

section \<open>Fallible computations\<close>

definition andthen :: "'e + 'a \<Rightarrow> ('a \<Rightarrow> 'e + 'b) \<Rightarrow> 'e + 'b" where
  "andthen r f = (case r of Inl e \<Rightarrow> Inl e | Inr x \<Rightarrow> f x)"

definition demand :: "bool \<Rightarrow> 'e \<Rightarrow> 'e + unit" where
  "demand c e = (if c then Inr () else Inl e)"

text \<open>A call whose exceptions are wrapped: \<open>except E as error: raise F from error\<close>.\<close>

definition wrapped :: "('e \<Rightarrow> 'f) \<Rightarrow> 'e + 'a \<Rightarrow> 'f + 'a" where
  "wrapped f r = (case r of Inl e \<Rightarrow> Inl (f e) | Inr x \<Rightarrow> Inr x)"

lemma andthen_simps [simp, result_simps]:
  "andthen (Inl e) f = Inl e" "andthen (Inr x) f = f x"
  by (simp_all add: andthen_def)

lemma andthen_Inr_iff: "andthen r f = Inr y \<longleftrightarrow> (\<exists>x. r = Inr x \<and> f x = Inr y)"
  by (cases r) auto

lemma andthen_Inl_iff: "andthen r f = Inl e \<longleftrightarrow> r = Inl e \<or> (\<exists>x. r = Inr x \<and> f x = Inl e)"
  by (cases r) auto

lemma demand_Inr_iff [simp, result_simps]: "demand c e = Inr u \<longleftrightarrow> c"
  by (simp add: demand_def)

lemma demand_Inl_iff [simp, result_simps]: "demand c e = Inl e' \<longleftrightarrow> \<not> c \<and> e' = e"
  by (auto simp: demand_def)

lemma andthen_demand [result_simps]:
  "andthen (demand c e) f = (if c then f () else Inl e)"
  by (simp add: demand_def)

lemma wrapped_simps [simp, result_simps]:
  "wrapped f (Inl e) = Inl (f e)" "wrapped f (Inr x) = Inr x"
  by (simp_all add: wrapped_def)

lemma wrapped_Inr_iff [simp]: "wrapped f r = Inr x \<longleftrightarrow> r = Inr x"
  by (cases r) auto

lemma wrapped_Inl_iff: "wrapped f r = Inl e \<longleftrightarrow> (\<exists>e'. r = Inl e' \<and> e = f e')"
  by (cases r) auto

text \<open>\<open>for x in xs: check(x)\<close>, a loop that only raises.\<close>

fun eachE :: "('a \<Rightarrow> 'e + unit) \<Rightarrow> 'a list \<Rightarrow> 'e + unit" where
  "eachE f [] = Inr ()"
| "eachE f (x # xs) = (case f x of Inl e \<Rightarrow> Inl e | Inr _ \<Rightarrow> eachE f xs)"

lemma eachE_Inr_iff: "eachE f xs = Inr u \<longleftrightarrow> (\<forall>x\<in>set xs. f x = Inr ())"
  by (induction xs) (auto split: sum.splits)

lemma eachE_Inl: "eachE f xs = Inl e \<Longrightarrow> \<exists>x\<in>set xs. f x = Inl e"
  by (induction xs) (auto split: sum.splits)

text \<open>\<open>for x in xs: acc = step(acc, x)\<close>, a loop with an accumulator that may raise.\<close>

fun foldE :: "('s \<Rightarrow> 'a \<Rightarrow> 'e + 's) \<Rightarrow> 's \<Rightarrow> 'a list \<Rightarrow> 'e + 's" where
  "foldE f s [] = Inr s"
| "foldE f s (x # xs) = (case f s x of Inl e \<Rightarrow> Inl e | Inr t \<Rightarrow> foldE f t xs)"

lemma foldE_append:
  "foldE f s (xs @ ys) = (case foldE f s xs of Inl e \<Rightarrow> Inl e | Inr t \<Rightarrow> foldE f t ys)"
  by (induction xs arbitrary: s) (auto split: sum.splits)

lemma foldE_invariant:
  assumes "foldE f s xs = Inr t" "P s" "\<And>s x t. x \<in> set xs \<Longrightarrow> P s \<Longrightarrow> f s x = Inr t \<Longrightarrow> P t"
  shows "P t"
  using assms
proof (induction xs arbitrary: s)
  case (Cons x xs)
  from Cons.prems(1) obtain u where u: "f s x = Inr u" "foldE f u xs = Inr t"
    by (auto split: sum.splits)
  have "P u" using Cons.prems(3)[of x s u] Cons.prems(2) u(1) by simp
  with u(2) show ?case
  proof (rule Cons.IH)
    show "P v'" if "y \<in> set xs" "P v" "f v y = Inr v'" for v y v'
      using Cons.prems(3)[of y v v'] that by simp
  qed
qed simp

section \<open>Sorting by a key\<close>

text \<open>\<open>sorted(xs, key=f)\<close> is \<open>sort_key f xs\<close>: both are stable.\<close>

lemma mset_sort_key_eq [simp]: "mset (sort_key f xs) = mset xs"
  by simp

lemma distinct_map_sort_key [simp]: "distinct (map g (sort_key f xs)) \<longleftrightarrow> distinct (map g xs)"
  by (metis mset_map mset_sort mset_eq_imp_distinct_iff)

section \<open>Strings\<close>

text \<open>\<open>s.split(c)\<close> for one character: always at least one part.\<close>

fun split_on :: "char \<Rightarrow> string \<Rightarrow> string list" where
  "split_on c [] = [[]]"
| "split_on c (x # xs) =
     (if x = c then [] # split_on c xs
      else (case split_on c xs of [] \<Rightarrow> [[x]] | p # ps \<Rightarrow> (x # p) # ps))"

text \<open>\<open>sep.join(parts)\<close>.\<close>

fun join_with :: "string \<Rightarrow> string list \<Rightarrow> string" where
  "join_with sep [] = []"
| "join_with sep [p] = p"
| "join_with sep (p # q # ps) = p @ sep @ join_with sep (q # ps)"

lemma split_on_not_Nil [simp]: "split_on c s \<noteq> []"
  by (induction s) (auto split: list.splits)

lemma join_with_Cons_char: "join_with sep ((x # p) # ps) = x # join_with sep (p # ps)"
  by (cases ps) auto

lemma join_split [simp]: "join_with [c] (split_on c s) = s"
proof (induction s)
  case (Cons x xs)
  then show ?case by (cases "split_on c xs") (auto simp: join_with_Cons_char split: list.splits)
qed simp

lemma split_on_no_sep [simp]: "c \<notin> set s \<Longrightarrow> split_on c s = [s]"
  by (induction s) auto

lemma split_on_append [simp]: "c \<notin> set s \<Longrightarrow> split_on c (s @ c # t) = s # split_on c t"
  by (induction s) auto

lemma split_on_parts: "p \<in> set (split_on c s) \<Longrightarrow> c \<notin> set p"
proof (induction s arbitrary: p)
  case (Cons x xs)
  then show ?case by (cases "split_on c xs") (auto split: if_splits)
qed simp

lemma starts_with_split: "starts_with s p \<Longrightarrow> s = p @ drop (length p) s"
  by (metis append_take_drop_id starts_with_def)

text \<open>\<open>t in s\<close>\<close>

definition occurs_in :: "string \<Rightarrow> string \<Rightarrow> bool" where
  "occurs_in t s = list_ex (\<lambda>k. take (length t) (drop k s) = t) [0..<Suc (length s)]"

text \<open>\<open>s.rstrip(c)\<close> for one character.\<close>

definition rstrip_char :: "char \<Rightarrow> string \<Rightarrow> string" where
  "rstrip_char c s = List.rev (dropWhile (\<lambda>x. x = c) (List.rev s))"

definition is_digit :: "char \<Rightarrow> bool" where
  "is_digit c \<longleftrightarrow> 48 \<le> (of_char c :: nat) \<and> (of_char c :: nat) \<le> 57"

definition lower_char :: "char \<Rightarrow> char" where
  "lower_char c =
     (if 65 \<le> (of_char c :: nat) \<and> (of_char c :: nat) \<le> 90 then char_of ((of_char c :: nat) + 32) else c)"

definition lower :: "string \<Rightarrow> string" where
  "lower s = map lower_char s"

text \<open>\<open>str(n)\<close> of a natural number.\<close>

function digits_of :: "nat \<Rightarrow> string" where
  "digits_of n = (if n < 10 then [char_of (48 + n)] else digits_of (n div 10) @ [char_of (48 + n mod 10)])"
  by pat_completeness auto
termination by (relation "measure id") auto

declare digits_of.simps [simp del]

text \<open>\<open>s.isspace()\<close> of one character below 256, and \<open>s.strip()\<close>.\<close>

definition is_space :: "char \<Rightarrow> bool" where
  "is_space c \<longleftrightarrow> (let n = (of_char c :: nat) in 9 \<le> n \<and> n \<le> 13 \<or> 28 \<le> n \<and> n \<le> 32 \<or> n = 133 \<or> n = 160)"

definition strip :: "string \<Rightarrow> string" where
  "strip s = List.rev (dropWhile is_space (List.rev (dropWhile is_space s)))"

text \<open>\<open>s.split()\<close>: the maximal runs without white space.\<close>

fun split_when :: "(char \<Rightarrow> bool) \<Rightarrow> string \<Rightarrow> string list" where
  "split_when p [] = [[]]"
| "split_when p (x # xs) =
     (if p x then [] # split_when p xs
      else (case split_when p xs of [] \<Rightarrow> [[x]] | q # qs \<Rightarrow> (x # q) # qs))"

definition words_of :: "string \<Rightarrow> string list" where
  "words_of s = filter (\<lambda>w. w \<noteq> []) (split_when is_space s)"

text \<open>\<open>s.strip(c)\<close> for one character.\<close>

definition strip_char :: "char \<Rightarrow> string \<Rightarrow> string" where
  "strip_char c s = List.rev (dropWhile (\<lambda>x. x = c) (List.rev (dropWhile (\<lambda>x. x = c) s)))"

text \<open>
  \<open>repr(s)\<close> of an ASCII string: single quotes unless the string has a single quote and no double
  quote, backslash escapes, and \<open>\xHH\<close> for the other control characters.
\<close>

definition hex_digit :: "nat \<Rightarrow> char" where
  "hex_digit n = char_of (if n < 10 then 48 + n else 87 + n)"

definition repr_char :: "char \<Rightarrow> char \<Rightarrow> string" where
  "repr_char quote c =
     (if c = quote \<or> c = CHR 0x5C then [CHR 0x5C, c]
      else if c = CHR 0x09 then [CHR 0x5C, CHR ''t'']
      else if c = CHR 0x0A then [CHR 0x5C, CHR ''n'']
      else if c = CHR 0x0D then [CHR 0x5C, CHR ''r'']
      else if (of_char c :: nat) < 32 \<or> (of_char c :: nat) = 127
        then [CHR 0x5C, CHR ''x'', hex_digit (of_char c div 16), hex_digit (of_char c mod 16)]
      else [c])"

definition py_repr :: "string \<Rightarrow> string" where
  "py_repr s =
     (let quote = (if CHR 0x27 \<in> set s \<and> CHR 0x22 \<notin> set s then CHR 0x22 else CHR 0x27)
      in [quote] @ concat (map (repr_char quote) s) @ [quote])"

section \<open>Dictionaries\<close>

text \<open>\<open>{key(x): value(x) for x in xs}\<close>: a later item overwrites an earlier one.\<close>

definition dict_of :: "('a \<Rightarrow> 'k) \<Rightarrow> ('a \<Rightarrow> 'v) \<Rightarrow> 'a list \<Rightarrow> ('k \<times> 'v) list" where
  "dict_of key val xs = fold (\<lambda>x d. AList.update (key x) (val x) d) xs []"

lemma dict_of_snoc:
  "dict_of key val (xs @ [x]) = AList.update (key x) (val x) (dict_of key val xs)"
  by (simp add: dict_of_def)

lemma dict_of_keys: "fst ` set (dict_of key val xs) = key ` set xs"
proof (induction xs rule: rev_induct)
  case Nil
  show ?case by (simp add: dict_of_def)
next
  case (snoc x xs)
  then show ?case by (simp add: dict_of_snoc keys_update)
qed

lemma distinct_dict_of [simp]: "distinct (map fst (dict_of key val xs))"
proof (induction xs rule: rev_induct)
  case Nil
  show ?case by (simp add: dict_of_def)
next
  case (snoc x xs)
  then show ?case by (simp add: dict_of_snoc distinct_keys_update)
qed

lemma map_of_dict_of:
  "map_of (dict_of key val xs) k = map_option val (find (\<lambda>x. key x = k) (List.rev xs))"
proof (induction xs rule: rev_induct)
  case Nil
  show ?case by (simp add: dict_of_def)
next
  case (snoc x xs)
  then show ?case by (simp add: dict_of_snoc)
qed

lemma find_in: "find P xs = Some x \<Longrightarrow> x \<in> set xs \<and> P x"
  by (induction xs) (auto split: if_splits)

lemma dict_of_SomeD: "map_of (dict_of key val xs) k = Some v \<Longrightarrow> \<exists>x\<in>set xs. key x = k \<and> val x = v"
  using find_in[of "\<lambda>x. key x = k" "List.rev xs"] by (auto simp: map_of_dict_of)

lemma dict_of_distinct:
  "distinct (map key xs) \<Longrightarrow> dict_of key val xs = map (\<lambda>x. (key x, val x)) xs"
proof (induction xs rule: rev_induct)
  case Nil
  show ?case by (simp add: dict_of_def)
next
  case (snoc x xs)
  then have "map_of (map (\<lambda>x. (key x, val x)) xs) (key x) = None"
    by (auto simp: map_of_eq_None_iff image_iff)
  with snoc show ?case by (simp add: dict_of_snoc update_fresh)
qed

lemma find_distinct_key:
  "distinct (map key xs) \<Longrightarrow> x \<in> set xs \<Longrightarrow> find (\<lambda>y. key y = key x) xs = Some x"
  by (induction xs) auto

end
