(* ===== verification/LifecyclePlanner.thy ===== *)
theory LifecyclePlanner
  imports StateMachine Results
begin

text \<open>
  The state-oriented planner of the kernel (\<open>lifecycle_planner.py\<close>, \<open>planning_rules.py\<close>,
  \<open>execution_context.py\<close>): a read model of one project, the planning rule of its state, and the
  plan with the artifacts it still misses and the quality gates of the next transition. The
  properties tie the rules to the routes of the state machine.
\<close>

section \<open>The execution context\<close>

record available_agent =
  ava_id :: string
  ava_name :: string
  ava_role :: string
  ava_version :: string

record available_workflow =
  avw_id :: string
  avw_name :: string
  avw_entry :: string
  avw_exits :: "string list"
  avw_version :: string

record decision_summary =
  ds_id :: string
  ds_title :: string
  ds_status :: string

record event_summary =
  es_sequence :: int
  es_id :: string
  es_type :: string

record execution_context =
  cx_project :: string
  cx_state :: string
  cx_completed :: "string list"
  cx_pending :: "string list"
  cx_agents :: "available_agent list"
  cx_workflows :: "available_workflow list"
  cx_decisions :: "decision_summary list"
  cx_risks :: "string list"
  cx_events :: "event_summary list"
  cx_next_action :: string

text \<open>
  \<open>record["name"]\<close> of a key the model keeps with the rest of the record; the agent and workflow
  contracts make these keys mandatory.
\<close>

definition json_text :: "json_object \<Rightarrow> string \<Rightarrow> string" where
  "json_text r k = (case map_of r k of Some (JStr s) \<Rightarrow> s | _ \<Rightarrow> [])"

fun json_texts :: "json list \<Rightarrow> string list" where
  "json_texts [] = []"
| "json_texts (JStr s # js) = s # json_texts js"
| "json_texts (_ # js) = json_texts js"

definition json_text_list :: "json_object \<Rightarrow> string \<Rightarrow> string list" where
  "json_text_list r k = (case map_of r k of Some (JArr js) \<Rightarrow> json_texts js | _ \<Rightarrow> [])"

definition available_agent_of :: "agent \<Rightarrow> available_agent" where
  "available_agent_of a =
     \<lparr> ava_id = ent_id a, ava_name = json_text (agt_rest a) ''name'',
       ava_role = json_text (agt_rest a) ''role'', ava_version = agt_version a \<rparr>"

definition available_workflow_of :: "workflow \<Rightarrow> available_workflow" where
  "available_workflow_of w =
     \<lparr> avw_id = ent_id w, avw_name = json_text (wfl_rest w) ''name'',
       avw_entry = json_text (wfl_rest w) ''entry_state'',
       avw_exits = json_text_list (wfl_rest w) ''exit_states'', avw_version = wfl_version w \<rparr>"

definition decision_summary_of :: "decision \<Rightarrow> decision_summary" where
  "decision_summary_of d = \<lparr> ds_id = ent_id d, ds_title = dec_title d, ds_status = dec_status d \<rparr>"

definition event_summary_of :: "event \<Rightarrow> event_summary" where
  "event_summary_of e = \<lparr> es_sequence = evt_sequence e, es_id = ent_id e, es_type = evt_type e \<rparr>"

text \<open>The dataclasses are ordered by their fields in order.\<close>

definition build_context :: "string \<Rightarrow> execution_context kact" where
  "build_context i =
     bnd (get_in k_projects i) (\<lambda>p.
     bnd (reads (\<lambda>k. filter (\<lambda>a. ref_id (art_project_ref a) = i \<and> art_status a = ''approved'') (repo_all (k_artifacts k)))) (\<lambda>artifacts.
     bnd (reads (\<lambda>k. filter (\<lambda>d. ref_id (dec_project_ref d) = i) (repo_all (k_decisions k)))) (\<lambda>decisions.
     bnd (reads (\<lambda>k. filter (\<lambda>a. agt_status a = ''active'') (repo_all (k_agents k)))) (\<lambda>agents.
     bnd (reads (\<lambda>k. filter (\<lambda>w. wfl_status w = ''active'') (repo_all (k_workflows k)))) (\<lambda>workflows.
     bnd (bnd (reads (\<lambda>k. for_project (k_events k) i)) need) (\<lambda>events.
     ret \<lparr> cx_project = i, cx_state = prj_current_state p,
           cx_completed = sorted_set (map art_type artifacts),
           cx_pending = sorted_set (prj_pending_types p),
           cx_agents = sort_key (\<lambda>a. (ava_id a, ava_name a, ava_role a, ava_version a)) (map available_agent_of agents),
           cx_workflows = sort_key (\<lambda>w. (avw_id w, avw_name w, avw_entry w, avw_exits w, avw_version w))
             (map available_workflow_of workflows),
           cx_decisions = sort_key (\<lambda>d. (ds_id d, ds_title d, ds_status d)) (map decision_summary_of decisions),
           cx_risks = prj_risks p, cx_events = map event_summary_of events,
           cx_next_action = prj_next_action p \<rparr>))))))"

section \<open>The planning rules\<close>

record planning_rule =
  pr_workflow :: "string option"
  pr_next :: "string option"
  pr_artifacts :: "string list"
  pr_roles :: "string list"

definition rule :: "string option \<Rightarrow> string option \<Rightarrow> string list \<Rightarrow> string list \<Rightarrow> planning_rule" where
  "rule w n arts roles = \<lparr> pr_workflow = w, pr_next = n, pr_artifacts = arts, pr_roles = roles \<rparr>"

definition planning_rules :: "(string \<times> planning_rule) list" where
  "planning_rules =
   [
    (''NO_PROJECT'', rule (Some ''Founder Setup Workflow'') (Some ''FOUNDER_SETUP'')
       [] [''Founder Interview Agent'']),
    (''FOUNDER_SETUP'', rule (Some ''Founder Setup Workflow'') (Some ''FOUNDER_BRIEF_COMPLETE'')
       [''founder_brief''] [''Founder Interview Agent'']),
    (''FOUNDER_BRIEF_COMPLETE'', rule (Some ''Discovery Workflow'') (Some ''DISCOVERY_RUNNING'')
       [''founder_brief''] [''Market Research Agent'', ''Network Pain Agent'', ''Competitor Agent'', ''Opportunity Scoring Agent'']),
    (''DISCOVERY_RUNNING'', rule (Some ''Discovery Workflow'') (Some ''OPPORTUNITY_SELECTED'')
       [''opportunity_report''] [''Market Research Agent'', ''Network Pain Agent'', ''Competitor Agent'', ''Opportunity Scoring Agent'']),
    (''OPPORTUNITY_SELECTED'', rule (Some ''Validation Workflow'') (Some ''VALIDATION_RUNNING'')
       [''opportunity_report''] [''Customer Research Agent'', ''Validation Strategist'']),
    (''VALIDATION_RUNNING'', rule (Some ''Validation Workflow'') (Some ''VALIDATION_PASSED'')
       [''validation_report''] [''Customer Research Agent'', ''Validation Strategist'']),
    (''VALIDATION_PASSED'', rule (Some ''Product Design Workflow'') (Some ''PRODUCT_DESIGN_RUNNING'')
       [''validation_report''] [''Product Manager'', ''UX Researcher'']),
    (''PRODUCT_DESIGN_RUNNING'', rule (Some ''Product Design Workflow'') (Some ''PRD_COMPLETE'')
       [''prd''] [''Product Manager'', ''UX Researcher'']),
    (''PRD_COMPLETE'', rule (Some ''Engineering Workflow'') (Some ''ARCHITECTURE_RUNNING'')
       [''prd''] [''CTO Agent'', ''Lead Engineer'']),
    (''ARCHITECTURE_RUNNING'', rule (Some ''Engineering Workflow'') (Some ''ARCHITECTURE_COMPLETE'')
       [''api_specification'', ''architecture'', ''database_design'', ''security_model''] [''CTO Agent'', ''Lead Engineer'']),
    (''ARCHITECTURE_COMPLETE'', rule (Some ''AI Design Workflow'') (Some ''AI_DESIGN_RUNNING'')
       [''architecture''] [''AI Architect'']),
    (''AI_DESIGN_RUNNING'', rule (Some ''AI Design Workflow'') (Some ''AI_ARCHITECTURE_COMPLETE'')
       [''ai_architecture'', ''evaluation_plan''] [''AI Architect'']),
    (''AI_ARCHITECTURE_COMPLETE'', rule (Some ''Development Planning Workflow'') (Some ''DEVELOPMENT_PLANNING'')
       [''ai_architecture''] [''Lead Engineer'']),
    (''DEVELOPMENT_PLANNING'', rule (Some ''Development Planning Workflow'') (Some ''SPRINT_READY'')
       [''implementation_backlog'', ''sprint_plan''] [''Lead Engineer'']),
    (''SPRINT_READY'', rule (Some ''MVP Build Workflow'') (Some ''MVP_BUILDING'')
       [''sprint_plan''] [''Lead Engineer'']),
    (''MVP_BUILDING'', rule (Some ''MVP Build Workflow'') (Some ''QA_RUNNING'')
       [] [''Lead Engineer'']),
    (''QA_RUNNING'', rule (Some ''QA Workflow'') (Some ''READY_FOR_BETA'')
       [] [''QA Engineer'']),
    (''READY_FOR_BETA'', rule (Some ''Launch Workflow'') (Some ''LAUNCH_RUNNING'')
       [''beta_launch_plan'', ''gtm_plan'', ''sales_playbook'', ''support_plan''] [''Growth Strategist'', ''Sales Strategist'']),
    (''LAUNCH_RUNNING'', rule (Some ''Launch Workflow'') (Some ''CUSTOMERS_ACQUIRED'')
       [''customer_evidence''] [''Growth Strategist'', ''Sales Strategist'']),
    (''CUSTOMERS_ACQUIRED'', rule (Some ''CEO Review Workflow'') (Some ''CEO_REVIEW'')
       [] [''CEO Review Agent'']),
    (''CEO_REVIEW'', rule (Some ''CEO Review Workflow'') (Some ''SCALING'')
       [''ceo_review''] [''CEO Review Agent'']),
    (''SCALING'', rule None None
       [] [])]"

section \<open>The planner\<close>

datatype planning_error = UnknownState string | NoPlanningRule string | RuleNotAllowed string string

record lifecycle_plan =
  lp_state :: string
  lp_workflow :: "string option"
  lp_required :: "string list"
  lp_missing :: "string list"
  lp_agents :: "string list"
  lp_allowed :: "string list"
  lp_blocked :: "string option"
  lp_gates :: "string list"
  lp_next :: "string option"
  lp_confidence :: rat

definition required_artifacts :: "planning_rule \<Rightarrow> string list" where
  "required_artifacts r = sorted_set (pr_artifacts r)"

definition missing_artifacts :: "execution_context \<Rightarrow> planning_rule \<Rightarrow> string list" where
  "missing_artifacts c r = filter (\<lambda>a. a \<notin> set (cx_completed c)) (required_artifacts r)"

definition recommend_agents :: "planning_rule \<Rightarrow> string list" where
  "recommend_agents r = sorted_set (pr_roles r)"

definition select_workflow ::
  "execution_context \<Rightarrow> planning_rule \<Rightarrow> string list \<Rightarrow>
   planning_error + string option \<times> string list \<times> string option" where
  "select_workflow c r missing =
     (let allowed = allowed_transitions (cx_state c)
      in andthen
           (case pr_next r of None \<Rightarrow> Inr ()
            | Some n \<Rightarrow> demand (n \<in> set allowed) (RuleNotAllowed (cx_state c) n)) (\<lambda>_.
         case pr_workflow r of
           None \<Rightarrow> Inr (None, allowed, Some ''Project is in terminal state SCALING'')
         | Some w \<Rightarrow>
             if missing \<noteq> []
             then Inr (Some w, allowed, Some (''Missing required approved artifacts: '' @ join_with '', '' missing))
             else Inr (Some w, allowed, None)))"

definition quality_gates :: "route_requirement option \<Rightarrow> string list \<Rightarrow> string list" where
  "quality_gates req required =
     (case req of
        None \<Rightarrow> []
      | Some q \<Rightarrow>
          [''project_active'', ''project_revision_matches'', ''state_matches'', ''transition_allowed''] @
          (if rq_workflow q \<noteq> [] then [''workflow_status:'' @ join_with '','' (sort (rq_workflow q))] else []) @
          map (\<lambda>a. ''approved_artifact:'' @ a) required @
          (if rq_evaluation q then [''evaluation_passed:confidence>=0.70''] else []) @
          (if rq_decision q then [''decision_recorded:approved''] else []) @
          (if rq_approval q then [''human_approval:approved_and_current''] else []))"

definition plan_lifecycle :: "execution_context \<Rightarrow> planning_error + lifecycle_plan" where
  "plan_lifecycle c =
     andthen (demand (cx_state c \<in> set known_states) (UnknownState (cx_state c))) (\<lambda>_.
     case map_of planning_rules (cx_state c) of
       None \<Rightarrow> Inl (NoPlanningRule (cx_state c))
     | Some r \<Rightarrow>
         andthen (select_workflow c r (missing_artifacts c r)) (\<lambda>(workflow, allowed, blocked).
         Inr \<lparr> lp_state = cx_state c, lp_workflow = workflow, lp_required = required_artifacts r,
               lp_missing = missing_artifacts c r, lp_agents = recommend_agents r, lp_allowed = allowed,
               lp_blocked = blocked,
               lp_gates = quality_gates
                 (case pr_next r of None \<Rightarrow> None | Some n \<Rightarrow> route_requirement_for (cx_state c) n)
                 (required_artifacts r),
               lp_next = pr_next r, lp_confidence = 1 \<rparr>))"

end
