(* ===== verification/LifecyclePlannerTheorems.thy ===== *)
theory LifecyclePlannerTheorems
  imports LifecyclePlanner Demo
begin

text \<open>
  The planning rules against the routes of the state machine: every known state has a rule, a rule
  only names an allowed transition, the rules lead from every state to \<open>SCALING\<close>, and a plan that
  is not blocked has in the store every artifact type the route's guard will ask for.
\<close>

definition rule_fits :: "string \<Rightarrow> bool" where
  "rule_fits s =
     (case map_of planning_rules s of
        None \<Rightarrow> False
      | Some r \<Rightarrow>
          (case pr_next r of
             None \<Rightarrow> pr_workflow r = None
           | Some n \<Rightarrow> pr_workflow r \<noteq> None \<and>
               (case map_of routes (s, n) of None \<Rightarrow> False
                | Some q \<Rightarrow> list_all (\<lambda>a. a \<in> set (pr_artifacts r)) (rq_artifacts q))))"

lemma all_rules_fit: "list_all rule_fits known_states"
  by code_simp

lemma rule_fitsD:
  assumes "s \<in> set known_states"
  shows "\<exists>r. map_of planning_rules s = Some r \<and> (pr_next r = None \<longrightarrow> pr_workflow r = None) \<and>
    (\<forall>n. pr_next r = Some n \<longrightarrow> pr_workflow r \<noteq> None \<and>
       (\<exists>q. map_of routes (s, n) = Some q \<and> set (rq_artifacts q) \<subseteq> set (pr_artifacts r)))"
proof -
  have fits: "rule_fits s" using all_rules_fit assms by (simp add: list_all_iff)
  then obtain r where r: "map_of planning_rules s = Some r" by (auto simp: rule_fits_def split: option.splits)
  show ?thesis
  proof (cases "pr_next r")
    case None
    with fits r show ?thesis by (simp add: rule_fits_def)
  next
    case (Some n)
    with fits r show ?thesis by (auto simp: rule_fits_def list_all_iff split: option.splits)
  qed
qed

lemma route_allowed: "map_of routes (s, n) = Some q \<Longrightarrow> n \<in> set (allowed_transitions s)"
  by (force simp: allowed_transitions_def dest: map_of_SomeD)

lemma selected:
  assumes "map_of planning_rules (cx_state c) = Some r" "cx_state c \<in> set known_states"
  shows "select_workflow c r missing =
    Inr (pr_workflow r, allowed_transitions (cx_state c),
      if pr_workflow r = None then Some ''Project is in terminal state SCALING''
      else if missing \<noteq> [] then Some (''Missing required approved artifacts: '' @ join_with '', '' missing)
      else None)"
proof -
  from rule_fitsD[OF assms(2)] assms(1) have
    "\<forall>n. pr_next r = Some n \<longrightarrow> n \<in> set (allowed_transitions (cx_state c))"
    using route_allowed by fastforce
  then show ?thesis
    by (cases "pr_next r"; cases "pr_workflow r") (simp_all add: select_workflow_def Let_def andthen_demand)
qed

text \<open>
  The lifecycle planner returns a plan for exactly the states of the state machine: no known state
  lacks a rule and no rule names a transition the state machine forbids, so the two errors that
  report such an inconsistency are never raised.
\<close>

theorem lifecycle_plan_exists_iff_known_state:
  "(\<exists>p. plan_lifecycle c = Inr p) = (cx_state c \<in> set known_states) \<and>
   (\<nexists>s n. plan_lifecycle c = Inl (RuleNotAllowed s n) \<or> plan_lifecycle c = Inl (NoPlanningRule s))"
proof (cases "cx_state c \<in> set known_states")
  case True
  from rule_fitsD[OF True] obtain r where "map_of planning_rules (cx_state c) = Some r" by blast
  with selected[OF this True] True show ?thesis by (simp add: plan_lifecycle_def andthen_demand)
next
  case False
  then show ?thesis by (simp add: plan_lifecycle_def andthen_demand)
qed

lemma contextD:
  assumes "build_context i k = (Inr c, k')"
  shows "k' = k \<and> (\<exists>p. map_of (k_projects k) i = Some p \<and> cx_state c = prj_current_state p) \<and>
    set (cx_completed c) =
      {art_type a | a. a \<in> snd ` set (k_artifacts k) \<and> ref_id (art_project_ref a) = i \<and> art_status a = ''approved''}"
proof -
  from assms obtain p es where p: "map_of (k_projects k) i = Some p" and k: "k' = k" and
    c: "cx_state c = prj_current_state p" "cx_completed c = sorted_set (map art_type
      (filter (\<lambda>a. ref_id (art_project_ref a) = i \<and> art_status a = ''approved'') (repo_all (k_artifacts k))))"
    by (auto simp: build_context_def bnd_Inr_iff get_in_def repo_get_def split: option.splits)
  show ?thesis using p k by (auto simp: c repo_all_def)
qed

text \<open>
  C29: When the planner reports no blocker for a project, the evidence is there: the next state it names
  is a route of the state machine, and for every artifact type the guard of that route demands
  the store holds an approved artifact of this project. Building the context reads only.
\<close>

theorem unblocked_plan_has_route_evidence:
  assumes "build_context i k = (Inr c, k')" "plan_lifecycle c = Inr p" "lp_blocked p = None"
  shows "k' = k \<and> (\<exists>n q. lp_next p = Some n \<and> map_of routes (cx_state c, n) = Some q \<and>
    n \<in> set (lp_allowed p) \<and>
    (\<forall>t\<in>set (rq_artifacts q). \<exists>a\<in>snd ` set (k_artifacts k).
       art_type a = t \<and> art_status a = ''approved'' \<and> ref_id (art_project_ref a) = i))"
proof -
  have known: "cx_state c \<in> set known_states"
    using assms(2) by (auto simp: plan_lifecycle_def andthen_Inr_iff)
  from rule_fitsD[OF known] obtain r where r: "map_of planning_rules (cx_state c) = Some r"
    "pr_next r = None \<longrightarrow> pr_workflow r = None"
    "\<forall>n. pr_next r = Some n \<longrightarrow> pr_workflow r \<noteq> None \<and>
       (\<exists>q. map_of routes (cx_state c, n) = Some q \<and> set (rq_artifacts q) \<subseteq> set (pr_artifacts r))"
    by (elim exE conjE)
  have p: "lp_blocked p = (if pr_workflow r = None then Some ''Project is in terminal state SCALING''
      else if missing_artifacts c r \<noteq> []
      then Some (''Missing required approved artifacts: '' @ join_with '', '' (missing_artifacts c r)) else None)"
    "lp_next p = pr_next r" "lp_allowed p = allowed_transitions (cx_state c)"
    using assms(2) known r(1) selected[OF r(1) known, of "missing_artifacts c r"]
    by (auto simp: plan_lifecycle_def andthen_demand)
  with assms(3) have w: "pr_workflow r \<noteq> None" and none: "missing_artifacts c r = []" by (auto split: if_splits)
  with r(2) obtain n where n: "pr_next r = Some n" by auto
  from r(3) n obtain q where q: "map_of routes (cx_state c, n) = Some q"
    "set (rq_artifacts q) \<subseteq> set (pr_artifacts r)" by blast
  have "set (pr_artifacts r) \<subseteq> set (cx_completed c)"
    using none by (auto simp: missing_artifacts_def required_artifacts_def filter_empty_conv)
  with q(2) have "set (rq_artifacts q) \<subseteq> set (cx_completed c)" by blast
  moreover note ctx = contextD[OF assms(1)]
  ultimately have "\<forall>t\<in>set (rq_artifacts q). \<exists>a\<in>snd ` set (k_artifacts k).
       art_type a = t \<and> art_status a = ''approved'' \<and> ref_id (art_project_ref a) = i"
    by (fastforce simp: subset_iff)
  moreover have "k' = k" using ctx by simp
  ultimately show ?thesis using n q(1) p(2,3) route_allowed[OF q(1)]
    by (intro conjI exI[of _ n] exI[of _ q]) simp_all
qed

lemma demo_context:
  "case build_context ''prj_A'' demo_ready of
     (Inl e, k) \<Rightarrow> False
   | (Inr c, k) \<Rightarrow> (case plan_lifecycle c of Inl e \<Rightarrow> False
       | Inr p \<Rightarrow> lp_blocked p = None \<and> lp_next p = Some ''FOUNDER_BRIEF_COMPLETE'')"
  by code_simp

theorem unblocked_plan_has_route_evidence_witness:
  "\<exists>a\<in>snd ` set (k_artifacts demo_ready). art_type a = ''founder_brief'' \<and> art_status a = ''approved'' \<and>
     ref_id (art_project_ref a) = ''prj_A''"
proof -
  from demo_context obtain c k p where c: "build_context ''prj_A'' demo_ready = (Inr c, k)"
    "plan_lifecycle c = Inr p" "lp_blocked p = None" "lp_next p = Some ''FOUNDER_BRIEF_COMPLETE''"
    by (auto split: prod.splits sum.splits)
  have state: "cx_state c = ''FOUNDER_SETUP''"
    using contextD[OF c(1)] by (auto simp: demo_ready_def empty_kernel_def demo_project_def new_project_def)
  from unblocked_plan_has_route_evidence[OF c(1-3)] obtain q where
    q: "map_of routes (''FOUNDER_SETUP'', ''FOUNDER_BRIEF_COMPLETE'') = Some q"
    "\<forall>t\<in>set (rq_artifacts q). \<exists>a\<in>snd ` set (k_artifacts demo_ready).
       art_type a = t \<and> art_status a = ''approved'' \<and> ref_id (art_project_ref a) = ''prj_A''"
    using c(4) state by auto
  have "map_of routes (''FOUNDER_SETUP'', ''FOUNDER_BRIEF_COMPLETE'') = Some demo_requirement"
    by code_simp
  with q(1) have "q = demo_requirement" by simp
  then have "''founder_brief'' \<in> set (rq_artifacts q)" by (simp add: demo_requirement_def requirement_def)
  with q(2) show ?thesis by blast
qed

section \<open>The rules lead to the end\<close>

definition next_state :: "string \<Rightarrow> string" where
  "next_state s = (case map_of planning_rules s of None \<Rightarrow> s
     | Some r \<Rightarrow> (case pr_next r of None \<Rightarrow> s | Some n \<Rightarrow> n))"

fun reaches_scaling :: "nat \<Rightarrow> string \<Rightarrow> bool" where
  "reaches_scaling 0 s = (s = ''SCALING'')"
| "reaches_scaling (Suc n) s = (s = ''SCALING'' \<or> reaches_scaling n (next_state s))"

text \<open>
  Following the recommended transitions from any state of the state machine reaches \<open>SCALING\<close>
  within 21 steps: the planning rules never send a project round in a circle.
\<close>

theorem planning_rules_lead_to_scaling: "list_all (reaches_scaling 21) known_states"
  by code_simp

end
