(* ===== verification/Manifests.thy ===== *)
theory Manifests
  imports Results Records
begin

text \<open>
  The definitions a workspace holds: App, Workflow and Agent manifests with the keys the planner,
  the plan validator and the workspace read; the remaining keys travel together. The manifest
  schemas (runtime/contracts) make these keys mandatory, except where a field is an \<open>option\<close>.
\<close>

text \<open>\<open>{id, version, role}\<close>: a reference to a definition; App references have no role.\<close>

record def_ref =
  dr_id :: string
  dr_version :: string
  dr_role :: "string option"

record artifact_ref =
  aref_id :: string
  aref_type :: string
  aref_schema :: string

record app_dependency =
  dep_id :: string
  dep_range :: string
  dep_optional :: bool

record app_def =
  app_id :: string
  app_version :: string
  app_runtime :: string
  app_workflows :: "def_ref list"
  app_agents :: "def_ref list"
  app_dependencies :: "app_dependency list"

record agent_def =
  agd_id :: string
  agd_version :: string
  agd_rest :: json_object

record wf_step =
  st_id :: string
  st_name :: string
  st_type :: string
  st_agent :: "def_ref option"
  st_inputs :: "string list"
  st_outputs :: "string list"
  st_approval :: bool

record wf_evaluation =
  we_id :: string
  we_subject :: string
  we_required :: bool
  we_rest :: json_object

record wf_approval =
  wa_id :: string
  wa_subject_type :: string
  wa_subject :: string
  wa_required :: bool
  wa_rest :: json_object

record wf_transition =
  wt_from :: string
  wt_to :: string
  wt_approvals :: "string list"

record workflow_def =
  wd_id :: string
  wd_version :: string
  wd_type :: string
  wd_min_kernel :: string
  wd_max_kernel :: string
  wd_required_agents :: "def_ref list"
  wd_optional_agents :: "def_ref list"
  wd_required_artifacts :: "artifact_ref list"
  wd_produced_artifacts :: "artifact_ref list"
  wd_steps :: "wf_step list"
  wd_evaluations :: "wf_evaluation list"
  wd_approvals :: "wf_approval list"
  wd_transition :: "wf_transition option"

datatype manifest = AppManifest app_def | WorkflowManifest workflow_def | AgentManifest agent_def

fun manifest_kind :: "manifest \<Rightarrow> string" where
  "manifest_kind (AppManifest a) = ''app''"
| "manifest_kind (WorkflowManifest w) = ''workflow''"
| "manifest_kind (AgentManifest a) = ''agent''"

fun manifest_id :: "manifest \<Rightarrow> string" where
  "manifest_id (AppManifest a) = app_id a"
| "manifest_id (WorkflowManifest w) = wd_id w"
| "manifest_id (AgentManifest a) = agd_id a"

end
