(* ===== verification/Numerals.thy ===== *)
theory Numerals
  imports Results
begin

text \<open>
  Decimal numerals without leading zeros: what the parsers of versions and addresses accept, the
  value of a string of digits, and the round trip with \<open>digits_of\<close>.
\<close>

text \<open>\<open>(0|[1-9][0-9]*)\<close>\<close>

definition numeral_part :: "string \<Rightarrow> bool" where
  "numeral_part s \<longleftrightarrow> s \<noteq> [] \<and> list_all is_digit s \<and> (hd s = CHR ''0'' \<longrightarrow> s = ''0'')"

definition int_of_digits :: "string \<Rightarrow> nat" where
  "int_of_digits s = foldl (\<lambda>n c. 10 * n + (of_char c - 48)) 0 s"

text \<open>\<open>int(s)\<close> of a text: white space around, a sign, and digits that single underscores may group.\<close>

definition digit_groups :: "string \<Rightarrow> nat option" where
  "digit_groups s =
     (let gs = split_on CHR ''_'' s
      in if list_all (\<lambda>g. g \<noteq> [] \<and> list_all is_digit g) gs then Some (int_of_digits (concat gs)) else None)"

definition py_int :: "string \<Rightarrow> int option" where
  "py_int s =
     (case strip s of
        [] \<Rightarrow> None
      | c # t \<Rightarrow>
          if c = CHR ''-'' then map_option (\<lambda>n. - int n) (digit_groups t)
          else if c = CHR ''+'' then map_option int (digit_groups t)
          else map_option int (digit_groups (c # t)))"

lemma int_of_digits_snoc: "int_of_digits (s @ [c]) = 10 * int_of_digits s + (of_char c - 48)"
  by (simp add: int_of_digits_def)

lemma of_char_digit: "(n::nat) < 10 \<Longrightarrow> (of_char (char_of (48 + n) :: char) :: nat) = 48 + n"
  by simp

lemma is_digit_char: "(n::nat) < 10 \<Longrightarrow> is_digit (char_of (48 + n))"
  unfolding is_digit_def by (subst (1 2) of_char_digit) auto

lemma int_of_digits_of [simp]: "int_of_digits (digits_of n) = n"
proof (induction n rule: digits_of.induct)
  case (1 n)
  show ?case
  proof (cases "n < 10")
    case True
    then show ?thesis
      using of_char_digit[OF True] by (subst digits_of.simps) (simp add: int_of_digits_def)
  next
    case False
    have "(of_char (char_of (48 + n mod 10) :: char) :: nat) - 48 = n mod 10"
      by (subst of_char_digit) auto
    with False 1 show ?thesis
      by (subst digits_of.simps) (simp add: int_of_digits_snoc)
  qed
qed

lemma digits_of_digits: "list_all is_digit (digits_of n)"
proof (induction n rule: digits_of.induct)
  case (1 n)
  have "is_digit (char_of (48 + n mod 10))" by (rule is_digit_char) simp
  with 1 show ?case using is_digit_char[of n] by (subst digits_of.simps) auto
qed

lemma digits_of_neq_Nil [simp]: "digits_of n \<noteq> []"
  by (subst digits_of.simps) auto

lemma digits_of_step: "10 \<le> n \<Longrightarrow> digits_of n = digits_of (n div 10) @ [char_of (48 + n mod 10)]"
  by (subst digits_of.simps) simp

lemma digits_of_small: "n < 10 \<Longrightarrow> digits_of n = [char_of (48 + n)]"
  by (subst digits_of.simps) simp

lemma zero_char: "char_of (48 :: nat) = CHR ''0''"
  by (simp add: char_of_eq_iff)

lemma digit_of_char: "is_digit c \<Longrightarrow> char_of (48 + ((of_char c :: nat) - 48)) = c"
  unfolding is_digit_def by simp

lemma numeral_value: "list_all is_digit s \<Longrightarrow> s \<noteq> [] \<Longrightarrow> hd s \<noteq> CHR ''0'' \<Longrightarrow>
    0 < int_of_digits s \<and> digits_of (int_of_digits s) = s"
proof (induction s rule: rev_induct)
  case (snoc c t)
  let ?d = "(of_char c :: nat) - 48"
  have d: "?d < 10" and c: "char_of (48 + ?d) = c"
    using snoc.prems(1) digit_of_char[of c] by (auto simp: is_digit_def)
  show ?case
  proof (cases "t = []")
    case True
    have "?d \<noteq> 0"
    proof
      assume "?d = 0"
      with c have "c = char_of (48 :: nat)" by simp
      with snoc.prems(3) True show False by (simp add: zero_char)
    qed
    with True d c show ?thesis by (simp add: int_of_digits_def digits_of_small)
  next
    case False
    with snoc have t: "0 < int_of_digits t" "digits_of (int_of_digits t) = t" by auto
    have "digits_of (10 * int_of_digits t + ?d) = t @ [c]"
      using t d c by (subst digits_of_step) (auto simp: div_add1_eq)
    with t show ?thesis by (simp add: int_of_digits_snoc)
  qed
qed simp

lemma zero_text [simp]: "digits_of 0 = ''0''"
  by (simp add: digits_of_small zero_char)

lemma hd_digits_of: "0 < n \<Longrightarrow> hd (digits_of n) \<noteq> CHR ''0''"
proof (induction n rule: digits_of.induct)
  case (1 n)
  show ?case
  proof (cases "n < 10")
    case True
    have "char_of (48 + n) \<noteq> CHR ''0''"
    proof
      assume "char_of (48 + n) = CHR ''0''"
      then have "(of_char (char_of (48 + n) :: char) :: nat) = of_char CHR ''0''" by (rule arg_cong)
      with of_char_digit[OF True] 1(2) show False by simp
    qed
    with True show ?thesis by (simp add: digits_of_small)
  next
    case False
    with 1 show ?thesis by (simp add: digits_of_step hd_append)
  qed
qed

lemma numeral_part_iff: "numeral_part s \<longleftrightarrow> s = digits_of (int_of_digits s)"
proof
  assume a: "numeral_part s"
  show "s = digits_of (int_of_digits s)"
  proof (cases "hd s = CHR ''0''")
    case True
    with a have "s = ''0''" by (simp add: numeral_part_def)
    then show ?thesis by (simp add: int_of_digits_def)
  next
    case False
    with a numeral_value show ?thesis by (auto simp: numeral_part_def)
  qed
next
  assume a: "s = digits_of (int_of_digits s)"
  have "numeral_part (digits_of n)" for n
    using digits_of_digits[of n] hd_digits_of[of n]
    by (cases "n = 0") (auto simp: numeral_part_def)
  with a show "numeral_part s" by metis
qed

lemma numeral_part_digits_of [simp]: "numeral_part (digits_of n)"
  by (simp add: numeral_part_iff)

lemma strip_spaceless: "list_all (\<lambda>c. \<not> is_space c) s \<Longrightarrow> strip s = s"
proof -
  assume a: "list_all (\<lambda>c. \<not> is_space c) s"
  then have "dropWhile is_space t = t" if "set t \<subseteq> set s" for t
    using that by (cases t) (auto simp: list_all_iff)
  then show ?thesis by (simp add: strip_def)
qed

lemma digit_not_space: "is_digit c \<Longrightarrow> \<not> is_space c"
  by (auto simp: is_digit_def is_space_def Let_def)

lemma digit_separators: "\<not> is_digit CHR ''_''" "\<not> is_digit CHR ''-''" "\<not> is_digit CHR ''+''"
  by code_simp+

text \<open>\<open>int(str(n)) = n\<close>.\<close>

lemma py_int_digits [simp]: "py_int (digits_of n) = Some (int n)"
proof -
  have digits: "list_all is_digit (digits_of n)" by (rule digits_of_digits)
  then have "list_all (\<lambda>c. \<not> is_space c) (digits_of n)"
    using digit_not_space by (auto simp: list_all_iff)
  then have strip: "strip (digits_of n) = digits_of n" by (rule strip_spaceless)
  obtain c t where ct: "digits_of n = c # t" by (cases "digits_of n") auto
  with digits have c: "is_digit c" by simp
  have "CHR ''_'' \<notin> set (digits_of n)"
    using digits digit_separators(1) by (auto simp: list_all_iff)
  then have "digit_groups (digits_of n) = Some n" using digits by (simp add: digit_groups_def)
  with ct strip c digit_separators show ?thesis by (auto simp: py_int_def)
qed

end
