(* ===== verification/Workspace.thy ===== *)
theory Workspace
  imports Manifests Numerals
begin

text \<open>
  The read-only Workspace (\<open>src/src/founderos_runtime/workspace\<close>): versions and version ranges,
  the discovery of manifests below a root, the index with its duplicate check, the reference and
  compatibility checks of \<open>_WorkspaceBuilder\<close>, the depth-first search for dependency cycles, and
  the queries. What is proved: versions are parsed exactly; the depth-first search raises on a
  real cycle and passes exactly on acyclic dependencies; a workspace is built exactly from
  consistent manifests, and then every reference in it resolves.
\<close>

section \<open>Versions\<close>

datatype workspace_error =
    WorkspaceDiscovery string
  | WorkspaceDuplicateId string string string string
  | WorkspaceMissingReference string string
  | WorkspaceCompatibility string
  | WorkspaceDependencyCycle "string list"
  | WorkspaceItemNotFound string string
  | ManifestInvalid string

type_synonym version = "nat \<times> nat \<times> nat"

text \<open>\<open>_CORE_VERSION.fullmatch\<close> and the conversion of its groups.\<close>

definition core_version :: "string \<Rightarrow> version option" where
  "core_version s =
     (case split_on CHR ''.'' s of
        [a, b, c] \<Rightarrow>
          if numeral_part a \<and> numeral_part b \<and> numeral_part c
          then Some (int_of_digits a, int_of_digits b, int_of_digits c) else None
      | _ \<Rightarrow> None)"

definition version_tuple :: "string \<Rightarrow> workspace_error + version" where
  "version_tuple s = (case core_version s of None \<Rightarrow> Inl (WorkspaceCompatibility s) | Some v \<Rightarrow> Inr v)"

text \<open>\<open>_VERSION_RANGE\<close>: two core versions, \<open>">=" a " <" b\<close>; a version has no space in it.\<close>

definition range_bounds :: "string \<Rightarrow> workspace_error + version \<times> version" where
  "range_bounds s =
     (case split_on CHR '' '' s of
        [lo, hi] \<Rightarrow>
          (if starts_with lo ''>='' \<and> starts_with hi ''<'' then
             (case (core_version (drop 2 lo), core_version (drop 1 hi)) of
                (Some a, Some b) \<Rightarrow> Inr (a, b)
              | _ \<Rightarrow> Inl (WorkspaceCompatibility s))
           else Inl (WorkspaceCompatibility s))
      | _ \<Rightarrow> Inl (WorkspaceCompatibility s))"

definition in_range :: "string \<Rightarrow> string \<Rightarrow> workspace_error + bool" where
  "in_range v r =
     andthen (version_tuple v) (\<lambda>current.
     andthen (range_bounds r) (\<lambda>(minimum, maximum).
     Inr (minimum \<le> current \<and> current < maximum)))"

section \<open>Discovery\<close>

text \<open>
  A candidate path below the root, as the file system presents it: its parts relative to the
  root, whether it is a symbolic link and a regular file, its resolved path and whether that lies
  below the resolved root.
\<close>

record candidate =
  cand_parts :: "string list"
  cand_symlink :: bool
  cand_file :: bool
  cand_resolved :: string
  cand_inside :: bool

record workspace_root =
  root_path :: string
  root_exists :: bool
  root_is_dir :: bool
  root_symlink :: bool
  root_candidates :: "candidate list"

definition directory_kinds :: "(string \<times> string) list" where
  "directory_kinds = [(''agents'', ''agent''), (''workflows'', ''workflow''), (''apps'', ''app'')]"

fun first_kind :: "string list \<Rightarrow> string option" where
  "first_kind [] = None"
| "first_kind (p # ps) =
     (case map_of directory_kinds (lower p) of Some k \<Rightarrow> Some k | None \<Rightarrow> first_kind ps)"

definition kind_for_path :: "string list \<Rightarrow> string option" where
  "kind_for_path parts = first_kind (List.rev (butlast parts))"

definition posix :: "candidate \<Rightarrow> string" where
  "posix c = join_with ''/'' (cand_parts c)"

record discovered =
  found_path :: string
  found_data :: manifest

text \<open>The loader validates a manifest of the given kind at a path.\<close>

type_synonym loader = "string \<Rightarrow> string \<Rightarrow> workspace_error + manifest"

fun discover_loop ::
  "loader \<Rightarrow> string list \<Rightarrow> candidate list \<Rightarrow> workspace_error + discovered list" where
  "discover_loop load seen [] = Inr []"
| "discover_loop load seen (c # cs) =
     (if cand_symlink c then Inl (WorkspaceDiscovery (posix c))
      else if \<not> cand_file c then discover_loop load seen cs
      else if \<not> cand_inside c then Inl (WorkspaceDiscovery (posix c))
      else if cand_resolved c \<in> set seen then discover_loop load seen cs
      else (case kind_for_path (cand_parts c) of
          None \<Rightarrow> discover_loop load (cand_resolved c # seen) cs
        | Some kind \<Rightarrow>
            andthen (load kind (posix c)) (\<lambda>data.
            andthen (discover_loop load (cand_resolved c # seen) cs) (\<lambda>later.
            Inr (\<lparr> found_path = posix c, found_data = data \<rparr> # later)))))"

definition discover_manifests ::
  "loader \<Rightarrow> workspace_root \<Rightarrow> workspace_error + discovered list" where
  "discover_manifests load wr =
     (if \<not> root_exists wr then Inl (WorkspaceDiscovery (root_path wr))
      else if \<not> root_is_dir wr then Inl (WorkspaceDiscovery (root_path wr))
      else if root_symlink wr then Inl (WorkspaceDiscovery (root_path wr))
      else discover_loop load []
             (sort_key (\<lambda>c. (lower (posix c), posix c)) (root_candidates wr)))"

section \<open>The workspace and its builder\<close>

record workspace =
  ws_root :: string
  ws_runtime :: string
  ws_apps :: "(string \<times> app_def) list"
  ws_workflows :: "(string \<times> workflow_def) list"
  ws_agents :: "(string \<times> agent_def) list"

record builder =
  bld_apps :: "(string \<times> app_def) list"
  bld_workflows :: "(string \<times> workflow_def) list"
  bld_agents :: "(string \<times> agent_def) list"
  bld_paths :: "((string \<times> string) \<times> string) list"

definition empty_builder :: builder where
  "empty_builder = \<lparr> bld_apps = [], bld_workflows = [], bld_agents = [], bld_paths = [] \<rparr>"

fun put_item :: "manifest \<Rightarrow> builder \<Rightarrow> builder" where
  "put_item (AppManifest a) b = b\<lparr> bld_apps := AList.update (app_id a) a (bld_apps b) \<rparr>"
| "put_item (WorkflowManifest w) b = b\<lparr> bld_workflows := AList.update (wd_id w) w (bld_workflows b) \<rparr>"
| "put_item (AgentManifest a) b = b\<lparr> bld_agents := AList.update (agd_id a) a (bld_agents b) \<rparr>"

definition index_one :: "builder \<Rightarrow> discovered \<Rightarrow> workspace_error + builder" where
  "index_one b d =
     (let m = found_data d; key = (manifest_kind m, manifest_id m)
      in case map_of (bld_paths b) key of
           Some existing \<Rightarrow>
             Inl (WorkspaceDuplicateId (manifest_kind m) (manifest_id m) existing (found_path d))
         | None \<Rightarrow> Inr ((put_item m b)\<lparr> bld_paths := AList.update key (found_path d) (bld_paths b) \<rparr>))"

definition index_all :: "discovered list \<Rightarrow> workspace_error + builder" where
  "index_all ds = foldE index_one empty_builder ds"

definition sorted_items :: "(string \<times> 'a) list \<Rightarrow> (string \<times> 'a) list" where
  "sorted_items al = sort_key fst al"

definition check_app_runtime :: "string \<Rightarrow> string \<times> app_def \<Rightarrow> workspace_error + unit" where
  "check_app_runtime runtime =
     (\<lambda>(i, app). andthen (in_range runtime (app_runtime app)) (\<lambda>ok.
        demand ok (WorkspaceCompatibility i)))"

definition check_workflow_kernel :: "version \<Rightarrow> string \<times> workflow_def \<Rightarrow> workspace_error + unit" where
  "check_workflow_kernel runtime =
     (\<lambda>(i, w). andthen (version_tuple (wd_min_kernel w)) (\<lambda>minimum.
        andthen (version_tuple (wd_max_kernel w)) (\<lambda>maximum.
        demand (minimum \<le> runtime \<and> runtime < maximum) (WorkspaceCompatibility i))))"

definition validate_runtime_compatibility ::
  "string \<Rightarrow> version \<Rightarrow> builder \<Rightarrow> workspace_error + unit" where
  "validate_runtime_compatibility runtime_version runtime b =
     andthen (eachE (check_app_runtime runtime_version) (sorted_items (bld_apps b))) (\<lambda>_.
     eachE (check_workflow_kernel runtime) (sorted_items (bld_workflows b)))"

text \<open>\<open>targets\<close> maps the identifiers of the target kind to their versions.\<close>

definition check_reference ::
  "(string \<Rightarrow> string option) \<Rightarrow> string \<Rightarrow> def_ref \<Rightarrow> workspace_error + unit" where
  "check_reference targets source r =
     (case targets (dr_id r) of
        None \<Rightarrow> Inl (WorkspaceMissingReference source (dr_id r))
      | Some v \<Rightarrow> demand (v = dr_version r) (WorkspaceMissingReference source (dr_id r)))"

definition require_exact_references ::
  "(string \<Rightarrow> string option) \<Rightarrow> string \<Rightarrow> def_ref list \<Rightarrow> workspace_error + unit" where
  "require_exact_references targets source refs =
     eachE (check_reference targets source) (sort_key (\<lambda>r. (dr_id r, dr_version r)) refs)"

definition workflow_versions :: "builder \<Rightarrow> string \<Rightarrow> string option" where
  "workflow_versions b i = map_option wd_version (map_of (bld_workflows b) i)"

definition agent_versions :: "builder \<Rightarrow> string \<Rightarrow> string option" where
  "agent_versions b i = map_option agd_version (map_of (bld_agents b) i)"

definition check_dependency ::
  "(string \<times> app_def) list \<Rightarrow> string \<Rightarrow> app_dependency \<Rightarrow> workspace_error + unit" where
  "check_dependency apps source d =
     (case map_of apps (dep_id d) of
        None \<Rightarrow> demand (dep_optional d) (WorkspaceMissingReference source (dep_id d))
      | Some target \<Rightarrow>
          andthen (in_range (app_version target) (dep_range d)) (\<lambda>ok.
          demand ok (WorkspaceCompatibility source)))"

definition check_app_references :: "builder \<Rightarrow> string \<times> app_def \<Rightarrow> workspace_error + unit" where
  "check_app_references b =
     (\<lambda>(i, app).
        andthen (require_exact_references (workflow_versions b) i (app_workflows app)) (\<lambda>_.
        andthen (require_exact_references (agent_versions b) i (app_agents app)) (\<lambda>_.
        eachE (check_dependency (bld_apps b) i) (sort_key dep_id (app_dependencies app)))))"

definition validate_app_references :: "builder \<Rightarrow> workspace_error + unit" where
  "validate_app_references b = eachE (check_app_references b) (sorted_items (bld_apps b))"

definition validate_workflow_references :: "builder \<Rightarrow> workspace_error + unit" where
  "validate_workflow_references b =
     eachE (\<lambda>(i, w). require_exact_references (agent_versions b) i
              (wd_required_agents w @ wd_optional_agents w))
       (sorted_items (bld_workflows b))"

section \<open>The search for dependency cycles\<close>

text \<open>
  \<open>visit_all graph active visited ns\<close> visits the nodes in turn. It returns the nodes visited or
  the cycle found: the part of the active path from the repeated node on, and that node again.
\<close>

definition successors :: "(string \<times> string list) list \<Rightarrow> string \<Rightarrow> string list" where
  "successors g n = (case map_of g n of None \<Rightarrow> [] | Some ds \<Rightarrow> ds)"

definition nodes_left :: "(string \<times> string list) list \<Rightarrow> string list \<Rightarrow> nat" where
  "nodes_left g active = card (fst ` set g - set active)"

function visit_all ::
  "(string \<times> string list) list \<Rightarrow> string list \<Rightarrow> string list \<Rightarrow> string list \<Rightarrow>
   string list + string list" where
  "visit_all g active visited [] = Inr visited"
| "visit_all g active visited (n # ns) =
     (if n \<in> set active then Inl (dropWhile (\<lambda>a. a \<noteq> n) active @ [n])
      else if n \<in> set visited then visit_all g active visited ns
      else (case visit_all g (active @ [n]) visited (successors g n) of
          Inl c \<Rightarrow> Inl c
        | Inr v \<Rightarrow> visit_all g active (n # v) ns))"
  by pat_completeness auto

lemma nodes_left_less:
  assumes "n \<notin> set active" "n \<in> fst ` set g"
  shows "nodes_left g (active @ [n]) < nodes_left g active"
  unfolding nodes_left_def by (rule psubset_card_mono) (use assms in auto)

lemma nodes_left_outside: "n \<notin> fst ` set g \<Longrightarrow> nodes_left g (active @ [n]) = nodes_left g active"
  unfolding nodes_left_def by (rule arg_cong[of _ _ card]) auto

lemma successors_outside: "n \<notin> fst ` set g \<Longrightarrow> successors g n = []"
  by (auto simp: successors_def split: option.splits dest: map_of_SomeD intro!: rev_image_eqI)

lemma visit_calls:
  assumes "n \<notin> set active"
  shows "nodes_left g (active @ [n]) < nodes_left g active \<or>
    nodes_left g (active @ [n]) = nodes_left g active \<and> successors g n = []"
  using assms by (cases "n \<in> fst ` set g") (auto intro: nodes_left_less simp: nodes_left_outside successors_outside)

termination visit_all
proof (relation "measures [\<lambda>(g, active, visited, ns). nodes_left g active,
    \<lambda>(g, active, visited, ns). length ns]", goal_cases)
  case (3 g active visited n ns)
  then show ?case using visit_calls[of n active g] by auto
qed auto

declare visit_all.simps [simp del]

definition dependency_graph :: "(string \<times> app_def) list \<Rightarrow> (string \<times> string list) list" where
  "dependency_graph apps =
     map (\<lambda>(i, app). (i, sort (filter (\<lambda>d. map_of apps d \<noteq> None)
            (map dep_id (app_dependencies app))))) apps"

definition validate_dependency_cycles :: "builder \<Rightarrow> workspace_error + unit" where
  "validate_dependency_cycles b =
     (let g = dependency_graph (bld_apps b)
      in case visit_all g [] [] (sort (map fst g)) of
           Inl c \<Rightarrow> Inl (WorkspaceDependencyCycle c)
         | Inr _ \<Rightarrow> Inr ())"

section \<open>Build, load and queries\<close>

definition build_workspace ::
  "string \<Rightarrow> string \<Rightarrow> version \<Rightarrow> discovered list \<Rightarrow> workspace_error + workspace" where
  "build_workspace path runtime_version runtime ds =
     andthen (index_all ds) (\<lambda>b.
     andthen (validate_runtime_compatibility runtime_version runtime b) (\<lambda>_.
     andthen (validate_app_references b) (\<lambda>_.
     andthen (validate_workflow_references b) (\<lambda>_.
     andthen (validate_dependency_cycles b) (\<lambda>_.
     Inr \<lparr> ws_root = path, ws_runtime = runtime_version, ws_apps = bld_apps b,
           ws_workflows = bld_workflows b, ws_agents = bld_agents b \<rparr>)))))"

definition load_workspace ::
  "loader \<Rightarrow> workspace_root \<Rightarrow> string \<Rightarrow> workspace_error + workspace" where
  "load_workspace load wr runtime_version =
     andthen (version_tuple runtime_version) (\<lambda>runtime.
     andthen (discover_manifests load wr) (\<lambda>ds.
     build_workspace (root_path wr) runtime_version runtime ds))"

definition get_item :: "string \<Rightarrow> string \<Rightarrow> (string \<times> 'a) list \<Rightarrow> workspace_error + 'a" where
  "get_item kind i items =
     (case map_of items i of None \<Rightarrow> Inl (WorkspaceItemNotFound kind i) | Some x \<Rightarrow> Inr x)"

definition get_app :: "workspace \<Rightarrow> string \<Rightarrow> workspace_error + app_def" where
  "get_app w i = get_item ''app'' i (ws_apps w)"

definition get_workflow :: "workspace \<Rightarrow> string \<Rightarrow> workspace_error + workflow_def" where
  "get_workflow w i = get_item ''workflow'' i (ws_workflows w)"

definition get_agent :: "workspace \<Rightarrow> string \<Rightarrow> workspace_error + agent_def" where
  "get_agent w i = get_item ''agent'' i (ws_agents w)"

definition listed :: "(string \<times> 'a) list \<Rightarrow> 'a list" where
  "listed al = map snd (sorted_items al)"

record workspace_summary =
  sum_root :: string
  sum_runtime :: string
  sum_counts :: "nat \<times> nat \<times> nat"
  sum_apps :: "string list"
  sum_workflows :: "string list"
  sum_agents :: "string list"

definition workspace_summary_of :: "workspace \<Rightarrow> workspace_summary" where
  "workspace_summary_of w =
     \<lparr> sum_root = ws_root w, sum_runtime = ws_runtime w,
       sum_counts = (length (ws_apps w), length (ws_workflows w), length (ws_agents w)),
       sum_apps = sort (map fst (ws_apps w)), sum_workflows = sort (map fst (ws_workflows w)),
       sum_agents = sort (map fst (ws_agents w)) \<rparr>"

end
