(* ===== verification/Layers.thy ===== *)
theory Layers
  imports Prelude "HOL-Library.Multiset"
begin

text \<open>
  Ordering by rounds: the loop both \<open>Planner._order_steps\<close> and \<open>cyclic_nodes\<close> of the plan validator
  run. Each round takes the nodes none of whose dependencies remain, in the order of a sorting
  function, and stops when none is ready. The interface \<open>layering\<close> states what a sorting
  function must keep (its input, as a multiset); from it follow that a returned order is a
  permutation in which dependencies come first, and that the loop gives up exactly on a cycle.
\<close>

definition waiting :: "('a \<Rightarrow> 'a list) \<Rightarrow> 'a list \<Rightarrow> 'a \<Rightarrow> bool" where
  "waiting deps rest i \<longleftrightarrow> (\<exists>d\<in>set (deps i). d \<in> set rest)"

text \<open>\<open>Inl\<close> is the set that remains when no node is ready, \<open>Inr\<close> the order.\<close>

function rounds ::
  "('a list \<Rightarrow> 'a list) \<Rightarrow> ('a \<Rightarrow> 'a list) \<Rightarrow> 'a list \<Rightarrow> 'a list + 'a list" where
  "rounds srt deps rest =
     (if rest = [] then Inr []
      else if \<forall>i\<in>set rest. waiting deps rest i then Inl (srt rest)
      else (case rounds srt deps (filter (waiting deps rest) rest) of
          Inl c \<Rightarrow> Inl c
        | Inr later \<Rightarrow> Inr (srt (filter (\<lambda>i. \<not> waiting deps rest i) rest) @ later)))"
  by pat_completeness auto

lemma waiting_shrinks:
  assumes "x \<in> set rest" "\<not> waiting deps rest x"
  shows "length (filter (waiting deps rest) rest) < length rest"
  using assms by (rule length_filter_less)

termination rounds
  by (relation "measure (\<lambda>(_, _, rest). length rest)") (auto intro: waiting_shrinks)

declare rounds.simps [simp del]

text \<open>The dependencies among the nodes, as a relation: \<open>(d, i)\<close> when \<open>i\<close> depends on \<open>d\<close>.\<close>

definition dep_rel :: "('a \<Rightarrow> 'a list) \<Rightarrow> 'a set \<Rightarrow> ('a \<times> 'a) set" where
  "dep_rel deps N = {(d, i). i \<in> N \<and> d \<in> N \<and> d \<in> set (deps i)}"

lemma finite_dep_rel: "finite N \<Longrightarrow> finite (dep_rel deps N)"
  by (rule finite_subset[of _ "N \<times> N"]) (auto simp: dep_rel_def)

text \<open>A set in which everything has a dependency inside is a cycle, on finitely many nodes.\<close>

lemma cyclic_if_stuck:
  assumes "finite N" "S \<subseteq> N" "S \<noteq> {}" "\<forall>i\<in>S. \<exists>d\<in>set (deps i). d \<in> S"
  shows "\<not> acyclic (dep_rel deps N)"
proof
  assume "acyclic (dep_rel deps N)"
  then have "wf (dep_rel deps N)" using finite_dep_rel[OF assms(1)] by (rule finite_acyclic_wf[rotated])
  then obtain z where "z \<in> S" "\<And>y. (y, z) \<in> dep_rel deps N \<Longrightarrow> y \<notin> S"
    using assms(3) by (auto simp: wf_eq_minimal)
  with assms(2,4) show False by (fastforce simp: dep_rel_def)
qed

definition in_order :: "('a \<Rightarrow> 'a list) \<Rightarrow> 'a set \<Rightarrow> 'a list \<Rightarrow> bool" where
  "in_order deps N xs \<longleftrightarrow>
     (\<forall>before i after. xs = before @ i # after \<longrightarrow> set (deps i) \<inter> N \<subseteq> set before)"

lemma in_order_Nil [simp]: "in_order deps N []"
  by (simp add: in_order_def)

lemma in_order_snoc:
  "in_order deps N (xs @ [i]) \<longleftrightarrow> in_order deps N xs \<and> set (deps i) \<inter> N \<subseteq> set xs"
proof
  assume a: "in_order deps N (xs @ [i])"
  have "set (deps j) \<inter> N \<subseteq> set before" if "xs = before @ j # after" for before j after
    using a[unfolded in_order_def, rule_format, of before j "after @ [i]"] that by simp
  moreover have "set (deps i) \<inter> N \<subseteq> set xs"
    using a[unfolded in_order_def, rule_format, of xs i "[]"] by simp
  ultimately show "in_order deps N xs \<and> set (deps i) \<inter> N \<subseteq> set xs" by (simp add: in_order_def)
next
  assume a: "in_order deps N xs \<and> set (deps i) \<inter> N \<subseteq> set xs"
  show "in_order deps N (xs @ [i])"
    unfolding in_order_def
  proof (intro allI impI)
    fix before j after
    assume eq: "xs @ [i] = before @ j # after"
    show "set (deps j) \<inter> N \<subseteq> set before"
    proof (cases after rule: rev_cases)
      case Nil
      with eq a show ?thesis by simp
    next
      case (snoc ys y)
      with eq have "xs = before @ j # ys" by simp
      with a show ?thesis by (simp add: in_order_def)
    qed
  qed
qed

text \<open>An order in which dependencies come first excludes cycles.\<close>

lemma in_order_acyclic:
  assumes "in_order deps N xs" "set xs = N" "distinct xs"
  shows "acyclic (dep_rel deps N)"
proof -
  let ?pos = "\<lambda>i. LEAST n. n < length xs \<and> xs ! n = i"
  have pos: "?pos i < length xs \<and> xs ! ?pos i = i" if "i \<in> N" for i
    by (rule LeastI_ex) (use that assms(2) in \<open>auto simp: in_set_conv_nth\<close>)
  have "(d, i) \<in> measure ?pos" if "(d, i) \<in> dep_rel deps N" for d i
  proof -
    from that have di: "i \<in> N" "d \<in> N" "d \<in> set (deps i)" by (auto simp: dep_rel_def)
    let ?n = "?pos i"
    have "xs = take ?n xs @ i # drop (Suc ?n) xs"
      using pos[OF di(1)] id_take_nth_drop[of ?n xs] by simp
    with assms(1) have "d \<in> set (take ?n xs)"
      using di unfolding in_order_def by blast
    then obtain m where m: "m < ?n" "xs ! m = d" using pos[OF di(1)] by (auto simp: in_set_conv_nth)
    have "?pos d \<le> m" by (rule Least_le) (use m pos[OF di(1)] in auto)
    with m(1) show ?thesis by simp
  qed
  then have "wf (dep_rel deps N)" by (intro wf_subset[OF wf_measure]) auto
  then show ?thesis by (rule wf_acyclic)
qed

section \<open>The interface\<close>

locale layering =
  fixes srt :: "'a list \<Rightarrow> 'a list"
  assumes mset_srt: "mset (srt xs) = mset xs"
begin

lemma set_srt [simp]: "set (srt xs) = set xs"
  by (metis mset_srt set_mset_mset)

lemma rounds_Inr:
  assumes "rounds srt deps rest = Inr order" "rest \<noteq> []"
  obtains later where "rounds srt deps (filter (waiting deps rest) rest) = Inr later"
    "order = srt (filter (\<lambda>i. \<not> waiting deps rest i) rest) @ later"
  using assms by (subst (asm) rounds.simps) (auto split: if_splits sum.splits)

lemma rounds_ready:
  assumes "rounds srt deps rest = Inr order" "rest \<noteq> []"
  obtains x where "x \<in> set rest" "\<not> waiting deps rest x"
proof (cases "\<forall>i\<in>set rest. waiting deps rest i")
  case True
  with assms show ?thesis by (subst (asm) rounds.simps) simp
next
  case False
  with that show ?thesis by blast
qed

lemma rounds_mset: "rounds srt deps rest = Inr order \<Longrightarrow> mset order = mset rest"
proof (induction "length rest" arbitrary: rest order rule: less_induct)
  case less
  show ?case
  proof (cases "rest = []")
    case True
    with less.prems show ?thesis by (subst (asm) rounds.simps) simp
  next
    case False
    from less.prems False obtain later where l:
      "rounds srt deps (filter (waiting deps rest) rest) = Inr later"
      "order = srt (filter (\<lambda>i. \<not> waiting deps rest i) rest) @ later" by (rule rounds_Inr)
    obtain x where "x \<in> set rest" "\<not> waiting deps rest x"
      using less.prems False by (rule rounds_ready)
    then have "mset later = mset (filter (waiting deps rest) rest)"
      by (intro less.hyps l(1) waiting_shrinks)
    then have "mset order =
        mset (filter (\<lambda>i. \<not> waiting deps rest i) rest) + mset (filter (waiting deps rest) rest)"
      by (simp only: l(2) mset_append mset_srt)
    also have "\<dots> = mset rest" by (simp only: mset_filter add.commute multiset_partition[symmetric])
    finally show ?thesis .
  qed
qed

lemma rounds_stuck:
  assumes "rounds srt deps rest = Inl c"
  shows "c \<noteq> [] \<and> set c \<subseteq> set rest \<and> (\<forall>i\<in>set c. \<exists>d\<in>set (deps i). d \<in> set c)"
  using assms
proof (induction "length rest" arbitrary: rest rule: less_induct)
  case less
  have ne: "rest \<noteq> []" using less.prems by (subst (asm) rounds.simps) (auto split: if_splits)
  show ?case
  proof (cases "\<forall>i\<in>set rest. waiting deps rest i")
    case True
    then have "c = srt rest" using less.prems ne by (subst (asm) rounds.simps) simp
    moreover have "srt rest \<noteq> []" using ne set_srt[of rest] by (metis empty_set set_empty)
    ultimately show ?thesis using True by (auto simp: waiting_def)
  next
    case False
    then have "rounds srt deps (filter (waiting deps rest) rest) = Inl c"
      using less.prems ne by (subst (asm) rounds.simps) (auto split: if_splits sum.splits)
    moreover from False obtain x where "x \<in> set rest" "\<not> waiting deps rest x" by blast
    then have "length (filter (waiting deps rest) rest) < length rest" by (rule waiting_shrinks)
    ultimately have "c \<noteq> [] \<and> set c \<subseteq> set (filter (waiting deps rest) rest) \<and>
        (\<forall>i\<in>set c. \<exists>d\<in>set (deps i). d \<in> set c)"
      using less.hyps by blast
    then show ?thesis by auto
  qed
qed

lemma rounds_in_order_from:
  assumes "rounds srt deps rest = Inr order" "in_order deps N done_before"
    "set done_before \<union> set rest = N"
  shows "in_order deps N (done_before @ order)"
  using assms
proof (induction "length rest" arbitrary: rest order done_before rule: less_induct)
  case less
  show ?case
  proof (cases "rest = []")
    case True
    with less.prems show ?thesis by (subst (asm) rounds.simps) simp
  next
    case False
    from less.prems(1) False obtain later where l:
      "rounds srt deps (filter (waiting deps rest) rest) = Inr later"
      "order = srt (filter (\<lambda>i. \<not> waiting deps rest i) rest) @ later" by (rule rounds_Inr)
    let ?now = "srt (filter (\<lambda>i. \<not> waiting deps rest i) rest)"
    obtain x where x: "x \<in> set rest" "\<not> waiting deps rest x"
      using less.prems(1) False by (rule rounds_ready)
    have "in_order deps N (done_before @ xs)" if "set xs \<subseteq> set ?now" for xs
      using that
    proof (induction xs rule: rev_induct)
      case Nil
      with less.prems show ?case by simp
    next
      case (snoc i xs)
      then have "\<not> waiting deps rest i" by auto
      then have "set (deps i) \<inter> N \<subseteq> set done_before"
        using less.prems(3) by (auto simp: waiting_def)
      with snoc show ?case
        using in_order_snoc[of deps N "done_before @ xs" i] by auto
    qed
    then have "in_order deps N (done_before @ ?now)" by blast
    moreover have "set (done_before @ ?now) \<union> set (filter (waiting deps rest) rest) = N"
      using less.prems(3) by auto
    ultimately have "in_order deps N ((done_before @ ?now) @ later)"
      by (intro less.hyps[OF waiting_shrinks[OF x] l(1)])
    then show ?thesis by (simp add: l(2))
  qed
qed

lemma rounds_in_order: "rounds srt deps rest = Inr order \<Longrightarrow> in_order deps (set rest) order"
  using rounds_in_order_from[of deps rest order "set rest" "[]"] by simp

text \<open>The loop succeeds exactly on acyclic dependencies.\<close>

lemma rounds_Inr_iff_acyclic:
  assumes "distinct rest"
  shows "(\<exists>order. rounds srt deps rest = Inr order) \<longleftrightarrow> acyclic (dep_rel deps (set rest))"
proof
  assume "\<exists>order. rounds srt deps rest = Inr order"
  then obtain order where o: "rounds srt deps rest = Inr order" ..
  have "mset order = mset rest" by (rule rounds_mset[OF o])
  then have "set order = set rest" "distinct order"
    using assms by (metis set_mset_mset, metis mset_eq_imp_distinct_iff)
  with rounds_in_order[OF o] show "acyclic (dep_rel deps (set rest))" by (rule in_order_acyclic)
next
  assume a: "acyclic (dep_rel deps (set rest))"
  show "\<exists>order. rounds srt deps rest = Inr order"
  proof (cases "rounds srt deps rest")
    case (Inl c)
    from rounds_stuck[OF this] a show ?thesis
      using cyclic_if_stuck[of "set rest" "set c" deps] by auto
  qed auto
qed

end

end
