(* ===== verification/Planner.thy ===== *)
theory Planner
  imports Workspace Layers
begin

text \<open>
  The workspace planner (\<open>src/src/founderos_runtime/planner\<close>): a Workflow of the workspace becomes
  an immutable execution plan. The steps get evaluation and approval checkpoints for the subjects
  that have none, and are ordered by the loop of \<open>Layers\<close> (producers before consumers,
  approvals after the evaluations declared before them, the transition request last). The
  error texts are not modelled; an error carries the identifier it is about.
\<close>

datatype planner_error =
    PlannerWorkflowNotFound string
  | PlannerAgentNotFound string
  | PlannerArtifactReference string
  | PlannerCircularDependency "string list"
  | PlannerInvalidWorkflow string

record exec_step =
  xs_id :: string
  xs_type :: string
  xs_description :: string
  xs_agent :: "def_ref option"
  xs_inputs :: "string list"
  xs_outputs :: "string list"
  xs_evaluation :: bool
  xs_approval :: bool

text \<open>\<open>metadata["required_capabilities"]\<close>, which only plans from elsewhere carry: a list, or not a list.\<close>

datatype declared_capabilities = CapabilityList "string list" | CapabilityInvalid

record plan_metadata =
  pm_planner_version :: string
  pm_workflow_version :: string
  pm_workflow_type :: string
  pm_step_order :: "string list"
  pm_source :: string
  pm_capabilities :: "declared_capabilities option"

record execution_plan =
  pl_workflow :: string
  pl_steps :: "exec_step list"
  pl_agents :: "def_ref list"
  pl_required :: "artifact_ref list"
  pl_produced :: "artifact_ref list"
  pl_evaluations :: "wf_evaluation list"
  pl_approvals :: "wf_approval list"
  pl_transition :: "wf_transition option"
  pl_metadata :: plan_metadata

section \<open>Shape and agents\<close>

text \<open>The keys the shape check looks for are fields of the record, so only the step ids remain.\<close>

definition validate_workflow_shape :: "workflow_def \<Rightarrow> planner_error + unit" where
  "validate_workflow_shape w =
     (let ids = map st_id (wd_steps w)
      in if [] \<in> set ids then Inl (PlannerInvalidWorkflow (wd_id w))
         else demand (distinct ids) (PlannerInvalidWorkflow (wd_id w)))"

definition resolve_agent :: "workspace \<Rightarrow> def_ref \<Rightarrow> planner_error + def_ref" where
  "resolve_agent ws r =
     (case get_agent ws (dr_id r) of
        Inl _ \<Rightarrow> Inl (PlannerAgentNotFound (dr_id r))
      | Inr a \<Rightarrow> if agd_version a \<noteq> dr_version r then Inl (PlannerAgentNotFound (dr_id r)) else Inr r)"

definition check_step_agent :: "(string \<times> def_ref) list \<Rightarrow> wf_step \<Rightarrow> planner_error + unit" where
  "check_step_agent by_id s =
     (case st_agent s of
        None \<Rightarrow> Inr ()
      | Some r \<Rightarrow>
          (case map_of by_id (dr_id r) of
             None \<Rightarrow> Inl (PlannerAgentNotFound (st_id s))
           | Some d \<Rightarrow> demand (dr_version d = dr_version r) (PlannerAgentNotFound (st_id s))))"

definition resolve_agents :: "workspace \<Rightarrow> workflow_def \<Rightarrow> planner_error + def_ref list" where
  "resolve_agents ws w =
     andthen (mapE (resolve_agent ws) (sort_key (\<lambda>r. (dr_id r, dr_version r)) (wd_required_agents w))) (\<lambda>resolved.
     andthen (eachE (check_step_agent (dict_of dr_id (\<lambda>r. r) resolved)) (wd_steps w)) (\<lambda>_.
     Inr resolved))"

definition artifact_references :: "artifact_ref list \<Rightarrow> artifact_ref list" where
  "artifact_references items = sort_key aref_id items"

section \<open>Checkpoints\<close>

definition covered :: "string \<Rightarrow> wf_step list \<Rightarrow> string list" where
  "covered kind steps = concat (map st_inputs (filter (\<lambda>s. st_type s = kind) steps))"

definition evaluation_checkpoint :: "wf_evaluation \<Rightarrow> wf_step" where
  "evaluation_checkpoint e =
     \<lparr> st_id = ''evaluation.'' @ we_id e, st_name = ''Evaluate '' @ we_subject e,
       st_type = ''evaluation'', st_agent = None, st_inputs = [we_subject e], st_outputs = [],
       st_approval = False \<rparr>"

definition approval_checkpoint :: "wf_approval \<Rightarrow> wf_step" where
  "approval_checkpoint a =
     \<lparr> st_id = ''approval.'' @ wa_id a, st_name = ''Approve '' @ wa_subject a,
       st_type = ''approval'', st_agent = None, st_inputs = [wa_subject a], st_outputs = [],
       st_approval = True \<rparr>"

definition with_checkpoints :: "workflow_def \<Rightarrow> wf_step list" where
  "with_checkpoints w =
     (let steps = wd_steps w;
          evaluated = steps @ map evaluation_checkpoint
            (filter (\<lambda>e. we_subject e \<notin> set (covered ''evaluation'' steps)) (sort_key we_id (wd_evaluations w)))
      in evaluated @ map approval_checkpoint
           (filter (\<lambda>a. wa_subject_type a = ''artifact'' \<and> wa_subject a \<notin> set (covered ''approval'' evaluated))
              (sort_key wa_id (wd_approvals w))))"

section \<open>The order of the steps\<close>

definition add_producer ::
  "string list \<Rightarrow> (string \<times> string) list \<Rightarrow> string \<times> string \<Rightarrow> planner_error + (string \<times> string) list" where
  "add_producer declared producers =
     (\<lambda>(step, artifact).
        if artifact \<notin> set declared then Inl (PlannerArtifactReference artifact)
        else if map_of producers artifact \<noteq> None then Inl (PlannerArtifactReference artifact)
        else Inr (AList.update artifact step producers))"

definition outputs_of :: "wf_step list \<Rightarrow> (string \<times> string) list" where
  "outputs_of steps = concat (map (\<lambda>s. map (\<lambda>a. (st_id s, a)) (st_outputs s)) steps)"

definition producers_of :: "string list \<Rightarrow> wf_step list \<Rightarrow> planner_error + (string \<times> string) list" where
  "producers_of declared steps = foldE (add_producer declared) [] (outputs_of steps)"

definition check_inputs ::
  "(string \<times> string) list \<Rightarrow> string list \<Rightarrow> wf_step \<Rightarrow> planner_error + unit" where
  "check_inputs producers required s =
     eachE (\<lambda>a. demand (map_of producers a \<noteq> None \<or> a \<in> set required) (PlannerArtifactReference a))
       (st_inputs s)"

definition ids_of_type :: "string \<Rightarrow> wf_step list \<Rightarrow> string list" where
  "ids_of_type kind steps = map st_id (filter (\<lambda>s. st_type s = kind) steps)"

text \<open>The index of a step: the length of the prefix before it.\<close>

definition position :: "string list \<Rightarrow> string \<Rightarrow> nat" where
  "position ids i = length (takeWhile (\<lambda>j. j \<noteq> i) ids)"

definition step_dependencies ::
  "wf_step list \<Rightarrow> (string \<times> string) list \<Rightarrow> wf_step \<Rightarrow> string list" where
  "step_dependencies steps producers s =
     List.map_filter (map_of producers) (st_inputs s) @
     (if st_type s = ''approval''
      then filter (\<lambda>i. position (map st_id steps) i < position (map st_id steps) (st_id s))
             (ids_of_type ''evaluation'' steps) else []) @
     (if st_type s = ''transition_request''
      then ids_of_type ''evaluation'' steps @ ids_of_type ''approval'' steps else [])"

definition dependencies_of ::
  "wf_step list \<Rightarrow> (string \<times> string) list \<Rightarrow> string \<Rightarrow> string list" where
  "dependencies_of steps producers i =
     (case find (\<lambda>s. st_id s = i) steps of
        None \<Rightarrow> [] | Some s \<Rightarrow> step_dependencies steps producers s)"

definition by_position :: "string list \<Rightarrow> string list \<Rightarrow> string list" where
  "by_position ids xs = sort_key (\<lambda>i. (position ids i, i)) xs"

definition order_steps ::
  "wf_step list \<Rightarrow> string list \<Rightarrow> string list \<Rightarrow> planner_error + wf_step list" where
  "order_steps steps required declared =
     (let ids = map st_id steps
      in andthen (demand (distinct ids) (PlannerInvalidWorkflow [])) (\<lambda>_.
         andthen (producers_of declared steps) (\<lambda>producers.
         andthen (case filter (\<lambda>a. map_of producers a = None) (sort declared) of
                    [] \<Rightarrow> Inr () | a # _ \<Rightarrow> Inl (PlannerArtifactReference a)) (\<lambda>_.
         andthen (eachE (check_inputs producers required) steps) (\<lambda>_.
         (case rounds (by_position ids) (dependencies_of steps producers) ids of
            Inl cycle \<Rightarrow> Inl (PlannerCircularDependency cycle)
          | Inr order \<Rightarrow> Inr (List.map_filter (\<lambda>i. find (\<lambda>s. st_id s = i) steps) order)))))))"

section \<open>The plan\<close>

definition execution_step :: "string list \<Rightarrow> string list \<Rightarrow> wf_step \<Rightarrow> exec_step" where
  "execution_step evaluation_subjects approval_subjects s =
     (let outputs = sort (st_outputs s)
      in \<lparr> xs_id = st_id s, xs_type = st_type s, xs_description = st_name s, xs_agent = st_agent s,
           xs_inputs = sort (st_inputs s), xs_outputs = outputs,
           xs_evaluation = (st_type s = ''evaluation'' \<or> (\<exists>a\<in>set outputs. a \<in> set evaluation_subjects)),
           xs_approval = (st_approval s \<or> st_type s = ''approval'' \<or>
             (\<exists>a\<in>set outputs. a \<in> set approval_subjects)) \<rparr>)"

definition evaluation_subjects :: "workflow_def \<Rightarrow> string list" where
  "evaluation_subjects w = map we_subject (wd_evaluations w)"

definition approval_subjects :: "workflow_def \<Rightarrow> string list" where
  "approval_subjects w = map wa_subject (filter (\<lambda>a. wa_subject_type a = ''artifact'') (wd_approvals w))"

definition plan_workflow :: "workspace \<Rightarrow> string \<Rightarrow> planner_error + execution_plan" where
  "plan_workflow ws workflow_id =
     andthen (demand (workflow_id \<noteq> []) (PlannerInvalidWorkflow workflow_id)) (\<lambda>_.
     andthen (wrapped (\<lambda>_. PlannerWorkflowNotFound workflow_id) (get_workflow ws workflow_id)) (\<lambda>w.
     andthen (validate_workflow_shape w) (\<lambda>_.
     andthen (resolve_agents ws w) (\<lambda>agents.
     let required = artifact_references (wd_required_artifacts w);
         produced = artifact_references (wd_produced_artifacts w)
     in andthen (order_steps (with_checkpoints w) (map aref_id required) (map aref_id produced)) (\<lambda>ordered.
        let steps = map (execution_step (evaluation_subjects w) (approval_subjects w)) ordered
        in Inr \<lparr> pl_workflow = wd_id w, pl_steps = steps, pl_agents = agents, pl_required = required,
                 pl_produced = produced, pl_evaluations = wd_evaluations w,
                 pl_approvals = wd_approvals w, pl_transition = wd_transition w,
                 pl_metadata = \<lparr> pm_planner_version = ''1.0.0'', pm_workflow_version = wd_version w,
                   pm_workflow_type = wd_type w, pm_step_order = map xs_id steps,
                   pm_source = ''workspace'', pm_capabilities = None \<rparr> \<rparr>)))))"

record planner_summary =
  ps_version :: string
  ps_root :: string
  ps_count :: nat
  ps_available :: "string list"
  ps_read_only :: bool

definition planner_summary_of :: "workspace \<Rightarrow> planner_summary" where
  "planner_summary_of ws =
     (let s = workspace_summary_of ws
      in \<lparr> ps_version = ''1.0.0'', ps_root = sum_root s, ps_count = fst (snd (sum_counts s)),
           ps_available = sum_workflows s, ps_read_only = True \<rparr>)"

end
