(* ===== verification/Validation.thy ===== *)
theory Validation
  imports Planner
begin

text \<open>
  The plan validator (\<open>src/src/founderos_runtime/validation\<close>): structural rules over an execution
  plan and its workspace, collected without short-circuit into a report. Findings carry the
  code's texts, because the report is sorted by them.
\<close>

section \<open>Reports\<close>

datatype severity = SevWarning | SevError

fun severity_value :: "severity \<Rightarrow> string" where
  "severity_value SevWarning = ''warning''"
| "severity_value SevError = ''error''"

record finding =
  fd_code :: string
  fd_severity :: severity
  fd_message :: string
  fd_subject :: string

record report_metadata =
  rm_validator_version :: string
  rm_workflow :: string
  rm_step_count :: nat
  rm_runtime :: string

record validation_report =
  vr_valid :: bool
  vr_findings :: "finding list"
  vr_warnings :: "finding list"
  vr_errors :: "finding list"
  vr_metadata :: report_metadata

text \<open>The constructor checks its fields: \<open>Inl\<close> is the \<open>ValueError\<close> of \<open>__post_init__\<close>.\<close>

definition make_report ::
  "bool \<Rightarrow> finding list \<Rightarrow> finding list \<Rightarrow> finding list \<Rightarrow> report_metadata \<Rightarrow>
   string + validation_report" where
  "make_report valid findings warnings errors metadata =
     (if warnings \<noteq> filter (\<lambda>x. fd_severity x = SevWarning) findings \<or>
         errors \<noteq> filter (\<lambda>x. fd_severity x = SevError) findings
      then Inl ''warnings and errors must be projections of findings''
      else if valid \<noteq> (errors = []) then Inl ''valid must be true exactly when errors is empty''
      else Inr \<lparr> vr_valid = valid, vr_findings = findings, vr_warnings = warnings,
                 vr_errors = errors, vr_metadata = metadata \<rparr>)"

definition finding_key :: "finding \<Rightarrow> string \<times> string \<times> string \<times> string" where
  "finding_key x = (severity_value (fd_severity x), fd_code x, fd_subject x, fd_message x)"

definition report :: "finding list \<Rightarrow> report_metadata \<Rightarrow> string + validation_report" where
  "report findings metadata =
     (let ordered = sort_key finding_key findings;
          warnings = filter (\<lambda>x. fd_severity x = SevWarning) ordered;
          errors = filter (\<lambda>x. fd_severity x = SevError) ordered
      in make_report (errors = []) ordered warnings errors metadata)"

section \<open>Rules\<close>

definition error_finding :: "string \<Rightarrow> string \<Rightarrow> string \<Rightarrow> finding" where
  "error_finding code message subject =
     \<lparr> fd_code = code, fd_severity = SevError, fd_message = message, fd_subject = subject \<rparr>"

fun duplicates_loop :: "string list \<Rightarrow> string list \<Rightarrow> string list \<Rightarrow> string list" where
  "duplicates_loop seen duplicates [] = duplicates"
| "duplicates_loop seen duplicates (v # vs) =
     duplicates_loop (v # seen) (if v \<in> set seen then v # duplicates else duplicates) vs"

definition duplicate_values :: "string list \<Rightarrow> string list" where
  "duplicate_values vs = sorted_set (duplicates_loop [] [] vs)"

text \<open>\<open>producers.setdefault(artifact, step)\<close>: the first producer stays.\<close>

definition set_default :: "string \<Rightarrow> string \<Rightarrow> (string \<times> string) list \<Rightarrow> (string \<times> string) list" where
  "set_default k v d = (if map_of d k = None then AList.update k v d else d)"

definition graph_producers :: "exec_step list \<Rightarrow> (string \<times> string) list" where
  "graph_producers steps =
     fold (\<lambda>s d. fold (\<lambda>a d. set_default a (xs_id s) d) (xs_outputs s) d) steps []"

definition graph_edges_of ::
  "exec_step list \<Rightarrow> (string \<times> string) list \<Rightarrow> string \<Rightarrow> string list" where
  "graph_edges_of steps producers i =
     List.map_filter (map_of producers) (concat (map xs_inputs (filter (\<lambda>s. xs_id s = i) steps)))"

definition artifact_graph :: "execution_plan \<Rightarrow> (string \<times> string) list \<times> (string \<times> string list) list" where
  "artifact_graph p =
     (let producers = graph_producers (pl_steps p)
      in (producers,
          dict_of xs_id (\<lambda>s. graph_edges_of (pl_steps p) producers (xs_id s)) (pl_steps p)))"

definition edges_at :: "(string \<times> string list) list \<Rightarrow> string \<Rightarrow> string list" where
  "edges_at g n = (case map_of g n of None \<Rightarrow> [] | Some es \<Rightarrow> es)"

definition cyclic_nodes :: "(string \<times> string list) list \<Rightarrow> string list" where
  "cyclic_nodes g =
     (case rounds sort (edges_at g) (map fst g) of Inl cycle \<Rightarrow> cycle | Inr _ \<Rightarrow> [])"

section \<open>The validator\<close>

definition workflow_findings :: "workspace \<Rightarrow> execution_plan \<Rightarrow> finding list" where
  "workflow_findings ws p =
     (case get_workflow ws (pl_workflow p) of
        Inr _ \<Rightarrow> []
      | Inl _ \<Rightarrow> [error_finding ''workflow.missing''
                   ''plan Workflow does not exist in Workspace'' (pl_workflow p)])"

definition id_groups :: "execution_plan \<Rightarrow> (string \<times> string list) list" where
  "id_groups p =
     [(''step'', map xs_id (pl_steps p)),
      (''agent'', map dr_id (pl_agents p)),
      (''required_artifact'', map aref_id (pl_required p)),
      (''produced_artifact'', map aref_id (pl_produced p)),
      (''evaluation'', map we_id (pl_evaluations p))]"

definition duplicate_findings :: "execution_plan \<Rightarrow> finding list" where
  "duplicate_findings p =
     concat (map (\<lambda>(kind, values). map (\<lambda>i.
         error_finding ''id.duplicate'' (''duplicate '' @ kind @ '' id '' @ py_repr i) i)
       (duplicate_values values)) (id_groups p))"

definition agent_findings :: "workspace \<Rightarrow> execution_plan \<Rightarrow> finding list" where
  "agent_findings ws p =
     concat (map (\<lambda>r.
       case get_agent ws (dr_id r) of
         Inl _ \<Rightarrow> [error_finding ''agent.missing'' ''required Agent does not exist'' (dr_id r)]
       | Inr a \<Rightarrow> if agd_version a \<noteq> dr_version r
                  then [error_finding ''agent.version_mismatch'' ''Agent version differs'' (dr_id r)] else [])
       (pl_agents p)) @
     concat (map (\<lambda>s.
       case xs_agent s of
         None \<Rightarrow> []
       | Some r \<Rightarrow> if (dr_id r, dr_version r) \<notin> set (map (\<lambda>d. (dr_id d, dr_version d)) (pl_agents p))
                   then [error_finding ''agent.undeclared'' ''step Agent is not present in required_agents''
                           (xs_id s)] else [])
       (pl_steps p))"

definition step_artifact_findings :: "string list \<Rightarrow> string list \<Rightarrow> exec_step \<Rightarrow> finding list" where
  "step_artifact_findings required produced s =
     map (\<lambda>a. error_finding ''artifact.missing'' ''step input Artifact is undeclared'' (xs_id s @ '':'' @ a))
       (filter (\<lambda>a. a \<notin> set required \<and> a \<notin> set produced) (xs_inputs s)) @
     map (\<lambda>a. error_finding ''artifact.undeclared_output'' ''step output Artifact is undeclared''
            (xs_id s @ '':'' @ a))
       (filter (\<lambda>a. a \<notin> set produced) (xs_outputs s))"

definition producer_count :: "exec_step list \<Rightarrow> string \<Rightarrow> nat" where
  "producer_count steps a = length (filter (\<lambda>b. b = a) (concat (map xs_outputs steps)))"

definition artifact_findings :: "execution_plan \<Rightarrow> finding list" where
  "artifact_findings p =
     (let required = map aref_id (pl_required p); produced = map aref_id (pl_produced p)
      in concat (map (step_artifact_findings required produced) (pl_steps p)) @
         concat (map (\<lambda>a.
           if producer_count (pl_steps p) a = 0
           then [error_finding ''artifact.no_producer'' ''produced Artifact has no producer'' a]
           else if producer_count (pl_steps p) a > 1
           then [error_finding ''artifact.multiple_producers'' ''Artifact has multiple producers'' a] else [])
           (sorted_set produced)))"

definition index_of_step :: "execution_plan \<Rightarrow> (string \<times> nat) list" where
  "index_of_step p = dict_of fst snd (zip (map xs_id (pl_steps p)) [0..<length (pl_steps p)])"

definition order_findings :: "execution_plan \<Rightarrow> string \<Rightarrow> string list \<Rightarrow> finding list" where
  "order_findings p consumer producers =
     map (\<lambda>producer. error_finding ''dependency.order_invalid''
            (''producer '' @ py_repr producer @ '' must precede consumer '' @ py_repr consumer) consumer)
       (filter (\<lambda>producer.
          case (map_of (index_of_step p) producer, map_of (index_of_step p) consumer) of
            (Some m, Some n) \<Rightarrow> n \<le> m | _ \<Rightarrow> False)
         (sorted_set producers))"

definition dependency_findings :: "execution_plan \<Rightarrow> finding list" where
  "dependency_findings p =
     (let g = snd (artifact_graph p); cycle = cyclic_nodes g
      in if cycle \<noteq> []
         then [error_finding ''dependency.circular''
                 (''circular dependency: '' @ join_with '', '' cycle) (pl_workflow p)]
         else concat (map (\<lambda>consumer. order_findings p consumer (edges_at g consumer)) (sort (map fst g))))"

definition matches_evaluation :: "wf_evaluation \<Rightarrow> exec_step \<Rightarrow> bool" where
  "matches_evaluation e s \<longleftrightarrow>
     xs_type s = ''evaluation'' \<and> (we_subject e \<in> set (xs_inputs s) \<or> xs_id s = ''evaluation.'' @ we_id e)"

definition evaluation_findings :: "execution_plan \<Rightarrow> finding list" where
  "evaluation_findings p =
     concat (map (\<lambda>e.
       if we_id e = [] then [error_finding ''evaluation.invalid'' ''Evaluation id is missing'' (pl_workflow p)]
       else
         (if we_subject e \<notin> set (map aref_id (pl_required p @ pl_produced p))
          then [error_finding ''evaluation.subject_missing'' ''Evaluation subject is undeclared'' (we_id e)]
          else []) @
         (if we_required e \<and> filter (matches_evaluation e) (pl_steps p) = []
          then [error_finding ''evaluation.checkpoint_missing'' ''required Evaluation has no checkpoint'' (we_id e)]
          else []))
       (pl_evaluations p))"

definition declared_approvals :: "execution_plan \<Rightarrow> (string \<times> wf_approval) list" where
  "declared_approvals p = dict_of wa_id (\<lambda>a. a) (filter (\<lambda>a. wa_id a \<noteq> []) (pl_approvals p))"

definition matches_approval :: "string \<Rightarrow> wf_approval \<Rightarrow> exec_step \<Rightarrow> bool" where
  "matches_approval i a s \<longleftrightarrow>
     xs_type s = ''approval'' \<and> (wa_subject a \<in> set (xs_inputs s) \<or> xs_id s = ''approval.'' @ i)"

definition approval_findings :: "execution_plan \<Rightarrow> finding list" where
  "approval_findings p =
     concat (map (\<lambda>(i, a).
       if wa_required a \<and> filter (matches_approval i a) (pl_steps p) = []
       then [error_finding ''approval.checkpoint_missing'' ''required Approval has no checkpoint'' i] else [])
       (sort_key fst (declared_approvals p))) @
     (case pl_transition p of
        None \<Rightarrow> []
      | Some t \<Rightarrow> map (\<lambda>r. error_finding ''approval.reference_missing''
                    ''transition references an undeclared Approval'' r)
                  (filter (\<lambda>r. map_of (declared_approvals p) r = None) (wt_approvals t)))"

definition version_findings :: "workspace \<Rightarrow> execution_plan \<Rightarrow> finding list" where
  "version_findings ws p =
     (case get_workflow ws (pl_workflow p) of
        Inl _ \<Rightarrow> []
      | Inr w \<Rightarrow> if pm_workflow_version (pl_metadata p) \<noteq> wd_version w
                 then [error_finding ''workflow.version_mismatch''
                         ''plan workflow version does not match Workspace definition'' (pl_workflow p)] else [])"

definition plan_findings :: "workspace \<Rightarrow> execution_plan \<Rightarrow> finding list" where
  "plan_findings ws p =
     workflow_findings ws p @ duplicate_findings p @ agent_findings ws p @ artifact_findings p @
     dependency_findings p @ evaluation_findings p @ approval_findings p @ version_findings ws p"

definition validate_plan :: "workspace \<Rightarrow> execution_plan \<Rightarrow> string + validation_report" where
  "validate_plan ws p =
     report (plan_findings ws p)
       \<lparr> rm_validator_version = ''1.0.0'', rm_workflow = pl_workflow p,
         rm_step_count = length (pl_steps p), rm_runtime = ws_runtime ws \<rparr>"

end
