(* ===== verification/Authorization.thy ===== *)
theory Authorization
  imports Validation
begin

text \<open>
  The plan authorization engine (\<open>src/src/founderos_runtime/authorization\<close>): fixed policies in a
  fixed order, with deny overriding. A decision records every policy that was reached. The
  property: the engine is total, and it allows exactly the validated plans of known capabilities
  whose high-risk capabilities have an approval gate.
\<close>

record policy_result =
  pr_policy :: string
  pr_outcome :: string
  pr_reason :: string

record decision_metadata =
  dm_version :: string
  dm_workflow :: string
  dm_capabilities :: "string list"
  dm_policy_order :: "string list"
  dm_human_approval :: bool

record authorization_decision =
  ad_allowed :: bool
  ad_reason :: string
  ad_approvals :: "string list"
  ad_results :: "policy_result list"
  ad_metadata :: decision_metadata

section \<open>Policies\<close>

definition policy_order :: "string list" where
  "policy_order = [''deny_missing_validation'', ''deny_unknown_capability'',
     ''require_approval_for_high_risk'', ''allow_safe_plan'']"

definition step_capabilities :: "(string \<times> string) list" where
  "step_capabilities =
     [(''human_input'', ''input.reference''), (''agent_task'', ''provider.mock.invoke''),
      (''evaluation'', ''evaluation.run''), (''approval'', ''approval.request''),
      (''activity_request'', ''activity.request''),
      (''artifact_creation'', ''artifact.in_memory.create''),
      (''transition_request'', ''state.transition.request'')]"

definition known_capabilities :: "string list" where
  "known_capabilities = map snd step_capabilities"

definition high_risk_capabilities :: "string list" where
  "high_risk_capabilities = [''activity.request'', ''state.transition.request'']"

definition step_capability :: "string \<Rightarrow> string" where
  "step_capability t = (case map_of step_capabilities t of Some c \<Rightarrow> c | None \<Rightarrow> ''step.'' @ t)"

definition requested_capabilities :: "execution_plan \<Rightarrow> string list" where
  "requested_capabilities p =
     sorted_set (map (\<lambda>s. step_capability (xs_type s)) (pl_steps p) @
       (case pm_capabilities (pl_metadata p) of
          None \<Rightarrow> []
        | Some CapabilityInvalid \<Rightarrow> [''<invalid>'']
        | Some (CapabilityList cs) \<Rightarrow> cs))"

definition declared_approval_ids :: "execution_plan \<Rightarrow> string list" where
  "declared_approval_ids p = sort (map wa_id (filter wa_required (pl_approvals p)))"

definition transition_approval_ids :: "execution_plan \<Rightarrow> string list" where
  "transition_approval_ids p = (case pl_transition p of None \<Rightarrow> [] | Some t \<Rightarrow> sort (wt_approvals t))"

section \<open>The engine\<close>

text \<open>The constructor of a decision: \<open>Inl\<close> is the \<open>ValueError\<close> of \<open>__post_init__\<close>.\<close>

definition make_decision ::
  "bool \<Rightarrow> string \<Rightarrow> string list \<Rightarrow> policy_result list \<Rightarrow> decision_metadata \<Rightarrow>
   string + authorization_decision" where
  "make_decision allowed reason approvals results metadata =
     (if reason = [] then Inl ''reason must be a non-empty string''
      else if \<not> distinct approvals then Inl ''required_approvals must be unique''
      else Inr \<lparr> ad_allowed = allowed, ad_reason = reason, ad_approvals = sort approvals,
                 ad_results = results, ad_metadata = metadata \<rparr>)"

definition decision_for ::
  "execution_plan \<Rightarrow> bool \<Rightarrow> string \<Rightarrow> string list \<Rightarrow> policy_result list \<Rightarrow> string + authorization_decision" where
  "decision_for p allowed reason approvals results =
     make_decision allowed reason approvals results
       \<lparr> dm_version = ''1.0.0'', dm_workflow = pl_workflow p, dm_capabilities = requested_capabilities p,
         dm_policy_order = policy_order, dm_human_approval = False \<rparr>"

definition policy :: "string \<Rightarrow> string \<Rightarrow> string \<Rightarrow> policy_result" where
  "policy name outcome reason = \<lparr> pr_policy = name, pr_outcome = outcome, pr_reason = reason \<rparr>"

definition unknown_of :: "execution_plan \<Rightarrow> string list" where
  "unknown_of p = sorted_set (filter (\<lambda>c. c \<notin> set known_capabilities) (requested_capabilities p))"

definition high_risk_of :: "execution_plan \<Rightarrow> string list" where
  "high_risk_of p = sorted_set (filter (\<lambda>c. c \<in> set high_risk_capabilities) (requested_capabilities p))"

definition required_gates :: "execution_plan \<Rightarrow> string list" where
  "required_gates p =
     (if high_risk_of p \<noteq> [] then sorted_set (declared_approval_ids p @ transition_approval_ids p) else [])"

definition authorize ::
  "execution_plan \<Rightarrow> validation_report option \<Rightarrow> string + authorization_decision" where
  "authorize p validation =
     (case validation of
        Some r \<Rightarrow>
          if \<not> vr_valid r then
            decision_for p False ''MISSING_OR_INVALID_VALIDATION'' []
              [policy ''deny_missing_validation'' ''deny'' ''valid ValidationReport required'']
          else
            let first = policy ''deny_missing_validation'' ''pass'' ''validation is valid''
            in if unknown_of p \<noteq> [] then
                 decision_for p False ''UNKNOWN_CAPABILITY'' []
                   [first, policy ''deny_unknown_capability'' ''deny'' (''unknown capability: '' @ hd (unknown_of p))]
               else
                 let second = policy ''deny_unknown_capability'' ''pass'' ''all capabilities known''
                 in if high_risk_of p \<noteq> [] \<and> required_gates p = [] then
                      decision_for p False ''HIGH_RISK_APPROVAL_MISSING'' []
                        [first, second, policy ''require_approval_for_high_risk'' ''deny''
                           ''high-risk capability has no declared Approval gate'']
                    else
                      decision_for p True ''ALLOW_SAFE_PLAN'' (required_gates p)
                        [first, second,
                         policy ''require_approval_for_high_risk''
                           (if high_risk_of p \<noteq> [] then ''require'' else ''pass'')
                           (if high_risk_of p \<noteq> [] then ''Approval gate declared''
                            else ''plan has no high-risk capability''),
                         policy ''allow_safe_plan'' ''allow'' ''validated plan is allowed'']
      | None \<Rightarrow>
          decision_for p False ''MISSING_OR_INVALID_VALIDATION'' []
            [policy ''deny_missing_validation'' ''deny'' ''valid ValidationReport required''])"

section \<open>Deny overrides\<close>

definition has_high_risk :: "execution_plan \<Rightarrow> bool" where
  "has_high_risk p \<longleftrightarrow> set (requested_capabilities p) \<inter> set high_risk_capabilities \<noteq> {}"

definition gates :: "execution_plan \<Rightarrow> string set" where
  "gates p = wa_id ` {a \<in> set (pl_approvals p). wa_required a} \<union>
     (case pl_transition p of None \<Rightarrow> {} | Some t \<Rightarrow> set (wt_approvals t))"

lemma gates_set: "set (declared_approval_ids p @ transition_approval_ids p) = gates p"
  by (auto simp: gates_def declared_approval_ids_def transition_approval_ids_def split: option.splits)

lemma high_risk_of_iff: "high_risk_of p \<noteq> [] \<longleftrightarrow> has_high_risk p"
  by (auto simp: high_risk_of_def has_high_risk_def filter_empty_conv)

lemma unknown_of_iff: "unknown_of p = [] \<longleftrightarrow> set (requested_capabilities p) \<subseteq> set known_capabilities"
  by (auto simp: unknown_of_def filter_empty_conv)

lemma required_gates_set: "set (required_gates p) = (if has_high_risk p then gates p else {})"
  using gates_set[of p] by (auto simp: required_gates_def high_risk_of_iff)

lemma required_gates_Nil: "required_gates p = [] \<longleftrightarrow> has_high_risk p \<longrightarrow> gates p = {}"
  using required_gates_set[of p] by (metis set_empty)

lemma decision_for_Inr:
  "reason \<noteq> [] \<Longrightarrow> distinct approvals \<Longrightarrow>
     \<exists>d. decision_for p allowed reason approvals results = Inr d \<and> ad_allowed d = allowed \<and>
       ad_reason d = reason \<and> ad_approvals d = sort approvals \<and> ad_results d = results"
  by (simp add: decision_for_def make_decision_def)

lemma distinct_required_gates [simp]: "distinct (required_gates p)"
  by (simp add: required_gates_def)

lemma authorize_Inr: "\<exists>d. authorize p validation = Inr d"
  by (simp add: authorize_def Let_def decision_for_def make_decision_def split: option.split)

text \<open>
  C6: Authorization is total and deny-overriding. Every plan gets a decision; it is allowed exactly
  when a valid report is given, every requested capability is known, and a high-risk capability
  comes with an approval gate. An allowed high-risk plan lists exactly its declared gates, any
  other decision lists none, and the policies on record are a prefix of the fixed order that
  ends with the first denial.
\<close>

theorem authorization_denies_by_default:
  "\<exists>d. authorize p validation = Inr d \<and>
     (ad_allowed d \<longleftrightarrow>
        (\<exists>r. validation = Some r \<and> vr_valid r) \<and>
        set (requested_capabilities p) \<subseteq> set known_capabilities \<and>
        \<not> (has_high_risk p \<and> gates p = {})) \<and>
     set (ad_approvals d) = (if ad_allowed d \<and> has_high_risk p then gates p else {}) \<and>
     map pr_policy (ad_results d) = take (length (ad_results d)) policy_order \<and>
     (ad_allowed d \<longleftrightarrow> ''deny'' \<notin> set (map pr_outcome (ad_results d)))"
proof -
  have refused: "\<exists>d. authorize p v = Inr d \<and> \<not> ad_allowed d \<and> ad_approvals d = [] \<and>
      map pr_policy (ad_results d) = take (length (ad_results d)) policy_order \<and>
      ''deny'' \<in> set (map pr_outcome (ad_results d))"
    if "v = None \<or> (\<exists>r. v = Some r \<and> (\<not> vr_valid r \<or> unknown_of p \<noteq> [] \<or>
          high_risk_of p \<noteq> [] \<and> required_gates p = []))" for v
    using that
    by (auto simp: authorize_def Let_def decision_for_def make_decision_def policy_def policy_order_def)
  have allowed: "\<exists>d. authorize p (Some r) = Inr d \<and> ad_allowed d \<and> ad_approvals d = sort (required_gates p) \<and>
      map pr_policy (ad_results d) = take (length (ad_results d)) policy_order \<and>
      ''deny'' \<notin> set (map pr_outcome (ad_results d))"
    if "vr_valid r" "unknown_of p = []" "\<not> (high_risk_of p \<noteq> [] \<and> required_gates p = [])" for r
    using that
    by (auto simp: authorize_def Let_def decision_for_def make_decision_def policy_def policy_order_def)
  show ?thesis
  proof (cases "\<exists>r. validation = Some r \<and> vr_valid r \<and> unknown_of p = [] \<and>
      \<not> (high_risk_of p \<noteq> [] \<and> required_gates p = [])")
    case True
    then obtain r where r: "validation = Some r" "vr_valid r" "unknown_of p = []"
      "\<not> (high_risk_of p \<noteq> [] \<and> required_gates p = [])" by blast
    from allowed[OF r(2-4)] obtain d where d: "authorize p validation = Inr d" "ad_allowed d"
      "ad_approvals d = sort (required_gates p)"
      "map pr_policy (ad_results d) = take (length (ad_results d)) policy_order"
      "''deny'' \<notin> set (map pr_outcome (ad_results d))" using r(1) by blast
    with r show ?thesis
      by (intro exI[of _ d])
        (simp add: unknown_of_iff high_risk_of_iff required_gates_Nil required_gates_set)
  next
    case False
    then have "validation = None \<or> (\<exists>r. validation = Some r \<and> (\<not> vr_valid r \<or> unknown_of p \<noteq> [] \<or>
        high_risk_of p \<noteq> [] \<and> required_gates p = []))" by (cases validation) auto
    from refused[OF this] obtain d where d: "authorize p validation = Inr d" "\<not> ad_allowed d"
      "ad_approvals d = []" "map pr_policy (ad_results d) = take (length (ad_results d)) policy_order"
      "''deny'' \<in> set (map pr_outcome (ad_results d))" by blast
    with False show ?thesis
      by (intro exI[of _ d]) (auto simp: unknown_of_iff high_risk_of_iff required_gates_Nil)
  qed
qed

text \<open>
  Nothing of the report but its verdict is used: a valid report about another plan, or about another
  Workflow, authorizes a plan just as its own would.
\<close>

lemma authorization_accepts_any_valid_report:
  "authorize p (Some (r\<lparr> vr_valid := True \<rparr>)) =
   authorize p (Some (r'\<lparr> vr_valid := True, vr_metadata := m \<rparr>))"
  by (simp add: authorize_def)

end
