(* ===== verification/Evaluation.thy ===== *)
theory Evaluation
  imports Numerals
begin

text \<open>
  The deterministic evaluation runner (\<open>src/src/founderos_runtime/evaluation\<close>): rules and their
  configuration checks, the built-in rule kinds, the findings on content and expected schema, and
  the score with its threshold. JSON Schema validation and regular expressions are arguments
  (\<open>checker\<close>), custom handlers are the argument they are in the code. Scores are rationals rounded
  to six digits like \<open>round(x, 6)\<close>; the binary representation of Python floats is not modelled.
\<close>

datatype evaluation_error =
    EvaluationRequestErr string
  | EvaluationConfigurationErr string
  | EvaluationExecutionErr string

datatype rule_severity = Info | Warning | ErrorSeverity | Critical
datatype rule_kind = RequiredField | SchemaRule | MinimumLength | RegexRule | CustomRule

definition severity_names :: "(string \<times> rule_severity) list" where
  "severity_names = [(''info'', Info), (''warning'', Warning), (''error'', ErrorSeverity), (''critical'', Critical)]"

definition kind_names :: "(string \<times> rule_kind) list" where
  "kind_names = [(''required_field'', RequiredField), (''schema'', SchemaRule),
     (''minimum_length'', MinimumLength), (''regex'', RegexRule), (''custom'', CustomRule)]"

definition enum_value :: "(string \<times> 'a) list \<Rightarrow> string \<Rightarrow> string \<Rightarrow> evaluation_error + 'a" where
  "enum_value names v field =
     (case map_of names v of Some x \<Rightarrow> Inr x | None \<Rightarrow> Inl (EvaluationRequestErr field))"

type_synonym json_dict = "(string \<times> json) list"

text \<open>The third-party validators: the schema check, the errors of a subject (\<open>None\<close> stands for
  the missing-value marker) as path and message, the compilation and search of a pattern.\<close>

record checker =
  schema_error :: "json \<Rightarrow> string option"
  schema_failures :: "json option \<Rightarrow> json \<Rightarrow> (string list \<times> string) list"
  regex_error :: "string \<Rightarrow> string option"
  regex_found :: "string \<Rightarrow> string \<Rightarrow> bool"

datatype custom_outcome = Raised string | Verdict bool | VerdictWith bool string | BadOutcome

type_synonym handlers = "(string \<times> (json \<Rightarrow> json_dict \<Rightarrow> custom_outcome)) list"

section \<open>Canonical values\<close>

function canonical :: "json \<Rightarrow> json" where
  "canonical (JArr xs) = JArr (map canonical xs)"
| "canonical (JObj kvs) = JObj (sort_key fst (map (\<lambda>kv. (fst kv, canonical (snd kv))) kvs))"
| "canonical JNull = JNull"
| "canonical (JBool b) = JBool b"
| "canonical (JInt n) = JInt n"
| "canonical (JNum q) = JNum q"
| "canonical (JStr s) = JStr s"
  by pat_completeness auto

lemma size_list_member: "x \<in> set xs \<Longrightarrow> f x \<le> size_list f xs"
  by (induction xs) auto

termination canonical
proof (relation "measure size", goal_cases)
  case (2 xs x)
  then show ?case using size_list_member[of x xs size] by simp
next
  case (3 kvs kv)
  then have "size_prod (\<lambda>x. 0) size kv \<le> size_list (size_prod (\<lambda>x. 0) size) kvs"
    by (rule size_list_member)
  then show ?case by (cases kv) auto
qed simp

text \<open>\<open>_json_copy\<close>: the value through its canonical text and back, so keys come back sorted.\<close>

definition json_copy :: "json_dict \<Rightarrow> json_dict" where
  "json_copy d = (case canonical (JObj d) of JObj e \<Rightarrow> e | _ \<Rightarrow> [])"

section \<open>Rules, findings, requests and results\<close>

text \<open>\<open>[a-z][a-z0-9]*(?:[._-][a-z0-9]+)*\<close>\<close>

definition is_lower :: "char \<Rightarrow> bool" where
  "is_lower c \<longleftrightarrow> 97 \<le> (of_char c :: nat) \<and> (of_char c :: nat) \<le> 122"

fun token_rest :: "bool \<Rightarrow> string \<Rightarrow> bool" where
  "token_rest after_separator [] = (\<not> after_separator)"
| "token_rest after_separator (c # cs) =
     (if is_lower c \<or> is_digit c then token_rest False cs
      else c \<in> {CHR ''.'', CHR ''_'', CHR ''-''} \<and> \<not> after_separator \<and> token_rest True cs)"

fun stable_token :: "string \<Rightarrow> bool" where
  "stable_token [] = False"
| "stable_token (c # cs) = (is_lower c \<and> token_rest False cs)"

declare token_rest.simps [simp del] stable_token.simps [simp del]

record eval_rule =
  er_id :: string
  er_name :: string
  er_description :: string
  er_severity :: rule_severity
  er_kind :: rule_kind
  er_parameters :: json_dict

definition make_rule ::
  "string \<Rightarrow> string \<Rightarrow> string \<Rightarrow> string \<Rightarrow> string \<Rightarrow> json_dict \<Rightarrow> evaluation_error + eval_rule" where
  "make_rule i name description severity kind parameters =
     andthen (demand (stable_token i) (EvaluationRequestErr ''id'')) (\<lambda>_.
     andthen (demand (strip name \<noteq> []) (EvaluationRequestErr ''name'')) (\<lambda>_.
     andthen (demand (strip description \<noteq> []) (EvaluationRequestErr ''description'')) (\<lambda>_.
     andthen (enum_value severity_names severity ''severity'') (\<lambda>s.
     andthen (enum_value kind_names kind ''type'') (\<lambda>k.
     Inr \<lparr> er_id = i, er_name = name, er_description = description, er_severity = s, er_kind = k,
           er_parameters = json_copy parameters \<rparr>)))))"

record eval_finding =
  ef_rule :: string
  ef_severity :: rule_severity
  ef_message :: string
  ef_passed :: bool

definition make_finding ::
  "string \<Rightarrow> rule_severity \<Rightarrow> string \<Rightarrow> bool \<Rightarrow> evaluation_error + eval_finding" where
  "make_finding i severity message passed =
     andthen (demand (stable_token i) (EvaluationRequestErr ''rule_id'')) (\<lambda>_.
     andthen (demand (strip message \<noteq> []) (EvaluationRequestErr ''message'')) (\<lambda>_.
     Inr \<lparr> ef_rule = i, ef_severity = severity, ef_message = message, ef_passed = passed \<rparr>))"

record eval_request =
  eq_id :: string
  eq_artifact :: json
  eq_schema :: "json option"
  eq_rules :: "eval_rule list"
  eq_metadata :: json_dict

definition make_request ::
  "checker \<Rightarrow> string \<Rightarrow> json \<Rightarrow> json option \<Rightarrow> eval_rule list \<Rightarrow> json_dict \<Rightarrow> evaluation_error + eval_request" where
  "make_request C i artifact schema rules metadata =
     andthen (demand (strip i \<noteq> []) (EvaluationRequestErr ''request_id'')) (\<lambda>_.
     andthen (demand (distinct (map er_id rules)) (EvaluationRequestErr ''rules'')) (\<lambda>_.
     andthen (case schema of None \<Rightarrow> Inr ()
        | Some s \<Rightarrow> (case s of JObj _ \<Rightarrow>
              (case schema_error C (canonical s) of None \<Rightarrow> Inr () | Some e \<Rightarrow> Inl (EvaluationRequestErr e))
            | _ \<Rightarrow> Inl (EvaluationRequestErr ''expected_schema''))) (\<lambda>_.
     Inr \<lparr> eq_id = i, eq_artifact = canonical artifact, eq_schema = map_option canonical schema,
           eq_rules = rules, eq_metadata = json_copy metadata \<rparr>)))"

record eval_result =
  ez_id :: string
  ez_passed :: bool
  ez_score :: rat
  ez_findings :: "eval_finding list"
  ez_metadata :: "rat \<times> nat \<times> nat \<times> json_dict"

definition make_result ::
  "string \<Rightarrow> bool \<Rightarrow> rat \<Rightarrow> eval_finding list \<Rightarrow> rat \<times> nat \<times> nat \<times> json_dict \<Rightarrow>
   evaluation_error + eval_result" where
  "make_result i passed score findings metadata =
     andthen (demand (strip i \<noteq> []) (EvaluationRequestErr ''request_id'')) (\<lambda>_.
     andthen (demand (0 \<le> score \<and> score \<le> 1) (EvaluationRequestErr ''score'')) (\<lambda>_.
     Inr \<lparr> ez_id = i, ez_passed = passed, ez_score = score, ez_findings = findings,
           ez_metadata = metadata \<rparr>))"

section \<open>Paths into the artifact\<close>

text \<open>One step of \<open>_resolve\<close>: a key of a mapping, or an index of a list.\<close>

definition resolve_part :: "json \<Rightarrow> string \<Rightarrow> json option" where
  "resolve_part v part =
     (case v of
        JObj kvs \<Rightarrow> map_of kvs part
      | JArr xs \<Rightarrow>
          (if part \<noteq> [] \<and> list_all is_digit part \<and> int_of_digits part < length xs
           then Some (xs ! int_of_digits part) else None)
      | _ \<Rightarrow> None)"

fun resolve_parts :: "json \<Rightarrow> string list \<Rightarrow> json option" where
  "resolve_parts v [] = Some v"
| "resolve_parts v (p # ps) = (case resolve_part v p of None \<Rightarrow> None | Some w \<Rightarrow> resolve_parts w ps)"

definition resolve_path :: "json \<Rightarrow> string \<Rightarrow> json option" where
  "resolve_path v path = resolve_parts v (split_on CHR ''.'' path)"

section \<open>Configuration checks\<close>

definition config_error :: "eval_rule \<Rightarrow> evaluation_error" where
  "config_error r = EvaluationConfigurationErr (er_id r)"

definition parameter :: "eval_rule \<Rightarrow> string \<Rightarrow> json option" where
  "parameter r k = map_of (er_parameters r) k"

definition require_keys :: "eval_rule \<Rightarrow> string list \<Rightarrow> string list \<Rightarrow> evaluation_error + unit" where
  "require_keys r required allowed =
     andthen (demand (list_all (\<lambda>k. parameter r k \<noteq> None) required) (config_error r)) (\<lambda>_.
     demand (list_all (\<lambda>(k, _). k \<in> set allowed) (er_parameters r)) (config_error r))"

definition validate_field :: "eval_rule \<Rightarrow> evaluation_error + unit" where
  "validate_field r =
     (case parameter r ''field'' of
        Some (JStr f) \<Rightarrow> demand (f \<noteq> [] \<and> [] \<notin> set (split_on CHR ''.'' f)) (config_error r)
      | _ \<Rightarrow> Inl (config_error r))"

definition validate_rule_configuration :: "checker \<Rightarrow> eval_rule \<Rightarrow> evaluation_error + unit" where
  "validate_rule_configuration C r =
     (case er_kind r of
        RequiredField \<Rightarrow>
          andthen (require_keys r [''field''] [''field'']) (\<lambda>_. validate_field r)
      | MinimumLength \<Rightarrow>
          andthen (require_keys r [''field'', ''minimum''] [''field'', ''minimum'']) (\<lambda>_.
          andthen (validate_field r) (\<lambda>_.
          case parameter r ''minimum'' of
            Some (JInt m) \<Rightarrow> demand (0 \<le> m) (config_error r)
          | _ \<Rightarrow> Inl (config_error r)))
      | RegexRule \<Rightarrow>
          andthen (require_keys r [''field'', ''pattern''] [''field'', ''pattern'']) (\<lambda>_.
          andthen (validate_field r) (\<lambda>_.
          case parameter r ''pattern'' of
            Some (JStr p) \<Rightarrow> demand (regex_error C p = None) (config_error r)
          | _ \<Rightarrow> Inl (config_error r)))
      | SchemaRule \<Rightarrow>
          andthen (require_keys r [''schema''] [''schema'', ''field'']) (\<lambda>_.
          andthen (if parameter r ''field'' \<noteq> None then validate_field r else Inr ()) (\<lambda>_.
          case parameter r ''schema'' of
            Some (JObj s) \<Rightarrow> demand (schema_error C (JObj s) = None) (config_error r)
          | _ \<Rightarrow> Inl (config_error r)))
      | CustomRule \<Rightarrow>
          andthen (require_keys r [''handler''] (map fst (er_parameters r))) (\<lambda>_.
          case parameter r ''handler'' of
            Some (JStr h) \<Rightarrow> demand (h \<noteq> []) (config_error r)
          | _ \<Rightarrow> Inl (config_error r)))"

section \<open>Evaluating a rule\<close>

definition length_of :: "json option \<Rightarrow> nat option" where
  "length_of v =
     (case v of
        Some (JStr s) \<Rightarrow> Some (length s)
      | Some (JArr xs) \<Rightarrow> Some (length xs)
      | Some (JObj kvs) \<Rightarrow> Some (length kvs)
      | _ \<Rightarrow> None)"

text \<open>\<open>_schema_errors\<close>: sorted by path and message, the root path written \<open><root>\<close>.\<close>

definition schema_errors :: "checker \<Rightarrow> json option \<Rightarrow> json \<Rightarrow> (string \<times> string) list" where
  "schema_errors C subject schema =
     map (\<lambda>(path, msg). (let t = join_with ''.'' path in (if t = [] then ''<root>'' else t), msg))
       (sort_key (\<lambda>(path, msg). (path, msg)) (schema_failures C subject schema))"

definition text_parameter :: "eval_rule \<Rightarrow> string \<Rightarrow> string" where
  "text_parameter r k = (case parameter r k of Some (JStr s) \<Rightarrow> s | _ \<Rightarrow> [])"

definition required_field_outcome :: "eval_rule \<Rightarrow> json \<Rightarrow> bool \<times> string" where
  "required_field_outcome r artifact =
     (let field = text_parameter r ''field''; passed = resolve_path artifact field \<noteq> None
      in (passed, ''required field '' @ py_repr field @ (if passed then '' is present'' else '' is missing'')))"

definition minimum_length_outcome :: "eval_rule \<Rightarrow> json \<Rightarrow> bool \<times> string" where
  "minimum_length_outcome r artifact =
     (let field = text_parameter r ''field'';
          minimum = (case parameter r ''minimum'' of Some (JInt m) \<Rightarrow> nat m | _ \<Rightarrow> 0)
      in case length_of (resolve_path artifact field) of
           Some actual \<Rightarrow>
             (if actual \<ge> minimum
              then (True, ''field '' @ py_repr field @ '' length '' @ digits_of actual @ '' meets minimum '' @ digits_of minimum)
              else (False, ''field '' @ py_repr field @ '' must have minimum length '' @ digits_of minimum))
         | None \<Rightarrow> (False, ''field '' @ py_repr field @ '' must have minimum length '' @ digits_of minimum))"

definition regex_outcome :: "checker \<Rightarrow> eval_rule \<Rightarrow> json \<Rightarrow> bool \<times> string" where
  "regex_outcome C r artifact =
     (let field = text_parameter r ''field'';
          passed = (case resolve_path artifact field of
                      Some (JStr s) \<Rightarrow> regex_found C (text_parameter r ''pattern'') s | _ \<Rightarrow> False)
      in (passed, ''field '' @ py_repr field @ (if passed then '' matches pattern'' else '' does not match pattern'')))"

definition schema_outcome :: "checker \<Rightarrow> eval_rule \<Rightarrow> json \<Rightarrow> bool \<times> string" where
  "schema_outcome C r artifact =
     (let subject = (if parameter r ''field'' \<noteq> None
                     then resolve_path artifact (text_parameter r ''field'') else Some artifact);
          schema = (case parameter r ''schema'' of Some s \<Rightarrow> s | None \<Rightarrow> JNull)
      in case schema_errors C subject schema of
           [] \<Rightarrow> (True, ''schema validation passed'')
         | (path, msg) # _ \<Rightarrow> (False, ''schema validation failed at '' @ path @ '': '' @ msg))"

definition custom_outcome_of :: "handlers \<Rightarrow> eval_rule \<Rightarrow> json \<Rightarrow> evaluation_error + bool \<times> string" where
  "custom_outcome_of H r artifact =
     (case map_of H (text_parameter r ''handler'') of
        None \<Rightarrow> Inl (config_error r)
      | Some handler \<Rightarrow>
          (case handler artifact (filter (\<lambda>(k, _). k \<noteq> ''handler'') (er_parameters r)) of
             Raised e \<Rightarrow> Inl (EvaluationExecutionErr (er_id r))
           | Verdict b \<Rightarrow> Inr (b, if b then ''custom rule passed'' else ''custom rule failed'')
           | VerdictWith b msg \<Rightarrow>
               (if msg \<noteq> [] then Inr (b, msg) else Inl (EvaluationExecutionErr (er_id r)))
           | BadOutcome \<Rightarrow> Inl (EvaluationExecutionErr (er_id r))))"

definition rule_outcome :: "checker \<Rightarrow> handlers \<Rightarrow> eval_rule \<Rightarrow> json \<Rightarrow> evaluation_error + bool \<times> string" where
  "rule_outcome C H r artifact =
     (case er_kind r of
        RequiredField \<Rightarrow> Inr (required_field_outcome r artifact)
      | MinimumLength \<Rightarrow> Inr (minimum_length_outcome r artifact)
      | RegexRule \<Rightarrow> Inr (regex_outcome C r artifact)
      | SchemaRule \<Rightarrow> Inr (schema_outcome C r artifact)
      | CustomRule \<Rightarrow> custom_outcome_of H r artifact)"

definition evaluate_rule :: "checker \<Rightarrow> handlers \<Rightarrow> json \<Rightarrow> eval_rule \<Rightarrow> evaluation_error + eval_finding" where
  "evaluate_rule C H artifact r =
     andthen (validate_rule_configuration C r) (\<lambda>_.
     andthen (rule_outcome C H r artifact) (\<lambda>(passed, message).
     make_finding (er_id r) (er_severity r) message passed))"

definition expected_schema_finding :: "checker \<Rightarrow> json \<Rightarrow> json \<Rightarrow> evaluation_error + eval_finding" where
  "expected_schema_finding C artifact schema =
     (case schema_errors C (Some artifact) schema of
        [] \<Rightarrow> make_finding ''schema.expected'' ErrorSeverity ''expected schema validation passed'' True
      | (path, msg) # _ \<Rightarrow>
          make_finding ''schema.expected'' ErrorSeverity
            (''expected schema validation failed at '' @ path @ '': '' @ msg) False)"

definition content_empty :: "json \<Rightarrow> bool" where
  "content_empty artifact =
     (case artifact of JNull \<Rightarrow> True | JStr s \<Rightarrow> strip s = [] | JObj kvs \<Rightarrow> kvs = [] | JArr xs \<Rightarrow> xs = [] | _ \<Rightarrow> False)"

definition content_finding :: "json \<Rightarrow> evaluation_error + eval_finding" where
  "content_finding artifact =
     (let empty = content_empty artifact
      in make_finding ''content.not_empty'' ErrorSeverity
           (if \<not> empty then ''artifact content is not empty'' else ''artifact content is empty'') (\<not> empty))"

section \<open>The runner\<close>

text \<open>\<open>round(x, 6)\<close>: half to even at the sixth digit.\<close>

definition half_even :: "rat \<Rightarrow> int" where
  "half_even x =
     (let f = floor x; d = x - of_int f
      in if d < 1 / 2 then f else if d > 1 / 2 then f + 1 else if even f then f else f + 1)"

definition round6 :: "rat \<Rightarrow> rat" where
  "round6 x = of_int (half_even (1000000 * x)) / 1000000"

record runner =
  rn_minimum :: rat
  rn_handlers :: handlers

definition make_runner :: "rat \<Rightarrow> handlers \<Rightarrow> evaluation_error + runner" where
  "make_runner minimum H =
     andthen (demand (0 \<le> minimum \<and> minimum \<le> 1) (EvaluationConfigurationErr ''minimum_score'')) (\<lambda>_.
     andthen (demand (list_all (\<lambda>(n, _). n \<noteq> []) H) (EvaluationConfigurationErr ''custom_rules'')) (\<lambda>_.
     Inr \<lparr> rn_minimum = minimum, rn_handlers = H \<rparr>))"

definition all_findings :: "checker \<Rightarrow> runner \<Rightarrow> eval_request \<Rightarrow> evaluation_error + eval_finding list" where
  "all_findings C n q =
     andthen (content_finding (eq_artifact q)) (\<lambda>content.
     andthen (case eq_schema q of None \<Rightarrow> Inr []
        | Some s \<Rightarrow> andthen (expected_schema_finding C (eq_artifact q) s) (\<lambda>f. Inr [f])) (\<lambda>expected.
     andthen (mapE (evaluate_rule C (rn_handlers n) (eq_artifact q)) (sort_key er_id (eq_rules q))) (\<lambda>rules.
     Inr (content # expected @ rules))))"

definition blocking :: "eval_finding \<Rightarrow> bool" where
  "blocking f \<longleftrightarrow> \<not> ef_passed f \<and> ef_severity f \<in> {ErrorSeverity, Critical}"

definition passed_count :: "eval_finding list \<Rightarrow> nat" where
  "passed_count fs = length (filter ef_passed fs)"

definition score_of :: "eval_finding list \<Rightarrow> rat" where
  "score_of fs = round6 (of_nat (passed_count fs) / of_nat (length fs))"

definition run_evaluation :: "checker \<Rightarrow> runner \<Rightarrow> eval_request \<Rightarrow> evaluation_error + eval_result" where
  "run_evaluation C n q =
     andthen (all_findings C n q) (\<lambda>fs.
     make_result (eq_id q) (score_of fs \<ge> rn_minimum n \<and> \<not> list_ex blocking fs) (score_of fs) fs
       (rn_minimum n, length fs, passed_count fs, eq_metadata q))"

section \<open>Rubrics\<close>

record rubric_rule =
  rr_id :: string
  rr_name :: string
  rr_description :: string
  rr_severity :: string
  rr_type :: string
  rr_parameters :: json_dict

record rubric_manifest =
  rb_id :: string
  rb_version :: string
  rb_rules :: "rubric_rule list"
  rb_threshold :: rat
  rb_rest :: json_dict

record rubric =
  ru_id :: string
  ru_version :: string
  ru_rules :: "eval_rule list"
  ru_threshold :: rat
  ru_rest :: json_dict

definition rubric_from_manifest :: "checker \<Rightarrow> rubric_manifest \<Rightarrow> evaluation_error + rubric" where
  "rubric_from_manifest C m =
     andthen (mapE (\<lambda>i. make_rule (rr_id i) (rr_name i) (rr_description i) (rr_severity i) (rr_type i)
                (rr_parameters i)) (rb_rules m)) (\<lambda>rules.
     andthen (eachE (validate_rule_configuration C) rules) (\<lambda>_.
     Inr \<lparr> ru_id = rb_id m, ru_version = rb_version m, ru_rules = rules, ru_threshold = rb_threshold m,
           ru_rest = rb_rest m \<rparr>))"

definition rubric_runner :: "rubric \<Rightarrow> handlers \<Rightarrow> evaluation_error + runner" where
  "rubric_runner r H = make_runner (ru_threshold r) H"

text \<open>\<open>{"rubric_id": ..., "rubric_version": ..., **metadata}\<close>\<close>

definition rubric_request ::
  "checker \<Rightarrow> rubric \<Rightarrow> string \<Rightarrow> json \<Rightarrow> json option \<Rightarrow> json_dict \<Rightarrow> evaluation_error + eval_request" where
  "rubric_request C r i artifact schema metadata =
     make_request C i artifact schema (ru_rules r)
       (fold (\<lambda>(k, v) d. AList.update k v d) metadata
         [(''rubric_id'', JStr (ru_id r)), (''rubric_version'', JStr (ru_version r))])"

end
