(* ===== verification/Provider.thy ===== *)
theory Provider
  imports Evaluation Workspace
begin

text \<open>
  The deterministic mock provider (\<open>src/src/founderos_runtime/provider\<close>): requests, responses and
  errors with the checks of their constructors, the parsing of a fixture document, the index of
  the fixtures and the generation of a response. The SHA-256 digest of the canonical JSON text is
  an argument (\<open>digest\<close>) on canonical values (objects sorted by key, at every depth).
\<close>

datatype provider_exception =
    ProviderRequestErr string
  | ProviderFixtureErr string
  | ProviderFixtureNotFound string

section \<open>Contracts\<close>

record provider_error =
  pe_code :: string
  pe_message :: json
  pe_retryable :: bool
  pe_details :: json_dict

text \<open>\<open>not value\<close> of a JSON value.\<close>

definition falsy :: "json \<Rightarrow> bool" where
  "falsy v = (case v of JNull \<Rightarrow> True | JBool b \<Rightarrow> \<not> b | JInt n \<Rightarrow> n = 0 | JNum q \<Rightarrow> q = 0
     | JStr s \<Rightarrow> s = [] | JArr xs \<Rightarrow> xs = [] | JObj kvs \<Rightarrow> kvs = [])"

definition make_provider_error ::
  "json \<Rightarrow> json \<Rightarrow> json \<Rightarrow> json \<Rightarrow> provider_exception + provider_error" where
  "make_provider_error code message retryable details =
     (case (code, retryable, details) of
        (JStr c, JBool r, JObj d) \<Rightarrow>
          andthen (demand (c \<noteq> [] \<and> stable_token c) (ProviderRequestErr ''code'')) (\<lambda>_.
          andthen (demand (\<not> falsy message) (ProviderRequestErr ''message'')) (\<lambda>_.
          Inr \<lparr> pe_code = c, pe_message = message, pe_retryable = r, pe_details = json_copy d \<rparr>))
      | _ \<Rightarrow> Inl (ProviderRequestErr ''error''))"

record provider_request =
  pq_id :: string
  pq_operation :: string
  pq_input :: json_dict
  pq_schema :: "json option"
  pq_metadata :: json_dict
  pq_correlation :: "string option"
  pq_idempotency :: "string option"

definition blank_text :: "string option \<Rightarrow> bool" where
  "blank_text v = (case v of None \<Rightarrow> False | Some s \<Rightarrow> strip s = [])"

definition make_provider_request ::
  "checker \<Rightarrow> string \<Rightarrow> string \<Rightarrow> json_dict \<Rightarrow> json option \<Rightarrow> json_dict \<Rightarrow> string option \<Rightarrow>
   string option \<Rightarrow> provider_exception + provider_request" where
  "make_provider_request C i operation inp schema metadata correlation idempotency =
     andthen (demand (strip i \<noteq> []) (ProviderRequestErr ''request_id'')) (\<lambda>_.
     andthen (demand (length i \<le> 200) (ProviderRequestErr ''request_id'')) (\<lambda>_.
     andthen (demand (stable_token operation) (ProviderRequestErr ''operation'')) (\<lambda>_.
     andthen (case schema of None \<Rightarrow> Inr ()
        | Some s \<Rightarrow> (case s of JObj _ \<Rightarrow> demand (schema_error C (canonical s) = None) (ProviderRequestErr ''expected_output_schema'')
            | _ \<Rightarrow> Inl (ProviderRequestErr ''expected_output_schema''))) (\<lambda>_.
     andthen (demand (\<not> blank_text correlation) (ProviderRequestErr ''correlation_id'')) (\<lambda>_.
     andthen (demand (\<not> blank_text idempotency) (ProviderRequestErr ''idempotency_key'')) (\<lambda>_.
     Inr \<lparr> pq_id = i, pq_operation = operation, pq_input = json_copy inp,
           pq_schema = map_option canonical schema, pq_metadata = json_copy metadata, pq_correlation = correlation, pq_idempotency = idempotency \<rparr>))))))"

datatype provider_status = ProviderSuccess | ProviderFailure

record provider_response =
  ps_id :: string
  ps_status :: provider_status
  ps_output :: json
  ps_error :: "provider_error option"
  ps_metadata :: json_dict
  ps_name :: string
  ps_pversion :: string

text \<open>\<open>_SEMVER\<close>: a core version, an optional pre-release and an optional build part.\<close>

definition identifier_list :: "string \<Rightarrow> bool" where
  "identifier_list s \<longleftrightarrow> list_all (\<lambda>p. p \<noteq> [] \<and>
     list_all (\<lambda>c. is_digit c \<or> is_lower c \<or> is_lower (lower_char c) \<or> c = CHR ''-'') p) (split_on CHR ''.'' s)"

definition semantic_version :: "string \<Rightarrow> bool" where
  "semantic_version s =
     (let before_build = takeWhile (\<lambda>c. c \<noteq> CHR ''+'') s; build = drop (length before_build) s;
          core = takeWhile (\<lambda>c. c \<noteq> CHR ''-'') before_build; pre = drop (length core) before_build
      in core_version core \<noteq> None \<and> (pre = [] \<or> identifier_list (tl pre)) \<and>
         (build = [] \<or> identifier_list (tl build)))"

definition make_response ::
  "string \<Rightarrow> provider_status \<Rightarrow> json \<Rightarrow> provider_error option \<Rightarrow> json_dict \<Rightarrow> string \<Rightarrow> string \<Rightarrow>
   provider_exception + provider_response" where
  "make_response i status output err metadata name ver =
     andthen (demand (i \<noteq> []) (ProviderRequestErr ''request_id'')) (\<lambda>_.
     andthen (demand (status = ProviderSuccess \<longrightarrow> err = None) (ProviderRequestErr ''status'')) (\<lambda>_.
     andthen (demand (status = ProviderFailure \<longrightarrow> err \<noteq> None) (ProviderRequestErr ''status'')) (\<lambda>_.
     andthen (demand (name \<noteq> []) (ProviderRequestErr ''provider_name'')) (\<lambda>_.
     andthen (demand (semantic_version ver) (ProviderRequestErr ''provider_version'')) (\<lambda>_.
     Inr \<lparr> ps_id = i, ps_status = status, ps_output = canonical output, ps_error = err,
           ps_metadata = json_copy metadata,
           ps_name = name, ps_pversion = ver \<rparr>)))))"

section \<open>Fixtures\<close>

record fixture =
  fx_operation :: string
  fx_input :: json_dict
  fx_output :: json
  fx_error :: "provider_error option"
  fx_metadata :: json_dict

definition fixture_key :: "(json \<Rightarrow> string) \<Rightarrow> string \<Rightarrow> json_dict \<Rightarrow> string" where
  "fixture_key digest operation inp =
     digest (canonical (JObj [(''operation'', JStr operation), (''input'', JObj inp)]))"

record provider =
  pv_fixtures :: "(string \<times> fixture) list"
  pv_strict :: bool
  pv_errors :: "(string \<times> provider_error) list"

definition add_fixture ::
  "(json \<Rightarrow> string) \<Rightarrow> (string \<times> fixture) list \<Rightarrow> fixture \<Rightarrow> provider_exception + (string \<times> fixture) list" where
  "add_fixture digest index f =
     (let key = fixture_key digest (fx_operation f) (fx_input f)
      in if map_of index key \<noteq> None then Inl (ProviderFixtureErr (fx_operation f))
         else Inr (AList.update key f index))"

definition make_provider ::
  "(json \<Rightarrow> string) \<Rightarrow> fixture list \<Rightarrow> bool \<Rightarrow> (string \<times> provider_error) list \<Rightarrow>
   provider_exception + provider" where
  "make_provider digest fixtures strict simulated =
     andthen (foldE (add_fixture digest) [] fixtures) (\<lambda>index.
     andthen (demand (list_all (\<lambda>(operation, _). stable_token operation) simulated)
        (ProviderFixtureErr ''simulated error operation is invalid'')) (\<lambda>_.
     Inr \<lparr> pv_fixtures = index, pv_strict = strict, pv_errors = simulated \<rparr>))"

definition optional_key :: "json_dict \<Rightarrow> string \<Rightarrow> json \<Rightarrow> json" where
  "optional_key d k absent = (case map_of d k of None \<Rightarrow> absent | Some v \<Rightarrow> v)"

definition parse_fixture_error :: "json \<Rightarrow> provider_exception + provider_error" where
  "parse_fixture_error v =
     (case v of
        JObj d \<Rightarrow>
          (if list_all (\<lambda>(k, _). k \<in> {''code'', ''message'', ''retryable'', ''details''}) d \<and>
              map_of d ''code'' \<noteq> None \<and> map_of d ''message'' \<noteq> None
           then wrapped (\<lambda>_. ProviderFixtureErr ''error'')
                  (make_provider_error (optional_key d ''code'' JNull) (optional_key d ''message'' JNull)
                     (optional_key d ''retryable'' (JBool False)) (optional_key d ''details'' (JObj [])))
           else Inl (ProviderFixtureErr ''error''))
      | _ \<Rightarrow> Inl (ProviderFixtureErr ''error''))"

definition parse_fixture :: "checker \<Rightarrow> nat \<times> json \<Rightarrow> provider_exception + fixture" where
  "parse_fixture C =
     (\<lambda>(index, item).
        case item of
          JObj d \<Rightarrow>
            andthen (demand (list_all (\<lambda>(k, _). k \<in> {''operation'', ''input'', ''output'', ''error'', ''metadata''}) d)
              (ProviderFixtureErr ''unknown field'')) (\<lambda>_.
            andthen (demand (map_of d ''operation'' \<noteq> None \<and> map_of d ''input'' \<noteq> None)
              (ProviderFixtureErr ''operation'')) (\<lambda>_.
            andthen (demand ((map_of d ''output'' \<noteq> None) \<noteq> (map_of d ''error'' \<noteq> None))
              (ProviderFixtureErr ''output'')) (\<lambda>_.
            case (optional_key d ''operation'' JNull, optional_key d ''input'' JNull) of
              (JStr operation, JObj inp) \<Rightarrow>
                andthen (wrapped (\<lambda>_. ProviderFixtureErr ''operation'')
                  (make_provider_request C (''fixture-'' @ digits_of index) operation inp None [] None None)) (\<lambda>q.
                andthen (case map_of d ''error'' of None \<Rightarrow> Inr None
                  | Some v \<Rightarrow> andthen (parse_fixture_error v) (\<lambda>e. Inr (Some e))) (\<lambda>err.
                case optional_key d ''metadata'' (JObj []) of
                  JObj metadata \<Rightarrow>
                    Inr \<lparr> fx_operation = pq_operation q, fx_input = pq_input q, fx_output = optional_key d ''output'' JNull,
                          fx_error = err, fx_metadata = metadata \<rparr>
                | _ \<Rightarrow> Inl (ProviderFixtureErr ''metadata'')))
            | _ \<Rightarrow> Inl (ProviderFixtureErr ''operation''))))
        | _ \<Rightarrow> Inl (ProviderFixtureErr ''response''))"

definition parse_fixture_document :: "checker \<Rightarrow> json \<Rightarrow> provider_exception + fixture list" where
  "parse_fixture_document C document =
     (case document of
        JObj d \<Rightarrow>
          andthen (demand (set (map fst d) = {''format_version'', ''responses''}) (ProviderFixtureErr ''document'')) (\<lambda>_.
          andthen (demand (optional_key d ''format_version'' JNull = JStr ''1.0.0'') (ProviderFixtureErr ''format_version'')) (\<lambda>_.
          case optional_key d ''responses'' JNull of
            JArr items \<Rightarrow> mapE (parse_fixture C) (zip [0..<length items] items)
          | _ \<Rightarrow> Inl (ProviderFixtureErr ''responses'')))
      | _ \<Rightarrow> Inl (ProviderFixtureErr ''document''))"

section \<open>Generation\<close>

definition optional_text :: "string option \<Rightarrow> json" where
  "optional_text v = (case v of None \<Rightarrow> JNull | Some s \<Rightarrow> JStr s)"

definition request_fingerprint :: "(json \<Rightarrow> string) \<Rightarrow> provider_request \<Rightarrow> string" where
  "request_fingerprint digest q =
     digest (canonical (JObj [(''operation'', JStr (pq_operation q)), (''input'', JObj (pq_input q)),
       (''expected_output_schema'', case pq_schema q of None \<Rightarrow> JNull | Some s \<Rightarrow> s)]))"

definition response_metadata :: "(json \<Rightarrow> string) \<Rightarrow> provider_request \<Rightarrow> json_dict" where
  "response_metadata digest q =
     [(''request_fingerprint'', JStr (request_fingerprint digest q)),
      (''correlation_id'', optional_text (pq_correlation q)),
      (''idempotency_key'', optional_text (pq_idempotency q)),
      (''request_metadata'', JObj (pq_metadata q))]"

definition error_response ::
  "provider_request \<Rightarrow> provider_error \<Rightarrow> json_dict \<Rightarrow> provider_exception + provider_response" where
  "error_response q e metadata =
     make_response (pq_id q) ProviderFailure JNull (Some e) metadata ''founderos.mock'' ''1.0.0''"

definition validate_output ::
  "checker \<Rightarrow> provider_request \<Rightarrow> json \<Rightarrow> provider_exception + provider_error option" where
  "validate_output C q output =
     (case pq_schema q of
        None \<Rightarrow> Inr None
      | Some s \<Rightarrow>
          (case schema_errors C (Some output) s of
             [] \<Rightarrow> Inr None
           | (field, reason) # _ \<Rightarrow>
               andthen (make_provider_error (JStr ''invalid_output'')
                 (JStr ''mock output does not match expected_output_schema'') (JBool False)
                 (JObj [(''field'', JStr field), (''reason'', JStr reason)])) (\<lambda>e. Inr (Some e))))"

definition generate ::
  "checker \<Rightarrow> (json \<Rightarrow> string) \<Rightarrow> provider \<Rightarrow> provider_request \<Rightarrow> provider_exception + provider_response" where
  "generate C digest P q =
     (let metadata = response_metadata digest q
      in case map_of (pv_errors P) (pq_operation q) of
           Some e \<Rightarrow> error_response q e metadata
         | None \<Rightarrow>
             let found = map_of (pv_fixtures P) (fixture_key digest (pq_operation q) (pq_input q))
             in if found = None \<and> pv_strict P
                then Inl (ProviderFixtureNotFound (request_fingerprint digest q))
                else
                  let metadata' = (case found of None \<Rightarrow> metadata
                        | Some f \<Rightarrow> AList.update ''fixture'' (JObj (fx_metadata f)) metadata)
                  in case found of
                       Some f \<Rightarrow>
                         (case fx_error f of
                            Some e \<Rightarrow> error_response q e metadata'
                          | None \<Rightarrow>
                              andthen (validate_output C q (fx_output f)) (\<lambda>invalid.
                              case invalid of
                                Some e \<Rightarrow> error_response q e metadata'
                              | None \<Rightarrow> make_response (pq_id q) ProviderSuccess (fx_output f) None metadata'
                                          ''founderos.mock'' ''1.0.0''))
                     | None \<Rightarrow>
                         let output = JObj [(''operation'', JStr (pq_operation q)), (''input'', JObj (pq_input q))]
                         in andthen (validate_output C q output) (\<lambda>invalid.
                            case invalid of
                              Some e \<Rightarrow> error_response q e metadata'
                            | None \<Rightarrow> make_response (pq_id q) ProviderSuccess output None metadata'
                                        ''founderos.mock'' ''1.0.0''))"

end
