(* ===== verification/Journey.thy ===== *)
theory Journey
  imports Authorization Provider
begin

text \<open>
  The in-memory runner of a plan (\<open>src/src/founderos_runtime/journey\<close>): plan, validate, authorize,
  then execute the steps in order over a dictionary of artifacts. Agent tasks call the mock
  provider, evaluations the evaluation runner or a resolved rubric, artifact builders are
  functions of the caller; approvals, transition requests and activity requests are skipped. An
  exception is a value of \<open>journey_error\<close>; error texts are reduced to the identifier they name.
\<close>

datatype journey_error =
    JourneyWorkflowNotFound string
  | JourneyEmptyPlan string
  | JourneyInputNotRequired string
  | JourneyArtifactUnavailable string string
  | JourneyAgentMissing string
  | JourneyProviderFailed string string
  | JourneyDeclarationUnresolved string
  | JourneySubjectMissing string
  | JourneyBuilderOutput string
  | JourneyStepUnsupported string string
  | ArtifactKeyErr string
  | BuilderRaised string
  | ValueErr string
  | PlannerRaised planner_error
  | ProviderRaised provider_exception
  | EvaluationRaised evaluation_error

type_synonym artifact_builder = "exec_step \<Rightarrow> json_dict \<Rightarrow> string + json"

record journey_runner =
  jr_workspace :: workspace
  jr_provider :: provider
  jr_evaluator :: runner
  jr_resolver :: "(wf_evaluation \<Rightarrow> rubric option) option"
  jr_builders :: "(string \<times> artifact_builder) list"
  jr_checker :: checker
  jr_digest :: "json \<Rightarrow> string"

definition make_journey_runner ::
  "workspace \<Rightarrow> provider \<Rightarrow> runner \<Rightarrow> (wf_evaluation \<Rightarrow> rubric option) option \<Rightarrow>
   (string \<times> artifact_builder) list \<Rightarrow> checker \<Rightarrow> (json \<Rightarrow> string) \<Rightarrow> string + journey_runner" where
  "make_journey_runner ws provider evaluator resolver builders C digest =
     (if list_ex (\<lambda>(step, _). step = []) builders
      then Inl ''artifact_builders must map non-empty step ids to callables''
      else Inr \<lparr> jr_workspace = ws, jr_provider = provider, jr_evaluator = evaluator,
                 jr_resolver = resolver, jr_builders = builders, jr_checker = C, jr_digest = digest \<rparr>)"

datatype journey_status = JourneySucceeded | JourneyFailed

record journey_metadata =
  jm_runner_version :: string
  jm_planner_version :: string
  jm_workflow_version :: string
  jm_stopped_reason :: "string option"
  jm_persistence :: bool
  jm_state_mutation :: bool
  jm_validation :: validation_report
  jm_authorization :: "authorization_decision option"

record journey_result =
  jo_workflow :: string
  jo_status :: journey_status
  jo_completed :: "string list"
  jo_skipped :: "string list"
  jo_evaluations :: "eval_result list"
  jo_artifacts :: json_dict
  jo_log :: "json list"
  jo_metadata :: journey_metadata

text \<open>The check of \<open>JourneyResult.__post_init__\<close>; freezing the values is the identity.\<close>

definition make_journey_result :: "journey_result \<Rightarrow> journey_error + journey_result" where
  "make_journey_result r =
     (if jo_workflow r = [] then Inl (ValueErr ''workflow_id must be a non-empty string'') else Inr r)"

definition skipped_types :: "string list" where
  "skipped_types = [''approval'', ''transition_request'', ''activity_request'']"

definition local_types :: "string list" where
  "local_types = [''human_input'', ''artifact_creation'']"

section \<open>The state of a run\<close>

record journey_state =
  js_completed :: "string list"
  js_skipped :: "string list"
  js_evaluations :: "eval_result list"
  js_artifacts :: json_dict
  js_generated :: "string list"
  js_log :: "json list"

definition log_event ::
  "exec_step \<Rightarrow> string \<Rightarrow> json_dict \<Rightarrow> journey_state \<Rightarrow> journey_state" where
  "log_event s kind extra st =
     st\<lparr> js_log := js_log st @
       [JObj ([(''index'', JInt (int (length (js_log st)))), (''step_id'', JStr (xs_id s)),
               (''event'', JStr kind)] @ extra)] \<rparr>"

definition complete_step :: "exec_step \<Rightarrow> journey_state \<Rightarrow> journey_state" where
  "complete_step s st = st\<lparr> js_completed := js_completed st @ [xs_id s] \<rparr>"

text \<open>\<open>artifacts[i] = value(i); generated.add(i)\<close> for each \<open>i\<close>.\<close>

definition put_artifacts ::
  "string list \<Rightarrow> (string \<Rightarrow> json) \<Rightarrow> journey_state \<Rightarrow> journey_state" where
  "put_artifacts ids val st =
     st\<lparr> js_artifacts := fold (\<lambda>i d. AList.update i (val i) d) ids (js_artifacts st),
         js_generated := fold List.insert ids (js_generated st) \<rparr>"

section \<open>Steps\<close>

definition require_inputs :: "exec_step \<Rightarrow> json_dict \<Rightarrow> journey_error + unit" where
  "require_inputs s artifacts =
     (case sorted_set (filter (\<lambda>a. map_of artifacts a = None) (xs_inputs s)) of
        [] \<Rightarrow> Inr ()
      | a # _ \<Rightarrow> Inl (JourneyArtifactUnavailable (xs_id s) a))"

text \<open>\<open>artifacts[i]\<close> of an artifact that \<open>_require_inputs\<close> has checked, or a \<open>KeyError\<close>.\<close>

definition artifact_at :: "json_dict \<Rightarrow> string \<Rightarrow> journey_error + json" where
  "artifact_at artifacts i =
     (case map_of artifacts i of None \<Rightarrow> Inl (ArtifactKeyErr i) | Some v \<Rightarrow> Inr v)"

definition inputs_of :: "json_dict \<Rightarrow> string list \<Rightarrow> journey_error + json_dict" where
  "inputs_of artifacts ids =
     andthen (mapE (\<lambda>i. andthen (artifact_at artifacts i) (\<lambda>v. Inr (i, v))) ids) (\<lambda>kvs.
     Inr (dict_of fst snd kvs))"

definition agent_request ::
  "checker \<Rightarrow> execution_plan \<Rightarrow> exec_step \<Rightarrow> def_ref \<Rightarrow> nat \<Rightarrow> json_dict \<Rightarrow>
   provider_exception + provider_request" where
  "agent_request C p s agt pos inputs =
     (let i = ''journey.'' @ pl_workflow p @ ''.'' @ xs_id s
      in make_provider_request C i ''journey.agent_task''
           [(''workflow_id'', JStr (pl_workflow p)), (''step_id'', JStr (xs_id s)),
            (''agent'', JObj [(''id'', JStr (dr_id agt)), (''version'', JStr (dr_version agt)),
               (''role'', optional_text (dr_role agt))]),
            (''artifacts'', JObj inputs)]
           None [(''plan_step_index'', JInt (int pos))]
           (Some (''journey.'' @ pl_workflow p)) (Some i))"

definition run_agent ::
  "journey_runner \<Rightarrow> execution_plan \<Rightarrow> exec_step \<Rightarrow> nat \<Rightarrow> journey_state \<Rightarrow> journey_error + journey_state" where
  "run_agent R p s pos st =
     (case xs_agent s of
        None \<Rightarrow> Inl (JourneyAgentMissing (xs_id s))
      | Some agt \<Rightarrow>
          andthen (inputs_of (js_artifacts st) (xs_inputs s)) (\<lambda>inputs.
          andthen (wrapped ProviderRaised (agent_request (jr_checker R) p s agt pos inputs)) (\<lambda>q.
          andthen (wrapped ProviderRaised (generate (jr_checker R) (jr_digest R) (jr_provider R) q)) (\<lambda>r.
          if ps_status r \<noteq> ProviderSuccess
          then Inl (JourneyProviderFailed (xs_id s)
                 (case ps_error r of None \<Rightarrow> ''unknown'' | Some e \<Rightarrow> pe_code e))
          else Inr (log_event s ''provider_completed''
                 [(''request_id'', JStr (pq_id q)), (''provider'', JStr (ps_name r)),
                  (''produced_artifacts'', JArr (map JStr (xs_outputs s)))]
                 (put_artifacts (xs_outputs s) (\<lambda>_. ps_output r) st))))))"

definition run_artifact_builder ::
  "artifact_builder \<Rightarrow> exec_step \<Rightarrow> journey_state \<Rightarrow> journey_error + journey_state" where
  "run_artifact_builder build s st =
     andthen (inputs_of (js_artifacts st) (xs_inputs s)) (\<lambda>inputs.
     andthen (wrapped BuilderRaised (build s inputs)) (\<lambda>output.
     case output of
       JObj d \<Rightarrow>
         if set (map fst d) \<noteq> set (xs_outputs s) then Inl (JourneyBuilderOutput (xs_id s))
         else Inr (log_event s ''artifact_created''
                [(''produced_artifacts'', JArr (map JStr (sorted_set (xs_outputs s))))]
                (put_artifacts (sorted_set (xs_outputs s)) (\<lambda>i. optional_key d i JNull) st))
     | _ \<Rightarrow> Inl (JourneyBuilderOutput (xs_id s))))"

text \<open>Human input, and artifact creation without a builder: a placeholder per output.\<close>

definition run_local :: "exec_step \<Rightarrow> journey_state \<Rightarrow> journey_state" where
  "run_local s st =
     log_event s ''step_completed'' []
       (put_artifacts (xs_outputs s)
          (\<lambda>i. JObj [(''artifact_id'', JStr i), (''source'', JStr (xs_type s)), (''step_id'', JStr (xs_id s))]) st)"

definition skip_step :: "exec_step \<Rightarrow> journey_state \<Rightarrow> journey_state" where
  "skip_step s st =
     log_event s ''step_skipped'' [(''reason'', JStr (xs_type s @ ''_execution_out_of_scope''))]
       (st\<lparr> js_skipped := js_skipped st @ [xs_id s] \<rparr>)"

section \<open>Evaluation steps\<close>

definition declaration_id :: "exec_step \<Rightarrow> string option" where
  "declaration_id s =
     (if starts_with (xs_id s) ''evaluation.'' then Some (drop (length ''evaluation.'') (xs_id s)) else None)"

text \<open>\<open>_evaluation_subject\<close>: each declaration with the id of the step goes to the front.\<close>

definition evaluation_subject :: "execution_plan \<Rightarrow> exec_step \<Rightarrow> journey_error + string" where
  "evaluation_subject p s =
     (let declared = (case declaration_id s of None \<Rightarrow> []
            | Some i \<Rightarrow> map we_subject (filter (\<lambda>e. we_id e = i) (pl_evaluations p)))
      in case List.rev declared @ xs_inputs s of
           [] \<Rightarrow> Inl (JourneySubjectMissing (xs_id s))
         | a # _ \<Rightarrow> Inr a)"

definition evaluation_declaration ::
  "execution_plan \<Rightarrow> exec_step \<Rightarrow> string \<Rightarrow> journey_error + wf_evaluation" where
  "evaluation_declaration p s subject =
     (let candidates = filter (\<lambda>e. we_subject e = subject) (pl_evaluations p);
          exact = (case declaration_id s of None \<Rightarrow> [] | Some i \<Rightarrow> filter (\<lambda>e. we_id e = i) candidates)
      in case exact of
           e # _ \<Rightarrow> Inr e
         | [] \<Rightarrow> (case candidates of [e] \<Rightarrow> Inr e | _ \<Rightarrow> Inl (JourneyDeclarationUnresolved (xs_id s))))"

text \<open>\<open>re.sub(r"[^a-z0-9._-]", "_", step.id.lower())\<close>\<close>

definition safe_char :: "char \<Rightarrow> char" where
  "safe_char c =
     (if is_lower c \<or> is_digit c \<or> c \<in> {CHR ''.'', CHR ''_'', CHR ''-''} then c else CHR ''_'')"

definition default_rule :: "exec_step \<Rightarrow> evaluation_error + eval_rule" where
  "default_rule s =
     make_rule (''journey.'' @ map safe_char (lower (xs_id s))) ''Required journey evaluation subject''
       ''Required evaluation subjects must contain a generated value.'' ''critical'' ''schema''
       [(''schema'', JObj [(''not'', JObj [(''type'', JStr ''null'')])])]"

definition evaluation_metadata :: "execution_plan \<Rightarrow> exec_step \<Rightarrow> string \<Rightarrow> nat \<Rightarrow> json_dict" where
  "evaluation_metadata p s subject pos =
     [(''workflow_id'', JStr (pl_workflow p)), (''step_id'', JStr (xs_id s)),
      (''subject_artifact'', JStr subject), (''plan_step_index'', JInt (int pos))]"

definition evaluation_logged :: "exec_step \<Rightarrow> string \<Rightarrow> eval_result \<Rightarrow> json_dict \<Rightarrow> journey_state \<Rightarrow> journey_state" where
  "evaluation_logged s i z extra st =
     log_event s ''evaluation_completed''
       ([(''request_id'', JStr i), (''passed'', JBool (ez_passed z)), (''score'', JNum (ez_score z))] @ extra) st"

definition run_rubric ::
  "journey_runner \<Rightarrow> execution_plan \<Rightarrow> exec_step \<Rightarrow> string \<Rightarrow> nat \<Rightarrow> rubric \<Rightarrow> journey_state \<Rightarrow>
   journey_error + eval_result \<times> journey_state" where
  "run_rubric R p s subject pos rubric st =
     (let i = ''evaluation.'' @ pl_workflow p @ ''.'' @ xs_id s
      in andthen (artifact_at (js_artifacts st) subject) (\<lambda>artifact.
         andthen (wrapped EvaluationRaised (rubric_request (jr_checker R) rubric i artifact None
           (evaluation_metadata p s subject pos))) (\<lambda>q.
         andthen (wrapped EvaluationRaised (rubric_runner rubric [])) (\<lambda>n.
         andthen (wrapped EvaluationRaised (run_evaluation (jr_checker R) n q)) (\<lambda>z.
         Inr (z, evaluation_logged s i z
           [(''rubric_id'', JStr (ru_id rubric)), (''rubric_version'', JStr (ru_version rubric))] st))))))"

definition run_default_evaluation ::
  "journey_runner \<Rightarrow> execution_plan \<Rightarrow> exec_step \<Rightarrow> string \<Rightarrow> nat \<Rightarrow> journey_state \<Rightarrow>
   journey_error + eval_result \<times> journey_state" where
  "run_default_evaluation R p s subject pos st =
     (let i = ''evaluation.'' @ pl_workflow p @ ''.'' @ xs_id s
      in andthen (artifact_at (js_artifacts st) subject) (\<lambda>artifact.
         andthen (wrapped EvaluationRaised (default_rule s)) (\<lambda>rule.
         andthen (wrapped EvaluationRaised (make_request (jr_checker R) i artifact None [rule]
           (evaluation_metadata p s subject pos))) (\<lambda>q.
         andthen (wrapped EvaluationRaised (run_evaluation (jr_checker R) (jr_evaluator R) q)) (\<lambda>z.
         Inr (z, evaluation_logged s i z [] st))))))"

definition run_evaluation_step ::
  "journey_runner \<Rightarrow> execution_plan \<Rightarrow> exec_step \<Rightarrow> nat \<Rightarrow> journey_state \<Rightarrow>
   journey_error + eval_result \<times> journey_state" where
  "run_evaluation_step R p s pos st =
     andthen (evaluation_subject p s) (\<lambda>subject.
     andthen (evaluation_declaration p s subject) (\<lambda>declaration.
     case (case jr_resolver R of None \<Rightarrow> None | Some resolve \<Rightarrow> resolve declaration) of
       Some rubric \<Rightarrow> run_rubric R p s subject pos rubric st
     | None \<Rightarrow> run_default_evaluation R p s subject pos st))"

definition critical_failure :: "eval_result \<Rightarrow> bool" where
  "critical_failure z = list_ex (\<lambda>f. \<not> ef_passed f \<and> ef_severity f = Critical) (ez_findings z)"

section \<open>The run\<close>

text \<open>One iteration: the new state, and whether the run stops here.\<close>

definition run_step ::
  "journey_runner \<Rightarrow> execution_plan \<Rightarrow> nat \<Rightarrow> exec_step \<Rightarrow> journey_state \<Rightarrow>
   journey_error + journey_state \<times> bool" where
  "run_step R p pos s st =
     andthen (require_inputs s (js_artifacts st)) (\<lambda>_.
     if xs_type s = ''agent_task'' then
       andthen (run_agent R p s pos st) (\<lambda>st'. Inr (complete_step s st', False))
     else if xs_type s = ''evaluation'' then
       andthen (run_evaluation_step R p s pos st) (\<lambda>(z, st').
         let st'' = complete_step s (st'\<lparr> js_evaluations := js_evaluations st' @ [z] \<rparr>)
         in if critical_failure z then Inr (log_event s ''journey_stopped'' [] st'', True)
            else Inr (st'', False))
     else if xs_type s \<in> set skipped_types then Inr (skip_step s st, False)
     else if xs_type s \<in> set local_types then
       (case (if xs_type s = ''artifact_creation'' then map_of (jr_builders R) (xs_id s) else None) of
          Some build \<Rightarrow>
            andthen (run_artifact_builder build s st) (\<lambda>st'. Inr (complete_step s st', False))
        | None \<Rightarrow> Inr (complete_step s (run_local s st), False))
     else Inl (JourneyStepUnsupported (xs_id s) (xs_type s)))"

fun run_steps ::
  "journey_runner \<Rightarrow> execution_plan \<Rightarrow> nat \<Rightarrow> exec_step list \<Rightarrow> journey_state \<Rightarrow>
   journey_error + journey_state \<times> bool" where
  "run_steps R p pos [] st = Inr (st, False)"
| "run_steps R p pos (s # ss) st =
     (case run_step R p pos s st of
        Inl e \<Rightarrow> Inl e
      | Inr (st', stop) \<Rightarrow> if stop then Inr (st', True) else run_steps R p (Suc pos) ss st')"

definition result_metadata ::
  "execution_plan \<Rightarrow> string option \<Rightarrow> validation_report \<Rightarrow> authorization_decision option \<Rightarrow> journey_metadata" where
  "result_metadata p stopped v a =
     \<lparr> jm_runner_version = ''1.0.0'', jm_planner_version = pm_planner_version (pl_metadata p),
       jm_workflow_version = pm_workflow_version (pl_metadata p), jm_stopped_reason = stopped,
       jm_persistence = False, jm_state_mutation = False, jm_validation = v, jm_authorization = a \<rparr>"

definition generated_artifacts :: "journey_state \<Rightarrow> json_dict" where
  "generated_artifacts st =
     map (\<lambda>i. (i, optional_key (js_artifacts st) i JNull)) (sort (js_generated st))"

definition journey_result_of ::
  "execution_plan \<Rightarrow> journey_status \<Rightarrow> journey_state \<Rightarrow> string option \<Rightarrow> validation_report \<Rightarrow>
   authorization_decision \<Rightarrow> journey_error + journey_result" where
  "journey_result_of p status st stopped v a =
     make_journey_result
       \<lparr> jo_workflow = pl_workflow p, jo_status = status, jo_completed = js_completed st,
         jo_skipped = js_skipped st, jo_evaluations = js_evaluations st,
         jo_artifacts = generated_artifacts st, jo_log = js_log st,
         jo_metadata = result_metadata p stopped v (Some a) \<rparr>"

definition preflight_failure ::
  "execution_plan \<Rightarrow> string \<Rightarrow> validation_report \<Rightarrow> authorization_decision option \<Rightarrow>
   journey_error + journey_result" where
  "preflight_failure p stopped v a =
     make_journey_result
       \<lparr> jo_workflow = pl_workflow p, jo_status = JourneyFailed, jo_completed = [],
         jo_skipped = map xs_id (pl_steps p), jo_evaluations = [], jo_artifacts = [],
         jo_log = [JObj [(''index'', JInt 0), (''step_id'', JNull),
           (''event'', JStr (if a = None then ''validation_failed'' else ''authorization_denied'')),
           (''reason'', JStr stopped)]],
         jo_metadata = result_metadata p (Some stopped) v a \<rparr>"

definition initial_artifacts :: "execution_plan \<Rightarrow> json_dict \<Rightarrow> json_dict" where
  "initial_artifacts p supplied =
     fold (\<lambda>(k, v) d. AList.update k v d) supplied
       (dict_of aref_id (\<lambda>r. JObj [(''artifact_id'', JStr (aref_id r)), (''source'', JStr ''required_input'')])
          (pl_required p))"

definition unknown_inputs :: "execution_plan \<Rightarrow> json_dict \<Rightarrow> string list" where
  "unknown_inputs p supplied = sorted_set (filter (\<lambda>i. i \<notin> set (map aref_id (pl_required p))) (map fst supplied))"

definition initial_state :: "execution_plan \<Rightarrow> json_dict \<Rightarrow> journey_state" where
  "initial_state p supplied =
     \<lparr> js_completed = [], js_skipped = [], js_evaluations = [],
       js_artifacts = initial_artifacts p supplied, js_generated = [], js_log = [] \<rparr>"

definition execute_plan ::
  "journey_runner \<Rightarrow> execution_plan \<Rightarrow> json_dict \<Rightarrow> validation_report \<Rightarrow> authorization_decision \<Rightarrow>
   journey_error + journey_result" where
  "execute_plan R p supplied v a =
     (case unknown_inputs p supplied of
        i # _ \<Rightarrow> Inl (JourneyInputNotRequired i)
      | [] \<Rightarrow>
          andthen (run_steps R p 0 (pl_steps p) (initial_state p supplied)) (\<lambda>(st, stopped).
          if stopped then journey_result_of p JourneyFailed st (Some ''critical_evaluation_failure'') v a
          else journey_result_of p JourneySucceeded st None v a))"

definition plan_for_journey :: "journey_runner \<Rightarrow> string \<Rightarrow> journey_error + execution_plan" where
  "plan_for_journey R workflow =
     wrapped (\<lambda>e. case e of PlannerWorkflowNotFound i \<Rightarrow> JourneyWorkflowNotFound i | _ \<Rightarrow> PlannerRaised e)
       (plan_workflow (jr_workspace R) workflow)"

definition run_journey ::
  "journey_runner \<Rightarrow> string \<Rightarrow> json_dict \<Rightarrow> journey_error + journey_result" where
  "run_journey R workflow supplied =
     andthen (plan_for_journey R workflow) (\<lambda>p.
     andthen (demand (pl_steps p \<noteq> []) (JourneyEmptyPlan workflow)) (\<lambda>_.
     andthen (wrapped ValueErr (validate_plan (jr_workspace R) p)) (\<lambda>v.
     if \<not> vr_valid v then preflight_failure p ''plan_validation_failed'' v None
     else
       andthen (wrapped ValueErr (authorize p (Some v))) (\<lambda>a.
       if \<not> ad_allowed a then preflight_failure p ''plan_authorization_denied'' v (Some a)
       else execute_plan R p supplied v a))))"

record journey_summary =
  jsum_version :: string
  jsum_provider :: "string \<times> string"
  jsum_available :: "string list"
  jsum_deterministic :: bool
  jsum_in_memory_only :: bool
  jsum_workspace_read_only :: bool
  jsum_preflight_validation :: bool
  jsum_preflight_authorization :: bool

definition journey_summary_of :: "journey_runner \<Rightarrow> journey_summary" where
  "journey_summary_of R =
     \<lparr> jsum_version = ''1.0.0'', jsum_provider = (''founderos.mock'', ''1.0.0''),
       jsum_available = ps_available (planner_summary_of (jr_workspace R)), jsum_deterministic = True,
       jsum_in_memory_only = True, jsum_workspace_read_only = True,
       jsum_preflight_validation = True, jsum_preflight_authorization = True \<rparr>"

end
