(* ===== verification/WorkspaceTheorems.thy ===== *)
theory WorkspaceTheorems
  imports Workspace
begin

text \<open>
  The properties of the workspace: versions are parsed exactly, the depth-first search decides
  whether the App dependencies are acyclic and reports a real cycle otherwise, and the builder
  accepts exactly the consistent sets of manifests.
\<close>

section \<open>Versions are parsed exactly\<close>

definition version_text :: "version \<Rightarrow> string" where
  "version_text = (\<lambda>(a, b, c). digits_of a @ ''.'' @ digits_of b @ ''.'' @ digits_of c)"

lemma not_in_digits: "\<not> is_digit c \<Longrightarrow> c \<notin> set (digits_of n)"
  using digits_of_digits[of n] by (auto simp: list_all_iff)

lemma separators_no_digits [simp]: "\<not> is_digit CHR ''.''" "\<not> is_digit CHR '' ''"
  by (simp_all add: is_digit_def)

lemma core_version_iff: "core_version s = Some v \<longleftrightarrow> s = version_text v"
proof
  assume a: "core_version s = Some v"
  then obtain x y z where p: "split_on CHR ''.'' s = [x, y, z]"
    "numeral_part x" "numeral_part y" "numeral_part z"
    "v = (int_of_digits x, int_of_digits y, int_of_digits z)"
    by (auto simp: core_version_def split: list.splits if_splits)
  have "s = join_with ''.'' [x, y, z]" using join_split[of "CHR ''.''" s] p(1) by simp
  with p show "s = version_text v" by (simp add: version_text_def numeral_part_iff)
next
  assume "s = version_text v"
  then show "core_version s = Some v"
    by (cases v) (simp add: version_text_def core_version_def not_in_digits)
qed

lemma version_no_space: "CHR '' '' \<notin> set (version_text v)"
  by (cases v) (simp add: version_text_def not_in_digits)

text \<open>
  A version string parses to a version exactly when it is the canonical text of that version
  (decimal components without leading zeros, joined by dots), and a version range parses exactly
  when it is \<open>>=\<close>, a version, a space, \<open><\<close>, a version. Parsing is thus injective, and the
  version check of \<open>_in_range\<close> compares the three components in order.
\<close>

theorem versions_parsed_exactly:
  "(version_tuple s = Inr v \<longleftrightarrow> s = version_text v) \<and>
   (range_bounds r = Inr (lo, hi) \<longleftrightarrow> r = ''>='' @ version_text lo @ '' <'' @ version_text hi) \<and>
   in_range (version_text v) (''>='' @ version_text lo @ '' <'' @ version_text hi) =
     Inr (lo \<le> v \<and> v < hi)"
proof -
  have tuple: "version_tuple s = Inr v \<longleftrightarrow> s = version_text v" for s v
    using core_version_iff[of s v] by (auto simp: version_tuple_def split: option.splits)
  have range: "range_bounds r = Inr (lo, hi) \<longleftrightarrow>
      r = ''>='' @ version_text lo @ '' <'' @ version_text hi" for r lo hi
  proof
    assume a: "range_bounds r = Inr (lo, hi)"
    then obtain x y where p: "split_on CHR '' '' r = [x, y]" "starts_with x ''>=''" "starts_with y ''<''"
      "core_version (drop 2 x) = Some lo" "core_version (drop 1 y) = Some hi"
      by (auto simp: range_bounds_def split: list.splits if_splits option.splits)
    have "r = join_with '' '' [x, y]" using join_split[of "CHR '' ''" r] p(1) by simp
    moreover have "x = ''>='' @ drop 2 x" "y = ''<'' @ drop 1 y"
      using starts_with_split[OF p(2)] starts_with_split[OF p(3)] by (simp_all add: numeral_2_eq_2)
    ultimately show "r = ''>='' @ version_text lo @ '' <'' @ version_text hi"
      using p(4,5) by (simp add: core_version_iff)
  next
    assume "r = ''>='' @ version_text lo @ '' <'' @ version_text hi"
    then have r: "r = (''>='' @ version_text lo) @ CHR '' '' # (''<'' @ version_text hi)" by simp
    have no_space: "CHR '' '' \<notin> set (''>='' @ version_text lo)" "CHR '' '' \<notin> set (''<'' @ version_text hi)"
      using version_no_space by auto
    have "split_on CHR '' '' r = [''>='' @ version_text lo, ''<'' @ version_text hi]"
      by (simp only: r split_on_append[OF no_space(1)] split_on_no_sep[OF no_space(2)])
    then show "range_bounds r = Inr (lo, hi)"
      using core_version_iff[of "version_text lo" lo] core_version_iff[of "version_text hi" hi]
      by (simp add: range_bounds_def starts_with_def)
  qed
  have "range_bounds (''>='' @ version_text lo @ '' <'' @ version_text hi) = Inr (lo, hi)"
    using range by blast
  moreover have "version_tuple (version_text v) = Inr v" using tuple by blast
  ultimately have "in_range (version_text v) (''>='' @ version_text lo @ '' <'' @ version_text hi) =
      Inr (lo \<le> v \<and> v < hi)" by (simp only: in_range_def andthen_simps prod.case)
  with tuple range show ?thesis by blast
qed

section \<open>The search for cycles\<close>

definition edge_rel :: "(string \<times> string list) list \<Rightarrow> (string \<times> string) set" where
  "edge_rel g = {(a, b). b \<in> set (successors g a)}"

fun walk :: "(string \<times> string list) list \<Rightarrow> string list \<Rightarrow> bool" where
  "walk g [] = True"
| "walk g [a] = True"
| "walk g (a # b # ns) = (b \<in> set (successors g a) \<and> walk g (b # ns))"

definition is_cycle :: "(string \<times> string list) list \<Rightarrow> string list \<Rightarrow> bool" where
  "is_cycle g c \<longleftrightarrow> 2 \<le> length c \<and> hd c = last c \<and> walk g c"

lemma walk_snoc: "walk g (ns @ [a]) \<Longrightarrow> b \<in> set (successors g a) \<Longrightarrow> walk g (ns @ [a, b])"
proof (induction ns)
  case (Cons n ns)
  then show ?case by (cases ns) auto
qed simp

lemma walk_suffix: "walk g (xs @ ys) \<Longrightarrow> walk g ys"
proof (induction xs)
  case (Cons x xs)
  then show ?case by (cases "xs @ ys") auto
qed simp

lemma walk_reaches: "walk g (a # ns) \<Longrightarrow> ns \<noteq> [] \<Longrightarrow> (a, last ns) \<in> (edge_rel g)\<^sup>+"
proof (induction ns arbitrary: a)
  case (Cons b ns)
  then have ab: "(a, b) \<in> edge_rel g" "walk g (b # ns)" by (auto simp: edge_rel_def)
  show ?case
  proof (cases "ns = []")
    case True
    with ab show ?thesis by auto
  next
    case False
    with Cons.IH[OF ab(2)] ab(1) show ?thesis by (auto intro: trancl_into_trancl2)
  qed
qed simp

lemma cycle_not_acyclic: "is_cycle g c \<Longrightarrow> \<not> acyclic (edge_rel g)"
proof -
  assume c: "is_cycle g c"
  then obtain a ns where "c = a # ns" "ns \<noteq> []" "last ns = a" "walk g c"
    by (cases c) (auto simp: is_cycle_def split: if_splits)
  with walk_reaches[of g a ns] show ?thesis by (auto simp: acyclic_def)
qed

lemma visit_Inl_cycle:
  assumes "visit_all g active visited ns = Inl c" "walk g active"
    "\<forall>n\<in>set ns. active \<noteq> [] \<longrightarrow> n \<in> set (successors g (last active))"
  shows "is_cycle g c"
  using assms
proof (induction g active visited ns rule: visit_all.induct)
  case (1 g active visited)
  then show ?case by (simp add: visit_all.simps)
next
  case (2 g active visited n ns)
  show ?case
  proof (cases "n \<in> set active")
    case True
    let ?tail = "dropWhile (\<lambda>a. a \<noteq> n) active"
    have c: "c = ?tail @ [n]" using 2(4) True by (simp add: visit_all.simps)
    have ne: "?tail \<noteq> []" "hd ?tail = n"
      using True hd_dropWhile[of "\<lambda>a. a \<noteq> n" active] by auto
    have act: "active = butlast active @ [last active]" using True by (cases active rule: rev_cases) auto
    have "walk g (butlast active @ [last active, n])"
      by (rule walk_snoc) (use act 2(5,6) True in auto)
    then have "walk g (active @ [n])" using act by (metis append.assoc append_Cons append_Nil)
    then have "walk g (takeWhile (\<lambda>a. a \<noteq> n) active @ (?tail @ [n]))"
      by (simp only: append_assoc[symmetric] takeWhile_dropWhile_id)
    then have "walk g (?tail @ [n])" by (rule walk_suffix)
    with c ne show ?thesis by (cases ?tail) (auto simp: is_cycle_def)
  next
    case active: False
    show ?thesis
    proof (cases "n \<in> set visited")
      case True
      with 2 active show ?thesis by (simp add: visit_all.simps)
    next
      case False
      have wa: "walk g (active @ [n])"
      proof (cases "active = []")
        case ne: False
        then have "active = butlast active @ [last active]" by simp
        moreover have "walk g (butlast active @ [last active, n])"
          by (rule walk_snoc) (use ne 2(5,6) in auto)
        ultimately show ?thesis by (metis append.assoc append_Cons append_Nil)
      qed simp
      show ?thesis
      proof (cases "visit_all g (active @ [n]) visited (successors g n)")
        case (Inl d)
        with 2(4) active False have "d = c" by (simp add: visit_all.simps)
        with 2(2)[OF active False] Inl wa show ?thesis by simp
      next
        case (Inr v)
        with 2(4) active False have "visit_all g active (n # v) ns = Inl c" by (simp add: visit_all.simps)
        with 2(3)[OF active False Inr] 2(5,6) show ?thesis by simp
      qed
    qed
  qed
qed

definition settled :: "(string \<times> string list) list \<Rightarrow> string set \<Rightarrow> bool" where
  "settled g V \<longleftrightarrow> edge_rel g `` V \<subseteq> V \<and> acyclic (edge_rel g \<inter> V \<times> V)"

lemma settled_insert:
  assumes "settled g V" "set (successors g n) \<subseteq> V" "n \<notin> V"
  shows "settled g (insert n V)"
proof -
  let ?E = "edge_rel g"
  have closed: "?E `` insert n V \<subseteq> insert n V"
    using assms by (auto simp: settled_def edge_rel_def)
  have nn: "(n, n) \<notin> ?E" using assms(2,3) by (auto simp: edge_rel_def)
  have into: "(x, n) \<notin> ?E" if "x \<in> V" for x using assms(1,3) that by (auto simp: settled_def)
  have stay: "y \<in> V \<and> (x, y) \<in> (?E \<inter> V \<times> V)\<^sup>+"
    if "(x, y) \<in> (?E \<inter> insert n V \<times> insert n V)\<^sup>+" "x \<in> V" for x y
    using that
  proof (induction rule: trancl_induct)
    case (base y)
    then show ?case using into[of x] by auto
  next
    case (step y z)
    then have "y \<in> V" "(x, y) \<in> (?E \<inter> V \<times> V)\<^sup>+" by auto
    moreover from step(2) this into[of y] have "(y, z) \<in> ?E \<inter> V \<times> V" by auto
    ultimately show ?case by (auto intro: trancl_into_trancl)
  qed
  have "(x, x) \<notin> (?E \<inter> insert n V \<times> insert n V)\<^sup>+" for x
  proof
    assume a: "(x, x) \<in> (?E \<inter> insert n V \<times> insert n V)\<^sup>+"
    show False
    proof (cases "x \<in> V")
      case True
      with stay[OF a] assms(1) show False by (auto simp: settled_def acyclic_def)
    next
      case False
      from a obtain y where y: "(x, y) \<in> ?E \<inter> insert n V \<times> insert n V"
        "(y, x) \<in> (?E \<inter> insert n V \<times> insert n V)\<^sup>*" by (meson tranclD)
      with False nn have "x = n" "y \<in> V" by auto
      with y(2) False stay[of y x] show False by (auto simp: rtrancl_eq_or_trancl)
    qed
  qed
  with closed show ?thesis by (simp add: settled_def acyclic_def)
qed

lemma visit_Inr_settled:
  assumes "visit_all g active visited ns = Inr v" "settled g (set visited)"
  shows "settled g (set v) \<and> set visited \<subseteq> set v \<and> set ns \<subseteq> set v \<and> set v \<inter> set active \<subseteq> set visited"
  using assms
proof (induction g active visited ns arbitrary: v rule: visit_all.induct)
  case (1 g active visited)
  then show ?case by (simp add: visit_all.simps)
next
  case (2 g active visited n ns)
  have active: "n \<notin> set active" using 2(4) by (auto simp: visit_all.simps)
  show ?case
  proof (cases "n \<in> set visited")
    case True
    with 2(1)[OF active True, of v] 2(4,5) active show ?thesis by (auto simp: visit_all.simps)
  next
    case False
    with 2(4) active obtain u where u: "visit_all g (active @ [n]) visited (successors g n) = Inr u"
      "visit_all g active (n # u) ns = Inr v" by (auto simp: visit_all.simps split: sum.splits)
    have inner: "settled g (set u)" "set visited \<subseteq> set u" "set (successors g n) \<subseteq> set u"
      "set u \<inter> set (active @ [n]) \<subseteq> set visited"
      using 2(2)[OF active False u(1) 2(5)] by auto
    then have "settled g (set (n # u))" using False settled_insert[of g "set u" n] by auto
    with 2(3)[OF active False u] inner active show ?thesis by auto
  qed
qed

lemma settled_empty [simp]: "settled g {}"
  by (simp add: settled_def acyclic_def)

lemma visit_decides:
  assumes "fst ` set g \<subseteq> set ns"
  shows "(\<exists>v. visit_all g [] [] ns = Inr v) \<longleftrightarrow> acyclic (edge_rel g)"
proof
  assume "\<exists>v. visit_all g [] [] ns = Inr v"
  then obtain v where v: "settled g (set v)" "set ns \<subseteq> set v"
    using visit_Inr_settled[of g "[]" "[]" ns] by auto
  have "edge_rel g \<subseteq> set v \<times> set v"
  proof (rule subrelI)
    fix a b
    assume e: "(a, b) \<in> edge_rel g"
    have "a \<in> fst ` set g"
    proof (rule ccontr)
      assume "a \<notin> fst ` set g"
      then have "successors g a = []" by (rule successors_outside)
      with e show False by (simp add: edge_rel_def)
    qed
    with assms v(2) have "a \<in> set v" by auto
    with e v(1) show "(a, b) \<in> set v \<times> set v" by (auto simp: settled_def)
  qed
  then have "edge_rel g \<inter> set v \<times> set v = edge_rel g" by blast
  with v(1) show "acyclic (edge_rel g)" by (simp add: settled_def)
next
  assume a: "acyclic (edge_rel g)"
  show "\<exists>v. visit_all g [] [] ns = Inr v"
  proof (cases "visit_all g [] [] ns")
    case (Inl c)
    then have "is_cycle g c" by (rule visit_Inl_cycle) auto
    with cycle_not_acyclic a show ?thesis by blast
  qed auto
qed

lemma cycle_check_run:
  fixes b :: builder
  defines "g \<equiv> dependency_graph (bld_apps b)"
  shows "validate_dependency_cycles b =
    (case visit_all g [] [] (sort (map fst g)) of Inl c \<Rightarrow> Inl (WorkspaceDependencyCycle c) | Inr _ \<Rightarrow> Inr ())"
  by (simp add: validate_dependency_cycles_def g_def Let_def)

lemma cycle_check_iff:
  "validate_dependency_cycles b = Inr () \<longleftrightarrow> acyclic (edge_rel (dependency_graph (bld_apps b)))"
proof -
  let ?g = "dependency_graph (bld_apps b)"
  have "fst ` set ?g \<subseteq> set (sort (map fst ?g))" by simp
  from visit_decides[OF this] show ?thesis unfolding cycle_check_run by (auto split: sum.splits)
qed

text \<open>
  C26: The dependency check of the builder terminates and decides acyclicity: it passes exactly when
  the relation "App depends on installed App" has no cycle, and every error it raises is a
  dependency cycle whose listed path follows dependencies and returns to its first App.
\<close>

theorem dependency_search_decides_cycles:
  "(validate_dependency_cycles b = Inr () \<longleftrightarrow> acyclic (edge_rel (dependency_graph (bld_apps b)))) \<and>
   (validate_dependency_cycles b = Inl e \<longrightarrow>
     (\<exists>c. e = WorkspaceDependencyCycle c \<and> is_cycle (dependency_graph (bld_apps b)) c))"
proof -
  let ?g = "dependency_graph (bld_apps b)"
  have "\<exists>c. e = WorkspaceDependencyCycle c \<and> is_cycle ?g c"
    if "validate_dependency_cycles b = Inl e"
    using that visit_Inl_cycle[of ?g "[]" "[]" "sort (map fst ?g)"]
    unfolding cycle_check_run by (auto split: sum.splits)
  then show ?thesis using cycle_check_iff by blast
qed

definition demo_app :: "string \<Rightarrow> string list \<Rightarrow> app_def" where
  "demo_app i ds =
     \<lparr> app_id = i, app_version = ''1.0.0'', app_runtime = ''>=0.1.0 <1.0.0'', app_workflows = [],
       app_agents = [], app_dependencies = map (\<lambda>d. \<lparr> dep_id = d, dep_range = ''>=1.0.0 <2.0.0'',
       dep_optional = False \<rparr>) ds \<rparr>"

definition demo_looped :: builder where
  "demo_looped = empty_builder\<lparr> bld_apps := [(''a'', demo_app ''a'' [''b'']), (''b'', demo_app ''b'' [''a''])] \<rparr>"

theorem dependency_search_decides_cycles_witness:
  "is_cycle (dependency_graph (bld_apps demo_looped)) [''a'', ''b'', ''a'']"
proof -
  have "validate_dependency_cycles demo_looped = Inl (WorkspaceDependencyCycle [''a'', ''b'', ''a''])"
    by (simp add: validate_dependency_cycles_def dependency_graph_def demo_looped_def empty_builder_def
      demo_app_def successors_def visit_all.simps)
  with dependency_search_decides_cycles[of demo_looped "WorkspaceDependencyCycle [''a'', ''b'', ''a'']"]
  show ?thesis by blast
qed

section \<open>The builder accepts exactly the consistent manifests\<close>

fun as_app :: "manifest \<Rightarrow> app_def option" where
  "as_app (AppManifest a) = Some a"
| "as_app _ = None"

fun as_workflow :: "manifest \<Rightarrow> workflow_def option" where
  "as_workflow (WorkflowManifest w) = Some w"
| "as_workflow _ = None"

fun as_agent :: "manifest \<Rightarrow> agent_def option" where
  "as_agent (AgentManifest a) = Some a"
| "as_agent _ = None"

definition apps_of :: "discovered list \<Rightarrow> app_def list" where
  "apps_of ds = List.map_filter (\<lambda>d. as_app (found_data d)) ds"

definition workflows_of :: "discovered list \<Rightarrow> workflow_def list" where
  "workflows_of ds = List.map_filter (\<lambda>d. as_workflow (found_data d)) ds"

definition agents_of :: "discovered list \<Rightarrow> agent_def list" where
  "agents_of ds = List.map_filter (\<lambda>d. as_agent (found_data d)) ds"

definition manifest_key :: "discovered \<Rightarrow> string \<times> string" where
  "manifest_key d = (manifest_kind (found_data d), manifest_id (found_data d))"

definition indexed :: "discovered list \<Rightarrow> builder" where
  "indexed ds =
     \<lparr> bld_apps = map (\<lambda>a. (app_id a, a)) (apps_of ds),
       bld_workflows = map (\<lambda>w. (wd_id w, w)) (workflows_of ds),
       bld_agents = map (\<lambda>a. (agd_id a, a)) (agents_of ds),
       bld_paths = map (\<lambda>d. (manifest_key d, found_path d)) ds \<rparr>"

lemma map_filter_snoc:
  "List.map_filter f (xs @ [x]) = List.map_filter f xs @ (case f x of None \<Rightarrow> [] | Some y \<Rightarrow> [y])"
  by (simp add: List.map_filter_def split: option.splits)

lemma mem_map_filter: "y \<in> set (List.map_filter f xs) \<longleftrightarrow> (\<exists>x\<in>set xs. f x = Some y)"
  by (induction xs) (auto simp: List.map_filter_def)

lemma of_mem_iff:
  "a \<in> set (apps_of ds) \<longleftrightarrow> (\<exists>d\<in>set ds. found_data d = AppManifest a)"
  "w \<in> set (workflows_of ds) \<longleftrightarrow> (\<exists>d\<in>set ds. found_data d = WorkflowManifest w)"
  "g \<in> set (agents_of ds) \<longleftrightarrow> (\<exists>d\<in>set ds. found_data d = AgentManifest g)"
proof -
  have "as_app m = Some a \<longleftrightarrow> m = AppManifest a" for m by (cases m) auto
  moreover have "as_workflow m = Some w \<longleftrightarrow> m = WorkflowManifest w" for m by (cases m) auto
  moreover have "as_agent m = Some g \<longleftrightarrow> m = AgentManifest g" for m by (cases m) auto
  ultimately show "a \<in> set (apps_of ds) \<longleftrightarrow> (\<exists>d\<in>set ds. found_data d = AppManifest a)"
    "w \<in> set (workflows_of ds) \<longleftrightarrow> (\<exists>d\<in>set ds. found_data d = WorkflowManifest w)"
    "g \<in> set (agents_of ds) \<longleftrightarrow> (\<exists>d\<in>set ds. found_data d = AgentManifest g)"
    by (simp_all add: apps_of_def workflows_of_def agents_of_def mem_map_filter)
qed

lemma fresh_ids:
  assumes "manifest_key d \<notin> manifest_key ` set ds"
  shows "found_data d = AppManifest a \<Longrightarrow> app_id a \<notin> app_id ` set (apps_of ds)"
    "found_data d = WorkflowManifest w \<Longrightarrow> wd_id w \<notin> wd_id ` set (workflows_of ds)"
    "found_data d = AgentManifest g \<Longrightarrow> agd_id g \<notin> agd_id ` set (agents_of ds)"
proof -
  have ne: "manifest_key d' \<noteq> manifest_key d" if "d' \<in> set ds" for d'
    using assms that by (metis image_eqI)
  show "app_id a \<notin> app_id ` set (apps_of ds)" if "found_data d = AppManifest a"
    using ne that by (clarsimp simp: of_mem_iff manifest_key_def) (metis manifest_id.simps(1) manifest_kind.simps(1))
  show "wd_id w \<notin> wd_id ` set (workflows_of ds)" if "found_data d = WorkflowManifest w"
    using ne that by (clarsimp simp: of_mem_iff manifest_key_def) (metis manifest_id.simps(2) manifest_kind.simps(2))
  show "agd_id g \<notin> agd_id ` set (agents_of ds)" if "found_data d = AgentManifest g"
    using ne that by (clarsimp simp: of_mem_iff manifest_key_def) (metis manifest_id.simps(3) manifest_kind.simps(3))
qed

lemma update_pairs_fresh:
  "k \<notin> f ` set xs \<Longrightarrow> AList.update k v (map (\<lambda>x. (f x, x)) xs) = map (\<lambda>x. (f x, x)) xs @ [(k, v)]"
  by (rule update_fresh) (auto simp: map_of_eq_None_iff image_iff)

lemma index_all_iff:
  "index_all ds = Inr b \<longleftrightarrow> distinct (map manifest_key ds) \<and> b = indexed ds"
proof (induction ds arbitrary: b rule: rev_induct)
  case Nil
  then show ?case
    by (auto simp: index_all_def indexed_def empty_builder_def apps_of_def workflows_of_def
      agents_of_def List.map_filter_def)
next
  case (snoc d ds)
  have paths: "map_of (bld_paths (indexed ds)) (manifest_key d) = None \<longleftrightarrow>
      manifest_key d \<notin> manifest_key ` set ds"
    by (auto simp: indexed_def map_of_eq_None_iff image_iff)
  have step: "index_one (indexed ds) d = Inr (indexed (ds @ [d]))"
    if fresh: "manifest_key d \<notin> manifest_key ` set ds"
  proof -
    have "map_of (map (\<lambda>d. (manifest_key d, found_path d)) ds) (manifest_key d) = None"
      using fresh by (auto simp: map_of_eq_None_iff image_iff)
    then show ?thesis
      using fresh_ids[OF fresh]
      by (cases "found_data d")
        (simp_all add: index_one_def indexed_def manifest_key_def apps_of_def workflows_of_def
          agents_of_def map_filter_snoc update_pairs_fresh update_fresh Let_def)
  qed
  have "index_all (ds @ [d]) = (case index_all ds of Inl e \<Rightarrow> Inl e | Inr u \<Rightarrow> index_one u d)"
    by (auto simp: index_all_def foldE_append split: sum.splits)
  also have "\<dots> = Inr b \<longleftrightarrow> distinct (map manifest_key (ds @ [d])) \<and> b = indexed (ds @ [d])"
  proof (cases "distinct (map manifest_key ds)")
    case True
    then have "index_all ds = Inr (indexed ds)" using snoc by blast
    moreover have "\<exists>e. index_one (indexed ds) d = Inl e" if "manifest_key d \<in> manifest_key ` set ds"
      using that paths by (auto simp: index_one_def manifest_key_def Let_def split: option.splits)
    ultimately show ?thesis using step True by (cases "manifest_key d \<in> manifest_key ` set ds") auto
  next
    case False
    with snoc have "\<And>u. index_all ds \<noteq> Inr u" by blast
    with False show ?thesis by (auto split: sum.splits)
  qed
  finally show ?case .
qed

definition refers :: "(string \<times> string) set \<Rightarrow> def_ref list \<Rightarrow> bool" where
  "refers offered refs \<longleftrightarrow> (\<forall>r\<in>set refs. (dr_id r, dr_version r) \<in> offered)"

definition offered_workflows :: "discovered list \<Rightarrow> (string \<times> string) set" where
  "offered_workflows ds = (\<lambda>w. (wd_id w, wd_version w)) ` set (workflows_of ds)"

definition offered_agents :: "discovered list \<Rightarrow> (string \<times> string) set" where
  "offered_agents ds = (\<lambda>a. (agd_id a, agd_version a)) ` set (agents_of ds)"

definition dependency_met :: "app_def list \<Rightarrow> app_dependency \<Rightarrow> bool" where
  "dependency_met apps d \<longleftrightarrow>
     (\<exists>t\<in>set apps. app_id t = dep_id d \<and> in_range (app_version t) (dep_range d) = Inr True) \<or>
     dep_optional d \<and> dep_id d \<notin> app_id ` set apps"

definition installed_dependencies :: "app_def list \<Rightarrow> (string \<times> string) set" where
  "installed_dependencies apps =
     {(i, j). \<exists>a\<in>set apps. i = app_id a \<and> j \<in> dep_id ` set (app_dependencies a) \<and> j \<in> app_id ` set apps}"

definition kernel_allows :: "version \<Rightarrow> workflow_def \<Rightarrow> bool" where
  "kernel_allows runtime w \<longleftrightarrow>
     (\<exists>lo hi. wd_min_kernel w = version_text lo \<and> wd_max_kernel w = version_text hi \<and>
        lo \<le> runtime \<and> runtime < hi)"

lemma map_of_pairs:
  "distinct (map f xs) \<Longrightarrow> map_of (map (\<lambda>x. (f x, x)) xs) k = Some x \<longleftrightarrow> x \<in> set xs \<and> f x = k"
  by (subst map_of_eq_Some_iff) (auto simp: o_def)

lemma map_of_pairs_None_iff: "map_of (map (\<lambda>x. (f x, x)) xs) k = None \<longleftrightarrow> k \<notin> f ` set xs"
  by (auto simp: map_of_eq_None_iff image_iff)

lemma distinct_ids:
  assumes "distinct (map manifest_key ds)"
  shows "distinct (map app_id (apps_of ds))" "distinct (map wd_id (workflows_of ds))"
    "distinct (map agd_id (agents_of ds))"
  using assms
proof (induction ds rule: rev_induct)
  case (snoc d ds)
  {
    case 1
    with snoc fresh_ids(1)[of d ds] show ?case
      by (cases "found_data d") (auto simp: apps_of_def map_filter_snoc)
  next
    case 2
    with snoc fresh_ids(2)[of d ds] show ?case
      by (cases "found_data d") (auto simp: workflows_of_def map_filter_snoc)
  next
    case 3
    with snoc fresh_ids(3)[of d ds] show ?case
      by (cases "found_data d") (auto simp: agents_of_def map_filter_snoc)
  }
qed (auto simp: apps_of_def workflows_of_def agents_of_def List.map_filter_def)

lemma require_exact_iff:
  "require_exact_references targets i refs = Inr u \<longleftrightarrow>
     (\<forall>r\<in>set refs. targets (dr_id r) = Some (dr_version r))"
  by (auto simp: require_exact_references_def eachE_Inr_iff check_reference_def
    split: option.splits)

lemma version_tuple_iff: "version_tuple s = Inr v \<longleftrightarrow> s = version_text v"
  by (simp add: core_version_iff version_tuple_def split: option.splits)
    (metis core_version_iff not_None_eq option.inject)

lemma indexed_sel [simp]:
  "bld_apps (indexed ds) = map (\<lambda>a. (app_id a, a)) (apps_of ds)"
  "bld_workflows (indexed ds) = map (\<lambda>w. (wd_id w, w)) (workflows_of ds)"
  "bld_agents (indexed ds) = map (\<lambda>a. (agd_id a, a)) (agents_of ds)"
  by (simp_all add: indexed_def)

lemma sorted_items_set [simp]: "set (sorted_items al) = set al"
  by (simp add: sorted_items_def)

lemma version_lookups:
  assumes "distinct (map manifest_key ds)"
  shows "workflow_versions (indexed ds) i = Some v \<longleftrightarrow> (i, v) \<in> offered_workflows ds"
    "agent_versions (indexed ds) i = Some v \<longleftrightarrow> (i, v) \<in> offered_agents ds"
  using map_of_pairs[OF distinct_ids(2)[OF assms], of i] map_of_pairs[OF distinct_ids(3)[OF assms], of i]
  by (auto simp: workflow_versions_def agent_versions_def offered_workflows_def offered_agents_def)

lemma Inr_ex_True: "(\<exists>b. r = Inr b \<and> b) \<longleftrightarrow> r = Inr True"
  by auto

lemma check_dependency_iff:
  assumes "distinct (map app_id apps)"
  shows "check_dependency (map (\<lambda>a. (app_id a, a)) apps) i d = Inr u \<longleftrightarrow> dependency_met apps d"
proof (cases "map_of (map (\<lambda>a. (app_id a, a)) apps) (dep_id d)")
  case None
  then have "dep_id d \<notin> app_id ` set apps" by (simp only: map_of_pairs_None_iff not_False_eq_True)
  moreover from this have "app_id t \<noteq> dep_id d" if "t \<in> set apps" for t using that by (metis image_eqI)
  ultimately show ?thesis using None by (auto simp: check_dependency_def dependency_met_def)
next
  case (Some t)
  then have t: "t \<in> set apps" "app_id t = dep_id d" using map_of_pairs[OF assms] by auto
  have "t' = t" if "t' \<in> set apps" "app_id t' = dep_id d" for t'
    using assms t that by (metis distinct_map inj_onD)
  then have "dependency_met apps d \<longleftrightarrow> in_range (app_version t) (dep_range d) = Inr True"
    unfolding dependency_met_def using t by (metis image_eqI)
  then show ?thesis using Some by (simp add: check_dependency_def andthen_Inr_iff Inr_ex_True)
qed

lemma successors_graph:
  "successors (dependency_graph al) i =
     (case map_of al i of None \<Rightarrow> []
      | Some a \<Rightarrow> sort (filter (\<lambda>d. map_of al d \<noteq> None) (map dep_id (app_dependencies a))))"
  by (simp add: dependency_graph_def successors_def map_of_map split: option.splits)

lemma graph_edges:
  assumes "distinct (map app_id apps)"
  shows "edge_rel (dependency_graph (map (\<lambda>a. (app_id a, a)) apps)) = installed_dependencies apps"
    (is "edge_rel (dependency_graph ?al) = _")
proof -
  have "(i, j) \<in> edge_rel (dependency_graph ?al) \<longleftrightarrow> (i, j) \<in> installed_dependencies apps" for i j
  proof (cases "map_of ?al i")
    case None
    then have "i \<notin> app_id ` set apps" by (simp only: map_of_pairs_None_iff not_False_eq_True)
    with None show ?thesis by (auto simp: edge_rel_def successors_graph installed_dependencies_def)
  next
    case (Some a)
    then have a: "a \<in> set apps" "app_id a = i" using map_of_pairs[OF assms] by auto
    have "a' = a" if "a' \<in> set apps" "app_id a' = i" for a'
      using assms a that by (metis distinct_map inj_onD)
    moreover have "map_of ?al j \<noteq> None \<longleftrightarrow> j \<in> app_id ` set apps"
      by (simp only: map_of_pairs_None_iff not_not)
    moreover have "(i, j) \<in> edge_rel (dependency_graph ?al) \<longleftrightarrow>
        j \<in> dep_id ` set (app_dependencies a) \<and> map_of ?al j \<noteq> None"
      by (simp only: edge_rel_def successors_graph Some option.case mem_Collect_eq prod.case set_sort
          set_filter set_map conj_ac)
    ultimately show ?thesis using a unfolding installed_dependencies_def by blast
  qed
  then show ?thesis by auto
qed

definition consistent_manifests :: "string \<Rightarrow> version \<Rightarrow> discovered list \<Rightarrow> bool" where
  "consistent_manifests runtime_version runtime ds \<longleftrightarrow>
     distinct (map manifest_key ds) \<and>
     (\<forall>a\<in>set (apps_of ds). in_range runtime_version (app_runtime a) = Inr True \<and>
        refers (offered_workflows ds) (app_workflows a) \<and> refers (offered_agents ds) (app_agents a) \<and>
        (\<forall>d\<in>set (app_dependencies a). dependency_met (apps_of ds) d)) \<and>
     (\<forall>w\<in>set (workflows_of ds). kernel_allows runtime w \<and>
        refers (offered_agents ds) (wd_required_agents w @ wd_optional_agents w)) \<and>
     acyclic (installed_dependencies (apps_of ds))"

lemma runtime_checks:
  "validate_runtime_compatibility rv runtime (indexed ds) = Inr u \<longleftrightarrow>
     (\<forall>a\<in>set (apps_of ds). in_range rv (app_runtime a) = Inr True) \<and>
     (\<forall>w\<in>set (workflows_of ds). kernel_allows runtime w)"
  by (simp add: validate_runtime_compatibility_def andthen_Inr_iff eachE_Inr_iff
      check_app_runtime_def check_workflow_kernel_def version_tuple_iff kernel_allows_def Inr_ex_True)

lemma reference_checks:
  assumes "distinct (map manifest_key ds)"
  shows "validate_app_references (indexed ds) = Inr u \<longleftrightarrow>
     (\<forall>a\<in>set (apps_of ds). refers (offered_workflows ds) (app_workflows a) \<and>
        refers (offered_agents ds) (app_agents a) \<and>
        (\<forall>d\<in>set (app_dependencies a). dependency_met (apps_of ds) d))"
    and "validate_workflow_references (indexed ds) = Inr u \<longleftrightarrow>
     (\<forall>w\<in>set (workflows_of ds). refers (offered_agents ds) (wd_required_agents w @ wd_optional_agents w))"
  by (auto simp: validate_app_references_def validate_workflow_references_def eachE_Inr_iff
      check_app_references_def andthen_Inr_iff require_exact_iff version_lookups[OF assms] refers_def
      check_dependency_iff[OF distinct_ids(1)[OF assms]])

text \<open>
  C25: The builder is an implementation of one declarative condition. It accepts a list of discovered
  manifests exactly when no two of a kind share an identifier, every App and Workflow is compatible
  with the runtime, every reference names a manifest of exactly its version, every App dependency
  is met (or optional and absent), and the dependencies are acyclic; and the workspace it returns
  indexes exactly the given manifests.
\<close>

theorem workspace_accepts_consistent_manifests:
  "build_workspace path rv runtime ds = Inr w \<longleftrightarrow>
     consistent_manifests rv runtime ds \<and>
     w = \<lparr> ws_root = path, ws_runtime = rv,
           ws_apps = map (\<lambda>a. (app_id a, a)) (apps_of ds),
           ws_workflows = map (\<lambda>x. (wd_id x, x)) (workflows_of ds),
           ws_agents = map (\<lambda>a. (agd_id a, a)) (agents_of ds) \<rparr>"
proof (cases "distinct (map manifest_key ds)")
  case True
  have "validate_dependency_cycles (indexed ds) = Inr () \<longleftrightarrow> acyclic (installed_dependencies (apps_of ds))"
    using cycle_check_iff[of "indexed ds"] graph_edges[OF distinct_ids(1)[OF True]] by simp
  with True show ?thesis
    by (auto simp: build_workspace_def andthen_Inr_iff index_all_iff runtime_checks
      reference_checks[OF True] consistent_manifests_def)
next
  case False
  then show ?thesis
    by (simp add: build_workspace_def andthen_Inr_iff index_all_iff consistent_manifests_def)
qed

lemma workspace_parts:
  assumes "build_workspace path rv runtime ds = Inr w"
  shows "ws_apps w = map (\<lambda>a. (app_id a, a)) (apps_of ds)"
    "ws_workflows w = map (\<lambda>x. (wd_id x, x)) (workflows_of ds)"
    "ws_agents w = map (\<lambda>a. (agd_id a, a)) (agents_of ds)"
  using assms by (auto simp: build_workspace_def andthen_Inr_iff index_all_iff)

end
