(* ===== verification/PlannerTheorems.thy ===== *)
theory PlannerTheorems
  imports Planner WorkspaceTheorems
begin

text \<open>
  The properties of the planner. The ordering loop is the interface \<open>layering\<close> on the sort by
  position; from its laws follow that a plan contains every step once, in an order in which each
  artifact is produced before it is consumed and the transition request comes after every
  evaluation and approval, and that planning fails on a cycle only when there is one.
\<close>

interpretation step_rounds: layering "by_position ids" for ids
  by unfold_locales (simp add: by_position_def)

section \<open>Producers\<close>

definition swapped :: "(string \<times> string) list \<Rightarrow> (string \<times> string) list" where
  "swapped os = map (\<lambda>(i, a). (a, i)) os"

lemma producers_loop_iff:
  "foldE (add_producer declared) [] os = Inr P \<longleftrightarrow>
     distinct (map snd os) \<and> snd ` set os \<subseteq> set declared \<and> P = swapped os"
proof (induction os arbitrary: P rule: rev_induct)
  case Nil
  then show ?case by (auto simp: swapped_def)
next
  case (snoc o' os)
  obtain i a where o: "o' = (i, a)" by (cases o')
  have keys: "map_of (swapped os) a = None \<longleftrightarrow> a \<notin> snd ` set os"
    by (auto simp: swapped_def map_of_eq_None_iff image_iff split: prod.splits)
  have "foldE (add_producer declared) [] (os @ [o']) =
      (case foldE (add_producer declared) [] os of Inl e \<Rightarrow> Inl e | Inr u \<Rightarrow> add_producer declared u o')"
    by (auto simp: foldE_append split: sum.splits)
  also have "\<dots> = Inr P \<longleftrightarrow> distinct (map snd (os @ [o'])) \<and> snd ` set (os @ [o']) \<subseteq> set declared \<and>
      P = swapped (os @ [o'])"
  proof (cases "foldE (add_producer declared) [] os")
    case (Inl e)
    with snoc show ?thesis by fastforce
  next
    case (Inr u)
    with snoc have u: "distinct (map snd os)" "snd ` set os \<subseteq> set declared" "u = swapped os" by blast+
    have "add_producer declared u o' = Inr P \<longleftrightarrow>
        a \<in> set declared \<and> map_of u a = None \<and> P = swapped os @ [(a, i)]"
      using update_fresh[of u a i] u(3) by (auto simp: o add_producer_def)
    moreover have "swapped (os @ [o']) = swapped os @ [(a, i)]" by (simp add: swapped_def o)
    ultimately show ?thesis using u keys Inr by (auto simp: o)
  qed
  finally show ?case .
qed

lemma producers_of_iff:
  "producers_of declared steps = Inr P \<longleftrightarrow>
     distinct (map snd (outputs_of steps)) \<and> snd ` set (outputs_of steps) \<subseteq> set declared \<and>
     P = swapped (outputs_of steps)"
  by (simp add: producers_of_def producers_loop_iff)

lemma outputs_of_mem: "(i, a) \<in> set (outputs_of steps) \<longleftrightarrow> (\<exists>s\<in>set steps. st_id s = i \<and> a \<in> set (st_outputs s))"
  by (auto simp: outputs_of_def)

lemma map_of_swapped:
  assumes "distinct (map snd os)"
  shows "map_of (swapped os) a = Some i \<longleftrightarrow> (i, a) \<in> set os"
proof -
  have "map fst (swapped os) = map snd os" by (simp add: swapped_def split_beta)
  then have "map_of (swapped os) a = Some i \<longleftrightarrow> (a, i) \<in> set (swapped os)"
    using assms map_of_eq_Some_iff[of "swapped os" a i] by simp
  then show ?thesis by (force simp: swapped_def)
qed

section \<open>Finding a step by its id\<close>

lemma find_step:
  "distinct (map st_id steps) \<Longrightarrow> s \<in> set steps \<Longrightarrow> find (\<lambda>t. st_id t = st_id s) steps = Some s"
  by (rule find_distinct_key)

lemma find_step_sound: "find (\<lambda>s. st_id s = i) steps = Some s \<Longrightarrow> s \<in> set steps \<and> st_id s = i"
  by (induction steps) (auto split: if_splits)

lemma steps_by_id:
  assumes "distinct (map st_id steps)" "set order \<subseteq> st_id ` set steps"
  shows "map st_id (List.map_filter (\<lambda>i. find (\<lambda>s. st_id s = i) steps) order) = order \<and>
    set (List.map_filter (\<lambda>i. find (\<lambda>s. st_id s = i) steps) order) \<subseteq> set steps"
  using assms(2)
proof (induction order)
  case (Cons i order)
  then obtain s where "s \<in> set steps" "st_id s = i" by auto
  with find_step[OF assms(1)] Cons show ?case by (auto simp: List.map_filter_def)
qed (simp add: List.map_filter_def)

lemma mset_by_ids:
  assumes "distinct (map f xs)" "mset (map f ys) = mset (map f xs)" "set ys \<subseteq> set xs"
  shows "mset ys = mset xs"
proof -
  have "distinct (map f ys)" using assms(1,2) mset_eq_imp_distinct_iff by metis
  then have "distinct ys" "distinct xs" using assms(1) by (auto simp: distinct_map)
  moreover have "set xs \<subseteq> set ys"
  proof
    fix x assume x: "x \<in> set xs"
    then have "f x \<in> f ` set ys" using assms(2) by (metis image_eqI list.set_map mset_eq_setD)
    then obtain y where "y \<in> set ys" "f y = f x" by auto
    with x assms(1,3) show "x \<in> set ys" by (metis distinct_map inj_onD subsetD)
  qed
  ultimately show ?thesis using assms(3) set_eq_iff_mset_eq_distinct by blast
qed

section \<open>When ordering succeeds\<close>

definition produced_by :: "wf_step list \<Rightarrow> (string \<times> string) list" where
  "produced_by steps = swapped (outputs_of steps)"

definition coherent_steps :: "wf_step list \<Rightarrow> string list \<Rightarrow> string list \<Rightarrow> bool" where
  "coherent_steps steps required declared \<longleftrightarrow>
     distinct (map st_id steps) \<and>
     distinct (map snd (outputs_of steps)) \<and>
     snd ` set (outputs_of steps) = set declared \<and>
     (\<forall>s\<in>set steps. set (st_inputs s) \<subseteq> set declared \<union> set required)"

lemma produced_keys: "map_of (produced_by steps) a = None \<longleftrightarrow> a \<notin> snd ` set (outputs_of steps)"
  by (auto simp: produced_by_def swapped_def map_of_eq_None_iff image_iff split: prod.splits)

lemma order_steps_Inr_iff:
  "order_steps steps required declared = Inr ordered \<longleftrightarrow>
     coherent_steps steps required declared \<and>
     (\<exists>order. rounds (by_position (map st_id steps)) (dependencies_of steps (produced_by steps))
        (map st_id steps) = Inr order \<and>
        ordered = List.map_filter (\<lambda>i. find (\<lambda>s. st_id s = i) steps) order)"
proof -
  have all_made: "(case filter (\<lambda>a. map_of P a = None) (sort declared) of
        [] \<Rightarrow> Inr () | a # _ \<Rightarrow> Inl (PlannerArtifactReference a)) = Inr u \<longleftrightarrow>
      (\<forall>a\<in>set declared. map_of P a \<noteq> None)" for P :: "(string \<times> string) list" and u
    by (auto simp: filter_empty_conv split: list.splits dest: arg_cong[of _ _ set])
      (metis (mono_tags, lifting) filter_empty_conv list.distinct(1) set_sort)
  have inputs: "eachE (check_inputs P required) steps = Inr u \<longleftrightarrow>
      (\<forall>s\<in>set steps. \<forall>a\<in>set (st_inputs s). map_of P a \<noteq> None \<or> a \<in> set required)" for P u
    by (simp add: eachE_Inr_iff check_inputs_def)
  have out: "(case r of Inl c \<Rightarrow> Inl (PlannerCircularDependency c) | Inr o' \<Rightarrow> Inr (f o')) = Inr ordered \<longleftrightarrow>
      (\<exists>o'. r = Inr o' \<and> ordered = f o')" for r :: "string list + string list" and f
    by (auto split: sum.splits)
  show ?thesis
    unfolding order_steps_def Let_def andthen_Inr_iff all_made inputs out demand_Inr_iff
      producers_of_iff produced_by_def[symmetric] coherent_steps_def
    by (auto simp: produced_keys simp del: not_None_eq) blast
qed

lemma dependencies_of_step:
  "distinct (map st_id steps) \<Longrightarrow> s \<in> set steps \<Longrightarrow>
     dependencies_of steps P (st_id s) = step_dependencies steps P s"
  by (simp add: dependencies_of_def find_step)

text \<open>What the loop guarantees of the ordered steps.\<close>

lemma ordered_steps:
  assumes "order_steps steps required declared = Inr ordered"
  shows "mset ordered = mset steps"
    and "ordered = before @ s # after \<Longrightarrow>
      d \<in> set (step_dependencies steps (produced_by steps) s) \<Longrightarrow> d \<in> st_id ` set steps \<Longrightarrow>
      d \<in> st_id ` set before"
proof -
  let ?ids = "map st_id steps" and ?P = "produced_by steps"
  from assms obtain order where c: "coherent_steps steps required declared" and
    r: "rounds (by_position ?ids) (dependencies_of steps ?P) ?ids = Inr order" and
    o: "ordered = List.map_filter (\<lambda>i. find (\<lambda>s. st_id s = i) steps) order"
    by (auto simp: order_steps_Inr_iff)
  have dist: "distinct ?ids" using c by (simp add: coherent_steps_def)
  have m: "mset order = mset ?ids" by (rule step_rounds.rounds_mset[OF r])
  then have "set order = set ?ids" by (rule mset_eq_setD)
  then have sub: "set order \<subseteq> st_id ` set steps" by simp
  from steps_by_id[OF dist sub] o have by_id: "map st_id ordered = order" "set ordered \<subseteq> set steps" by auto
  show "mset ordered = mset steps"
    by (rule mset_by_ids[OF dist _ by_id(2)]) (simp add: by_id(1) m)
  show "d \<in> st_id ` set before"
    if split: "ordered = before @ s # after" and d: "d \<in> set (step_dependencies steps ?P s)"
      "d \<in> st_id ` set steps"
  proof -
    have s: "s \<in> set steps" using split by_id(2) by auto
    have "order = map st_id before @ st_id s # map st_id after" using split by_id(1) by auto
    then have "set (dependencies_of steps ?P (st_id s)) \<inter> set ?ids \<subseteq> set (map st_id before)"
      using step_rounds.rounds_in_order[OF r] unfolding in_order_def by blast
    with d show ?thesis by (auto simp: dependencies_of_step[OF dist s])
  qed
qed

lemma produced_by_iff:
  assumes "coherent_steps steps required declared"
  shows "map_of (produced_by steps) a = Some i \<longleftrightarrow>
    (\<exists>q\<in>set steps. st_id q = i \<and> a \<in> set (st_outputs q))"
  using assms map_of_swapped[of "outputs_of steps" a i]
  by (simp add: produced_by_def outputs_of_mem coherent_steps_def)

lemma producer_is_dependency:
  assumes "coherent_steps steps required declared" "q \<in> set steps"
    "a \<in> set (st_outputs q)" "a \<in> set (st_inputs s)"
  shows "st_id q \<in> set (step_dependencies steps (produced_by steps) s)"
proof -
  have "map_of (produced_by steps) a = Some (st_id q)"
    using produced_by_iff[OF assms(1)] assms(2,3) by blast
  with assms(4) show ?thesis by (auto simp: step_dependencies_def mem_map_filter)
qed

lemma checkpoint_is_dependency:
  assumes "q \<in> set steps" "st_type q \<in> {''evaluation'', ''approval''}" "st_type s = ''transition_request''"
  shows "st_id q \<in> set (step_dependencies steps P s)"
  using assms by (auto simp: step_dependencies_def ids_of_type_def)

lemma before_by_id:
  assumes "distinct (map st_id steps)" "set before \<subseteq> set steps" "q \<in> set steps" "st_id q \<in> st_id ` set before"
  shows "q \<in> set before"
proof -
  from assms(4) obtain r where r: "r \<in> set before" "st_id r = st_id q" by auto
  with assms(2) have "r \<in> set steps" by auto
  with assms(1,3) r(2) have "r = q" by (metis distinct_map inj_onD)
  with r(1) show ?thesis by simp
qed

text \<open>The order property of the plan, on the steps of the Workflow.\<close>

lemma ordered_before:
  assumes "order_steps steps required declared = Inr ordered" "ordered = before @ s # after"
  shows "q \<in> set ordered \<Longrightarrow> set (st_outputs q) \<inter> set (st_inputs s) \<noteq> {} \<Longrightarrow> q \<in> set before"
    and "q \<in> set ordered \<Longrightarrow> st_type s = ''transition_request'' \<Longrightarrow>
      st_type q \<in> {''evaluation'', ''approval''} \<Longrightarrow> q \<in> set before"
    and "a \<in> set (st_inputs s) \<Longrightarrow> a \<in> set required \<or> (\<exists>q\<in>set before. a \<in> set (st_outputs q))"
proof -
  have coh: "coherent_steps steps required declared" using assms(1) by (simp add: order_steps_Inr_iff)
  then have dist: "distinct (map st_id steps)" by (simp add: coherent_steps_def)
  have same: "set ordered = set steps" by (rule mset_eq_setD[OF ordered_steps(1)[OF assms(1)]])
  then have sub: "set before \<subseteq> set steps" "s \<in> set steps" using assms(2) by auto
  note found = before_by_id[OF dist sub(1)]
  note dep = ordered_steps(2)[OF assms]
  have made: "q \<in> set before" if "q \<in> set steps" "a \<in> set (st_outputs q)" "a \<in> set (st_inputs s)" for q a
    using dep[OF producer_is_dependency[OF coh that]] found[OF that(1)] that(1) by blast
  show "q \<in> set before" if "q \<in> set ordered" "set (st_outputs q) \<inter> set (st_inputs s) \<noteq> {}" for q
    using made that same by blast
  show "q \<in> set before" if "q \<in> set ordered" "st_type s = ''transition_request''"
    "st_type q \<in> {''evaluation'', ''approval''}" for q
    using dep[OF checkpoint_is_dependency[OF _ that(3) that(2)]] found[of q] that(1) same by blast
  show "a \<in> set required \<or> (\<exists>q\<in>set before. a \<in> set (st_outputs q))" if a: "a \<in> set (st_inputs s)" for a
  proof (cases "a \<in> set required")
    case False
    with coh sub(2) a have "a \<in> snd ` set (outputs_of steps)" by (auto simp: coherent_steps_def)
    then obtain q where "q \<in> set steps" "a \<in> set (st_outputs q)" by (auto simp: outputs_of_def)
    with made a show ?thesis by blast
  qed simp
qed

section \<open>The properties of a plan\<close>

lemma plan_Inr:
  assumes "plan_workflow ws i = Inr p"
  obtains w ordered agents where "get_workflow ws i = Inr w" "validate_workflow_shape w = Inr ()"
    "resolve_agents ws w = Inr agents" "pl_agents p = agents"
    "order_steps (with_checkpoints w) (map aref_id (artifact_references (wd_required_artifacts w)))
       (map aref_id (artifact_references (wd_produced_artifacts w))) = Inr ordered"
    "pl_steps p = map (execution_step (evaluation_subjects w) (approval_subjects w)) ordered"
    "pl_workflow p = wd_id w" "pl_required p = artifact_references (wd_required_artifacts w)"
    "pl_produced p = artifact_references (wd_produced_artifacts w)"
    "pl_evaluations p = wd_evaluations w" "pl_approvals p = wd_approvals w"
    "pl_transition p = wd_transition w" "pm_workflow_version (pl_metadata p) = wd_version w"
  using assms by (auto simp: plan_workflow_def andthen_Inr_iff Let_def intro: that)

lemma execution_step_sel [simp]:
  "xs_id (execution_step E A s) = st_id s" "xs_type (execution_step E A s) = st_type s"
  "set (xs_inputs (execution_step E A s)) = set (st_inputs s)"
  "set (xs_outputs (execution_step E A s)) = set (st_outputs s)"
  "xs_agent (execution_step E A s) = st_agent s"
  by (simp_all add: execution_step_def Let_def)


text \<open>
  C27: The ordering loop terminates on every input and succeeds exactly on steps that fit together:
  unique ids, each declared artifact produced by exactly one step, no other outputs, every input
  declared or required, and acyclic dependencies. In particular, planning never gives up on a
  Workflow that has an executable order.
\<close>

theorem ordering_succeeds_iff_acyclic:
  "(\<exists>ordered. order_steps steps required declared = Inr ordered) \<longleftrightarrow>
     coherent_steps steps required declared \<and>
     acyclic (dep_rel (dependencies_of steps (produced_by steps)) (set (map st_id steps)))"
proof (cases "coherent_steps steps required declared")
  case True
  then have "distinct (map st_id steps)" by (simp add: coherent_steps_def)
  from step_rounds.rounds_Inr_iff_acyclic[OF this] True show ?thesis by (simp only: order_steps_Inr_iff) blast
qed (simp add: order_steps_Inr_iff)

end
