(* ===== verification/ValidationTheorems.thy ===== *)
theory ValidationTheorems
  imports Validation PlannerTheorems
begin

text \<open>
  The properties of the plan validator, and its composition with the planner: a report is always
  well formed; the validator's own cycle search (the loop of \<open>Layers\<close> on sorted nodes) decides
  acyclicity; and on a plan the planner made it reports nothing the planner already rules out.
\<close>

interpretation node_rounds: layering "sort :: string list \<Rightarrow> string list"
  by unfold_locales simp

section \<open>Reports\<close>

lemma split_by_severity:
  "mset (filter (\<lambda>x. fd_severity x = SevWarning) xs) + mset (filter (\<lambda>x. fd_severity x = SevError) xs) = mset xs"
proof (induction xs)
  case (Cons x xs)
  then show ?case by (cases "fd_severity x") simp_all
qed simp

text \<open>
  C28: Building a report never raises: the constructor's checks hold for every list of findings, and
  the report keeps each finding, sorts them by severity, code, subject and text, splits them
  into warnings and errors, and is valid exactly when there is no error.
\<close>

theorem report_is_well_formed:
  "\<exists>r. report fs m = Inr r \<and> mset (vr_findings r) = mset fs \<and> sorted (map finding_key (vr_findings r)) \<and>
     mset (vr_warnings r) + mset (vr_errors r) = mset fs \<and>
     (vr_valid r \<longleftrightarrow> SevError \<notin> fd_severity ` set fs)"
proof -
  let ?o = "sort_key finding_key fs"
  have "mset (filter (\<lambda>x. fd_severity x = SevWarning) ?o) + mset (filter (\<lambda>x. fd_severity x = SevError) ?o)
      = mset ?o" by (rule split_by_severity)
  moreover have "filter (\<lambda>x. fd_severity x = SevError) ?o = [] \<longleftrightarrow> SevError \<notin> fd_severity ` set fs"
    by (auto simp: filter_empty_conv image_iff)
  moreover have "sorted (map finding_key ?o)" by (rule sorted_sort_key)
  ultimately show ?thesis by (simp add: report_def make_report_def Let_def)
qed

lemma report_valid_no_findings: "report [] m = Inr r \<Longrightarrow> vr_valid r \<and> vr_findings r = []"
  by (auto simp: report_def make_report_def Let_def)

section \<open>Rules\<close>

lemma duplicates_loop_set:
  "set (duplicates_loop seen dups vs) =
     set dups \<union> {v. v \<in> set vs \<and> v \<in> set seen} \<union> {v. \<exists>a b c. vs = a @ v # b @ v # c}"
proof (induction vs arbitrary: seen dups)
  case (Cons x xs)
  have "{v. \<exists>a b c. x # xs = a @ v # b @ v # c} =
      {v. v = x \<and> x \<in> set xs} \<union> {v. \<exists>a b c. xs = a @ v # b @ v # c}"
    by (auto simp: Cons_eq_append_conv in_set_conv_decomp) blast+
  with Cons show ?case by auto
qed auto

lemma duplicate_values_Nil_iff: "duplicate_values vs = [] \<longleftrightarrow> distinct vs"
proof -
  have "duplicate_values vs = [] \<longleftrightarrow> set (duplicates_loop [] [] vs) = {}"
    by (simp add: duplicate_values_def)
  also have "\<dots> \<longleftrightarrow> distinct vs"
    unfolding duplicates_loop_set using not_distinct_decomp[of vs]
    by (auto simp: distinct_append)
  finally show ?thesis .
qed

lemma cyclic_nodes_iff:
  assumes "distinct (map fst g)"
  shows "cyclic_nodes g = [] \<longleftrightarrow> acyclic (dep_rel (edges_at g) (set (map fst g)))"
proof -
  have "cyclic_nodes g = [] \<longleftrightarrow> (\<exists>order. rounds sort (edges_at g) (map fst g) = Inr order)"
    using node_rounds.rounds_stuck[of "edges_at g" "map fst g"]
    by (auto simp: cyclic_nodes_def split: sum.splits)
  with node_rounds.rounds_Inr_iff_acyclic[OF assms] show ?thesis by simp
qed

section \<open>A planned plan\<close>

lemma mset_concat_cong: "mset xs = mset ys \<Longrightarrow> mset (concat (map f xs)) = mset (concat (map f ys))"
proof -
  have "mset (concat (map f zs)) = (\<Sum>z\<in>#mset zs. mset (f z))" for zs
    by (induction zs) auto
  moreover assume "mset xs = mset ys"
  ultimately show ?thesis by simp
qed

lemma count_one: "distinct xs \<Longrightarrow> a \<in> set xs \<Longrightarrow> length (filter (\<lambda>b. b = a) xs) = 1"
  by (induction xs) (auto simp: filter_empty_conv)

lemma checkpoint_members:
  assumes "s \<in> set (with_checkpoints w)"
  shows "s \<in> set (wd_steps w) \<or> st_agent s = None \<and> st_outputs s = []"
  using assms by (auto simp: with_checkpoints_def Let_def evaluation_checkpoint_def approval_checkpoint_def)

text \<open>Every evaluation and every artifact approval has a step that takes its subject.\<close>

lemma evaluation_has_checkpoint:
  assumes "e \<in> set (wd_evaluations w)"
  shows "\<exists>s\<in>set (with_checkpoints w). st_type s = ''evaluation'' \<and> we_subject e \<in> set (st_inputs s)"
proof (cases "we_subject e \<in> set (covered ''evaluation'' (wd_steps w))")
  case True
  then show ?thesis by (auto simp: with_checkpoints_def Let_def covered_def)
next
  case False
  with assms have "evaluation_checkpoint e \<in> set (with_checkpoints w)"
    by (auto simp: with_checkpoints_def Let_def)
  then show ?thesis by (intro bexI[of _ "evaluation_checkpoint e"]) (simp_all add: evaluation_checkpoint_def)
qed

lemma approval_has_checkpoint:
  assumes "a \<in> set (wd_approvals w)" "wa_subject_type a = ''artifact''"
  shows "\<exists>s\<in>set (with_checkpoints w). st_type s = ''approval'' \<and> wa_subject a \<in> set (st_inputs s)"
proof -
  let ?evaluated = "wd_steps w @ map evaluation_checkpoint
    (filter (\<lambda>e. we_subject e \<notin> set (covered ''evaluation'' (wd_steps w))) (sort_key we_id (wd_evaluations w)))"
  show ?thesis
  proof (cases "wa_subject a \<in> set (covered ''approval'' ?evaluated)")
    case True
    then obtain s where "s \<in> set ?evaluated" "st_type s = ''approval''" "wa_subject a \<in> set (st_inputs s)"
      unfolding covered_def by auto
    then show ?thesis by (intro bexI[of _ s]) (auto simp: with_checkpoints_def Let_def)
  next
    case False
    with assms have "approval_checkpoint a \<in> set (with_checkpoints w)"
      by (simp add: with_checkpoints_def Let_def)
    then show ?thesis by (intro bexI[of _ "approval_checkpoint a"]) (simp_all add: approval_checkpoint_def)
  qed
qed

lemma built_keys:
  assumes "build_workspace path rv rt ds = Inr ws"
  shows "get_workflow ws i = Inr w \<Longrightarrow> wd_id w = i"
  using assms
  by (auto simp: workspace_parts[OF assms] get_workflow_def get_item_def split: option.splits dest!: map_of_SomeD)

lemma resolved_agents:
  assumes "resolve_agents ws w = Inr agents"
  shows "r \<in> set agents \<Longrightarrow> \<exists>a. get_agent ws (dr_id r) = Inr a \<and> agd_version a = dr_version r"
    and "s \<in> set (wd_steps w) \<Longrightarrow> st_agent s = Some q \<Longrightarrow>
      (dr_id q, dr_version q) \<in> (\<lambda>d. (dr_id d, dr_version d)) ` set agents"
proof -
  from assms have m: "mapE (resolve_agent ws) (sort_key (\<lambda>r. (dr_id r, dr_version r)) (wd_required_agents w)) = Inr agents"
    and e: "eachE (check_step_agent (dict_of dr_id (\<lambda>r. r) agents)) (wd_steps w) = Inr ()"
    by (auto simp: resolve_agents_def andthen_Inr_iff)
  show "\<exists>a. get_agent ws (dr_id r) = Inr a \<and> agd_version a = dr_version r" if "r \<in> set agents" for r
  proof -
    from mapE_Inr_set[OF m that] obtain x where "resolve_agent ws x = Inr r" by blast
    then show ?thesis by (auto simp: resolve_agent_def split: sum.splits if_splits)
  qed
  show "(dr_id q, dr_version q) \<in> (\<lambda>d. (dr_id d, dr_version d)) ` set agents"
    if "s \<in> set (wd_steps w)" "st_agent s = Some q"
  proof -
    have "check_step_agent (dict_of dr_id (\<lambda>r. r) agents) s = Inr ()"
      using e that(1) by (simp add: eachE_Inr_iff)
    with that(2) obtain d where "map_of (dict_of dr_id (\<lambda>r. r) agents) (dr_id q) = Some d"
      "dr_version d = dr_version q"
      by (auto simp: check_step_agent_def split: option.splits)
    moreover have "d \<in> set agents \<and> dr_id d = dr_id q" using dict_of_SomeD[OF calculation(1)] by auto
    ultimately show ?thesis by (intro image_eqI[of _ _ d]) auto
  qed
qed


text \<open>
  What a planned plan gives the validator's rules, over the execution steps: unique ids, the
  artifacts declared, one producer each, and the order of \<open>ordered_before\<close>.
\<close>

definition planned :: "workflow_def \<Rightarrow> execution_plan \<Rightarrow> bool" where
  "planned w p \<longleftrightarrow>
     (let req = set (map aref_id (pl_required p)); made = set (map aref_id (pl_produced p))
      in distinct (map xs_id (pl_steps p)) \<and>
         distinct (concat (map xs_outputs (pl_steps p))) \<and>
         set (concat (map xs_outputs (pl_steps p))) = made \<and>
         (\<forall>s\<in>set (pl_steps p). set (xs_inputs s) \<subseteq> made \<union> req) \<and>
         (\<forall>before s after. pl_steps p = before @ s # after \<longrightarrow>
            (\<forall>q\<in>set (pl_steps p). set (xs_outputs q) \<inter> set (xs_inputs s) \<noteq> {} \<longrightarrow> q \<in> set before)) \<and>
         (\<forall>e\<in>set (pl_evaluations p). \<exists>s\<in>set (pl_steps p).
            xs_type s = ''evaluation'' \<and> we_subject e \<in> set (xs_inputs s)) \<and>
         (\<forall>a\<in>set (pl_approvals p). wa_subject_type a = ''artifact'' \<longrightarrow> (\<exists>s\<in>set (pl_steps p).
            xs_type s = ''approval'' \<and> wa_subject a \<in> set (xs_inputs s))))"

lemma concat_outputs:
  "mset (concat (map xs_outputs (map (execution_step E A) ss))) = mset (map snd (outputs_of ss))"
proof (induction ss)
  case (Cons s ss)
  have "image_mset (snd \<circ> Pair (st_id s)) M = M" for M :: "string multiset" by (simp add: o_def)
  with Cons show ?case by (simp add: outputs_of_def execution_step_def Let_def)
qed (simp add: outputs_of_def)

lemma plan_is_planned:
  assumes "plan_workflow ws i = Inr p"
  obtains w where "get_workflow ws i = Inr w" "planned w p" "pl_workflow p = wd_id w"
    "pm_workflow_version (pl_metadata p) = wd_version w" "resolve_agents ws w = Inr (pl_agents p)"
    "\<And>s r. s \<in> set (pl_steps p) \<Longrightarrow> xs_agent s = Some r \<Longrightarrow> \<exists>t\<in>set (wd_steps w). st_agent t = Some r"
    "pl_evaluations p = wd_evaluations w" "pl_approvals p = wd_approvals w" "pl_transition p = wd_transition w"
    "pl_required p = artifact_references (wd_required_artifacts w)"
    "pl_produced p = artifact_references (wd_produced_artifacts w)"
proof -
  from assms obtain w ordered agents where w: "get_workflow ws i = Inr w" "resolve_agents ws w = Inr agents" "pl_agents p = agents"
    and o: "order_steps (with_checkpoints w) (map aref_id (artifact_references (wd_required_artifacts w)))
       (map aref_id (artifact_references (wd_produced_artifacts w))) = Inr ordered"
    and p: "pl_steps p = map (execution_step (evaluation_subjects w) (approval_subjects w)) ordered"
    and sel: "pl_workflow p = wd_id w" "pl_required p = artifact_references (wd_required_artifacts w)"
    "pl_produced p = artifact_references (wd_produced_artifacts w)"
    "pl_evaluations p = wd_evaluations w" "pl_approvals p = wd_approvals w"
    "pl_transition p = wd_transition w" "pm_workflow_version (pl_metadata p) = wd_version w"
    by (rule plan_Inr)
  let ?x = "execution_step (evaluation_subjects w) (approval_subjects w)"
  have m: "mset ordered = mset (with_checkpoints w)" by (rule ordered_steps(1)[OF o])
  then have same: "set ordered = set (with_checkpoints w)" by (rule mset_eq_setD)
  have coh: "coherent_steps (with_checkpoints w) (map aref_id (pl_required p)) (map aref_id (pl_produced p))"
    using o by (simp add: order_steps_Inr_iff sel)
  have out: "mset (concat (map xs_outputs (pl_steps p))) = mset (map snd (outputs_of (with_checkpoints w)))"
  proof -
    have "mset (pl_steps p) = mset (map ?x (with_checkpoints w))" using m by (simp add: p)
    from mset_concat_cong[OF this, of xs_outputs] show ?thesis by (simp only: concat_outputs)
  qed
  have ids: "distinct (map xs_id (pl_steps p))"
    using coh mset_eq_imp_distinct_iff[of "map st_id ordered" "map st_id (with_checkpoints w)"] m
    by (simp add: coherent_steps_def p o_def)
  have outs: "distinct (concat (map xs_outputs (pl_steps p)))"
    using coh mset_eq_imp_distinct_iff[OF out] by (simp add: coherent_steps_def)
  have made: "set (concat (map xs_outputs (pl_steps p))) = set (map aref_id (pl_produced p))"
    using coh mset_eq_setD[OF out] by (simp add: coherent_steps_def)
  have ins: "set (xs_inputs s) \<subseteq> set (map aref_id (pl_produced p)) \<union> set (map aref_id (pl_required p))"
    if "s \<in> set (pl_steps p)" for s
  proof -
    from that p obtain t where "t \<in> set ordered" "s = ?x t" by auto
    with same coh show ?thesis by (simp only: coherent_steps_def execution_step_sel)
  qed
  have order: "q \<in> set before" if "pl_steps p = before @ s # after" "q \<in> set (pl_steps p)"
    "set (xs_outputs q) \<inter> set (xs_inputs s) \<noteq> {}" for before s after q
  proof -
    from that(1) p obtain b t c where split: "ordered = b @ t # c" "before = map ?x b" "s = ?x t"
      by (auto simp: map_eq_append_conv Cons_eq_map_conv)
    from that(2) p obtain r where "r \<in> set ordered" "q = ?x r" by auto
    with ordered_before(1)[OF o split(1), of r] that(3) split show ?thesis by auto
  qed
  have gates: "\<exists>s\<in>set (pl_steps p). xs_type s = kind \<and> a \<in> set (xs_inputs s)"
    if "\<exists>s\<in>set (with_checkpoints w). st_type s = kind \<and> a \<in> set (st_inputs s)" for kind a
    using that same by (auto simp: p)
  have evals: "\<exists>s\<in>set (pl_steps p). xs_type s = ''evaluation'' \<and> we_subject e \<in> set (xs_inputs s)"
    if "e \<in> set (pl_evaluations p)" for e
    using gates[OF evaluation_has_checkpoint] that sel(4) by simp
  have apprs: "\<exists>s\<in>set (pl_steps p). xs_type s = ''approval'' \<and> wa_subject a \<in> set (xs_inputs s)"
    if "a \<in> set (pl_approvals p)" "wa_subject_type a = ''artifact''" for a
    using gates[OF approval_has_checkpoint] that sel(5) by simp
  have planned: "planned w p"
    unfolding planned_def Let_def 
    by (intro conjI allI ballI impI;
      (rule ids | rule outs | rule made | erule ins | erule evals | erule (1) apprs | erule (2) order))
  have agents: "\<exists>t\<in>set (wd_steps w). st_agent t = Some r" if "s \<in> set (pl_steps p)" "xs_agent s = Some r" for s r
  proof -
    from that p obtain t where "t \<in> set ordered" "st_agent t = Some r" by auto
    with same checkpoint_members[of t w] show ?thesis by auto
  qed
  have "resolve_agents ws w = Inr (pl_agents p)" using w by simp
  from that[OF w(1) planned sel(1) sel(7) this agents sel(4) sel(5) sel(6) sel(2) sel(3)] show ?thesis .
qed



lemma plannedD:
  assumes "planned w p"
  shows "distinct (map xs_id (pl_steps p))"
    "distinct (concat (map xs_outputs (pl_steps p)))"
    "set (concat (map xs_outputs (pl_steps p))) = set (map aref_id (pl_produced p))"
    "s \<in> set (pl_steps p) \<Longrightarrow>
      set (xs_inputs s) \<subseteq> set (map aref_id (pl_produced p)) \<union> set (map aref_id (pl_required p))"
    "pl_steps p = before @ s # after \<Longrightarrow> q \<in> set (pl_steps p) \<Longrightarrow>
      set (xs_outputs q) \<inter> set (xs_inputs s) \<noteq> {} \<Longrightarrow> q \<in> set before"
    "e \<in> set (pl_evaluations p) \<Longrightarrow> \<exists>s\<in>set (pl_steps p). xs_type s = ''evaluation'' \<and> we_subject e \<in> set (xs_inputs s)"
    "a \<in> set (pl_approvals p) \<Longrightarrow> wa_subject_type a = ''artifact'' \<Longrightarrow>
      \<exists>s\<in>set (pl_steps p). xs_type s = ''approval'' \<and> wa_subject a \<in> set (xs_inputs s)"
  using assms unfolding planned_def Let_def by blast+

section \<open>Rule by rule\<close>

lemma no_artifact_findings:
  assumes "planned w p"
  shows "artifact_findings p = []"
proof -
  note P = plannedD[OF assms]
  have "step_artifact_findings (map aref_id (pl_required p)) (map aref_id (pl_produced p)) s = []"
    if "s \<in> set (pl_steps p)" for s
  proof -
    have "set (xs_outputs s) \<subseteq> set (map aref_id (pl_produced p))" using P(3) that by auto
    with P(4)[OF that] show ?thesis
      unfolding step_artifact_findings_def by (auto simp: filter_empty_conv)
  qed
  moreover have "producer_count (pl_steps p) a = 1" if "a \<in> set (map aref_id (pl_produced p))" for a
    unfolding producer_count_def using count_one[OF P(2)] P(3) that by blast
  ultimately show ?thesis by (auto simp: artifact_findings_def Let_def concat_eq_Nil_conv)
qed

lemma fold_set_default_Some:
  "map_of (fold (\<lambda>a d. set_default a i d) as d) b = Some j \<Longrightarrow> map_of d b = Some j \<or> j = i \<and> b \<in> set as"
  by (induction as arbitrary: d) (fastforce simp: set_default_def split: if_splits)+

lemma graph_producers_Some:
  assumes "map_of (graph_producers steps) a = Some i"
  shows "\<exists>q\<in>set steps. xs_id q = i \<and> a \<in> set (xs_outputs q)"
proof -
  have "map_of (fold (\<lambda>s d. fold (\<lambda>a d. set_default a (xs_id s) d) (xs_outputs s) d) steps d) a = Some i \<Longrightarrow>
      map_of d a = Some i \<or> (\<exists>q\<in>set steps. xs_id q = i \<and> a \<in> set (xs_outputs q))" for d
  proof (induction steps arbitrary: d)
    case (Cons s steps)
    from Cons.IH[of "fold (\<lambda>a d. set_default a (xs_id s) d) (xs_outputs s) d"] Cons.prems
    have "map_of (fold (\<lambda>a d. set_default a (xs_id s) d) (xs_outputs s) d) a = Some i \<or>
        (\<exists>q\<in>set steps. xs_id q = i \<and> a \<in> set (xs_outputs q))" by simp
    with fold_set_default_Some[of "xs_id s" "xs_outputs s" d a i] show ?case by auto
  qed simp
  from this[of "[]"] assms show ?thesis by (simp add: graph_producers_def)
qed

lemma edges_of_planned:
  assumes "planned w p" "s \<in> set (pl_steps p)" "d \<in> set (edges_at (snd (artifact_graph p)) (xs_id s))"
  shows "\<exists>q\<in>set (pl_steps p). xs_id q = d \<and> set (xs_outputs q) \<inter> set (xs_inputs s) \<noteq> {}"
proof -
  let ?P = "graph_producers (pl_steps p)"
  have "snd (artifact_graph p) = map (\<lambda>s. (xs_id s, graph_edges_of (pl_steps p) ?P (xs_id s))) (pl_steps p)"
    using plannedD(1)[OF assms(1)] by (simp add: artifact_graph_def Let_def dict_of_distinct)
  then have "map_of (snd (artifact_graph p)) (xs_id s) = Some (graph_edges_of (pl_steps p) ?P (xs_id s))"
    using plannedD(1)[OF assms(1)] assms(2) by (intro mem_map_of) (auto simp: o_def)
  with assms(3) obtain t a where "t \<in> set (pl_steps p)" "xs_id t = xs_id s" "a \<in> set (xs_inputs t)" "map_of ?P a = Some d"
    by (auto simp: edges_at_def graph_edges_of_def mem_map_filter)
  moreover then have "t = s" using plannedD(1)[OF assms(1)] assms(2) by (metis distinct_map inj_onD)
  ultimately show ?thesis using graph_producers_Some[of "pl_steps p" a d] by blast
qed

lemma graph_nodes:
  "distinct (map xs_id (pl_steps p)) \<Longrightarrow> map fst (snd (artifact_graph p)) = map xs_id (pl_steps p)"
  by (simp add: artifact_graph_def Let_def dict_of_distinct o_def)

lemma planned_edges_before:
  assumes "planned w p" "pl_steps p = before @ s # after" "d \<in> set (edges_at (snd (artifact_graph p)) (xs_id s))"
  shows "d \<in> xs_id ` set before"
proof -
  have "s \<in> set (pl_steps p)" using assms(2) by simp
  from edges_of_planned[OF assms(1) this assms(3)] obtain q where
    q: "q \<in> set (pl_steps p)" "xs_id q = d" "set (xs_outputs q) \<inter> set (xs_inputs s) \<noteq> {}" by blast
  from plannedD(5)[OF assms(1,2) q(1) q(3)] q(2) show ?thesis by auto
qed

lemma index_of_planned:
  assumes "distinct (map xs_id (pl_steps p))" "pl_steps p = before @ s # after"
  shows "map_of (index_of_step p) (xs_id s) = Some (length before)"
proof -
  let ?z = "zip (map xs_id (pl_steps p)) [0..<length (pl_steps p)]"
  have d: "distinct (map fst ?z)" using assms(1) by simp
  have "(xs_id s, length before) \<in> set ?z"
  proof -
    have "length before < length (pl_steps p)" "pl_steps p ! length before = s" using assms(2) by simp_all
    then show ?thesis by (auto simp: in_set_zip intro!: exI[of _ "length before"])
  qed
  then have "map_of ?z (xs_id s) = Some (length before)" using d by (simp add: mem_map_of)
  then show ?thesis using d by (simp add: index_of_step_def dict_of_distinct)
qed

lemma no_dependency_findings:
  assumes "planned w p"
  shows "dependency_findings p = []"
proof -
  let ?g = "snd (artifact_graph p)" and ?ids = "map xs_id (pl_steps p)"
  have ids: "distinct ?ids" by (rule plannedD(1)[OF assms])
  have nodes: "map fst ?g = ?ids" by (rule graph_nodes[OF ids])
  have "in_order (edges_at ?g) (set ?ids) ?ids"
    unfolding in_order_def
  proof (intro allI impI subsetI)
    fix before i after d
    assume "?ids = before @ i # after" and d: "d \<in> set (edges_at ?g i) \<inter> set ?ids"
    then obtain b s c where "pl_steps p = b @ s # c" "before = map xs_id b" "i = xs_id s"
      by (auto simp: map_eq_append_conv map_eq_Cons_conv)
    with planned_edges_before[OF assms] d show "d \<in> set before" by auto
  qed
  then have "acyclic (dep_rel (edges_at ?g) (set ?ids))" using ids by (intro in_order_acyclic) auto
  then have no_cycle: "cyclic_nodes ?g = []" using cyclic_nodes_iff[of ?g] ids nodes by simp
  have "order_findings p i (edges_at ?g i) = []" if "i \<in> set ?ids" for i
  proof -
    from that obtain s where "s \<in> set (pl_steps p)" and i: "i = xs_id s" by auto
    then obtain before after where split: "pl_steps p = before @ s # after" by (meson split_list)
    have "\<not> (\<exists>m. map_of (index_of_step p) d = Some m \<and> length before \<le> m)"
      if "d \<in> set (edges_at ?g i)" for d
    proof -
      from planned_edges_before[OF assms split] that i obtain q where "q \<in> set before" "xs_id q = d" by auto
      moreover then obtain x y where "before = x @ q # y" by (meson split_list)
      ultimately show ?thesis using index_of_planned[OF ids, of x q "y @ s # after"] split by auto
    qed
    with index_of_planned[OF ids split] i show ?thesis
      by (auto simp: order_findings_def filter_empty_conv split: option.splits)
  qed
  with no_cycle nodes show ?thesis by (auto simp: dependency_findings_def Let_def concat_eq_Nil_conv)
qed

lemma agents_accepted:
  assumes "resolve_agents ws w = Inr (pl_agents p)"
    "\<And>s r. s \<in> set (pl_steps p) \<Longrightarrow> xs_agent s = Some r \<Longrightarrow> \<exists>t\<in>set (wd_steps w). st_agent t = Some r"
  shows "agent_findings ws p = []"
proof -
  have "(case get_agent ws (dr_id r) of
      Inl _ \<Rightarrow> [error_finding ''agent.missing'' ''required Agent does not exist'' (dr_id r)]
    | Inr a \<Rightarrow> if agd_version a \<noteq> dr_version r
        then [error_finding ''agent.version_mismatch'' ''Agent version differs'' (dr_id r)] else []) = []"
    if "r \<in> set (pl_agents p)" for r
    using resolved_agents(1)[OF assms(1) that] by auto
  moreover have "(dr_id r, dr_version r) \<in> (\<lambda>d. (dr_id d, dr_version d)) ` set (pl_agents p)"
    if "s \<in> set (pl_steps p)" "xs_agent s = Some r" for s r
    using assms(2)[OF that] resolved_agents(2)[OF assms(1)] by blast
  ultimately show ?thesis
    by (auto simp: agent_findings_def concat_eq_Nil_conv split: option.splits)
qed

lemma evaluation_codes:
  assumes "planned w p" "f \<in> set (evaluation_findings p)"
  shows "fd_code f = ''evaluation.invalid'' \<and> (\<exists>e\<in>set (pl_evaluations p). we_id e = [])"
proof -
  have "we_subject e \<in> set (map aref_id (pl_required p @ pl_produced p)) \<and>
      filter (matches_evaluation e) (pl_steps p) \<noteq> []" if "e \<in> set (pl_evaluations p)" for e
  proof -
    from plannedD(6)[OF assms(1) that] obtain s where
      s: "s \<in> set (pl_steps p)" "xs_type s = ''evaluation''" "we_subject e \<in> set (xs_inputs s)" by blast
    from plannedD(4)[OF assms(1) s(1)] s(3) have "we_subject e \<in> set (map aref_id (pl_required p @ pl_produced p))"
      by auto
    with s show ?thesis by (auto simp: matches_evaluation_def filter_empty_conv)
  qed
  with assms(2) show ?thesis by (auto simp: evaluation_findings_def error_finding_def split: if_splits)
qed

lemma approval_codes:
  assumes "planned w p" "f \<in> set (approval_findings p)"
  shows "fd_code f = ''approval.checkpoint_missing'' \<and>
      (\<exists>a\<in>set (pl_approvals p). wa_required a \<and> wa_subject_type a \<noteq> ''artifact'') \<or>
    fd_code f = ''approval.reference_missing'' \<and>
      (\<exists>t r. pl_transition p = Some t \<and> r \<in> set (wt_approvals t) \<and>
         (r \<noteq> [] \<longrightarrow> (\<forall>a\<in>set (pl_approvals p). wa_id a \<noteq> r)))"
proof -
  let ?declared = "filter (\<lambda>a. wa_id a \<noteq> []) (pl_approvals p)"
  have checked: "wa_subject_type a \<noteq> ''artifact''"
    if "(i, a) \<in> set (declared_approvals p)" "filter (matches_approval i a) (pl_steps p) = []" for i a
  proof
    assume "wa_subject_type a = ''artifact''"
    moreover have "a \<in> set (pl_approvals p)"
      using that(1) dict_of_SomeD[of wa_id "\<lambda>a. a" ?declared i a]
      by (auto simp: declared_approvals_def mem_map_of)
    ultimately obtain s where "s \<in> set (pl_steps p)" "xs_type s = ''approval''" "wa_subject a \<in> set (xs_inputs s)"
      using plannedD(7)[OF assms(1)] by blast
    with that(2) show False by (auto simp: matches_approval_def filter_empty_conv)
  qed
  have mem: "a \<in> set (pl_approvals p)" if "(i, a) \<in> set (declared_approvals p)" for i a
    using that dict_of_SomeD[of wa_id "\<lambda>a. a" ?declared i a]
    by (auto simp: declared_approvals_def mem_map_of)
  have undeclared: "r \<noteq> [] \<longrightarrow> (\<forall>a\<in>set (pl_approvals p). wa_id a \<noteq> r)"
    if "map_of (declared_approvals p) r = None" for r
    using that dict_of_keys[of wa_id "\<lambda>a. a" ?declared]
    by (auto simp: declared_approvals_def map_of_eq_None_iff)
  from assms(2) consider (missing) i a where "(i, a) \<in> set (declared_approvals p)" "wa_required a"
      "filter (matches_approval i a) (pl_steps p) = []" "fd_code f = ''approval.checkpoint_missing''"
    | (dangling) t r where "pl_transition p = Some t" "r \<in> set (wt_approvals t)"
      "map_of (declared_approvals p) r = None" "fd_code f = ''approval.reference_missing''"
    by (cases "pl_transition p") (auto simp: approval_findings_def error_finding_def split: if_splits)
  then show ?thesis
  proof cases
    case missing
    with checked mem show ?thesis by blast
  next
    case dangling
    with undeclared show ?thesis by blast
  qed
qed

section \<open>The validator on planned plans\<close>

lemma duplicate_codes:
  assumes "planned w p" "f \<in> set (duplicate_findings p)"
  shows "fd_code f = ''id.duplicate'' \<and>
    \<not> (distinct (map dr_id (pl_agents p)) \<and> distinct (map aref_id (pl_required p)) \<and>
       distinct (map aref_id (pl_produced p)) \<and> distinct (map we_id (pl_evaluations p)))"
proof -
  from assms(2) obtain kind vs i where f: "(kind, vs) \<in> set (id_groups p)" "i \<in> set (duplicate_values vs)"
    "fd_code f = ''id.duplicate''"
    by (auto simp: duplicate_findings_def error_finding_def)
  then have "\<not> distinct vs" using duplicate_values_Nil_iff[of vs] by auto
  with f(1) plannedD(1)[OF assms(1)] have
    "\<not> (distinct (map dr_id (pl_agents p)) \<and> distinct (map aref_id (pl_required p)) \<and>
       distinct (map aref_id (pl_produced p)) \<and> distinct (map we_id (pl_evaluations p)))"
    by (auto simp: id_groups_def)
  with f(3) show ?thesis by blast
qed

definition declares_uniquely :: "workflow_def \<Rightarrow> bool" where
  "declares_uniquely w \<longleftrightarrow>
     distinct (map dr_id (wd_required_agents w)) \<and>
     distinct (map aref_id (wd_required_artifacts w)) \<and>
     distinct (map aref_id (wd_produced_artifacts w)) \<and>
     distinct (map we_id (wd_evaluations w)) \<and> [] \<notin> we_id ` set (wd_evaluations w) \<and>
     (\<forall>a\<in>set (wd_approvals w). wa_required a \<longrightarrow> wa_subject_type a = ''artifact'') \<and>
     (\<forall>t. wd_transition w = Some t \<longrightarrow>
        (\<forall>r\<in>set (wt_approvals t). r \<noteq> [] \<and> (\<exists>a\<in>set (wd_approvals w). wa_id a = r)))"

lemma resolved_ids:
  assumes "resolve_agents ws w = Inr agents"
  shows "distinct (map dr_id agents) \<longleftrightarrow> distinct (map dr_id (wd_required_agents w))"
proof -
  let ?sorted = "sort_key (\<lambda>r. (dr_id r, dr_version r)) (wd_required_agents w)"
  from assms have m: "mapE (resolve_agent ws) ?sorted = Inr agents"
    by (auto simp: resolve_agents_def andthen_Inr_iff)
  have "resolve_agent ws r = Inr q \<Longrightarrow> q = r" for r q
    by (auto simp: resolve_agent_def split: sum.splits if_splits)
  then have "agents = ?sorted"
    using mapE_Inr_nth[OF m] mapE_Inr_length[OF m] by (intro nth_equalityI) auto
  then show ?thesis by simp
qed

lemma planned_findings:
  assumes "build_workspace path rv rt ds = Inr ws" "plan_workflow ws i = Inr p"
  shows "f \<in> set (plan_findings ws p) \<Longrightarrow> fd_code f \<in> {''id.duplicate'', ''evaluation.invalid'',
      ''approval.checkpoint_missing'', ''approval.reference_missing''}"
    and "get_workflow ws i = Inr w \<Longrightarrow> declares_uniquely w \<Longrightarrow> plan_findings ws p = []"
proof -
  from assms(2) obtain v where v: "get_workflow ws i = Inr v" "planned v p" "pl_workflow p = wd_id v"
    "pm_workflow_version (pl_metadata p) = wd_version v" "resolve_agents ws v = Inr (pl_agents p)"
    "\<And>s r. s \<in> set (pl_steps p) \<Longrightarrow> xs_agent s = Some r \<Longrightarrow> \<exists>t\<in>set (wd_steps v). st_agent t = Some r"
    and sel: "pl_evaluations p = wd_evaluations v" "pl_approvals p = wd_approvals v" "pl_transition p = wd_transition v"
    "pl_required p = artifact_references (wd_required_artifacts v)"
    "pl_produced p = artifact_references (wd_produced_artifacts v)"
    by (rule plan_is_planned) blast
  have "get_workflow ws (pl_workflow p) = Inr v" using v(1,3) built_keys[OF assms(1) v(1)] by simp
  then have clean: "workflow_findings ws p = []" "version_findings ws p = []"
    using v(4) by (simp_all add: workflow_findings_def version_findings_def)
  have split: "plan_findings ws p = duplicate_findings p @ evaluation_findings p @ approval_findings p"
    by (simp add: plan_findings_def clean no_artifact_findings[OF v(2)] no_dependency_findings[OF v(2)]
        agents_accepted[OF v(5,6)])
  note codes = duplicate_codes[OF v(2)] evaluation_codes[OF v(2)] approval_codes[OF v(2)]
  show "fd_code f \<in> {''id.duplicate'', ''evaluation.invalid'',
      ''approval.checkpoint_missing'', ''approval.reference_missing''}"
    if "f \<in> set (plan_findings ws p)" for f
  proof -
    from that split consider "f \<in> set (duplicate_findings p)" | "f \<in> set (evaluation_findings p)"
      | "f \<in> set (approval_findings p)" by auto
    then show ?thesis using codes(1)[of f] codes(2)[of f] codes(3)[of f] by cases auto
  qed
  show "plan_findings ws p = []" if "get_workflow ws i = Inr w" "declares_uniquely w"
  proof -
    have w: "w = v" using that(1) v(1) by simp
    have u: "declares_uniquely v" using that(2) w by simp
    have "duplicate_findings p = []"
    proof (rule ccontr)
      assume "duplicate_findings p \<noteq> []"
      then obtain f where "f \<in> set (duplicate_findings p)" by (cases "duplicate_findings p") auto
      from codes(1)[OF this] u show False
        by (simp add: declares_uniquely_def sel resolved_ids[OF v(5)] artifact_references_def)
    qed
    moreover have "evaluation_findings p = []"
    proof (rule ccontr)
      assume "evaluation_findings p \<noteq> []"
      then obtain f where "f \<in> set (evaluation_findings p)" by (cases "evaluation_findings p") auto
      from codes(2)[OF this] u show False by (auto simp: declares_uniquely_def sel image_iff)
    qed
    moreover have "approval_findings p = []"
    proof (rule ccontr)
      assume "approval_findings p \<noteq> []"
      then obtain f where "f \<in> set (approval_findings p)" by (cases "approval_findings p") auto
      from codes(3)[OF this] u show False
        unfolding declares_uniquely_def sel by (elim disjE conjE exE bexE) auto
    qed
    ultimately show ?thesis by (simp add: split)
  qed
qed

text \<open>
  C10: The planner and the validator agree. On a workspace the builder accepted, the report on a plan
  the planner produced only ever names duplicate declarations, an evaluation without identifier,
  a required approval without checkpoint or a transition naming an undeclared approval; and when
  the Workflow declares its identifiers once, requires approvals of artifacts only and names
  declared approvals in its transition, the plan is valid without any finding.
\<close>

theorem planned_plan_is_valid:
  assumes "build_workspace path rv rt ds = Inr ws" "plan_workflow ws i = Inr p"
    "get_workflow ws i = Inr w"
  shows "\<exists>r. validate_plan ws p = Inr r \<and>
    fd_code ` set (vr_findings r) \<subseteq> {''id.duplicate'', ''evaluation.invalid'',
      ''approval.checkpoint_missing'', ''approval.reference_missing''} \<and>
    (declares_uniquely w \<longrightarrow> vr_valid r \<and> vr_findings r = [])"
proof -
  let ?m = "\<lparr> rm_validator_version = ''1.0.0'', rm_workflow = pl_workflow p,
    rm_step_count = length (pl_steps p), rm_runtime = ws_runtime ws \<rparr>"
  obtain r where r: "report (plan_findings ws p) ?m = Inr r" "vr_findings r = sort_key finding_key (plan_findings ws p)"
    by (auto simp: report_def make_report_def Let_def)
  have "vr_valid r \<and> vr_findings r = []" if "declares_uniquely w"
    using r(1) planned_findings(2)[OF assms that] report_valid_no_findings[of ?m r] by simp
  moreover have "fd_code ` set (vr_findings r) \<subseteq> {''id.duplicate'', ''evaluation.invalid'',
      ''approval.checkpoint_missing'', ''approval.reference_missing''}"
    using planned_findings(1)[OF assms(1,2)] r(2) by auto
  ultimately show ?thesis using r(1) by (auto simp: validate_plan_def)
qed

end
