(* ===== verification/ProviderTheorems.thy ===== *)
theory ProviderTheorems
  imports Provider
begin

text \<open>
  The mock provider is a faithful replay: the index holds exactly the fixtures it was built from, a
  response is produced for every request except in strict mode, and what it says is determined by
  the fixture with the key of the request.
\<close>

section \<open>The index\<close>

definition key_of :: "(json \<Rightarrow> string) \<Rightarrow> fixture \<Rightarrow> string" where
  "key_of digest f = fixture_key digest (fx_operation f) (fx_input f)"

definition fixture_for :: "(json \<Rightarrow> string) \<Rightarrow> fixture list \<Rightarrow> provider_request \<Rightarrow> fixture option" where
  "fixture_for digest fs q = find (\<lambda>f. key_of digest f = fixture_key digest (pq_operation q) (pq_input q)) fs"

lemma index_loop:
  "foldE (add_fixture digest) index fs = Inr index' \<longleftrightarrow>
     distinct (map (key_of digest) fs) \<and> (\<forall>f\<in>set fs. map_of index (key_of digest f) = None) \<and>
     index' = index @ map (\<lambda>f. (key_of digest f, f)) fs"
proof (induction fs arbitrary: index)
  case (Cons f fs)
  show ?case
  proof (cases "map_of index (key_of digest f)")
    case None
    then have "add_fixture digest index f = Inr (index @ [(key_of digest f, f)])"
      by (simp add: add_fixture_def key_of_def Let_def update_fresh)
    moreover have "map_of (index @ [(key_of digest f, f)]) k = None \<longleftrightarrow>
        map_of index k = None \<and> k \<noteq> key_of digest f" for k
      by (auto simp: map_of_eq_None_iff)
    ultimately show ?thesis using None Cons.IH by (auto simp: image_iff dest: sym)
  qed (auto simp: add_fixture_def key_of_def Let_def)
qed auto

lemma map_of_keyed: "map_of (map (\<lambda>f. (k f, f)) fs) i = find (\<lambda>f. k f = i) fs"
  by (induction fs) auto

lemma make_provider_Inr:
  assumes "make_provider digest fs strict simulated = Inr P"
  shows "distinct (map (key_of digest) fs)"
    "map_of (pv_fixtures P) (fixture_key digest (pq_operation q) (pq_input q)) = fixture_for digest fs q"
    "pv_strict P = strict" "pv_errors P = simulated"
  using assms by (auto simp: make_provider_def andthen_Inr_iff index_loop map_of_keyed fixture_for_def)

section \<open>Responses\<close>

lemma provider_version_ok: "semantic_version ''1.0.0''" "stable_token ''invalid_output''"
  by code_simp+

lemma error_response_Inr:
  "pq_id q \<noteq> [] \<Longrightarrow> \<exists>r. error_response q e m = Inr r \<and> ps_id r = pq_id q \<and> ps_status r = ProviderFailure \<and>
     ps_error r = Some e"
  by (simp add: error_response_def make_response_def provider_version_ok andthen_demand)

lemma success_response_Inr:
  "pq_id q \<noteq> [] \<Longrightarrow> \<exists>r. make_response (pq_id q) ProviderSuccess out None m ''founderos.mock'' ''1.0.0'' = Inr r \<and>
     ps_id r = pq_id q \<and> ps_status r = ProviderSuccess \<and> ps_error r = None \<and> ps_output r = canonical out"
  by (simp add: make_response_def provider_version_ok andthen_demand)

definition conforms :: "checker \<Rightarrow> provider_request \<Rightarrow> json \<Rightarrow> bool" where
  "conforms C q out \<longleftrightarrow> (case pq_schema q of None \<Rightarrow> True | Some s \<Rightarrow> schema_errors C (Some out) s = [])"

lemma validate_output_cases:
  "conforms C q out \<Longrightarrow> validate_output C q out = Inr None"
  "\<not> conforms C q out \<Longrightarrow> \<exists>e. validate_output C q out = Inr (Some e) \<and> pe_code e = ''invalid_output''"
  by (auto simp: conforms_def validate_output_def make_provider_error_def falsy_def provider_version_ok
    andthen_demand split: option.splits list.splits)

definition echo :: "provider_request \<Rightarrow> json" where
  "echo q = JObj [(''operation'', JStr (pq_operation q)), (''input'', JObj (pq_input q))]"

text \<open>What the provider has to say to a request, without the order in which the code finds it out.\<close>

definition answer ::
  "checker \<Rightarrow> (json \<Rightarrow> string) \<Rightarrow> fixture list \<Rightarrow> (string \<times> provider_error) list \<Rightarrow> provider_request \<Rightarrow>
   string + json" where
  "answer C digest fs simulated q =
     (let output = (case fixture_for digest fs q of None \<Rightarrow> echo q | Some f \<Rightarrow> fx_output f);
          failures = (case map_of simulated (pq_operation q) of None \<Rightarrow> [] | Some e \<Rightarrow> [pe_code e]) @
            (case fixture_for digest fs q of None \<Rightarrow> [] | Some f \<Rightarrow>
               (case fx_error f of None \<Rightarrow> [] | Some e \<Rightarrow> [pe_code e])) @
            (if conforms C q output then [] else [''invalid_output''])
      in case failures of [] \<Rightarrow> Inr (canonical output) | c # _ \<Rightarrow> Inl c)"

lemma generate_cases:
  assumes P: "map_of (pv_fixtures P) (fixture_key digest (pq_operation q) (pq_input q)) = fixture_for digest fs q"
    and q: "pq_id q \<noteq> []"
    and found: "\<not> (pv_strict P \<and> map_of (pv_errors P) (pq_operation q) = None \<and> fixture_for digest fs q = None)"
  shows "\<exists>r. generate C digest P q = Inr r \<and> ps_id r = pq_id q \<and>
    (case answer C digest fs (pv_errors P) q of
       Inl c \<Rightarrow> ps_status r = ProviderFailure \<and> map_option pe_code (ps_error r) = Some c
     | Inr out \<Rightarrow> ps_status r = ProviderSuccess \<and> ps_error r = None \<and> ps_output r = out)"
proof -
  note responses = error_response_Inr[OF q] success_response_Inr[OF q]
  have outcome: "\<exists>r. andthen (validate_output C q out) (\<lambda>invalid. case invalid of
        Some e \<Rightarrow> error_response q e m
      | None \<Rightarrow> make_response (pq_id q) ProviderSuccess out None m ''founderos.mock'' ''1.0.0'') = Inr r \<and>
      ps_id r = pq_id q \<and> (if conforms C q out
        then ps_status r = ProviderSuccess \<and> ps_error r = None \<and> ps_output r = canonical out
        else ps_status r = ProviderFailure \<and> map_option pe_code (ps_error r) = Some ''invalid_output'')" for out m
  proof (cases "conforms C q out")
    case True
    with responses(2)[of out m] show ?thesis by (auto simp: validate_output_cases(1))
  next
    case False
    from validate_output_cases(2)[OF this] obtain e where e: "validate_output C q out = Inr (Some e)"
      "pe_code e = ''invalid_output''" by blast
    with False responses(1)[of e m] show ?thesis by auto
  qed
  show ?thesis
  proof (cases "map_of (pv_errors P) (pq_operation q)")
    case (Some e)
    with responses(1)[of e "response_metadata digest q"] show ?thesis
      by (auto simp: generate_def answer_def Let_def)
  next
    case None
    show ?thesis
    proof (cases "fixture_for digest fs q")
      case no_fixture: None
      have shape: "generate C digest P q = andthen (validate_output C q (echo q)) (\<lambda>invalid. case invalid of
          Some e \<Rightarrow> error_response q e (response_metadata digest q)
        | None \<Rightarrow> make_response (pq_id q) ProviderSuccess (echo q) None (response_metadata digest q)
            ''founderos.mock'' ''1.0.0'')"
        using None no_fixture found P by (simp add: generate_def Let_def echo_def[symmetric])
      show ?thesis unfolding shape using outcome[of "echo q" "response_metadata digest q"]
        by (auto simp: answer_def None no_fixture Let_def split: if_splits)
    next
      case (Some f)
      let ?m = "AList.update ''fixture'' (JObj (fx_metadata f)) (response_metadata digest q)"
      show ?thesis
      proof (cases "fx_error f")
        case no_error: None
        have shape: "generate C digest P q = andthen (validate_output C q (fx_output f)) (\<lambda>invalid. case invalid of
            Some e \<Rightarrow> error_response q e ?m
          | None \<Rightarrow> make_response (pq_id q) ProviderSuccess (fx_output f) None ?m ''founderos.mock'' ''1.0.0'')"
          using None Some no_error P by (simp add: generate_def Let_def)
        show ?thesis unfolding shape using outcome[of "fx_output f" ?m]
          by (auto simp: answer_def None Some no_error Let_def split: if_splits)
      next
        case error: (Some e)
        have "generate C digest P q = error_response q e ?m"
          using None Some error P by (simp add: generate_def Let_def)
        with responses(1)[of e ?m] show ?thesis by (auto simp: answer_def None Some error Let_def)
      qed
    qed
  qed
qed

text \<open>
  C31: A provider replays its fixtures: it is built only from fixtures with distinct keys; a request with an
  id raises only in strict mode, and exactly when neither a simulated error nor a fixture matches
  it; every other request gets a response with its own id that is a success exactly when it has no
  error, with the fixture's output (or the echo of the request) if that conforms to the expected
  schema, and otherwise the first applicable error: simulated, the fixture's, or \<open>invalid_output\<close>.
\<close>

theorem provider_replays_fixtures:
  assumes "make_provider digest fs strict simulated = Inr P" "pq_id q \<noteq> []"
  shows "distinct (map (key_of digest) fs) \<and>
    (case generate C digest P q of
       Inl e \<Rightarrow> strict \<and> map_of simulated (pq_operation q) = None \<and> fixture_for digest fs q = None \<and>
         e = ProviderFixtureNotFound (request_fingerprint digest q)
     | Inr r \<Rightarrow> ps_id r = pq_id q \<and> (ps_status r = ProviderSuccess \<longleftrightarrow> ps_error r = None) \<and>
         \<not> (strict \<and> map_of simulated (pq_operation q) = None \<and> fixture_for digest fs q = None) \<and>
         (case answer C digest fs simulated q of
            Inl c \<Rightarrow> map_option pe_code (ps_error r) = Some c
          | Inr out \<Rightarrow> ps_error r = None \<and> ps_output r = out))"
proof -
  note P = make_provider_Inr[OF assms(1)]
  show ?thesis
  proof (cases "strict \<and> map_of simulated (pq_operation q) = None \<and> fixture_for digest fs q = None")
    case True
    with P show ?thesis by (simp add: generate_def Let_def)
  next
    case False
    with P(3,4) have "\<not> (pv_strict P \<and> map_of (pv_errors P) (pq_operation q) = None \<and> fixture_for digest fs q = None)"
      by simp
    from generate_cases[OF P(2) assms(2) this] obtain r where "generate C digest P q = Inr r" "ps_id r = pq_id q"
      "case answer C digest fs (pv_errors P) q of
         Inl c \<Rightarrow> ps_status r = ProviderFailure \<and> map_option pe_code (ps_error r) = Some c
       | Inr out \<Rightarrow> ps_status r = ProviderSuccess \<and> ps_error r = None \<and> ps_output r = out" by blast
    with False P(1,4) show ?thesis by (cases "answer C digest fs simulated q") auto
  qed
qed

section \<open>A concrete provider\<close>

definition operation_digest :: "json \<Rightarrow> string" where
  "operation_digest v = (case v of JObj kvs \<Rightarrow> (case map_of kvs ''operation'' of Some (JStr s) \<Rightarrow> s | _ \<Rightarrow> []) | _ \<Rightarrow> [])"

definition demo_fixture :: fixture where
  "demo_fixture = \<lparr> fx_operation = ''op'', fx_input = [], fx_output = JInt 7, fx_error = None, fx_metadata = [] \<rparr>"

definition demo_provider_request :: provider_request where
  "demo_provider_request = \<lparr> pq_id = ''r'', pq_operation = ''op'', pq_input = [], pq_schema = None,
     pq_metadata = [], pq_correlation = None, pq_idempotency = None \<rparr>"

lemma demo_answer: "answer C operation_digest [demo_fixture] [] demo_provider_request = Inr (JInt 7)"
  by (simp add: answer_def fixture_for_def key_of_def fixture_key_def operation_digest_def demo_fixture_def
    demo_provider_request_def conforms_def)

theorem provider_replays_fixtures_witness:
  "\<forall>C. \<exists>P r. make_provider operation_digest [demo_fixture] True [] = Inr P \<and>
     generate C operation_digest P demo_provider_request = Inr r \<and> ps_output r = JInt 7"
proof
  fix C
  have "\<exists>P. make_provider operation_digest [demo_fixture] True [] = Inr P"
    by (simp add: make_provider_def add_fixture_def andthen_demand)
  then obtain P where P: "make_provider operation_digest [demo_fixture] True [] = Inr P" by blast
  have "fixture_for operation_digest [demo_fixture] demo_provider_request \<noteq> None"
    by (simp add: fixture_for_def key_of_def fixture_key_def demo_fixture_def demo_provider_request_def)
  moreover have "pq_id demo_provider_request \<noteq> []" by (simp add: demo_provider_request_def)
  ultimately show "\<exists>P r. make_provider operation_digest [demo_fixture] True [] = Inr P \<and>
     generate C operation_digest P demo_provider_request = Inr r \<and> ps_output r = JInt 7"
    using provider_replays_fixtures[OF P, of demo_provider_request C] P
    by (auto simp: demo_answer split: sum.splits)
qed

end
