(* ===== verification/EvaluationTheorems.thy ===== *)
theory EvaluationTheorems
  imports Evaluation
begin

text \<open>
  The properties of an evaluation: what its verdict means, that it does not depend on the order in
  which the rules are listed, that the constructor's range check on the score never fires, and
  that the rounding of the score can turn down an artifact that meets its threshold exactly.
\<close>

section \<open>The score\<close>

lemma half_even_mono_int: "of_int a \<le> x \<Longrightarrow> x \<le> of_int b \<Longrightarrow> a \<le> half_even x \<and> half_even x \<le> b"
proof -
  assume a: "of_int a \<le> x" "x \<le> of_int b"
  have "a \<le> floor x" using a(1) by (simp add: le_floor_iff)
  moreover have "half_even x \<le> b"
  proof (cases "of_int (floor x) = x")
    case True
    have "x - of_int (floor x) = 0" by (subst True) simp
    then have "half_even x = floor x" by (simp only: half_even_def Let_def) simp
    with a(2) show ?thesis by (simp add: floor_le_iff le_less_trans)
  next
    case False
    then have "x \<noteq> of_int b" by auto
    with a(2) have "floor x < b" by (simp add: floor_less_iff)
    then show ?thesis by (auto simp: half_even_def Let_def)
  qed
  moreover have "floor x \<le> half_even x" by (auto simp: half_even_def Let_def)
  ultimately show ?thesis by linarith
qed

lemma round6_unit: "0 \<le> x \<Longrightarrow> x \<le> 1 \<Longrightarrow> 0 \<le> round6 x \<and> round6 x \<le> 1"
  using half_even_mono_int[of 0 "1000000 * x" 1000000] by (simp add: round6_def)

lemma round6_int [simp]: "round6 1 = 1"
  by (simp add: round6_def half_even_def)

lemma score_unit: "fs \<noteq> [] \<Longrightarrow> 0 \<le> score_of fs \<and> score_of fs \<le> 1"
  unfolding score_of_def
  by (rule round6_unit) (auto simp: passed_count_def divide_le_eq_1)

lemma all_findings_not_Nil: "all_findings C n q = Inr fs \<Longrightarrow> fs \<noteq> []"
  by (auto simp: all_findings_def andthen_Inr_iff)

section \<open>The findings\<close>

lemma make_finding_iff:
  "make_finding i s m b = Inr f \<longleftrightarrow> stable_token i \<and> strip m \<noteq> [] \<and>
     f = \<lparr> ef_rule = i, ef_severity = s, ef_message = m, ef_passed = b \<rparr>"
  by (auto simp: make_finding_def andthen_Inr_iff)

lemma evaluate_rule_id: "evaluate_rule C H a r = Inr f \<Longrightarrow> ef_rule f = er_id r \<and> ef_severity f = er_severity r"
  by (auto simp: evaluate_rule_def andthen_Inr_iff make_finding_iff split: prod.splits)

lemma content_finding_id: "content_finding a = Inr f \<Longrightarrow> ef_rule f = ''content.not_empty''"
  by (simp add: content_finding_def Let_def make_finding_iff)

lemma expected_finding_id: "expected_schema_finding C a s = Inr f \<Longrightarrow> ef_rule f = ''schema.expected''"
  by (auto simp: expected_schema_finding_def make_finding_iff split: list.splits prod.splits)

lemma rule_findings_ids:
  "mapE (evaluate_rule C H a) rs = Inr fs \<Longrightarrow> map ef_rule fs = map er_id rs"
  by (induction rs arbitrary: fs) (auto split: sum.splits dest: evaluate_rule_id)

lemma sorted_ids: "map er_id (sort_key er_id rs) = sort (map er_id rs)"
  by (rule properties_for_sort[symmetric]) simp_all

lemma run_evaluation_Inr:
  assumes "run_evaluation C n q = Inr z"
  obtains fs where "all_findings C n q = Inr fs" "ez_findings z = fs" "ez_score z = score_of fs"
    "ez_id z = eq_id q" "ez_passed z = (rn_minimum n \<le> score_of fs \<and> \<not> list_ex blocking fs)"
  using assms by (auto simp: run_evaluation_def make_result_def andthen_Inr_iff intro: that)

text \<open>
  C30: The verdict of an evaluation: the result keeps one finding for the content, one for an expected
  schema and one per rule in the order of the rule ids; its score is the share of passed
  findings rounded to six digits and lies between 0 and 1; and it passes exactly when the score
  reaches the minimum and no error or critical finding failed.
\<close>

theorem evaluation_verdict:
  assumes "run_evaluation C n q = Inr z"
  shows "ez_id z = eq_id q \<and>
    map ef_rule (ez_findings z) = ''content.not_empty'' #
      (if eq_schema q = None then [] else [''schema.expected'']) @ sort (map er_id (eq_rules q)) \<and>
    ez_score z = round6 (of_nat (length (filter ef_passed (ez_findings z))) / of_nat (length (ez_findings z))) \<and>
    0 \<le> ez_score z \<and> ez_score z \<le> 1 \<and>
    (ez_passed z = (rn_minimum n \<le> ez_score z \<and> \<not> list_ex blocking (ez_findings z)))"
proof -
  from assms obtain fs where fs: "all_findings C n q = Inr fs" and z: "ez_findings z = fs"
    "ez_score z = score_of fs" "ez_id z = eq_id q"
    "ez_passed z = (rn_minimum n \<le> score_of fs \<and> \<not> list_ex blocking fs)"
    by (rule run_evaluation_Inr)
  from fs obtain content expected rules where parts: "fs = content # expected @ rules"
    "content_finding (eq_artifact q) = Inr content"
    "(case eq_schema q of None \<Rightarrow> Inr []
      | Some s \<Rightarrow> andthen (expected_schema_finding C (eq_artifact q) s) (\<lambda>f. Inr [f])) = Inr expected"
    "mapE (evaluate_rule C (rn_handlers n) (eq_artifact q)) (sort_key er_id (eq_rules q)) = Inr rules"
    by (auto simp: all_findings_def andthen_Inr_iff)
  have "map ef_rule expected = (if eq_schema q = None then [] else [''schema.expected''])"
    using parts(3) by (cases "eq_schema q") (auto simp: andthen_Inr_iff dest: expected_finding_id)
  then have "map ef_rule fs = ''content.not_empty'' #
      (if eq_schema q = None then [] else [''schema.expected'']) @ sort (map er_id (eq_rules q))"
    using rule_findings_ids[OF parts(4)] content_finding_id[OF parts(2)]
    by (simp add: parts(1) sorted_ids)
  moreover have "0 \<le> score_of fs \<and> score_of fs \<le> 1" using score_unit all_findings_not_Nil[OF fs] by blast
  ultimately show ?thesis by (simp add: z score_of_def passed_count_def)
qed

text \<open>
  An evaluation does not depend on the order in which the request lists its rules: with unique rule
  ids, every permutation gives the same result, or the same error.
\<close>

theorem evaluation_ignores_rule_order:
  assumes "mset rules = mset (eq_rules q)" "distinct (map er_id (eq_rules q))"
  shows "run_evaluation C n (q\<lparr> eq_rules := rules \<rparr>) = run_evaluation C n q"
proof -
  have inj: "inj_on er_id (set rules)" using assms by (metis distinct_map mset_eq_setD)
  have "sort_key er_id rules = sort_key er_id (eq_rules q)"
    by (rule sort_key_inj_key_eq) (use assms(1) inj in simp_all)
  then show ?thesis by (simp add: run_evaluation_def all_findings_def cong: option.case_cong)
qed

section \<open>Errors\<close>

lemma strip_prefix: "\<not> is_space c \<Longrightarrow> strip (c # cs) \<noteq> []"
  by (simp add: strip_def dropWhile_eq_Nil_conv)

lemma strip_Nil_iff: "strip s = [] \<longleftrightarrow> (\<forall>c\<in>set s. is_space c)"
proof -
  have "strip s = [] \<longleftrightarrow> (\<forall>c\<in>set (dropWhile is_space s). is_space c)"
    by (simp add: strip_def dropWhile_eq_Nil_conv)
  also have "\<dots> \<longleftrightarrow> (\<forall>c\<in>set s. is_space c)" by (induction s) auto
  finally show ?thesis .
qed

lemma builtin_tokens: "stable_token ''content.not_empty''" "stable_token ''schema.expected''"
  by code_simp+

lemma letter_e [simp]: "\<not> is_space (CHR ''e'')" "\<not> is_space (CHR ''a'')"
  by code_simp+

lemma builtin_findings_succeed:
  "\<exists>f. content_finding a = Inr f" "\<exists>f. expected_schema_finding C a s = Inr f"
proof -
  show "\<exists>f. content_finding a = Inr f"
    by (simp add: content_finding_def Let_def make_finding_iff builtin_tokens strip_prefix)
  show "\<exists>f. expected_schema_finding C a s = Inr f"
    by (cases "schema_errors C (Some a) s")
      (auto simp: expected_schema_finding_def make_finding_iff builtin_tokens strip_prefix split: prod.splits)
qed

lemma mapE_Inl: "mapE f xs = Inl e \<Longrightarrow> \<exists>x\<in>set xs. f x = Inl e"
  by (induction xs) (auto split: sum.splits)

lemma run_evaluation_Inl:
  assumes "run_evaluation C n q = Inl e" "strip (eq_id q) \<noteq> []"
  shows "\<exists>r\<in>set (eq_rules q). evaluate_rule C (rn_handlers n) (eq_artifact q) r = Inl e"
proof -
  have score: "make_result (eq_id q) p (score_of fs) fs m \<noteq> Inl e'"
    if "all_findings C n q = Inr fs" for p fs m e'
    using score_unit[OF all_findings_not_Nil[OF that]] assms(2)
    by (auto simp: make_result_def andthen_Inl_iff)
  have "all_findings C n q = Inl e" using assms(1) score
    by (auto simp: run_evaluation_def andthen_Inl_iff)
  moreover obtain f where "content_finding (eq_artifact q) = Inr f" using builtin_findings_succeed(1) by blast
  moreover have "\<exists>fs. (case eq_schema q of None \<Rightarrow> Inr []
      | Some s \<Rightarrow> andthen (expected_schema_finding C (eq_artifact q) s) (\<lambda>f. Inr [f])) = Inr fs"
    using builtin_findings_succeed(2)[of C "eq_artifact q"]
    by (cases "eq_schema q") (auto simp: andthen_Inr_iff)
  ultimately have "mapE (evaluate_rule C (rn_handlers n) (eq_artifact q)) (sort_key er_id (eq_rules q)) = Inl e"
    by (auto simp: all_findings_def andthen_Inl_iff)
  from mapE_Inl[OF this] show ?thesis by simp
qed

text \<open>
  An evaluation only fails because of a rule: for a request with an id, every error is the error of
  one of its rules (its configuration, its handler, or the message it returned). The built-in
  findings and the checks in the constructor of the result never raise.
\<close>

lemma evaluation_errors_come_from_rules:
  assumes "run_evaluation C n q = Inl e" "strip (eq_id q) \<noteq> []"
  shows "\<exists>r\<in>set (eq_rules q). evaluate_rule C (rn_handlers n) (eq_artifact q) r = Inl e"
  using assms by (rule run_evaluation_Inl)

section \<open>Concrete evaluations\<close>

definition demo_checker :: checker where
  "demo_checker = \<lparr> schema_error = (\<lambda>_. None), schema_failures = (\<lambda>_ _. []),
     regex_error = (\<lambda>_. None), regex_found = (\<lambda>_ _. True) \<rparr>"

definition demo_rule :: "string \<Rightarrow> string \<Rightarrow> eval_rule" where
  "demo_rule i field = \<lparr> er_id = i, er_name = i, er_description = i, er_severity = Info,
     er_kind = RequiredField, er_parameters = [(''field'', JStr field)] \<rparr>"

definition demo_request :: eval_request where
  "demo_request = \<lparr> eq_id = ''r'', eq_artifact = JObj [(''x'', JInt 1)], eq_schema = None,
     eq_rules = [demo_rule ''b'' ''y'', demo_rule ''a'' ''z''], eq_metadata = [] \<rparr>"

definition demo_runner :: runner where
  "demo_runner = \<lparr> rn_minimum = 1 / 3, rn_handlers = [] \<rparr>"

lemma demo_findings:
  "map_sum id (map (\<lambda>f. (ef_rule f, ef_passed f, ef_severity f))) (all_findings demo_checker demo_runner demo_request) =
     Inr [(''content.not_empty'', True, ErrorSeverity), (''a'', False, Info), (''b'', False, Info)]"
  by code_simp

lemma demo_runs:
  "\<exists>z. run_evaluation demo_checker demo_runner demo_request = Inr z \<and> \<not> ez_passed z"
proof -
  obtain fs where fs: "all_findings demo_checker demo_runner demo_request = Inr fs"
    "map (\<lambda>f. (ef_rule f, ef_passed f, ef_severity f)) fs =
       [(''content.not_empty'', True, ErrorSeverity), (''a'', False, Info), (''b'', False, Info)]"
    using demo_findings by (cases "all_findings demo_checker demo_runner demo_request") auto
  then obtain f g h where fgh: "fs = [f, g, h]" "ef_passed f" "\<not> ef_passed g" "\<not> ef_passed h" by auto
  have "floor (1000000 / 3 :: rat) = 333333" by (simp add: floor_eq_iff)
  then have "score_of fs = 333333 / 1000000"
    using fgh by (simp add: score_of_def passed_count_def round6_def half_even_def Let_def)
  with fs(1) show ?thesis
    by (simp add: run_evaluation_def make_result_def demo_runner_def demo_request_def strip_def is_space_def Let_def
      andthen_demand)
qed

theorem evaluation_verdict_witness:
  "\<exists>z. run_evaluation demo_checker demo_runner demo_request = Inr z \<and> 0 \<le> ez_score z \<and>
     map ef_rule (ez_findings z) = [''content.not_empty'', ''a'', ''b'']"
proof -
  obtain z where z: "run_evaluation demo_checker demo_runner demo_request = Inr z" using demo_runs by blast
  have "sort (map er_id (eq_rules demo_request)) = [''a'', ''b'']"
    by (simp add: demo_request_def demo_rule_def)
  moreover have "eq_schema demo_request = None" by (simp add: demo_request_def)
  ultimately show ?thesis using evaluation_verdict[OF z] z by simp
qed

theorem evaluation_ignores_rule_order_witness:
  "run_evaluation demo_checker demo_runner (demo_request\<lparr> eq_rules := [demo_rule ''a'' ''z'', demo_rule ''b'' ''y''] \<rparr>) =
   run_evaluation demo_checker demo_runner demo_request"
  by (rule evaluation_ignores_rule_order) (simp_all add: demo_request_def demo_rule_def)

definition demo_unhandled :: eval_request where
  "demo_unhandled = demo_request\<lparr> eq_rules := [(demo_rule ''a'' ''z'')\<lparr> er_kind := CustomRule,
     er_parameters := [(''handler'', JStr ''h'')] \<rparr>] \<rparr>"

lemma evaluation_errors_come_from_rules_witness:
  "\<exists>e. run_evaluation demo_checker demo_runner demo_unhandled = Inl e \<and>
     (\<exists>r\<in>set (eq_rules demo_unhandled).
        evaluate_rule demo_checker [] (eq_artifact demo_unhandled) r = Inl e)"
proof -
  have "\<exists>e. all_findings demo_checker demo_runner demo_unhandled = Inl e"
    using builtin_findings_succeed(1)[of "eq_artifact demo_request"]
    by (auto simp: all_findings_def demo_unhandled_def demo_request_def demo_rule_def evaluate_rule_def
      validate_rule_configuration_def require_keys_def parameter_def rule_outcome_def
      custom_outcome_of_def text_parameter_def demo_runner_def andthen_demand)
  then obtain e where "all_findings demo_checker demo_runner demo_unhandled = Inl e" by blast
  then have e: "run_evaluation demo_checker demo_runner demo_unhandled = Inl e" by (simp add: run_evaluation_def)
  moreover have "strip (eq_id demo_unhandled) \<noteq> []"
    by (simp add: demo_unhandled_def demo_request_def strip_def is_space_def Let_def)
  ultimately show ?thesis
    using evaluation_errors_come_from_rules[OF e] by (auto simp: demo_runner_def)
qed

text \<open>
  The score is compared after rounding: one passed finding of three with a minimum of exactly one
  third, and no blocking failure, is turned down, because the rounded score 0.333333 is below the
  minimum.
\<close>

lemma rounding_rejects_exact_threshold:
  "\<exists>z. run_evaluation demo_checker demo_runner demo_request = Inr z \<and> \<not> ez_passed z \<and>
     of_nat (length (filter ef_passed (ez_findings z))) / of_nat (length (ez_findings z)) = rn_minimum demo_runner \<and>
     \<not> list_ex blocking (ez_findings z)"
proof -
  obtain z where z: "run_evaluation demo_checker demo_runner demo_request = Inr z" "\<not> ez_passed z"
    using demo_runs by blast
  from z(1) obtain fs where fs: "all_findings demo_checker demo_runner demo_request = Inr fs" "ez_findings z = fs"
    by (rule run_evaluation_Inr)
  have "map (\<lambda>f. (ef_rule f, ef_passed f, ef_severity f)) fs =
       [(''content.not_empty'', True, ErrorSeverity), (''a'', False, Info), (''b'', False, Info)]"
    using demo_findings fs(1) by simp
  then obtain f g h where fgh: "fs = [f, g, h]" "ef_passed f" "\<not> ef_passed g" "\<not> ef_passed h"
    "ef_severity g = Info" "ef_severity h = Info" by auto
  with z fs(2) show ?thesis by (simp add: demo_runner_def blocking_def)
qed

end
