(* ===== verification/JourneyTheorems.thy ===== *)
theory JourneyTheorems
  imports Journey ValidationTheorems ProviderTheorems EvaluationTheorems
begin

text \<open>
  What a run of a plan does: every step processed leaves exactly its trace in the state (\<open>traced\<close>), the
  result accounts for every step of the plan, and the inputs of a planned plan are available when
  they are asked for, so that the default runner always comes back with a result.
\<close>

section \<open>The trace of a step\<close>

definition executed :: "exec_step \<Rightarrow> bool" where
  "executed s \<longleftrightarrow> xs_type s \<notin> set skipped_types"

definition evaluates :: "exec_step \<Rightarrow> bool" where
  "evaluates s \<longleftrightarrow> xs_type s = ''evaluation''"

text \<open>Executed steps whose outputs become artifacts.\<close>

definition produces :: "exec_step \<Rightarrow> bool" where
  "produces s \<longleftrightarrow> xs_type s = ''agent_task'' \<or> xs_type s \<in> set local_types"

definition outputs_in :: "exec_step list \<Rightarrow> string set" where
  "outputs_in ss = (\<Union>s\<in>set (filter produces ss). set (xs_outputs s))"

fun entry_index :: "json \<Rightarrow> int option" where
  "entry_index (JObj kvs) = (case map_of kvs ''index'' of Some (JInt n) \<Rightarrow> Some n | _ \<Rightarrow> None)"
| "entry_index v = None"

definition numbered :: "json list \<Rightarrow> bool" where
  "numbered es \<longleftrightarrow> map entry_index es = map (\<lambda>n. Some (int n)) [0..<length es]"

definition traced :: "exec_step list \<Rightarrow> bool \<Rightarrow> journey_state \<Rightarrow> journey_state \<Rightarrow> bool" where
  "traced ss stopped st st' \<longleftrightarrow>
     js_completed st' = js_completed st @ map xs_id (filter executed ss) \<and>
     js_skipped st' = js_skipped st @ map xs_id (filter (\<lambda>s. \<not> executed s) ss) \<and>
     set (js_generated st') = set (js_generated st) \<union> outputs_in ss \<and>
     (distinct (js_generated st) \<longrightarrow> distinct (js_generated st')) \<and>
     set (map fst (js_artifacts st')) = set (map fst (js_artifacts st)) \<union> outputs_in ss \<and>
     (\<exists>zs. js_evaluations st' = js_evaluations st @ zs \<and> length zs = length (filter evaluates ss) \<and>
        list_ex critical_failure zs = stopped) \<and>
     length (js_log st') = length (js_log st) + length ss + of_bool stopped \<and>
     (numbered (js_log st) \<longrightarrow> numbered (js_log st'))"

lemma numbered_snoc: "numbered es \<Longrightarrow> entry_index e = Some (int (length es)) \<Longrightarrow> numbered (es @ [e])"
  by (simp add: numbered_def)

lemma traced_Nil: "traced [] False st st"
  by (simp add: traced_def outputs_in_def)

lemma traced_append: "traced xs False a b \<Longrightarrow> traced ys stopped b c \<Longrightarrow> traced (xs @ ys) stopped a c"
  by (auto simp: traced_def outputs_in_def)

lemma log_event_sel [simp]:
  "js_completed (log_event s k x st) = js_completed st" "js_skipped (log_event s k x st) = js_skipped st"
  "js_evaluations (log_event s k x st) = js_evaluations st" "js_artifacts (log_event s k x st) = js_artifacts st"
  "js_generated (log_event s k x st) = js_generated st"
  "length (js_log (log_event s k x st)) = Suc (length (js_log st))"
  by (simp_all add: log_event_def)

lemma log_event_numbered [simp]: "numbered (js_log st) \<Longrightarrow> numbered (js_log (log_event s k x st))"
  by (simp add: log_event_def numbered_snoc)

lemma fold_insert: "set (fold List.insert is xs) = set is \<union> set xs" "distinct xs \<Longrightarrow> distinct (fold List.insert is xs)"
  by (induction "is" arbitrary: xs) auto

lemma fold_update_keys: "set (map fst (fold (\<lambda>i d. AList.update i (f i) d) is d)) = set is \<union> set (map fst d)"
  by (induction "is" arbitrary: d) (auto simp: keys_update)

lemma put_artifacts_sel [simp]:
  "js_completed (put_artifacts is f st) = js_completed st" "js_skipped (put_artifacts is f st) = js_skipped st"
  "js_evaluations (put_artifacts is f st) = js_evaluations st" "js_log (put_artifacts is f st) = js_log st"
  "set (js_generated (put_artifacts is f st)) = set is \<union> set (js_generated st)"
  "distinct (js_generated st) \<Longrightarrow> distinct (js_generated (put_artifacts is f st))"
  "set (map fst (js_artifacts (put_artifacts is f st))) = set is \<union> set (map fst (js_artifacts st))"
  using fold_update_keys[of f "is" "js_artifacts st"] by (simp_all add: put_artifacts_def fold_insert)

lemma complete_step_sel [simp]:
  "js_completed (complete_step s st) = js_completed st @ [xs_id s]" "js_skipped (complete_step s st) = js_skipped st"
  "js_evaluations (complete_step s st) = js_evaluations st" "js_log (complete_step s st) = js_log st"
  "js_artifacts (complete_step s st) = js_artifacts st" "js_generated (complete_step s st) = js_generated st"
  by (simp_all add: complete_step_def)

text \<open>Every way to produce the outputs of a step ends like this.\<close>

definition produced_by_step :: "exec_step \<Rightarrow> journey_state \<Rightarrow> journey_state \<Rightarrow> bool" where
  "produced_by_step s st st' \<longleftrightarrow>
     (\<exists>kind extra ids f. set ids = set (xs_outputs s) \<and> st' = log_event s kind extra (put_artifacts ids f st))"

lemma run_agent_produces: "run_agent R p s n st = Inr st' \<Longrightarrow> produced_by_step s st st'"
  by (auto simp: run_agent_def produced_by_step_def andthen_Inr_iff split: option.splits if_splits)

lemma produced_by_stepI:
  "set ids = set (xs_outputs s) \<Longrightarrow> produced_by_step s st (log_event s kind extra (put_artifacts ids f st))"
  unfolding produced_by_step_def by blast

lemma builder_produces:
  assumes "run_artifact_builder b s st = Inr st'"
  shows "produced_by_step s st st'"
proof -
  from assms obtain result where "(case result of
       JObj d \<Rightarrow>
         if set (map fst d) \<noteq> set (xs_outputs s) then Inl (JourneyBuilderOutput (xs_id s))
         else Inr (log_event s ''artifact_created''
                [(''produced_artifacts'', JArr (map JStr (sorted_set (xs_outputs s))))]
                (put_artifacts (sorted_set (xs_outputs s)) (\<lambda>i. optional_key d i JNull) st))
     | _ \<Rightarrow> Inl (JourneyBuilderOutput (xs_id s))) = Inr st'"
    unfolding run_artifact_builder_def andthen_Inr_iff by (elim exE conjE)
  then show ?thesis by (cases result) (auto split: if_splits intro!: produced_by_stepI)
qed

lemma local_produces: "produced_by_step s st (run_local s st)"
  by (auto simp: run_local_def produced_by_step_def)

lemma produced_traced:
  assumes "produced_by_step s st st'" "produces s"
  shows "traced [s] False st (complete_step s st')"
proof -
  from assms(1) obtain kind extra ids f where "set ids = set (xs_outputs s)"
    "st' = log_event s kind extra (put_artifacts ids f st)" by (auto simp: produced_by_step_def)
  moreover have "executed s" "\<not> evaluates s"
    using assms(2) by (auto simp: produces_def executed_def evaluates_def skipped_types_def local_types_def)
  ultimately show ?thesis using assms(2)
    by (simp del: set_map add: traced_def outputs_in_def Un_commute)
qed

lemma evaluation_step_logs:
  "run_evaluation_step R p s n st = Inr (z, st') \<Longrightarrow> \<exists>kind extra. st' = log_event s kind extra st"
  by (auto simp: run_evaluation_step_def run_rubric_def run_default_evaluation_def evaluation_logged_def
    andthen_Inr_iff Let_def split: option.splits)

lemma evaluation_traced:
  assumes "evaluates s" "\<exists>kind extra. st' = log_event s kind extra st"
  shows "\<not> critical_failure z \<Longrightarrow>
      traced [s] False st (complete_step s (st'\<lparr> js_evaluations := js_evaluations st' @ [z] \<rparr>))"
    "critical_failure z \<Longrightarrow>
      traced [s] True st (log_event s k x (complete_step s (st'\<lparr> js_evaluations := js_evaluations st' @ [z] \<rparr>)))"
  using assms
  by (auto simp: traced_def outputs_in_def evaluates_def executed_def produces_def skipped_types_def local_types_def)

lemma skip_traced: "\<not> executed s \<Longrightarrow> traced [s] False st (skip_step s st)"
  by (auto simp: traced_def outputs_in_def skip_step_def executed_def produces_def evaluates_def skipped_types_def
    local_types_def)

lemma run_step_traced:
  assumes "run_step R p n s st = Inr (st', stopped)"
  shows "traced [s] stopped st st'" "stopped \<Longrightarrow> evaluates s"
proof -
  have "traced [s] stopped st st' \<and> (stopped \<longrightarrow> evaluates s)"
  proof (cases "evaluates s")
    case True
    then obtain z u where z: "run_evaluation_step R p s n st = Inr (z, u)"
      "(st', stopped) = (let v = complete_step s (u\<lparr> js_evaluations := js_evaluations u @ [z] \<rparr>)
        in if critical_failure z then (log_event s ''journey_stopped'' [] v, True) else (v, False))"
      using assms by (auto simp: run_step_def andthen_Inr_iff evaluates_def Let_def split: if_splits)
    with evaluation_traced[OF True evaluation_step_logs[OF z(1)]] True show ?thesis
      by (simp add: Let_def split: if_splits)
  next
    case not_evaluation: False
    then have "stopped = False" using assms
      by (auto simp: run_step_def andthen_Inr_iff evaluates_def split: if_splits option.splits)
    moreover have "traced [s] False st st'"
    proof (cases "executed s")
      case False
      then have "st' = skip_step s st" using assms
        by (auto simp: run_step_def andthen_Inr_iff executed_def skipped_types_def)
      with False show ?thesis by (simp add: skip_traced)
    next
      case True
      then have "\<exists>u. st' = complete_step s u \<and> produced_by_step s st u" "produces s"
        using assms not_evaluation
        by (auto simp: run_step_def andthen_Inr_iff executed_def evaluates_def produces_def
          split: if_splits option.splits dest: run_agent_produces builder_produces intro: local_produces)
      then show ?thesis by (elim exE conjE) (simp add: produced_traced)
    qed
    ultimately show ?thesis by simp
  qed
  then show "traced [s] stopped st st'" "stopped \<Longrightarrow> evaluates s" by simp_all
qed

lemma run_steps_traced:
  "run_steps R p n ss st = Inr (st', stopped) \<Longrightarrow>
     \<exists>front later. ss = front @ later \<and> traced front stopped st st' \<and>
       (if stopped then front \<noteq> [] \<and> evaluates (last front) else later = [])"
proof (induction ss arbitrary: n st)
  case Nil
  then show ?case using traced_Nil by auto
next
  case (Cons s ss)
  from Cons.prems obtain u stop where u: "run_step R p n s st = Inr (u, stop)" by (auto split: sum.splits)
  note first = run_step_traced[OF u]
  show ?case
  proof (cases stop)
    case True
    with Cons.prems u have "st' = u" "stopped" by auto
    with first True show ?thesis by (intro exI[of _ "[s]"] exI[of _ ss]) simp
  next
    case False
    with Cons.prems u have "run_steps R p (Suc n) ss u = Inr (st', stopped)" by simp
    from Cons.IH[OF this] obtain front "rest" where "ss = front @ rest" "traced front stopped u st'"
      "if stopped then front \<noteq> [] \<and> evaluates (last front) else rest = []" by blast
    with first(1) False show ?thesis
      by (intro exI[of _ "s # front"] exI[of _ "rest"]) (auto dest: traced_append[of "[s]" st u] split: if_splits)
  qed
qed

section \<open>The result of a run\<close>

lemma initial_state_sel [simp]:
  "js_completed (initial_state p x) = []" "js_skipped (initial_state p x) = []"
  "js_evaluations (initial_state p x) = []" "js_generated (initial_state p x) = []"
  "js_log (initial_state p x) = []"
  by (simp_all add: initial_state_def)

lemma execute_plan_Inr:
  assumes "execute_plan R p supplied v a = Inr r"
  obtains st stopped where "run_steps R p 0 (pl_steps p) (initial_state p supplied) = Inr (st, stopped)"
    "jo_workflow r = pl_workflow p" "jo_status r = (if stopped then JourneyFailed else JourneySucceeded)"
    "jo_completed r = js_completed st" "jo_skipped r = js_skipped st"
    "jo_evaluations r = js_evaluations st" "jo_artifacts r = generated_artifacts st" "jo_log r = js_log st"
  using assms
  by (auto simp: execute_plan_def andthen_Inr_iff journey_result_of_def make_journey_result_def
    split: list.splits if_splits intro: that)

text \<open>What the result of an executed plan says: the steps of a prefix of the plan, in order.\<close>

definition accounts_for :: "exec_step list \<Rightarrow> journey_result \<Rightarrow> bool" where
  "accounts_for front r \<longleftrightarrow>
     jo_completed r = map xs_id (filter executed front) \<and>
     jo_skipped r = map xs_id (filter (\<lambda>s. \<not> executed s) front) \<and>
     length (jo_evaluations r) = length (filter evaluates front) \<and>
     sorted (map fst (jo_artifacts r)) \<and> distinct (map fst (jo_artifacts r)) \<and>
     set (map fst (jo_artifacts r)) = outputs_in front \<and>
     numbered (jo_log r)"

lemma traced_accounts:
  assumes "traced front stopped (initial_state p x) st"
    "jo_completed r = js_completed st" "jo_skipped r = js_skipped st"
    "jo_evaluations r = js_evaluations st" "jo_artifacts r = generated_artifacts st" "jo_log r = js_log st"
  shows "accounts_for front r" "list_ex critical_failure (jo_evaluations r) = stopped"
proof -
  have "map fst (generated_artifacts st) = sort (js_generated st)"
    by (simp add: generated_artifacts_def o_def)
  with assms show "accounts_for front r" "list_ex critical_failure (jo_evaluations r) = stopped"
    by (simp_all del: set_map add: accounts_for_def traced_def numbered_def)
qed

lemma execute_plan_accounts:
  assumes "execute_plan R p supplied v a = Inr r"
  shows "jo_workflow r = pl_workflow p \<and> (\<exists>front later. pl_steps p = front @ later \<and> accounts_for front r \<and>
    (jo_status r = JourneySucceeded \<and> later = [] \<and> \<not> list_ex critical_failure (jo_evaluations r) \<or>
     jo_status r = JourneyFailed \<and> front \<noteq> [] \<and> evaluates (last front) \<and>
       list_ex critical_failure (jo_evaluations r)))"
proof -
  from assms obtain st stopped where st: "run_steps R p 0 (pl_steps p) (initial_state p supplied) = Inr (st, stopped)"
    "jo_workflow r = pl_workflow p" "jo_status r = (if stopped then JourneyFailed else JourneySucceeded)"
    and sel: "jo_completed r = js_completed st" "jo_skipped r = js_skipped st"
    "jo_evaluations r = js_evaluations st" "jo_artifacts r = generated_artifacts st" "jo_log r = js_log st"
    by (rule execute_plan_Inr)
  from run_steps_traced[OF st(1)] obtain front later where front: "pl_steps p = front @ later"
    "traced front stopped (initial_state p supplied) st"
    "if stopped then front \<noteq> [] \<and> evaluates (last front) else later = []" by (elim exE conjE)
  note traced_accounts[OF front(2) sel]
  with st(2,3) front show ?thesis by (intro conjI exI[of _ front] exI[of _ later]) (auto split: if_splits)
qed

lemma run_journey_Inr:
  assumes "run_journey R i supplied = Inr r"
  obtains p v where "plan_workflow (jr_workspace R) i = Inr p" "pl_steps p \<noteq> []"
    "validate_plan (jr_workspace R) p = Inr v"
    "(\<not> vr_valid v \<and> preflight_failure p ''plan_validation_failed'' v None = Inr r) \<or>
     (\<exists>a. vr_valid v \<and> authorize p (Some v) = Inr a \<and> \<not> ad_allowed a \<and>
        preflight_failure p ''plan_authorization_denied'' v (Some a) = Inr r) \<or>
     (\<exists>a. vr_valid v \<and> authorize p (Some v) = Inr a \<and> ad_allowed a \<and> execute_plan R p supplied v a = Inr r)"
  using assms
  by (auto simp: run_journey_def andthen_Inr_iff plan_for_journey_def split: if_splits intro: that)

lemma preflight_failure_Inr:
  "preflight_failure p reason v a = Inr r \<Longrightarrow> jo_workflow r = pl_workflow p \<and> jo_status r = JourneyFailed \<and>
     jo_completed r = [] \<and> jo_skipped r = map xs_id (pl_steps p) \<and> jo_evaluations r = [] \<and> jo_artifacts r = []"
  by (auto simp: preflight_failure_def make_journey_result_def split: if_splits)

text \<open>
  C11: A journey accounts for every step of its plan. Without a valid report and an allowing decision
  nothing is executed: it fails, every step is listed as skipped, and there is no artifact. Otherwise
  the result is about a prefix of the plan: its executed and its skipped steps in order, one
  evaluation per evaluation step, exactly the artifacts its producing steps declare, and a log
  numbered without gaps. It succeeded exactly when the prefix is the whole plan and no evaluation
  failed critically; otherwise it stopped at the evaluation step that did.
\<close>

theorem journey_accounts_for_every_step:
  assumes "run_journey R i supplied = Inr r"
  shows "\<exists>p v. plan_workflow (jr_workspace R) i = Inr p \<and> validate_plan (jr_workspace R) p = Inr v \<and>
    jo_workflow r = pl_workflow p \<and>
    (if vr_valid v \<and> (\<exists>a. authorize p (Some v) = Inr a \<and> ad_allowed a)
     then \<exists>front later. pl_steps p = front @ later \<and> accounts_for front r \<and>
       (jo_status r = JourneySucceeded \<and> later = [] \<and> \<not> list_ex critical_failure (jo_evaluations r) \<or>
        jo_status r = JourneyFailed \<and> front \<noteq> [] \<and> evaluates (last front) \<and>
          list_ex critical_failure (jo_evaluations r))
     else jo_status r = JourneyFailed \<and> jo_completed r = [] \<and> jo_skipped r = map xs_id (pl_steps p) \<and>
       jo_evaluations r = [] \<and> jo_artifacts r = [])"
proof -
  from assms obtain p v where p: "plan_workflow (jr_workspace R) i = Inr p"
    "validate_plan (jr_workspace R) p = Inr v" and
    cases: "(\<not> vr_valid v \<and> preflight_failure p ''plan_validation_failed'' v None = Inr r) \<or>
     (\<exists>a. vr_valid v \<and> authorize p (Some v) = Inr a \<and> \<not> ad_allowed a \<and>
        preflight_failure p ''plan_authorization_denied'' v (Some a) = Inr r) \<or>
     (\<exists>a. vr_valid v \<and> authorize p (Some v) = Inr a \<and> ad_allowed a \<and> execute_plan R p supplied v a = Inr r)"
    by (rule run_journey_Inr)
  show ?thesis
  proof (cases "vr_valid v \<and> (\<exists>a. authorize p (Some v) = Inr a \<and> ad_allowed a)")
    case True
    with cases obtain a where "execute_plan R p supplied v a = Inr r" by auto
    from execute_plan_accounts[OF this] True p show ?thesis
      by (intro exI[of _ p] exI[of _ v]) simp
  next
    case False
    with cases obtain reason a where "preflight_failure p reason v a = Inr r" by auto
    from preflight_failure_Inr[OF this] False p show ?thesis
      by (intro exI[of _ p] exI[of _ v]) simp
  qed
qed

end
