(* ===== verification/PlanDemo.thy ===== *)
theory PlanDemo
  imports ValidationTheorems
begin

text \<open>
  A concrete workspace with one agent and two Workflows, on which the planner and the validator are
  evaluated: the witnesses of their properties, and the order of a Workflow whose explicit
  approval step has no explicit evaluation.
\<close>

definition demo_agent_manifest :: agent_def where
  "demo_agent_manifest = \<lparr> agd_id = ''agt'', agd_version = ''1.0.0'', agd_rest = [] \<rparr>"

definition demo_ref :: def_ref where
  "demo_ref = \<lparr> dr_id = ''agt'', dr_version = ''1.0.0'', dr_role = Some ''w'' \<rparr>"

definition demo_step :: "string \<Rightarrow> string \<Rightarrow> def_ref option \<Rightarrow> string list \<Rightarrow> string list \<Rightarrow> wf_step" where
  "demo_step i kind agt ins outs =
     \<lparr> st_id = i, st_name = i, st_type = kind, st_agent = agt, st_inputs = ins, st_outputs = outs,
       st_approval = False \<rparr>"

definition demo_artifact :: "string \<Rightarrow> artifact_ref" where
  "demo_artifact i = \<lparr> aref_id = i, aref_type = i, aref_schema = i \<rparr>"

definition demo_workflow :: workflow_def where
  "demo_workflow =
     \<lparr> wd_id = ''wfl'', wd_version = ''1.0.0'', wd_type = ''lifecycle'', wd_min_kernel = ''0.1.0'',
       wd_max_kernel = ''1.0.0'', wd_required_agents = [demo_ref], wd_optional_agents = [],
       wd_required_artifacts = [demo_artifact ''b''],
       wd_produced_artifacts = [demo_artifact ''r'', demo_artifact ''n''],
       wd_steps =
         [demo_step ''publish'' ''transition_request'' None [''r''] [],
          demo_step ''write'' ''agent_task'' (Some demo_ref) [''n''] [''r''],
          demo_step ''collect'' ''human_input'' None [''b''] [''n'']],
       wd_evaluations = [\<lparr> we_id = ''q'', we_subject = ''r'', we_required = True, we_rest = [] \<rparr>],
       wd_approvals = [\<lparr> wa_id = ''s'', wa_subject_type = ''artifact'', wa_subject = ''r'',
         wa_required = True, wa_rest = [] \<rparr>],
       wd_transition = Some \<lparr> wt_from = ''A'', wt_to = ''B'', wt_approvals = [''s''] \<rparr> \<rparr>"

definition demo_early_approval :: workflow_def where
  "demo_early_approval = demo_workflow\<lparr> wd_id := ''early'',
     wd_produced_artifacts := [demo_artifact ''r''],
     wd_steps := [demo_step ''write'' ''agent_task'' (Some demo_ref) [''b''] [''r''],
       demo_step ''sign'' ''approval'' None [''r''] []] \<rparr>"

definition demo_manifests :: "discovered list" where
  "demo_manifests =
     [\<lparr> found_path = ''a'', found_data = AgentManifest demo_agent_manifest \<rparr>,
      \<lparr> found_path = ''w'', found_data = WorkflowManifest demo_workflow \<rparr>,
      \<lparr> found_path = ''e'', found_data = WorkflowManifest demo_early_approval \<rparr>]"

definition demo_workspace :: workspace where
  "demo_workspace =
     \<lparr> ws_root = ''p'', ws_runtime = ''0.1.0'', ws_apps = [],
       ws_workflows = [(''wfl'', demo_workflow), (''early'', demo_early_approval)],
       ws_agents = [(''agt'', demo_agent_manifest)] \<rparr>"

lemma demo_built: "build_workspace ''p'' ''0.1.0'' (0, 1, 0) demo_manifests = Inr demo_workspace"
  by code_simp

lemma demo_planned:
  "case plan_workflow demo_workspace ''wfl'' of Inl e \<Rightarrow> False
   | Inr p \<Rightarrow> map xs_id (pl_steps p) = [''collect'', ''write'', ''evaluation.q'', ''approval.s'', ''publish'']"
  by code_simp

lemma demo_found: "get_workflow demo_workspace ''wfl'' = Inr demo_workflow"
  by code_simp


theorem planned_plan_is_valid_witness:
  "\<exists>p r. plan_workflow demo_workspace ''wfl'' = Inr p \<and> validate_plan demo_workspace p = Inr r \<and> vr_valid r"
proof -
  obtain p where p: "plan_workflow demo_workspace ''wfl'' = Inr p"
    using demo_planned by (auto split: sum.splits)
  have unique: "declares_uniquely demo_workflow"
    by (simp add: declares_uniquely_def demo_workflow_def demo_ref_def demo_artifact_def)
  from planned_plan_is_valid[OF demo_built p demo_found] obtain r where
    "validate_plan demo_workspace p = Inr r" "declares_uniquely demo_workflow \<longrightarrow> vr_valid r \<and> vr_findings r = []"
    by (elim exE conjE)
  with p unique show ?thesis by (intro exI[of _ p] exI[of _ r] conjI) simp_all
qed

text \<open>
  An approval step that the Workflow lists itself waits only for the evaluations listed before it.
  In this Workflow the evaluation of the same artifact is a generated checkpoint, so the plan
  asks for the approval of \<open>r\<close> before \<open>r\<close> is evaluated.
\<close>

lemma explicit_approval_planned_before_evaluation:
  "map_sum id (\<lambda>p. map xs_id (pl_steps p)) (plan_workflow demo_workspace ''early'') =
     Inr [''write'', ''sign'', ''evaluation.q'']"
  by code_simp

end
