(* ===== verification/JourneyProgress.thy ===== *)
theory JourneyProgress
  imports JourneyTheorems PlanDemo
begin

text \<open>
  Progress of a journey: the inputs of a planned plan are available when a step asks for them,
  provided only producing steps declare outputs, so a runner with the default provider, evaluator
  and no builders returns a result for every plan of slug ids. A skipped step that declares an
  output breaks the run.
\<close>

section \<open>Runnable plans\<close>

definition default_runner :: "journey_runner \<Rightarrow> bool" where
  "default_runner R \<longleftrightarrow>
     jr_provider R = \<lparr> pv_fixtures = [], pv_strict = False, pv_errors = [] \<rparr> \<and>
     jr_resolver R = None \<and> jr_builders R = []"

text \<open>\<open>{"not": {"type": "null"}}\<close> is a valid JSON Schema.\<close>

definition not_null_schema :: json where
  "not_null_schema = JObj [(''not'', JObj [(''type'', JStr ''null'')])]"

definition accepts_not_null :: "checker \<Rightarrow> bool" where
  "accepts_not_null C \<longleftrightarrow> schema_error C not_null_schema = None"

definition step_types :: "string list" where
  "step_types = [''agent_task'', ''evaluation''] @ skipped_types @ local_types"

text \<open>The lengths are those of the Workflow schema: a ULID id, and a slug with a checkpoint prefix.\<close>

definition runnable_step :: "execution_plan \<Rightarrow> exec_step \<Rightarrow> bool" where
  "runnable_step p s \<longleftrightarrow>
     stable_token (xs_id s) \<and> length (xs_id s) \<le> 140 \<and> xs_type s \<in> set step_types \<and>
     (xs_type s = ''agent_task'' \<longrightarrow> xs_agent s \<noteq> None) \<and> (xs_outputs s = [] \<or> produces s) \<and>
     (evaluates s \<longrightarrow> (case evaluation_subject p s of
        Inl e \<Rightarrow> False
      | Inr a \<Rightarrow> a \<in> set (xs_inputs s) \<and> (\<exists>e\<in>set (pl_evaluations p). evaluation_declaration p s a = Inr e)))"

definition runnable :: "execution_plan \<Rightarrow> bool" where
  "runnable p \<longleftrightarrow> pl_workflow p \<noteq> [] \<and> length (pl_workflow p) \<le> 40 \<and> list_all (runnable_step p) (pl_steps p)"

section \<open>Steps return\<close>

lemma artifact_at_Inr: "a \<in> fst ` set d \<Longrightarrow> \<exists>v. artifact_at d a = Inr v"
  by (auto simp: artifact_at_def map_of_eq_None_iff split: option.split)

lemma inputs_of_Inr:
  assumes "set is \<subseteq> fst ` set d"
  shows "\<exists>kvs. inputs_of d is = Inr kvs"
proof (cases "mapE (\<lambda>i. andthen (artifact_at d i) (\<lambda>v. Inr (i, v))) is")
  case (Inl e)
  from mapE_Inl[OF this] obtain i where "i \<in> set is" "artifact_at d i = Inl e"
    by (auto simp: andthen_Inl_iff)
  with assms artifact_at_Inr[of i d] show ?thesis by auto
qed (simp add: inputs_of_def)

lemma require_inputs_Inr: "set (xs_inputs s) \<subseteq> fst ` set d \<Longrightarrow> require_inputs s d = Inr ()"
proof -
  assume "set (xs_inputs s) \<subseteq> fst ` set d"
  then have "filter (\<lambda>a. map_of d a = None) (xs_inputs s) = []"
    by (auto simp: filter_empty_conv map_of_eq_None_iff)
  then show ?thesis by (simp add: require_inputs_def sorted_set_def)
qed

lemma journey_tokens: "stable_token ''journey.agent_task''" "\<not> is_space (CHR ''j'')" "\<not> is_space (CHR ''R'')"
  by code_simp+

lemma agent_request_Inr:
  assumes "length (pl_workflow p) \<le> 40" "length (xs_id s) \<le> 140"
  shows "\<exists>q. agent_request C p s agt n inputs = Inr q \<and> pq_id q \<noteq> [] \<and> pq_schema q = None"
  using assms
  by (simp add: agent_request_def make_provider_request_def journey_tokens blank_text_def strip_prefix
    andthen_demand Let_def)

lemma default_answer:
  assumes "pq_schema q = None"
  shows "answer C digest [] [] q = Inr (canonical (echo q))"
  using assms by (simp add: answer_def fixture_for_def conforms_def)

lemma run_agent_Inr:
  assumes "default_runner R" "length (pl_workflow p) \<le> 40" "length (xs_id s) \<le> 140" "xs_agent s \<noteq> None"
    "set (xs_inputs s) \<subseteq> fst ` set (js_artifacts st)"
  shows "\<exists>st'. run_agent R p s n st = Inr st'"
proof -
  from assms(4) obtain agt where agt: "xs_agent s = Some agt" by blast
  from inputs_of_Inr[OF assms(5)] obtain inputs where "inputs_of (js_artifacts st) (xs_inputs s) = Inr inputs" by blast
  moreover from agent_request_Inr[OF assms(2,3)] obtain q where
    q: "agent_request (jr_checker R) p s agt n inputs = Inr q" "pq_id q \<noteq> []" "pq_schema q = None" by blast
  moreover have "\<exists>r. generate (jr_checker R) (jr_digest R) (jr_provider R) q = Inr r \<and> ps_status r = ProviderSuccess"
    using generate_cases[of "jr_provider R" "jr_digest R" q "[]" "jr_checker R"] assms(1) q(2)
    by (auto simp: default_runner_def fixture_for_def default_answer[OF q(3)])
  ultimately show ?thesis using agt by (auto simp: run_agent_def)
qed

section \<open>The default evaluation\<close>

lemma token_rest_chars: "token_rest b s \<Longrightarrow> map safe_char (map lower_char s) = s"
proof (induction s arbitrary: b)
  case (Cons c cs)
  have "lower_char c = c" if "is_lower c \<or> is_digit c \<or> c \<in> {CHR ''.'', CHR ''_'', CHR ''-''}"
    using that by (auto simp: lower_char_def is_lower_def is_digit_def)
  with Cons show ?case by (auto simp: token_rest.simps safe_char_def split: if_splits)
qed simp

lemma stable_token_chars: "stable_token s \<Longrightarrow> map safe_char (lower s) = s"
proof (cases s)
  case (Cons c cs)
  assume "stable_token s"
  with Cons have "token_rest False s" by (simp add: stable_token.simps token_rest.simps)
  then show ?thesis by (simp only: lower_def token_rest_chars)
qed (simp add: stable_token.simps)

lemma journey_token: "stable_token s \<Longrightarrow> stable_token (''journey.'' @ s)"
proof (cases s)
  case (Cons c cs)
  have "is_lower CHR ''j''" "is_lower CHR ''o''" "is_lower CHR ''u''" "is_lower CHR ''r''" "is_lower CHR ''n''"
    "is_lower CHR ''e''" "is_lower CHR ''y''" "\<not> is_lower CHR ''.''" "\<not> is_digit CHR ''.''"
    by code_simp+
  then show "stable_token s \<Longrightarrow> stable_token (''journey.'' @ s)"
    by (simp add: Cons stable_token.simps token_rest.simps)
qed (simp add: stable_token.simps)

lemma default_rule_Inr:
  assumes "stable_token (xs_id s)"
  shows "\<exists>r. default_rule s = Inr r \<and> stable_token (er_id r) \<and> er_kind r = SchemaRule \<and>
    er_parameters r = [(''schema'', not_null_schema)]"
  using assms
  using journey_token[OF assms]
  by (simp add: default_rule_def stable_token_chars make_rule_def strip_prefix journey_tokens
    enum_value_def severity_names_def kind_names_def json_copy_def not_null_schema_def andthen_demand)

lemma default_rule_evaluates:
  assumes "accepts_not_null C" "stable_token (er_id r)" "er_kind r = SchemaRule"
    "er_parameters r = [(''schema'', not_null_schema)]"
  shows "\<exists>f. evaluate_rule C H artifact r = Inr f"
proof -
  have "\<not> is_space CHR ''s''" by code_simp
  moreover have "schema_error C (JObj [(''not'', JObj [(''type'', JStr ''null'')])]) = None"
    using assms(1) by (simp add: accepts_not_null_def not_null_schema_def)
  ultimately show ?thesis using assms(2-4)
    by (auto simp: evaluate_rule_def validate_rule_configuration_def require_keys_def parameter_def
      not_null_schema_def rule_outcome_def schema_outcome_def make_finding_iff andthen_Inr_iff strip_prefix Let_def
      split: list.split prod.split)
qed

lemma run_default_Inr:
  assumes "accepts_not_null (jr_checker R)" "stable_token (xs_id s)" "a \<in> fst ` set (js_artifacts st)"
  shows "\<exists>z st'. run_default_evaluation R p s a n st = Inr (z, st')"
proof -
  from artifact_at_Inr[OF assms(3)] obtain v where v: "artifact_at (js_artifacts st) a = Inr v" by blast
  from default_rule_Inr[OF assms(2)] obtain r where r: "default_rule s = Inr r" "stable_token (er_id r)"
    "er_kind r = SchemaRule" "er_parameters r = [(''schema'', not_null_schema)]" by blast
  let ?i = "''evaluation.'' @ pl_workflow p @ ''.'' @ xs_id s"
  have i: "strip ?i \<noteq> []" by (simp add: strip_prefix)
  then obtain q where q: "make_request (jr_checker R) ?i v None [r] (evaluation_metadata p s a n) = Inr q"
    "eq_rules q = [r]" "eq_id q = ?i"
    by (simp add: make_request_def andthen_demand)
  have "\<exists>z. run_evaluation (jr_checker R) (jr_evaluator R) q = Inr z"
  proof (cases "run_evaluation (jr_checker R) (jr_evaluator R) q")
    case (Inl e)
    from run_evaluation_Inl[OF this] i q(3)
    obtain f where "f \<in> set (eq_rules q)" "evaluate_rule (jr_checker R) (rn_handlers (jr_evaluator R)) (eq_artifact q) f = Inl e"
      by auto
    with q(2) default_rule_evaluates[OF assms(1) r(2-4), of "rn_handlers (jr_evaluator R)" "eq_artifact q"]
    show ?thesis by auto
  qed simp
  with v r(1) q(1) show ?thesis by (auto simp: run_default_evaluation_def Let_def)
qed

section \<open>The run returns\<close>

lemma run_step_returns:
  assumes R: "default_runner R" "accepts_not_null (jr_checker R)" and p: "length (pl_workflow p) \<le> 40"
    and s: "runnable_step p s" and inputs: "set (xs_inputs s) \<subseteq> fst ` set (js_artifacts st)"
  shows "\<exists>after. run_step R p n s st = Inr after"
proof -
  note ready = require_inputs_Inr[OF inputs]
  consider "xs_type s = ''agent_task''" | "evaluates s" | "xs_type s \<in> set skipped_types" | "xs_type s \<in> set local_types"
    using s by (auto simp: runnable_step_def step_types_def evaluates_def)
  then show ?thesis
  proof cases
    case 1
    with s have "length (xs_id s) \<le> 140" "xs_agent s \<noteq> None" by (simp_all add: runnable_step_def)
    from run_agent_Inr[OF R(1) p this inputs] obtain u where "run_agent R p s n st = Inr u" by blast
    with 1 ready show ?thesis by (auto simp: run_step_def)
  next
    case 2
    with s obtain a e where a: "evaluation_subject p s = Inr a" "a \<in> set (xs_inputs s)"
      "evaluation_declaration p s a = Inr e" by (auto simp: runnable_step_def split: sum.splits)
    have "stable_token (xs_id s)" using s by (simp add: runnable_step_def)
    moreover have "a \<in> fst ` set (js_artifacts st)" using a(2) inputs by blast
    ultimately obtain z u where "run_default_evaluation R p s a n st = Inr (z, u)"
      using run_default_Inr[OF R(2)] by blast
    with a R(1) 2 ready show ?thesis
      by (simp del: split_paired_Ex add: run_step_def run_evaluation_step_def default_runner_def evaluates_def Let_def)
  next
    case 3
    with ready show ?thesis by (auto simp: run_step_def skipped_types_def)
  next
    case 4
    with ready R(1) show ?thesis
      by (auto simp: run_step_def local_types_def skipped_types_def default_runner_def)
  qed
qed

lemma run_steps_return:
  assumes R: "default_runner R" "accepts_not_null (jr_checker R)" and p: "runnable p" "planned w p"
  shows "pl_steps p = front @ ss \<Longrightarrow>
    set (map aref_id (pl_required p)) \<union> outputs_in front \<subseteq> fst ` set (js_artifacts st) \<Longrightarrow>
    \<exists>after. run_steps R p n ss st = Inr after"
proof (induction ss arbitrary: front n st)
  case (Cons s ss)
  note P = plannedD[OF p(2)]
  have steps: "list_all (runnable_step p) (pl_steps p)" and len: "length (pl_workflow p) \<le> 40"
    using p(1) by (simp_all add: runnable_def)
  have s: "runnable_step p s" using steps Cons.prems(1) by simp
  have "set (xs_inputs s) \<subseteq> fst ` set (js_artifacts st)"
  proof
    fix a assume a: "a \<in> set (xs_inputs s)"
    have "a \<in> set (map aref_id (pl_produced p)) \<union> set (map aref_id (pl_required p))"
      using P(4)[of s] a Cons.prems(1) by auto
    moreover have "a \<in> outputs_in front" if "a \<in> set (map aref_id (pl_produced p))"
    proof -
      from that P(3) obtain q where q: "q \<in> set (pl_steps p)" "a \<in> set (xs_outputs q)" by auto
      with a have "q \<in> set front" using P(5)[OF Cons.prems(1) q(1)] by auto
      moreover have "runnable_step p q" using steps q(1) by (simp add: list_all_iff)
      ultimately show ?thesis using q(2) by (auto simp: runnable_step_def outputs_in_def)
    qed
    ultimately show "a \<in> fst ` set (js_artifacts st)" using Cons.prems(2) by auto
  qed
  from run_step_returns[OF R len s this] obtain u stopped where u: "run_step R p n s st = Inr (u, stopped)" by fastforce
  show ?case
  proof (cases stopped)
    case False
    have "set (map fst (js_artifacts u)) = set (map fst (js_artifacts st)) \<union> outputs_in [s]"
      using run_step_traced(1)[OF u] by (simp add: traced_def)
    moreover have "outputs_in (front @ [s]) = outputs_in front \<union> outputs_in [s]" by (simp add: outputs_in_def)
    ultimately have "set (map aref_id (pl_required p)) \<union> outputs_in (front @ [s]) \<subseteq> fst ` set (js_artifacts u)"
      using Cons.prems(2) by auto
    from Cons.IH[of "front @ [s]", OF _ this, of "Suc n"] Cons.prems(1) u False show ?thesis by auto
  qed (use u in auto)
qed (simp del: split_paired_Ex)

lemma initial_artifacts_keys: "fst ` set (initial_artifacts p supplied) \<supseteq> set (map aref_id (pl_required p))"
proof -
  have "fst ` set d \<subseteq> fst ` set (fold (\<lambda>(k, v) d. AList.update k v d) kvs d)"
    for kvs and d :: json_dict
  proof (induction kvs arbitrary: d)
    case (Cons kv kvs)
    have "fst ` set d \<subseteq> fst ` set (AList.update (fst kv) (snd kv) d)" by (auto simp: keys_update)
    also have "\<dots> \<subseteq> fst ` set (fold (\<lambda>(k, v) d. AList.update k v d) kvs (AList.update (fst kv) (snd kv) d))"
      by (rule Cons.IH)
    finally show ?case by (cases kv) simp
  qed simp
  then show ?thesis unfolding initial_artifacts_def by (rule subset_trans[rotated]) (simp add: dict_of_keys)
qed

lemma validate_plan_Inr: "\<exists>v. validate_plan ws p = Inr v"
  by (simp add: validate_plan_def report_def make_report_def Let_def)

lemma journey_returns:
  assumes "default_runner R" "accepts_not_null (jr_checker R)"
    "plan_workflow (jr_workspace R) i = Inr p" "pl_steps p \<noteq> []" "runnable p"
    "set (map fst supplied) \<subseteq> set (map aref_id (pl_required p))"
  shows "\<exists>r. run_journey R i supplied = Inr r"
proof -
  from plan_is_planned[OF assms(3)] obtain w where planned: "planned w p" by blast
  obtain v where v: "validate_plan (jr_workspace R) p = Inr v" using validate_plan_Inr by blast
  obtain a where a: "authorize p (Some v) = Inr a" using authorize_Inr by blast
  have named: "pl_workflow p \<noteq> []" using assms(5) by (simp add: runnable_def)
  have "filter (\<lambda>i. i \<notin> set (map aref_id (pl_required p))) (map fst supplied) = []"
    using assms(6) by (auto simp: filter_empty_conv)
  then have supplied: "unknown_inputs p supplied = []" by (simp only: unknown_inputs_def) (simp add: sorted_set_def)
  have "set (map aref_id (pl_required p)) \<union> outputs_in [] \<subseteq> fst ` set (js_artifacts (initial_state p supplied))"
    using initial_artifacts_keys by (simp add: initial_state_def outputs_in_def)
  from run_steps_return[OF assms(1,2,5) planned _ this, of "pl_steps p" 0]
  obtain st stopped where "run_steps R p 0 (pl_steps p) (initial_state p supplied) = Inr (st, stopped)" by fastforce
  with supplied named have "\<exists>r. execute_plan R p supplied v a = Inr r"
    by (simp add: execute_plan_def journey_result_of_def make_journey_result_def)
  with assms(3,4) v a named show ?thesis
    by (auto simp: run_journey_def plan_for_journey_def preflight_failure_def make_journey_result_def
      andthen_demand)
qed

text \<open>
  C32: A journey comes back. With the default provider, no rubrics and no builders, a runner whose schema
  checker knows the not-null schema returns a result for every Workflow that can be planned into
  at least one step, whose steps have slug ids, known types and resolvable evaluations, and where
  only producing steps declare outputs: no artifact is missing, no request or rule is refused.
\<close>

theorem default_journey_returns:
  assumes "default_runner R" "accepts_not_null (jr_checker R)"
    "plan_workflow (jr_workspace R) i = Inr p" "pl_steps p \<noteq> []" "runnable p"
    "set (map fst supplied) \<subseteq> set (map aref_id (pl_required p))"
  shows "\<exists>r. run_journey R i supplied = Inr r"
  using assms by (rule journey_returns)

section \<open>Concrete journeys\<close>

definition demo_journey :: "workspace \<Rightarrow> journey_runner" where
  "demo_journey ws =
     \<lparr> jr_workspace = ws, jr_provider = \<lparr> pv_fixtures = [], pv_strict = False, pv_errors = [] \<rparr>,
       jr_evaluator = \<lparr> rn_minimum = 1, rn_handlers = [] \<rparr>, jr_resolver = None, jr_builders = [],
       jr_checker = demo_checker, jr_digest = (\<lambda>_. ''d'') \<rparr>"

lemma demo_runnable:
  "case plan_workflow demo_workspace ''wfl'' of Inl e \<Rightarrow> False
   | Inr p \<Rightarrow> pl_steps p \<noteq> [] \<and> runnable p"
  by code_simp

theorem journey_accounts_for_every_step_witness:
  "\<exists>r p. run_journey (demo_journey demo_workspace) ''wfl'' [] = Inr r \<and>
     plan_workflow demo_workspace ''wfl'' = Inr p \<and> jo_workflow r = pl_workflow p \<and>
     map xs_id (pl_steps p) = [''collect'', ''write'', ''evaluation.q'', ''approval.s'', ''publish'']"
proof -
  obtain p where p: "plan_workflow demo_workspace ''wfl'' = Inr p" "pl_steps p \<noteq> []" "runnable p"
    using demo_runnable by (auto split: sum.splits)
  have ids: "map xs_id (pl_steps p) = [''collect'', ''write'', ''evaluation.q'', ''approval.s'', ''publish'']"
    using demo_planned p(1) by simp
  obtain w where planned: "planned w p" using plan_is_planned[OF p(1)] by blast
  have "default_runner (demo_journey demo_workspace)" "accepts_not_null (jr_checker (demo_journey demo_workspace))"
    by (simp_all add: default_runner_def demo_journey_def accepts_not_null_def demo_checker_def)
  moreover have "plan_workflow (jr_workspace (demo_journey demo_workspace)) ''wfl'' = Inr p"
    using p(1) by (simp add: demo_journey_def)
  ultimately obtain r where r: "run_journey (demo_journey demo_workspace) ''wfl'' [] = Inr r"
    using journey_returns[of "demo_journey demo_workspace" "''wfl''" p "[]"] p(2,3) by auto
  from journey_accounts_for_every_step[OF r] obtain p' where
    "plan_workflow (jr_workspace (demo_journey demo_workspace)) ''wfl'' = Inr p'" "jo_workflow r = pl_workflow p'"
    by (elim exE conjE)
  with p(1) have "jo_workflow r = pl_workflow p" by (simp add: demo_journey_def)
  with r p(1) ids show ?thesis by (intro exI[of _ r] exI[of _ p] conjI)
qed

theorem default_journey_returns_witness:
  "\<exists>r. run_journey (demo_journey demo_workspace) ''wfl'' [] = Inr r"
proof -
  obtain p where p: "plan_workflow demo_workspace ''wfl'' = Inr p" "pl_steps p \<noteq> []" "runnable p"
    using demo_runnable by (auto split: sum.splits)
  have R: "default_runner (demo_journey demo_workspace)" "accepts_not_null (jr_checker (demo_journey demo_workspace))"
    by (simp_all add: default_runner_def demo_journey_def accepts_not_null_def demo_checker_def)
  show ?thesis
    by (rule default_journey_returns[OF R _ p(2,3)]) (use p(1) in \<open>simp_all add: demo_journey_def\<close>)
qed

text \<open>A Workflow whose activity produces the input of a later agent task.\<close>

definition demo_activity :: workflow_def where
  "demo_activity = demo_workflow\<lparr>
     wd_steps :=
       [demo_step ''publish'' ''transition_request'' None [''r''] [],
        demo_step ''write'' ''agent_task'' (Some demo_ref) [''n''] [''r''],
        demo_step ''fetch'' ''activity_request'' None [''b''] [''n'']] \<rparr>"

definition activity_workspace :: workspace where
  "activity_workspace = demo_workspace\<lparr> ws_workflows := [(''wfl'', demo_activity)] \<rparr>"

definition accepted :: "workspace \<Rightarrow> string \<Rightarrow> bool" where
  "accepted ws i =
     (case plan_workflow ws i of Inl _ \<Rightarrow> False | Inr p \<Rightarrow>
       (case validate_plan ws p of Inl _ \<Rightarrow> False | Inr v \<Rightarrow>
         vr_valid v \<and> (case authorize p (Some v) of Inl _ \<Rightarrow> False | Inr a \<Rightarrow> ad_allowed a)))"

text \<open>
  A plan can be valid and authorized and still not run: the runner skips an activity request, so the
  artifact it declares never exists, and the agent task that needs it raises in the middle of the
  journey.
\<close>

lemma skipped_activity_breaks_journey:
  "accepted activity_workspace ''wfl'' \<and>
   run_journey (demo_journey activity_workspace) ''wfl'' [] = Inl (JourneyArtifactUnavailable ''write'' ''n'')"
proof
  show "accepted activity_workspace ''wfl''" by code_simp
  have "(case run_journey (demo_journey activity_workspace) ''wfl'' [] of
      Inl (JourneyArtifactUnavailable s a) \<Rightarrow> s = ''write'' \<and> a = ''n'' | _ \<Rightarrow> False)" by code_simp
  then show "run_journey (demo_journey activity_workspace) ''wfl'' [] = Inl (JourneyArtifactUnavailable ''write'' ''n'')"
    by (auto split: sum.splits journey_error.splits)
qed

end
