(* ===== verification/Addresses.thy ===== *)
theory Addresses
  imports Numerals "HOL-Library.Word"
begin

text \<open>
  What the network code uses of Python's \<open>ipaddress\<close> module: \<open>ip_address\<close>, \<open>ip_network\<close> with
  \<open>strict=False\<close>, \<open>str\<close>, and \<open>address in network\<close>. An IPv4 address is a 32 bit word and its text,
  netmask and hostmask syntax is modelled; of IPv6 only the text syntax of an address is left as
  an argument (\<open>syntax6\<close>), its networks and containment are modelled like those of IPv4.
\<close>

unbundle bit_operations_syntax

section \<open>Addresses and networks\<close>

type_synonym v4 = "32 word"
type_synonym v6 = "128 word"

datatype address = V4 v4 | V6 v6

text \<open>A network: its base address, with the bits outside the prefix cleared, and the prefix length.\<close>

datatype network = Net4 v4 nat | Net6 v6 nat

record syntax6 =
  read6 :: "string \<Rightarrow> v6 option"
  show6 :: "v6 \<Rightarrow> string"

section \<open>The text of an address\<close>

definition read_octet :: "string \<Rightarrow> nat option" where
  "read_octet s =
     (if numeral_part s \<and> length s \<le> 3 \<and> int_of_digits s \<le> 255 then Some (int_of_digits s) else None)"

definition word_of_octets :: "nat \<Rightarrow> nat \<Rightarrow> nat \<Rightarrow> nat \<Rightarrow> v4" where
  "word_of_octets a b c d = word_of_nat (((a * 256 + b) * 256 + c) * 256 + d)"

definition read4 :: "string \<Rightarrow> v4 option" where
  "read4 s =
     (case map read_octet (split_on CHR ''.'' s) of
        [Some a, Some b, Some c, Some d] \<Rightarrow> Some (word_of_octets a b c d)
      | _ \<Rightarrow> None)"

definition octet :: "nat \<Rightarrow> v4 \<Rightarrow> nat" where
  "octet k w = unat w div 256 ^ k mod 256"

definition show4 :: "v4 \<Rightarrow> string" where
  "show4 w = join_with ''.'' (map (\<lambda>k. digits_of (octet k w)) [3, 2, 1, 0])"

definition ip_address :: "syntax6 \<Rightarrow> string \<Rightarrow> address option" where
  "ip_address X s = (case read4 s of Some w \<Rightarrow> Some (V4 w) | None \<Rightarrow> map_option V6 (read6 X s))"

definition show_address :: "syntax6 \<Rightarrow> address \<Rightarrow> string" where
  "show_address X a = (case a of V4 w \<Rightarrow> show4 w | V6 w \<Rightarrow> show6 X w)"

section \<open>Prefix lengths and masks\<close>

definition netmask :: "nat \<Rightarrow> 'w::len word" where
  "netmask n = NOT (mask (LENGTH('w) - n))"

text \<open>\<open>_prefix_from_ip_int\<close>: ones, then zeros.\<close>

definition trailing_zeros :: "v4 \<Rightarrow> nat" where
  "trailing_zeros w = length (takeWhile (\<lambda>i. \<not> bit w i) [0..<32])"

definition prefix_of_mask :: "v4 \<Rightarrow> nat option" where
  "prefix_of_mask w =
     (let zeros = trailing_zeros w; n = 32 - zeros
      in if drop_bit zeros w = mask n then Some n else None)"

text \<open>\<open>_prefix_from_prefix_string\<close>: decimal digits, leading zeros allowed.\<close>

definition read_prefix :: "nat \<Rightarrow> string \<Rightarrow> nat option" where
  "read_prefix limit s =
     (if s \<noteq> [] \<and> list_all is_digit s \<and> int_of_digits s \<le> limit then Some (int_of_digits s) else None)"

text \<open>\<open>_make_netmask\<close>: a prefix length, a netmask, or a hostmask.\<close>

definition read_mask :: "string \<Rightarrow> nat option" where
  "read_mask s =
     (case read_prefix 32 s of
        Some n \<Rightarrow> Some n
      | None \<Rightarrow> (case read4 s of
            None \<Rightarrow> None
          | Some m \<Rightarrow> (case prefix_of_mask m of Some n \<Rightarrow> Some n | None \<Rightarrow> prefix_of_mask (NOT m))))"

definition network4 :: "v4 \<Rightarrow> nat \<Rightarrow> network" where
  "network4 w n = Net4 (w AND netmask n) n"

definition network6 :: "v6 \<Rightarrow> nat \<Rightarrow> network" where
  "network6 w n = Net6 (w AND netmask n) n"

definition read_network4 :: "string \<Rightarrow> network option" where
  "read_network4 s =
     (case split_on CHR ''/'' s of
        [a] \<Rightarrow> map_option (\<lambda>w. network4 w 32) (read4 a)
      | [a, m] \<Rightarrow> (case (read4 a, read_mask m) of (Some w, Some n) \<Rightarrow> Some (network4 w n) | _ \<Rightarrow> None)
      | _ \<Rightarrow> None)"

definition read_network6 :: "syntax6 \<Rightarrow> string \<Rightarrow> network option" where
  "read_network6 X s =
     (case split_on CHR ''/'' s of
        [a] \<Rightarrow> map_option (\<lambda>w. network6 w 128) (read6 X a)
      | [a, m] \<Rightarrow> (case (read6 X a, read_prefix 128 m) of (Some w, Some n) \<Rightarrow> Some (network6 w n) | _ \<Rightarrow> None)
      | _ \<Rightarrow> None)"

definition ip_network :: "syntax6 \<Rightarrow> string \<Rightarrow> network option" where
  "ip_network X s = (case read_network4 s of Some n \<Rightarrow> Some n | None \<Rightarrow> read_network6 X s)"

definition show_network :: "syntax6 \<Rightarrow> network \<Rightarrow> string" where
  "show_network X n =
     (case n of
        Net4 w k \<Rightarrow> show4 w @ ''/'' @ digits_of k
      | Net6 w k \<Rightarrow> show6 X w @ ''/'' @ digits_of k)"

text \<open>\<open>address in network\<close>: False between versions.\<close>

fun contains :: "network \<Rightarrow> address \<Rightarrow> bool" where
  "contains (Net4 base n) (V4 w) = (w AND netmask n = base)"
| "contains (Net6 base n) (V6 w) = (w AND netmask n = base)"
| "contains n a = False"

fun prefix_length :: "network \<Rightarrow> nat" where
  "prefix_length (Net4 w n) = n"
| "prefix_length (Net6 w n) = n"

section \<open>Evaluation on words\<close>

lemma word_of_octets_code [code]:
  "word_of_octets a b c d = ((word_of_nat a * 256 + word_of_nat b) * 256 + word_of_nat c) * 256 + word_of_nat d"
  by (simp add: word_of_octets_def)

lemma octet_code [code]: "octet k w = unat (drop_bit (8 * k) w AND mask 8)"
proof -
  have "unat w < 2 ^ 32" using unsigned_less[of w] by simp
  then have "unat (drop_bit (8 * k) w AND mask 8) = take_bit 8 (drop_bit (8 * k) (unat w))"
    by (simp only: take_bit_eq_mask[symmetric] unsigned_take_bit_eq unsigned_drop_bit_eq) (simp add: take_bit_nat_eq_self)
  then show ?thesis by (simp add: octet_def take_bit_eq_mod drop_bit_eq_div power_mult)
qed

section \<open>Round trips\<close>

lemma word_of_octets_octet: "word_of_octets (octet 3 w) (octet 2 w) (octet 1 w) (octet 0 w) = w"
proof -
  let ?u = "unat w"
  have "?u < 2 ^ 32" using unsigned_less[of w] by simp
  then have "octet 3 w = ?u div 256 div 256 div 256" by (simp add: octet_def div_mult2_eq[symmetric] less_mult_imp_div_less)
  moreover have "octet 2 w = ?u div 256 div 256 mod 256" "octet 1 w = ?u div 256 mod 256" "octet 0 w = ?u mod 256"
    by (simp_all add: octet_def div_mult2_eq[symmetric])
  ultimately have "((octet 3 w * 256 + octet 2 w) * 256 + octet 1 w) * 256 + octet 0 w = ?u"
    by (simp only: div_mult_mod_eq)
  then show ?thesis by (simp add: word_of_octets_def)
qed

lemma octet_bound: "octet k w \<le> 255"
  using mod_less_divisor[of 256 "unat w div 256 ^ k"] unfolding octet_def by linarith

lemma digits_of_length3: "n \<le> 255 \<Longrightarrow> length (digits_of n) \<le> 3"
  by (simp add: digits_of.simps)

lemma read_octet_digits [simp]: "read_octet (digits_of (octet k w)) = Some (octet k w)"
  using octet_bound[of k w] by (simp add: read_octet_def digits_of_length3)

lemma digits_no_separator: "\<not> is_digit c \<Longrightarrow> c \<notin> set (digits_of n)"
  using digits_of_digits[of n] by (auto simp: list_all_iff)

lemma separators: "\<not> is_digit CHR ''.''" "\<not> is_digit CHR ''/''"
  by code_simp+

lemma split_show4: "split_on CHR ''.'' (show4 w) = map (\<lambda>k. digits_of (octet k w)) [3, 2, 1, 0]"
  using digits_no_separator[OF separators(1)] by (simp add: show4_def)

lemma read4_show4 [simp]: "read4 (show4 w) = Some w"
  using word_of_octets_octet[of w] by (simp add: read4_def split_show4)

lemma show4_no_slash: "CHR ''/'' \<notin> set (show4 w)"
  using digits_no_separator[OF separators(2)] by (auto simp: show4_def)

lemma read_prefix_digits: "n \<le> limit \<Longrightarrow> read_prefix limit (digits_of n) = Some n"
  using digits_of_digits[of n] by (simp add: read_prefix_def)

text \<open>A network in normal form.\<close>

fun normal :: "network \<Rightarrow> bool" where
  "normal (Net4 w n) = (n \<le> 32 \<and> w AND netmask n = w)"
| "normal (Net6 w n) = (n \<le> 128 \<and> w AND netmask n = w)"

lemma read_show_network4: "normal (Net4 w n) \<Longrightarrow> ip_network X (show_network X (Net4 w n)) = Some (Net4 w n)"
  using show4_no_slash[of w] digits_no_separator[OF separators(2), of n] read_prefix_digits[of n 32]
  by (simp add: ip_network_def show_network_def read_network4_def read_mask_def network4_def)

section \<open>Containment\<close>

lemma netmask_agree: "w AND netmask n = b AND netmask n \<longleftrightarrow> drop_bit (LENGTH('w) - n) w = drop_bit (LENGTH('w) - n) b"
  for w b :: "'w::len word"
proof -
  have "(\<forall>i<LENGTH('w). bit (w AND netmask n) i = bit (b AND netmask n) i) \<longleftrightarrow>
      (\<forall>i<LENGTH('w). LENGTH('w) - n \<le> i \<longrightarrow> bit w i = bit b i)"
    by (auto simp: netmask_def bit_simps)
  also have "\<dots> \<longleftrightarrow> (\<forall>i<LENGTH('w). bit (drop_bit (LENGTH('w) - n) w) i = bit (drop_bit (LENGTH('w) - n) b) i)"
  proof (rule iffI; intro allI impI)
    fix i assume a: "\<forall>i<LENGTH('w). LENGTH('w) - n \<le> i \<longrightarrow> bit w i = bit b i" "i < LENGTH('w)"
    show "bit (drop_bit (LENGTH('w) - n) w) i = bit (drop_bit (LENGTH('w) - n) b) i"
      using a(1)[rule_format, of "LENGTH('w) - n + i"] bit_imp_le_length[of w "LENGTH('w) - n + i"]
        bit_imp_le_length[of b "LENGTH('w) - n + i"]
      by (auto simp: bit_drop_bit_eq)
  next
    fix i assume a: "\<forall>i<LENGTH('w). bit (drop_bit (LENGTH('w) - n) w) i = bit (drop_bit (LENGTH('w) - n) b) i"
      "i < LENGTH('w)" "LENGTH('w) - n \<le> i"
    show "bit w i = bit b i"
      using a(1)[rule_format, of "i - (LENGTH('w) - n)"] a(2,3) by (simp add: bit_drop_bit_eq)
  qed
  finally show ?thesis by (simp add: bit_eq_iff)
qed

lemma netmask_twice [simp]: "w AND netmask n AND netmask n = w AND netmask n" for w :: "'w::len word"
  by (rule bit_eqI) (auto simp: bit_simps)

lemma contains_iff: "contains (network4 b n) (V4 w) \<longleftrightarrow> drop_bit (32 - n) w = drop_bit (32 - n) b"
  using netmask_agree[of w n b] by (simp add: network4_def)

lemma normal_network4: "n \<le> 32 \<Longrightarrow> normal (network4 w n)"
  by (simp add: network4_def)

end
