(* ===== verification/ThreeValued.thy ===== *)
theory ThreeValued
  imports Results
begin

text \<open>
  Three-valued matching, as the policy, access-list and firewall evaluations of the network code
  share it: the conjunction of checks, the two kinds of first-match walk, and the interface
  \<open>three_valued\<close>: a verdict that more information can only turn from undecided to decided. What the
  walks conclude is then stable under more information.
\<close>

section \<open>Three-valued checks\<close>

text \<open>\<open>None\<close> is \<open>cannot tell\<close>. A rule applies if all its checks do.\<close>

definition all_checks :: "bool option list \<Rightarrow> bool option" where
  "all_checks vs =
     (if Some False \<in> set vs then Some False else if None \<in> set vs then None else Some True)"

text \<open>A constraint against a declared value: no constraint is satisfied, an undeclared value undecided.\<close>

definition check_declared :: "('a \<Rightarrow> 'b \<Rightarrow> bool) \<Rightarrow> 'a option \<Rightarrow> 'b option \<Rightarrow> bool option" where
  "check_declared holds constraint declared =
     (case constraint of None \<Rightarrow> Some True | Some c \<Rightarrow> map_option (holds c) declared)"

text \<open>First match wins; rules that cannot be decided are collected on the way.\<close>

fun walk :: "('r \<Rightarrow> bool option) \<Rightarrow> 'r list \<Rightarrow> 'r list \<Rightarrow> 'r option \<times> 'r list" where
  "walk verdict undetermined [] = (None, undetermined)"
| "walk verdict undetermined (r # rs) =
     (case verdict r of
        Some True \<Rightarrow> (Some r, undetermined)
      | Some False \<Rightarrow> walk verdict undetermined rs
      | None \<Rightarrow> walk verdict (undetermined @ [r]) rs)"

text \<open>First match wins, and the walk cannot continue past a rule that cannot be decided.\<close>

fun first_applicable :: "('r \<Rightarrow> bool option) \<Rightarrow> 'r list \<Rightarrow> ('r \<times> bool) option" where
  "first_applicable verdict [] = None"
| "first_applicable verdict (r # rs) =
     (case verdict r of
        Some True \<Rightarrow> Some (r, True)
      | Some False \<Rightarrow> first_applicable verdict rs
      | None \<Rightarrow> Some (r, False))"

section \<open>Checks\<close>

lemma all_checks_True: "all_checks vs = Some True \<longleftrightarrow> (\<forall>v\<in>set vs. v = Some True)"
proof -
  have "(Some False \<notin> set vs \<and> None \<notin> set vs) = (\<forall>v\<in>set vs. v = Some True)"
  proof (induction vs)
    case (Cons v vs)
    then show ?case by (cases v) auto
  qed simp
  then show ?thesis unfolding all_checks_def by (auto split: if_splits)
qed

lemma all_checks_False: "all_checks vs = Some False \<longleftrightarrow> Some False \<in> set vs"
  by (simp add: all_checks_def)

text \<open>Check by check, a decided verdict stays as it is.\<close>

definition settles :: "'a option \<Rightarrow> 'a option \<Rightarrow> bool" where
  "settles v w \<longleftrightarrow> v = None \<or> v = w"

lemma settles_refl [simp, intro]: "settles v v"
  by (simp add: settles_def)

lemma settles_None [simp, intro]: "settles None v"
  by (simp add: settles_def)

lemma settlesD: "settles v w \<Longrightarrow> v = Some b \<Longrightarrow> w = Some b"
  by (simp add: settles_def)

lemma all_checks_settles:
  assumes "list_all2 settles vs ws"
  shows "settles (all_checks vs) (all_checks ws)"
proof -
  have "all_checks ws = Some b" if b: "all_checks vs = Some b" for b
  proof (cases b)
    case True
    with b have "\<forall>v\<in>set vs. v = Some True" by (simp add: all_checks_True)
    with assms have "\<forall>w\<in>set ws. w = Some True"
      by (induction rule: list_all2_induct) (auto simp: settles_def)
    with True show ?thesis by (simp add: all_checks_True)
  next
    case False
    with b have "Some False \<in> set vs" by (simp add: all_checks_False)
    with assms have "Some False \<in> set ws"
      by (induction rule: list_all2_induct) (auto simp: settles_def)
    with False show ?thesis by (simp add: all_checks_False)
  qed
  then show ?thesis by (cases "all_checks vs") (auto simp: settles_def)
qed

lemma check_declared_settles: "settles d e \<Longrightarrow> settles (check_declared holds c d) (check_declared holds c e)"
  by (auto simp: check_declared_def settles_def split: option.splits)

section \<open>Walks\<close>

lemma walk_collects: "walk p u rs = (c, v) \<Longrightarrow> set u \<subseteq> set v"
  by (induction rs arbitrary: u) (fastforce split: option.splits bool.splits)+

lemma walk_decided:
  "\<forall>r\<in>set rs. p r \<noteq> None \<Longrightarrow> walk p u rs = (find (\<lambda>r. p r = Some True) rs, u)"
  by (induction rs arbitrary: u) (auto split: option.splits bool.splits)

lemma walk_chosen: "walk p u rs = (Some r, v) \<Longrightarrow> r \<in> set rs \<and> p r = Some True"
  by (induction rs arbitrary: u) (auto split: option.splits bool.splits)

lemma applicable_decided:
  "\<forall>r\<in>set rs. p r \<noteq> None \<Longrightarrow>
     first_applicable p rs = map_option (\<lambda>r. (r, True)) (find (\<lambda>r. p r = Some True) rs)"
  by (induction rs) (auto split: option.splits bool.splits)

section \<open>More information\<close>

locale three_valued =
  fixes verdict :: "'i \<Rightarrow> 'r \<Rightarrow> bool option"
    and finer :: "'i \<Rightarrow> 'i \<Rightarrow> bool"
  assumes stable: "finer i j \<Longrightarrow> settles (verdict i r) (verdict j r)"
begin

lemma walk_refined:
  assumes "finer i j" "walk (verdict i) u rs = (c, u')" "walk (verdict j) v rs = (c', v')" "set v \<subseteq> set u"
  shows "(c' = c \<or> (\<exists>r\<in>set u'. c' = Some r)) \<and> set v' \<subseteq> set u'"
  using assms(2-4)
proof (induction rs arbitrary: u v)
  case (Cons r rs)
  show ?case
  proof (cases "verdict i r")
    case (Some b)
    with stable[OF assms(1), of r] have "verdict j r = Some b" by (simp add: settles_def)
    with Some Cons show ?thesis by (cases b) auto
  next
    case None
    with Cons.prems(1) have i: "walk (verdict i) (u @ [r]) rs = (c, u')" by simp
    with walk_collects[OF i] have r: "r \<in> set u'" "set u \<subseteq> set u'" by auto
    show ?thesis
    proof (cases "verdict j r")
      case None
      with Cons.prems(2) have "walk (verdict j) (v @ [r]) rs = (c', v')" by simp
      from Cons.IH[OF i this] Cons.prems(3) show ?thesis by auto
    next
      case (Some b)
      show ?thesis
      proof (cases b)
        case True
        with Some Cons.prems(2) have "c' = Some r" "v' = v" by auto
        with r Cons.prems(3) show ?thesis by auto
      next
        case False
        with Some Cons.prems(2) have "walk (verdict j) v rs = (c', v')" by simp
        from Cons.IH[OF i this] Cons.prems(3) show ?thesis by auto
      qed
    qed
  qed
qed auto

lemma applicable_refined:
  assumes "finer i j"
  shows "first_applicable (verdict i) rs = None \<Longrightarrow> first_applicable (verdict j) rs = None"
    "first_applicable (verdict i) rs = Some (r, True) \<Longrightarrow> first_applicable (verdict j) rs = Some (r, True)"
proof (induction rs)
  case (Cons a rs)
  {
    case 1
    then have a: "verdict i a = Some False" "first_applicable (verdict i) rs = None"
      by (auto split: option.splits bool.splits)
    from settlesD[OF stable[OF assms] a(1)] Cons.IH(1)[OF a(2)] show ?case by simp
  next
    case 2
    then consider "verdict i a = Some True" "r = a" | "verdict i a = Some False" "first_applicable (verdict i) rs = Some (r, True)"
      by (auto split: option.splits bool.splits)
    then show ?case
    proof cases
      case 1
      from settlesD[OF stable[OF assms] 1(1)] 1(2) show ?thesis by simp
    next
      case 2
      from settlesD[OF stable[OF assms] 2(1)] Cons.IH(2)[OF 2(2)] show ?thesis by simp
    qed
  }
qed simp_all

end

end
