(* ===== verification/Patterns.thy ===== *)
theory Patterns
  imports Numerals
begin

text \<open>
  What the parsers of the network code use of Python's text functions: \<open>str.splitlines\<close> and the
  \<open>re\<close> module with its backtracking preference order (the first alternative first, a greedy
  repetition as long as possible, a lazy one as short as possible). A pattern is written as a
  \<open>regex\<close>; \<open>attempt\<close> runs it on a cursor and hands what it consumed to a continuation. Texts are
  ASCII.
\<close>

section \<open>Patterns\<close>

datatype regex =
    Chars "char \<Rightarrow> bool"
  | Nothing
  | Seq regex regex
  | Alt regex regex
  | Star regex
  | Lazy regex
  | Group nat regex
  | AtStart
  | AtEnd
  | WordEdge

text \<open>The character before the cursor, the text after it, and the groups matched so far.\<close>

record cursor =
  cu_before :: "char option"
  cu_rest :: string
  cu_groups :: "(nat \<times> string) list"

definition is_word_char :: "char \<Rightarrow> bool" where
  "is_word_char c \<longleftrightarrow> (let n = (of_char c :: nat) in
     48 \<le> n \<and> n \<le> 57 \<or> 65 \<le> n \<and> n \<le> 90 \<or> n = 95 \<or> 97 \<le> n \<and> n \<le> 122)"

definition word_edge :: "cursor \<Rightarrow> bool" where
  "word_edge c \<longleftrightarrow>
     (case cu_before c of None \<Rightarrow> False | Some d \<Rightarrow> is_word_char d) \<noteq>
     (case cu_rest c of [] \<Rightarrow> False | d # _ \<Rightarrow> is_word_char d)"

definition step_over :: "(char \<Rightarrow> bool) \<Rightarrow> cursor \<Rightarrow> cursor option" where
  "step_over p c =
     (case cu_rest c of
        [] \<Rightarrow> None
      | d # s \<Rightarrow> if p d then Some (c\<lparr>cu_before := Some d, cu_rest := s\<rparr>) else None)"

text \<open>Every round of a repetition consumes a character, so the length of the text bounds the rounds.\<close>

fun greedy ::
  "nat \<Rightarrow> ((cursor \<Rightarrow> 'a option) \<Rightarrow> cursor \<Rightarrow> 'a option) \<Rightarrow> (cursor \<Rightarrow> 'a option) \<Rightarrow> cursor \<Rightarrow> 'a option" where
  "greedy 0 body k c = k c"
| "greedy (Suc n) body k c =
     (case body (\<lambda>d. if length (cu_rest d) < length (cu_rest c) then greedy n body k d else None) c of
        None \<Rightarrow> k c
      | found \<Rightarrow> found)"

fun lazily ::
  "nat \<Rightarrow> ((cursor \<Rightarrow> 'a option) \<Rightarrow> cursor \<Rightarrow> 'a option) \<Rightarrow> (cursor \<Rightarrow> 'a option) \<Rightarrow> cursor \<Rightarrow> 'a option" where
  "lazily 0 body k c = k c"
| "lazily (Suc n) body k c =
     (case k c of
        None \<Rightarrow> body (\<lambda>d. if length (cu_rest d) < length (cu_rest c) then lazily n body k d else None) c
      | found \<Rightarrow> found)"

primrec attempt :: "regex \<Rightarrow> (cursor \<Rightarrow> 'a option) \<Rightarrow> cursor \<Rightarrow> 'a option" where
  "attempt (Chars p) k c = (case step_over p c of None \<Rightarrow> None | Some d \<Rightarrow> k d)"
| "attempt Nothing k c = k c"
| "attempt (Seq r q) k c = attempt r (attempt q k) c"
| "attempt (Alt r q) k c = (case attempt r k c of None \<Rightarrow> attempt q k c | found \<Rightarrow> found)"
| "attempt (Star r) k c = greedy (length (cu_rest c)) (attempt r) k c"
| "attempt (Lazy r) k c = lazily (length (cu_rest c)) (attempt r) k c"
| "attempt (Group i r) k c =
     attempt r (\<lambda>d. k (d\<lparr>cu_groups :=
       (i, take (length (cu_rest c) - length (cu_rest d)) (cu_rest c)) # cu_groups d\<rparr>)) c"
| "attempt AtStart k c = (if cu_before c = None then k c else None)"
| "attempt AtEnd k c = (if cu_rest c = [] \<or> cu_rest c = [CHR 0x0A] then k c else None)"
| "attempt WordEdge k c = (if word_edge c then k c else None)"

section \<open>Abbreviated patterns\<close>

definition optional :: "regex \<Rightarrow> regex" where
  "optional r = Alt r Nothing"

definition some :: "regex \<Rightarrow> regex" where
  "some r = Seq r (Star r)"

fun in_turn :: "regex list \<Rightarrow> regex" where
  "in_turn [] = Nothing"
| "in_turn [r] = r"
| "in_turn (r # rs) = Seq r (in_turn rs)"

fun one_of :: "regex list \<Rightarrow> regex" where
  "one_of [r] = r"
| "one_of (r # rs) = Alt r (one_of rs)"
| "one_of [] = Chars (\<lambda>_. False)"

text \<open>A literal text, ignoring case.\<close>

definition literal :: "string \<Rightarrow> regex" where
  "literal t = in_turn (map (\<lambda>c. Chars (\<lambda>d. lower_char d = lower_char c)) t)"

definition exactly :: "char \<Rightarrow> regex" where
  "exactly c = Chars (\<lambda>d. d = c)"

definition any_char :: regex where
  "any_char = Chars (\<lambda>c. c \<noteq> CHR 0x0A)"

definition spaces :: regex where
  "spaces = some (Chars is_space)"

definition blanks :: regex where
  "blanks = Star (Chars is_space)"

definition token :: regex where
  "token = some (Chars (\<lambda>c. \<not> is_space c))"

definition digits :: regex where
  "digits = some (Chars is_digit)"

section \<open>Match, search and substitution\<close>

type_synonym groups = "nat \<Rightarrow> string option"

definition at_cursor :: "char option \<Rightarrow> string \<Rightarrow> cursor" where
  "at_cursor prev s = \<lparr> cu_before = prev, cu_rest = s, cu_groups = [] \<rparr>"

definition re_match :: "regex \<Rightarrow> string \<Rightarrow> groups option" where
  "re_match r s = map_option (\<lambda>d. map_of (cu_groups d)) (attempt r Some (at_cursor None s))"

fun search_from :: "regex \<Rightarrow> char option \<Rightarrow> string \<Rightarrow> groups option" where
  "search_from r prev s =
     (case attempt r Some (at_cursor prev s) of
        Some d \<Rightarrow> Some (map_of (cu_groups d))
      | None \<Rightarrow> (case s of [] \<Rightarrow> None | c # t \<Rightarrow> search_from r (Some c) t))"

definition re_search :: "regex \<Rightarrow> string \<Rightarrow> groups option" where
  "re_search r s = search_from r None s"

text \<open>\<open>r.sub("", s)\<close>: the text without the matches; a match that consumes nothing removes nothing.\<close>

function remove_from :: "regex \<Rightarrow> char option \<Rightarrow> string \<Rightarrow> string" where
  "remove_from r prev s =
     (case attempt r Some (at_cursor prev s) of
        Some d \<Rightarrow>
          if length (cu_rest d) < length s then remove_from r (cu_before d) (cu_rest d)
          else (case s of [] \<Rightarrow> [] | c # t \<Rightarrow> c # remove_from r (Some c) t)
      | None \<Rightarrow> (case s of [] \<Rightarrow> [] | c # t \<Rightarrow> c # remove_from r (Some c) t))"
  by pat_completeness auto
termination remove_from
  by (relation "measure (\<lambda>(_, _, s). length s)") auto

definition re_remove :: "regex \<Rightarrow> string \<Rightarrow> string" where
  "re_remove r s = remove_from r None s"

text \<open>A group that took part in the match, as the code reads it; the empty text stands for none.\<close>

definition grouped :: "groups \<Rightarrow> nat \<Rightarrow> string" where
  "grouped g i = (case g i of None \<Rightarrow> [] | Some s \<Rightarrow> s)"

section \<open>Lines\<close>

text \<open>\<open>s.rstrip()\<close> and \<open>s.splitlines()\<close>.\<close>

definition rstrip :: "string \<Rightarrow> string" where
  "rstrip s = List.rev (dropWhile is_space (List.rev s))"

definition line_break :: "char \<Rightarrow> bool" where
  "line_break c \<longleftrightarrow> (let n = (of_char c :: nat) in 10 \<le> n \<and> n \<le> 13 \<or> 28 \<le> n \<and> n \<le> 30)"

function splitlines :: "string \<Rightarrow> string list" where
  "splitlines s =
     (if s = [] then []
      else takeWhile (\<lambda>c. \<not> line_break c) s #
        (case dropWhile (\<lambda>c. \<not> line_break c) s of
           [] \<Rightarrow> []
         | c # t \<Rightarrow>
             (case t of
                d # u \<Rightarrow> if c = CHR 0x0D \<and> d = CHR 0x0A then splitlines u else splitlines t
              | [] \<Rightarrow> [])))"
  by pat_completeness auto

lemma after_line: "dropWhile p s = c # t \<Longrightarrow> length t < length s"
  using length_dropWhile_le[of p s] by simp

termination splitlines
proof (relation "measure length", goal_cases)
  case (2 s c t d u)
  then show ?case using after_line[of "\<lambda>c. \<not> line_break c" s c t] by simp
next
  case (3 s c t d u)
  then show ?case using after_line[of "\<lambda>c. \<not> line_break c" s c t] by simp
qed simp

declare search_from.simps [simp del] remove_from.simps [simp del] splitlines.simps [simp del]

end
