(* ===== verification/AccessLists.thy ===== *)
theory AccessLists
  imports Addresses ThreeValued Patterns
begin

text \<open>
  Router access lists (\<open>path_intelligence/policy.py\<close>): the parser of a captured configuration into
  access-list rules and their interface bindings, the three-valued match of a rule against a
  declared packet, and the first-match walk with its implicit deny. Texts are ASCII; the files the
  configurations come from are not modelled.
\<close>

section \<open>The declared packet\<close>

text \<open>The keys of \<open>intent\<close> as the code reads them, \<open>str(intent.get(key) or "")\<close>.\<close>

record packet =
  pk_protocol :: string
  pk_port :: string
  pk_source :: string

definition all_digits :: "string \<Rightarrow> bool" where
  "all_digits s \<longleftrightarrow> s \<noteq> [] \<and> list_all is_digit s"

section \<open>Rules\<close>

definition service_ports :: "(string \<times> nat) list" where
  "service_ports =
     [(''ftp-data'', 20), (''ftp'', 21), (''ssh'', 22), (''telnet'', 23), (''smtp'', 25),
      (''domain'', 53), (''bootps'', 67), (''bootpc'', 68), (''tftp'', 69), (''www'', 80),
      (''http'', 80), (''pop3'', 110), (''ntp'', 123), (''snmp'', 161), (''snmptrap'', 162),
      (''bgp'', 179), (''https'', 443), (''syslog'', 514), (''isakmp'', 500), (''rip'', 520),
      (''lpd'', 515), (''nntp'', 119), (''pim-auto-rp'', 496), (''exec'', 512),
      (''login'', 513), (''domain-s'', 853)]"

definition acl_protocols :: "string list" where
  "acl_protocols =
     [''ip'', ''tcp'', ''udp'', ''icmp'', ''igmp'', ''gre'', ''esp'', ''ahp'', ''ospf'', ''eigrp'', ''pim'', ''sctp'']"

definition interface_prefixes :: "(string \<times> string) list" where
  "interface_prefixes =
     [(''fa'', ''fastethernet''), (''gi'', ''gigabitethernet''), (''ge'', ''gigabitethernet''),
      (''te'', ''tengigabitethernet''), (''twe'', ''twentyfivegigabitethernet''),
      (''fo'', ''fortygigabitethernet''), (''hu'', ''hundredgigabitethernet''), (''et'', ''ethernet''),
      (''eth'', ''ethernet''), (''po'', ''port-channel''), (''lo'', ''loopback''), (''vl'', ''vlan''),
      (''tu'', ''tunnel''), (''se'', ''serial''), (''ma'', ''management''), (''mgmt'', ''management'')]"

definition interface_name :: regex where
  "interface_name = in_turn [AtStart,
     Group 1 (some (Chars (\<lambda>c. 97 \<le> (of_char c :: nat) \<and> (of_char c :: nat) \<le> 122 \<or> c = CHR ''-''))),
     blanks, Group 2 (Star any_char), AtEnd]"

definition canonical_interface :: "string \<Rightarrow> string" where
  "canonical_interface name =
     (let folded = filter (\<lambda>c. c \<noteq> CHR '' '') (lower (strip name))
      in case re_match interface_name folded of
           None \<Rightarrow> folded
         | Some g \<Rightarrow>
             (let alpha = grouped g 1
              in (if alpha \<in> snd ` set interface_prefixes then alpha
                  else (case map_of interface_prefixes alpha of Some full \<Rightarrow> full | None \<Rightarrow> alpha)) @ grouped g 2))"

record port_match =
  pm_op :: string
  pm_values :: "nat list"
  pm_raw :: string

definition port_matches :: "port_match \<Rightarrow> nat \<Rightarrow> bool option" where
  "port_matches m port =
     (case pm_values m of
        [] \<Rightarrow> None
      | v # vs \<Rightarrow>
          if pm_op m = ''eq'' then Some (port \<in> set (v # vs))
          else if pm_op m = ''neq'' then Some (port \<notin> set (v # vs))
          else if pm_op m = ''gt'' then Some (port > v)
          else if pm_op m = ''lt'' then Some (port < v)
          else if pm_op m = ''range'' \<and> length vs = 1 then Some (v \<le> port \<and> port \<le> hd vs)
          else None)"

record acl_rule =
  ar_acl :: string
  ar_action :: string
  ar_protocol :: string
  ar_source :: string
  ar_destination :: string
  ar_line :: nat
  ar_sequence :: "nat option"
  ar_source_port :: "port_match option"
  ar_destination_port :: "port_match option"
  ar_qualifiers :: "string list"
  ar_raw :: string

definition cite :: "string \<Rightarrow> acl_rule \<Rightarrow> string" where
  "cite source_path r =
     ''ACL '' @ ar_acl r @ '' ('' @
     (if source_path = [] then ''line '' else source_path @ '':'') @ digits_of (ar_line r) @ ''): '' @ ar_raw r"

record acl_binding =
  ab_interface :: string
  ab_direction :: string
  ab_acl :: string
  ab_line :: nat

record device_policy =
  dp_hostname :: string
  dp_source_path :: string
  dp_rules :: "(string \<times> acl_rule list) list"
  dp_bindings :: "acl_binding list"
  dp_unparsed :: "string list"

definition bindings_for :: "device_policy \<Rightarrow> string \<Rightarrow> string \<Rightarrow> acl_binding list" where
  "bindings_for p interface direction =
     filter (\<lambda>b. ab_direction b = direction \<and>
       canonical_interface (ab_interface b) = canonical_interface interface) (dp_bindings p)"

section \<open>The body of a rule\<close>

text \<open>\<open>None\<close> is the \<open>IndexError\<close> or \<open>ValueError\<close> the caller turns into an unparsed rule.\<close>

definition parse_endpoint :: "syntax6 \<Rightarrow> string list \<Rightarrow> (string \<times> string list) option" where
  "parse_endpoint X tokens =
     (case tokens of
        [] \<Rightarrow> None
      | t # ts \<Rightarrow>
          if lower t = ''any'' then Some (''any'', ts)
          else (case ts of
                  [] \<Rightarrow> None
                | u # us \<Rightarrow>
                    if lower t = ''host'' then
                      (if ip_address X u = None then None else Some (''host '' @ u, us))
                    else if lower t \<in> {''object-group'', ''addrgroup''} then Some (lower t @ '' '' @ u, us)
                    else if ip_address X t = None \<or> ip_address X u = None then None
                    else Some (t @ '' '' @ u, us)))"

fun port_values :: "string list \<Rightarrow> nat list option" where
  "port_values [] = Some []"
| "port_values (n # ns) =
     (case (if all_digits n then Some (int_of_digits n) else map_of service_ports (lower n)) of
        None \<Rightarrow> None
      | Some v \<Rightarrow> map_option ((#) v) (port_values ns))"

definition parse_port :: "string list \<Rightarrow> port_match option \<times> string list" where
  "parse_port tokens =
     (case tokens of
        [] \<Rightarrow> (None, tokens)
      | t # ts \<Rightarrow>
          if lower t \<notin> {''eq'', ''neq'', ''gt'', ''lt'', ''range''} then (None, tokens)
          else (let count = (if lower t = ''range'' then 2 else 1); names = take count ts
                in (Some \<lparr> pm_op = lower t,
                      pm_values = (case port_values names of None \<Rightarrow> [] | Some vs \<Rightarrow> vs),
                      pm_raw = join_with '' '' (lower t # names) \<rparr>, drop count ts)))"

text \<open>What the caller knows about a rule: its list, action, line, sequence, kind of list and text.\<close>

record acl_entry =
  rl_acl :: string
  rl_action :: string
  rl_line :: nat
  rl_sequence :: "nat option"
  rl_extended :: bool
  rl_raw :: string

definition parse_standard :: "syntax6 \<Rightarrow> acl_entry \<Rightarrow> string list \<Rightarrow> acl_rule option" where
  "parse_standard X l tokens =
     (case parse_endpoint X tokens of
        None \<Rightarrow> None
      | Some (source, rest) \<Rightarrow>
          Some \<lparr> ar_acl = rl_acl l, ar_action = rl_action l, ar_protocol = ''ip'', ar_source = source,
            ar_destination = ''any'', ar_line = rl_line l, ar_sequence = rl_sequence l,
            ar_source_port = None, ar_destination_port = None, ar_qualifiers = rest, ar_raw = rl_raw l \<rparr>)"

definition parse_extended :: "syntax6 \<Rightarrow> acl_entry \<Rightarrow> string \<Rightarrow> string list \<Rightarrow> acl_rule option" where
  "parse_extended X l protocol tokens =
     (if protocol \<notin> set acl_protocols then None
      else (case parse_endpoint X tokens of
              None \<Rightarrow> None
            | Some (source, after_source) \<Rightarrow>
                (let (source_port, after_port) = parse_port after_source
                 in case parse_endpoint X after_port of
                      None \<Rightarrow> None
                    | Some (destination, after_destination) \<Rightarrow>
                        (let (destination_port, rest) = parse_port after_destination
                         in Some \<lparr> ar_acl = rl_acl l, ar_action = rl_action l, ar_protocol = protocol,
                              ar_source = source, ar_destination = destination, ar_line = rl_line l,
                              ar_sequence = rl_sequence l, ar_source_port = source_port,
                              ar_destination_port = destination_port, ar_qualifiers = map lower rest,
                              ar_raw = rl_raw l \<rparr>))))"

definition parse_rule_body :: "syntax6 \<Rightarrow> acl_entry \<Rightarrow> string \<Rightarrow> acl_rule option" where
  "parse_rule_body X l body =
     (case words_of body of
        [] \<Rightarrow> None
      | t # ts \<Rightarrow> if rl_extended l then parse_extended X l (lower t) ts else parse_standard X l (t # ts))"

section \<open>The configuration\<close>

definition numbered_acl :: regex where
  "numbered_acl = in_turn [AtStart, literal ''access-list'', spaces, Group 1 digits, spaces,
     Group 2 (Alt (literal ''permit'') (literal ''deny'')), spaces, Group 3 (Star any_char), AtEnd]"

definition named_header :: regex where
  "named_header = in_turn [AtStart, literal ''ip'', spaces, literal ''access-list'', spaces,
     Group 1 (Alt (literal ''standard'') (literal ''extended'')), spaces, Group 2 token, blanks, AtEnd]"

definition named_rule :: regex where
  "named_rule = in_turn [AtStart, spaces, optional (Seq (Group 1 digits) spaces),
     Group 2 (Alt (literal ''permit'') (literal ''deny'')), spaces, Group 3 (Star any_char), AtEnd]"

definition interface_line :: regex where
  "interface_line = in_turn [AtStart, literal ''interface'', spaces, Group 1 token]"

definition access_group :: regex where
  "access_group = in_turn [AtStart, spaces, literal ''ip'', spaces, literal ''access-group'', spaces, Group 1 token,
     spaces, Group 2 (Alt (literal ''in'') (literal ''out'')), blanks, AtEnd]"

definition remark_line :: regex where
  "remark_line = in_turn [AtStart, blanks, optional (Seq digits spaces), literal ''remark'', WordEdge]"

text \<open>The open named list, with whether it is extended, and the open interface.\<close>

record acl_state =
  as_rules :: "(string \<times> acl_rule list) list"
  as_unparsed :: "string list"
  as_bindings :: "acl_binding list"
  as_named :: "(string \<times> bool) option"
  as_interface :: "string option"

definition rules_of :: "acl_state \<Rightarrow> string \<Rightarrow> acl_rule list" where
  "rules_of st name = (case map_of (as_rules st) name of None \<Rightarrow> [] | Some rs \<Rightarrow> rs)"

definition keep_rule :: "string \<Rightarrow> acl_rule option \<Rightarrow> acl_state \<Rightarrow> acl_state" where
  "keep_rule name parsed st =
     (case parsed of
        None \<Rightarrow> if name \<in> set (as_unparsed st) then st else st\<lparr>as_unparsed := as_unparsed st @ [name]\<rparr>
      | Some r \<Rightarrow> st\<lparr>as_rules := AList.update name (rules_of st name @ [r]) (as_rules st)\<rparr>)"

definition open_named :: "groups \<Rightarrow> acl_state \<Rightarrow> acl_state" where
  "open_named g st =
     st\<lparr>as_named := Some (grouped g 2, lower (grouped g 1) = ''extended''), as_interface := None,
        as_rules := AList.update (grouped g 2) (rules_of st (grouped g 2)) (as_rules st)\<rparr>"

definition numbered_extended :: "nat \<Rightarrow> bool" where
  "numbered_extended n \<longleftrightarrow> 100 \<le> n \<and> n \<le> 199 \<or> 2000 \<le> n \<and> n \<le> 2699"

definition numbered_line :: "syntax6 \<Rightarrow> nat \<Rightarrow> string \<Rightarrow> groups \<Rightarrow> acl_state \<Rightarrow> acl_state" where
  "numbered_line X n line g st =
     keep_rule (grouped g 1)
       (parse_rule_body X \<lparr> rl_acl = grouped g 1, rl_action = lower (grouped g 2), rl_line = n, rl_sequence = None,
          rl_extended = numbered_extended (int_of_digits (grouped g 1)), rl_raw = strip line \<rparr> (grouped g 3)) st"

definition named_line :: "syntax6 \<Rightarrow> nat \<Rightarrow> string \<Rightarrow> string \<times> bool \<Rightarrow> groups \<Rightarrow> acl_state \<Rightarrow> acl_state" where
  "named_line X n line = (\<lambda>(name, extended) g.
     keep_rule name
       (parse_rule_body X \<lparr> rl_acl = name, rl_action = lower (grouped g 2), rl_line = n,
          rl_sequence = map_option int_of_digits (g 1), rl_extended = extended, rl_raw = strip line \<rparr> (grouped g 3)))"

definition interface_lines :: "nat \<Rightarrow> string \<Rightarrow> acl_state \<Rightarrow> acl_state" where
  "interface_lines n line st =
     (case as_interface st of
        None \<Rightarrow> st
      | Some interface \<Rightarrow>
          (case re_match access_group line of
             None \<Rightarrow> st
           | Some g \<Rightarrow> st\<lparr>as_bindings := as_bindings st @
               [\<lparr> ab_interface = interface, ab_direction = lower (grouped g 2), ab_acl = grouped g 1, ab_line = n \<rparr>]\<rparr>))"

definition close_blocks :: "acl_state \<Rightarrow> acl_state" where
  "close_blocks st = st\<lparr>as_named := None, as_interface := None\<rparr>"

definition indented :: "string \<Rightarrow> bool" where
  "indented line \<longleftrightarrow> (case line of [] \<Rightarrow> False | c # _ \<Rightarrow> c = CHR '' '' \<or> c = CHR 0x09)"

definition block_line :: "syntax6 \<Rightarrow> nat \<Rightarrow> string \<Rightarrow> acl_state \<Rightarrow> acl_state" where
  "block_line X n line st =
     (case re_match numbered_acl line of
        Some g \<Rightarrow> numbered_line X n line g st
      | None \<Rightarrow>
          (case as_named st of
             None \<Rightarrow> interface_lines n line st
           | Some acl \<Rightarrow>
               (case re_match named_rule line of
                  Some g \<Rightarrow> named_line X n line acl g st
                | None \<Rightarrow> interface_lines n line st)))"

definition config_line :: "syntax6 \<Rightarrow> nat \<times> string \<Rightarrow> acl_state \<Rightarrow> acl_state" where
  "config_line X = (\<lambda>(n, raw) st.
     let line = rstrip raw; stripped = strip line
     in if stripped = [] then st
        else if starts_with stripped ''!'' then (if stripped = ''!'' then close_blocks st else st)
        else if re_match remark_line line \<noteq> None then st
        else (case re_match named_header line of
                Some g \<Rightarrow> open_named g st
              | None \<Rightarrow>
                  (case re_match interface_line line of
                     Some g \<Rightarrow> st\<lparr>as_interface := Some (grouped g 1), as_named := None\<rparr>
                   | None \<Rightarrow> block_line X n line (if indented line then st else close_blocks st))))"

definition in_sequence :: "acl_rule list \<Rightarrow> acl_rule list" where
  "in_sequence rs =
     (if \<forall>r\<in>set rs. ar_sequence r \<noteq> None then sort_key (\<lambda>r. the (ar_sequence r)) rs else rs)"

definition parse_device_policy :: "syntax6 \<Rightarrow> string \<Rightarrow> string \<Rightarrow> string \<Rightarrow> device_policy" where
  "parse_device_policy X hostname source_path txt =
     (let st = fold (config_line X) (enumerate 1 (splitlines txt))
        \<lparr> as_rules = [], as_unparsed = [], as_bindings = [], as_named = None, as_interface = None \<rparr>
      in \<lparr> dp_hostname = hostname, dp_source_path = source_path,
           dp_rules = map (\<lambda>(name, rs). (name, in_sequence rs)) (as_rules st),
           dp_bindings = as_bindings st, dp_unparsed = as_unparsed st \<rparr>)"

section \<open>Matching\<close>

definition acl_protocol_check :: "string \<Rightarrow> string \<Rightarrow> bool option" where
  "acl_protocol_check rule_protocol declared =
     (if rule_protocol = ''ip'' then Some True
      else if declared = [] then None else Some (rule_protocol = lower declared))"

text \<open>The parser writes no \<open>host\<close> without an address, so its \<open>IndexError\<close> does not arise.\<close>

definition acl_address_check :: "syntax6 \<Rightarrow> string \<Rightarrow> string \<Rightarrow> bool option" where
  "acl_address_check X spec known =
     (if spec = ''any'' then Some True
      else if known = [] then None
      else (case ip_address X known of
              None \<Rightarrow> None
            | Some a \<Rightarrow>
                if starts_with spec ''host '' then Some (show_address X a = words_of spec ! 1)
                else (case words_of spec of
                        [base, wildcard] \<Rightarrow> map_option (\<lambda>n. contains n a) (ip_network X (base @ ''/'' @ wildcard))
                      | _ \<Rightarrow> None)))"

definition acl_port_check :: "port_match option \<Rightarrow> string \<Rightarrow> bool option" where
  "acl_port_check constraint declared =
     (case constraint of
        None \<Rightarrow> Some True
      | Some m \<Rightarrow> if all_digits declared then port_matches m (int_of_digits declared) else None)"

definition meaningful :: "acl_rule \<Rightarrow> string list" where
  "meaningful r = filter (\<lambda>t. t \<notin> {''log'', ''log-input''}) (ar_qualifiers r)"

definition acl_checks :: "syntax6 \<Rightarrow> packet \<Rightarrow> acl_rule \<Rightarrow> bool option list" where
  "acl_checks X p r =
     [acl_protocol_check (ar_protocol r) (pk_protocol p),
      acl_address_check X (ar_source r) (pk_source p),
      acl_address_check X (ar_destination r) [],
      (if ar_source_port r \<noteq> None then None else Some True),
      acl_port_check (ar_destination_port r) (pk_port p)]"

definition match_rule :: "syntax6 \<Rightarrow> packet \<Rightarrow> acl_rule \<Rightarrow> bool option" where
  "match_rule X p r =
     (if Some False \<in> set (acl_checks X p r) then Some False
      else if meaningful r \<noteq> [] then None
      else all_checks (acl_checks X p r))"

definition evaluate_acl :: "syntax6 \<Rightarrow> packet \<Rightarrow> acl_rule list \<Rightarrow> string \<times> acl_rule option" where
  "evaluate_acl X p rules =
     (case first_applicable (match_rule X p) rules of
        None \<Rightarrow> (''implicit-deny'', None)
      | Some (r, True) \<Rightarrow> (ar_action r, Some r)
      | Some (r, False) \<Rightarrow> (''indeterminate'', Some r))"

record policy_verdict =
  pv_kind :: string
  pv_binding :: acl_binding
  pv_rule :: "acl_rule option"

definition evaluate_binding :: "syntax6 \<Rightarrow> device_policy \<Rightarrow> packet \<Rightarrow> acl_binding \<Rightarrow> policy_verdict" where
  "evaluate_binding X d p b =
     (let rules = (case map_of (dp_rules d) (ab_acl b) of None \<Rightarrow> [] | Some rs \<Rightarrow> rs)
      in if rules = [] \<or> ab_acl b \<in> set (dp_unparsed d)
         then \<lparr> pv_kind = ''unparsed'', pv_binding = b, pv_rule = None \<rparr>
         else (let (kind, rule) = evaluate_acl X p rules
               in \<lparr> pv_kind = kind, pv_binding = b, pv_rule = rule \<rparr>))"

definition evaluate_bindings ::
  "syntax6 \<Rightarrow> device_policy \<Rightarrow> packet \<Rightarrow> (string \<times> string) list \<Rightarrow> policy_verdict list" where
  "evaluate_bindings X d p checkpoints =
     concat (map (\<lambda>(interface, direction).
       if interface = [] then [] else map (evaluate_binding X d p) (bindings_for d interface direction)) checkpoints)"

end
