(* ===== verification/Firewall.thy ===== *)
theory Firewall
  imports AccessLists
begin

text \<open>
  The enforced firewall chain of a device (\<open>path_intelligence/firewall.py\<close>): the three-valued
  match of a chain rule against the declared packet, and the walk of the chain, in which only
  terminal targets decide and the default policy ends the chain.
\<close>

section \<open>Chains\<close>

record chain_rule =
  cr_number :: int
  cr_target :: string
  cr_protocol :: string
  cr_in :: "string option"
  cr_out :: "string option"
  cr_source :: string
  cr_destination :: string
  cr_detail :: "string option"

record chain =
  ch_name :: string
  ch_default :: string
  ch_rules :: "chain_rule list"

datatype chain_action = Permit | Deny

definition upper :: "string \<Rightarrow> string" where
  "upper s = map (\<lambda>c. let n = (of_char c :: nat) in if 97 \<le> n \<and> n \<le> 122 then char_of (n - 32) else c) s"

definition terminal_targets :: "(string \<times> chain_action) list" where
  "terminal_targets = [(''ACCEPT'', Permit), (''DROP'', Deny), (''REJECT'', Deny)]"

definition terminal_action :: "string \<Rightarrow> chain_action option" where
  "terminal_action target = map_of terminal_targets (upper target)"

definition given :: "string option \<Rightarrow> bool" where
  "given v \<longleftrightarrow> (case v of None \<Rightarrow> False | Some s \<Rightarrow> s \<noteq> [])"

definition describe_chain_rule :: "chain_rule \<Rightarrow> string" where
  "describe_chain_rule r =
     join_with '' ''
       ([''rule '' @ (if cr_number r < 0 then CHR ''-'' # digits_of (nat (- cr_number r)) else digits_of (nat (cr_number r))),
         cr_target r, cr_protocol r] @
        (if given (cr_in r) then [''in '' @ the (cr_in r)] else []) @
        (if given (cr_out r) then [''out '' @ the (cr_out r)] else []) @
        [''src '' @ cr_source r, ''dst '' @ cr_destination r] @
        (if given (cr_detail r) then [the (cr_detail r)] else []))"

text \<open>The chain of the rules read from a device: in order of their numbers.\<close>

definition chain_of :: "string \<Rightarrow> string \<Rightarrow> chain_rule list \<Rightarrow> chain option" where
  "chain_of name default_policy rules =
     (if rules = [] \<and> default_policy = [] then None
      else Some \<lparr> ch_name = name, ch_default = default_policy, ch_rules = sort_key cr_number rules \<rparr>)"

section \<open>The match of a rule\<close>

text \<open>What is known of the packet at the hop.\<close>

record crossing =
  cx_packet :: packet
  cx_in :: "string option"
  cx_out :: "string option"
  cx_destinations :: "string list"
  cx_sources :: "string list"

definition interface_check :: "string option \<Rightarrow> string option \<Rightarrow> bool option" where
  "interface_check constraint actual =
     (if \<not> given constraint \<or> the constraint \<in> {''*'', ''any''} then Some True
      else if \<not> given actual then None
      else Some (canonical_interface (the constraint) = canonical_interface (the actual)))"

definition chain_protocol_check :: "string \<Rightarrow> string \<Rightarrow> bool option" where
  "chain_protocol_check constraint declared =
     (let folded = lower (if constraint = [] then ''all'' else constraint)
      in if folded \<in> {''all'', ''ip'', ''0''} then Some True
         else if declared = [] then None
         else Some (folded = lower declared))"

definition network_check :: "syntax6 \<Rightarrow> string \<Rightarrow> string list \<Rightarrow> bool option" where
  "network_check X constraint addresses =
     (let value = strip constraint
      in if value \<in> {[], ''0.0.0.0/0'', ''anywhere'', ''::/0''} then Some True
         else (case ip_network X value of
                 None \<Rightarrow> None
               | Some n \<Rightarrow>
                   if addresses = [] then None
                   else Some (\<exists>a\<in>set addresses.
                     (case ip_address X a of None \<Rightarrow> False | Some b \<Rightarrow> contains n b))))"

section \<open>The detail column\<close>

definition dport :: regex where
  "dport = in_turn [WordEdge, Alt (literal ''tcp'') (literal ''udp''), spaces, literal ''dpt:'', Group 1 digits]"

definition dports :: regex where
  "dports = in_turn [WordEdge, literal ''multiport'', spaces, literal ''dports'', spaces,
     Group 1 (some (Chars (\<lambda>c. is_digit c \<or> c = CHR '','' \<or> c = CHR '':'' \<or> is_space c)))]"

definition conntrack :: regex where
  "conntrack = in_turn [WordEdge, literal ''state'', spaces,
     Group 1 (some (Chars (\<lambda>c. c = CHR '','' \<or>
       97 \<le> (of_char (lower_char c) :: nat) \<and> (of_char (lower_char c) :: nat) \<le> 122)))]"

text \<open>\<open>int(item)\<close> of a text of digits, separators and white space.\<close>

definition as_port :: "string \<Rightarrow> int option" where
  "as_port s = (let t = strip s in if all_digits t then Some (int (int_of_digits t)) else None)"

definition port_item :: "nat \<Rightarrow> string \<Rightarrow> bool" where
  "port_item port item =
     (if item = [] then False
      else if CHR '':'' \<in> set item then
        (let low = takeWhile (\<lambda>c. c \<noteq> CHR '':'') item; high = drop (Suc (length low)) item
         in (case (as_port low, as_port high) of
               (Some l, Some h) \<Rightarrow> l \<le> int port \<and> int port \<le> h
             | _ \<Rightarrow> False))
      else as_port item = Some (int port))"

definition in_multiport :: "string \<Rightarrow> nat \<Rightarrow> bool" where
  "in_multiport spec port =
     list_ex (port_item port) (split_on CHR '','' (filter (\<lambda>c. c \<noteq> CHR '' '') spec))"

definition strip_separators :: "string \<Rightarrow> string" where
  "strip_separators s =
     (let p = (\<lambda>c. c = CHR '' '' \<or> c = CHR '','') in List.rev (dropWhile p (List.rev (dropWhile p s))))"

text \<open>
  The states of a rule: \<open>Inl\<close> the verdict they force, \<open>Inr\<close> the detail without them. The packet
  opens its flow.
\<close>

definition state_part :: "string \<Rightarrow> bool option + string" where
  "state_part detail =
     (case re_search conntrack detail of
        None \<Rightarrow> Inr detail
      | Some g \<Rightarrow>
          let states = map (\<lambda>s. upper (strip s)) (split_on CHR '','' (grouped g 1))
          in if set states \<subseteq> {''ESTABLISHED'', ''RELATED''} then Inl (Some False)
             else if ''NEW'' \<notin> set states then Inl None
             else Inr (re_remove conntrack detail))"

text \<open>The ports of a rule: whether they match, and the rest of the detail.\<close>

definition port_part :: "string \<Rightarrow> string \<Rightarrow> string \<Rightarrow> (bool \<times> string) option" where
  "port_part declared detail remaining =
     (case (re_search dport detail, re_search dports detail) of
        (None, None) \<Rightarrow> Some (True, remaining)
      | (single, multi) \<Rightarrow>
          if \<not> all_digits declared then None
          else let wanted = int_of_digits declared
               in (case single of
                     Some g \<Rightarrow> Some (int_of_digits (grouped g 1) = wanted, re_remove dport remaining)
                   | None \<Rightarrow> Some (in_multiport (grouped (the multi) 1) wanted, re_remove dports remaining)))"

definition detail_check :: "string option \<Rightarrow> string \<Rightarrow> bool option" where
  "detail_check constraint declared =
     (let detail = strip (case constraint of None \<Rightarrow> [] | Some s \<Rightarrow> s)
      in if detail = [] then Some True
         else (case state_part detail of
                 Inl v \<Rightarrow> v
               | Inr remaining \<Rightarrow>
                   (case port_part declared detail remaining of
                      None \<Rightarrow> None
                    | Some (matched, leftover) \<Rightarrow>
                        if \<not> matched then Some False
                        else if strip_separators leftover \<noteq> [] then None
                        else Some True)))"

definition match_chain_rule :: "syntax6 \<Rightarrow> crossing \<Rightarrow> chain_rule \<Rightarrow> bool option" where
  "match_chain_rule X x r =
     all_checks
       [interface_check (cr_in r) (cx_in x), interface_check (cr_out r) (cx_out x),
        chain_protocol_check (cr_protocol r) (pk_protocol (cx_packet x)),
        network_check X (cr_source r) (cx_sources x),
        network_check X (cr_destination r) (cx_destinations x),
        detail_check (cr_detail r) (pk_port (cx_packet x))]"

section \<open>The walk of the chain\<close>

datatype verdict_kind = Decided chain_action | DefaultDeny | DefaultPermit | Indeterminate

record chain_verdict =
  cv_kind :: verdict_kind
  cv_rule :: "chain_rule option"
  cv_reason :: string

definition default_verdict :: "chain \<Rightarrow> chain_verdict" where
  "default_verdict c =
     (case terminal_action (ch_default c) of
        None \<Rightarrow> \<lparr> cv_kind = Indeterminate, cv_rule = None,
          cv_reason = ''no rule in chain '' @ ch_name c @ '' matches and its default policy could not be read'' \<rparr>
      | Some action \<Rightarrow> \<lparr> cv_kind = (case action of Deny \<Rightarrow> DefaultDeny | Permit \<Rightarrow> DefaultPermit), cv_rule = None,
          cv_reason = ''no rule in chain '' @ ch_name c @ '' matches this packet and the chain's default policy is '' @
            ch_default c \<rparr>)"

fun walk_chain :: "syntax6 \<Rightarrow> chain \<Rightarrow> crossing \<Rightarrow> chain_rule list \<Rightarrow> chain_verdict" where
  "walk_chain X c x [] = default_verdict c"
| "walk_chain X c x (r # rs) =
     (case match_chain_rule X x r of
        Some False \<Rightarrow> walk_chain X c x rs
      | verdict \<Rightarrow>
          (case terminal_action (cr_target r) of
             None \<Rightarrow> walk_chain X c x rs
           | Some action \<Rightarrow>
               if verdict = None then
                 \<lparr> cv_kind = Indeterminate, cv_rule = Some r,
                   cv_reason = ch_name c @ '' '' @ describe_chain_rule r @
                     '' may apply to this packet, but the declared intent cannot settle it'' \<rparr>
               else \<lparr> cv_kind = Decided action, cv_rule = Some r,
                 cv_reason = ch_name c @ '' '' @ describe_chain_rule r \<rparr>))"

definition evaluate_firewall :: "syntax6 \<Rightarrow> chain \<Rightarrow> crossing \<Rightarrow> chain_verdict" where
  "evaluate_firewall X c x = walk_chain X c x (ch_rules c)"

section \<open>Suggested rules\<close>

text \<open>\<open>_flow_endpoints\<close>: the declared addresses, else the first one known of either end.\<close>

definition first_of :: "string list \<Rightarrow> string" where
  "first_of as = (case as of [] \<Rightarrow> [] | a # _ \<Rightarrow> a)"

definition flow_endpoints :: "packet \<Rightarrow> string option \<Rightarrow> string list \<Rightarrow> string list \<Rightarrow> string \<times> string" where
  "flow_endpoints p declared sources destinations =
     (if pk_source p = [] then first_of sources else pk_source p,
      if given declared then the declared else first_of destinations)"

definition firewall_remedy :: "string \<Rightarrow> packet \<Rightarrow> string \<times> string \<Rightarrow> string option" where
  "firewall_remedy chain_name p = (\<lambda>(src, dst).
     let proto = lower (pk_protocol p)
     in if proto = [] then None
        else Some (join_with '' ''
          ([''iptables -I '' @ chain_name] @ (if src = [] then [] else [''-s '' @ src]) @
           (if dst = [] then [] else [''-d '' @ dst]) @ [''-p '' @ proto] @
           (if proto \<in> {''tcp'', ''udp''} \<and> pk_port p \<noteq> [] then [''--dport '' @ pk_port p] else []) @ [''-j ACCEPT''])))"

definition endpoint_token :: "string \<Rightarrow> string" where
  "endpoint_token a = (if a = [] then ''any'' else ''host '' @ a)"

definition acl_remedy :: "packet \<Rightarrow> string \<times> string \<Rightarrow> string" where
  "acl_remedy p = (\<lambda>(src, dst).
     let proto = lower (if pk_protocol p = [] then ''ip'' else pk_protocol p)
     in ''permit '' @ proto @ '' '' @ endpoint_token src @ '' '' @ endpoint_token dst @
        (if proto \<in> {''tcp'', ''udp''} \<and> pk_port p \<noteq> [] then '' eq '' @ pk_port p else []))"

end
