(* ===== verification/PolicyRouting.thy ===== *)
theory PolicyRouting
  imports Addresses ThreeValued
begin

text \<open>
  Policy-based routing (\<open>src/src/founderos_atlas/routing/policy.py\<close>) and the forwarding decision
  (\<open>path_intelligence/forwarding.py\<close> and \<open>_policy_route_check\<close> of the path engine): three-valued
  matching of a rule against a declared flow, the first-match walk, values as the platforms write
  them, and longest-prefix match. Strings are ASCII texts. \<open>PolicyParsers\<close> reads the rules.
\<close>

section \<open>Rules and flows\<close>

record policy_route =
  po_sequence :: int
  po_source :: "string option"
  po_destination :: "string option"
  po_protocol :: "string option"
  po_ports :: "int list"
  po_ingress :: "string option"
  po_next_hop :: "string option"
  po_egress :: "string option"
  po_table :: "string option"
  po_disabled :: bool
  po_name :: "string option"
  po_command :: "string option"
  po_unresolved :: "string list"

record flow =
  fl_source :: "string option"
  fl_destination :: "string option"
  fl_protocol :: "string option"
  fl_port :: "int option"
  fl_ingress :: "string option"

definition text_or_none :: "string option \<Rightarrow> bool" where
  "text_or_none v = (case v of None \<Rightarrow> False | Some s \<Rightarrow> s \<noteq> [])"

definition directs_traffic :: "policy_route \<Rightarrow> bool" where
  "directs_traffic r \<longleftrightarrow> text_or_none (po_next_hop r) \<or> text_or_none (po_egress r)"

definition address_in :: "syntax6 \<Rightarrow> string \<Rightarrow> string \<Rightarrow> bool" where
  "address_in X address prefix =
     (case ip_address X address of
        None \<Rightarrow> False
      | Some a \<Rightarrow> (case ip_network X prefix of
            Some n \<Rightarrow> contains n a
          | None \<Rightarrow> (case ip_address X prefix of None \<Rightarrow> False | Some b \<Rightarrow> b = a)))"

definition same_interface :: "string \<Rightarrow> string \<Rightarrow> bool" where
  "same_interface a b \<longleftrightarrow> lower (strip a) = lower (strip b)"

definition policy_matches :: "syntax6 \<Rightarrow> flow \<Rightarrow> policy_route \<Rightarrow> bool option" where
  "policy_matches X f r =
     (if po_disabled r then Some False
      else all_checks
        [check_declared (\<lambda>p a. address_in X a p) (po_source r) (fl_source f),
         check_declared (\<lambda>p a. address_in X a p) (po_destination r) (fl_destination f),
         check_declared (\<lambda>p q. lower q = lower p) (po_protocol r) (fl_protocol f),
         check_declared (\<lambda>ps q. q \<in> set ps) (if po_ports r = [] then None else Some (po_ports r)) (fl_port f),
         check_declared (\<lambda>i j. same_interface j i) (po_ingress r) (fl_ingress f),
         (if po_unresolved r = [] then Some True else None)])"

definition first_matching_policy ::
  "syntax6 \<Rightarrow> flow \<Rightarrow> policy_route list \<Rightarrow> policy_route option \<times> policy_route list" where
  "first_matching_policy X f policies = walk (policy_matches X f) [] (sort_key po_sequence policies)"

section \<open>Values as the platforms write them\<close>

definition clean :: "string option \<Rightarrow> string option" where
  "clean v =
     (let t = strip_char CHR 0x22 (strip (case v of None \<Rightarrow> [] | Some s \<Rightarrow> s))
      in if t = [] then None else Some t)"

definition clean_prefix :: "syntax6 \<Rightarrow> string option \<Rightarrow> string option" where
  "clean_prefix X v =
     (case clean v of
        None \<Rightarrow> None
      | Some t \<Rightarrow>
          (case words_of t of
             [a, m] \<Rightarrow> map_option (show_network X) (ip_network X (a @ ''/'' @ m))
           | _ \<Rightarrow> (case ip_network X t of
                 Some n \<Rightarrow> Some (show_network X n)
               | None \<Rightarrow> (case ip_address X t of None \<Rightarrow> None | Some _ \<Rightarrow> Some (t @ ''/32'')))))"

text \<open>\<open>int(str(value).strip())\<close>, with \<open>None\<close> for what cannot be read.\<close>

definition as_int :: "string option \<Rightarrow> int option" where
  "as_int v = (case v of None \<Rightarrow> None | Some s \<Rightarrow> py_int s)"

section \<open>Longest-prefix match\<close>

record route =
  rt_prefix :: string
  rt_distance :: "int option"
  rt_protocol :: "string option"
  rt_next_hop :: "string option"
  rt_interface :: "string option"

text \<open>The best route so far, with its prefix length and administrative distance.\<close>

type_synonym best_route = "(route \<times> nat \<times> int option) option"

definition better_route :: "network \<Rightarrow> route \<Rightarrow> best_route \<Rightarrow> best_route" where
  "better_route n r best =
     (case best of
        None \<Rightarrow> Some (r, prefix_length n, rt_distance r)
      | Some (b, len, held) \<Rightarrow>
          if prefix_length n > len then Some (r, prefix_length n, rt_distance r)
          else if prefix_length n = len \<and>
            (case rt_distance r of None \<Rightarrow> False
               | Some d \<Rightarrow> (case held of None \<Rightarrow> True | Some d' \<Rightarrow> d < d'))
          then Some (r, len, rt_distance r) else best)"

fun match_routes :: "syntax6 \<Rightarrow> address \<Rightarrow> best_route \<Rightarrow> route list \<Rightarrow> best_route" where
  "match_routes X a best [] = best"
| "match_routes X a best (r # rs) =
     (case ip_network X (rt_prefix r) of
        None \<Rightarrow> match_routes X a best rs
      | Some n \<Rightarrow> match_routes X a (if contains n a then better_route n r best else best) rs)"

definition longest_prefix_match :: "syntax6 \<Rightarrow> route list \<Rightarrow> string \<Rightarrow> route option" where
  "longest_prefix_match X routes address =
     (case ip_address X address of
        None \<Rightarrow> None
      | Some a \<Rightarrow> map_option fst (match_routes X a None routes))"

definition describe_route :: "route \<Rightarrow> string" where
  "describe_route r =
     rt_prefix r @ '' ('' @ (if text_or_none (rt_protocol r) then the (rt_protocol r) else ''unknown'') @ '') '' @
     (if text_or_none (rt_next_hop r) then
        ''via '' @ the (rt_next_hop r) @
        (if text_or_none (rt_interface r) then '' on '' @ the (rt_interface r) else [])
      else if text_or_none (rt_interface r) then ''directly connected on '' @ the (rt_interface r)
      else ''with no next-hop recorded'')"

section \<open>The decision at a hop\<close>

text \<open>What \<open>_policy_route_check\<close> finds: whether the flow is diverted, and what it reports.\<close>

datatype policy_finding =
    PoliciesNotCaptured
  | NoPolicies
  | NoRuleDecides "policy_route list"
  | OtherTable policy_route "policy_route list"
  | LeftToTable policy_route "policy_route list"
  | Diverted policy_route "policy_route list"

definition policy_route_check :: "syntax6 \<Rightarrow> policy_route list option \<Rightarrow> flow \<Rightarrow> bool \<times> policy_finding" where
  "policy_route_check X captured f =
     (case captured of
        None \<Rightarrow> (False, PoliciesNotCaptured)
      | Some policies \<Rightarrow>
          if policies = [] then (False, NoPolicies)
          else (case first_matching_policy X f policies of
                  (None, unknown) \<Rightarrow> (False, NoRuleDecides unknown)
                | (Some r, unknown) \<Rightarrow>
                    if directs_traffic r then (True, Diverted r unknown)
                    else if text_or_none (po_table r) then (False, OtherTable r unknown)
                    else (False, LeftToTable r unknown)))"

datatype forwarding =
    ByPolicy policy_finding
  | TableNotCaptured policy_finding
  | ByRoute policy_finding route
  | NoRoute policy_finding

text \<open>\<open>_route_check\<close>: policy routing first, then the first target address with a route.\<close>

definition route_check ::
  "syntax6 \<Rightarrow> policy_route list option \<Rightarrow> route list option \<Rightarrow> flow \<Rightarrow> string list \<Rightarrow> forwarding option" where
  "route_check X policies routes f targets =
     (if targets = [] then None
      else
        let (diverted, finding) = policy_route_check X policies f
        in if diverted then Some (ByPolicy finding)
           else (case routes of
                   None \<Rightarrow> Some (TableNotCaptured finding)
                 | Some table \<Rightarrow>
                     (case List.map_filter (longest_prefix_match X table) targets of
                        r # _ \<Rightarrow> Some (ByRoute finding r)
                      | [] \<Rightarrow> Some (NoRoute finding))))"

end
