(* ===== verification/PolicyRoutingTheorems.thy ===== *)
theory PolicyRoutingTheorems
  imports PolicyRouting
begin

text \<open>
  What a forwarding verdict is worth: addresses and prefixes survive normalisation, the routing
  table lookup is a longest-prefix match, a policy verdict stays right when more of the flow
  becomes known, and the limits of the normalisation.
\<close>

section \<open>Normalised prefixes\<close>

lemma dropWhile_keep: "s = [] \<or> \<not> p (hd s) \<Longrightarrow> dropWhile p s = s"
  by (cases s) auto

lemma strip_char_keep: "s \<noteq> [] \<Longrightarrow> hd s \<noteq> c \<Longrightarrow> last s \<noteq> c \<Longrightarrow> strip_char c s = s"
  by (simp add: strip_char_def dropWhile_keep hd_rev)

lemma strip_keep: "s \<noteq> [] \<Longrightarrow> \<not> is_space (hd s) \<Longrightarrow> \<not> is_space (last s) \<Longrightarrow> strip s = s"
  by (simp add: strip_def dropWhile_keep hd_rev)

definition plain_char :: "char \<Rightarrow> bool" where
  "plain_char c \<longleftrightarrow> is_digit c \<or> c = CHR ''.'' \<or> c = CHR ''/''"

lemma plain_not_space: "plain_char c \<Longrightarrow> \<not> is_space c \<and> c \<noteq> CHR 0x22 \<and> c \<noteq> CHR '' ''"
proof -
  have "\<not> is_space CHR ''.''" "\<not> is_space CHR ''/''" by code_simp+
  then show "plain_char c \<Longrightarrow> \<not> is_space c \<and> c \<noteq> CHR 0x22 \<and> c \<noteq> CHR '' ''"
    by (auto simp: plain_char_def is_digit_def is_space_def Let_def)
qed

lemma clean_plain:
  assumes "s \<noteq> []" "list_all plain_char s"
  shows "clean (Some s) = Some s" "strip s = s"
proof -
  have "plain_char (hd s)" "plain_char (last s)" using assms by (auto simp: list_all_iff)
  then show "strip s = s" using assms(1) plain_not_space by (simp add: strip_keep)
  then show "clean (Some s) = Some s"
    using assms(1) \<open>plain_char (hd s)\<close> \<open>plain_char (last s)\<close> plain_not_space
    by (simp add: clean_def strip_char_keep)
qed

lemma split_when_none: "\<forall>c\<in>set s. \<not> p c \<Longrightarrow> split_when p s = [s]"
  by (induction s) auto

lemma split_when_sep: "\<forall>c\<in>set s. \<not> p c \<Longrightarrow> p d \<Longrightarrow> split_when p (s @ d # t) = s # split_when p t"
  by (induction s) auto

lemma words_of_one: "s \<noteq> [] \<Longrightarrow> list_all plain_char s \<Longrightarrow> words_of s = [s]"
  using plain_not_space by (auto simp: words_of_def split_when_none list_all_iff)

lemma words_of_two:
  assumes "a \<noteq> []" "list_all plain_char a" "m \<noteq> []" "list_all plain_char m"
  shows "words_of (a @ CHR '' '' # m) = [a, m]"
proof -
  have "is_space CHR '' ''" by code_simp
  then show ?thesis using assms plain_not_space
    by (auto simp: words_of_def split_when_sep split_when_none list_all_iff)
qed

lemma plain_digits: "list_all plain_char (digits_of n)"
  using digits_of_digits[of n] by (auto simp: list_all_iff plain_char_def)

lemma plain_show4: "list_all plain_char (show4 w)" "show4 w \<noteq> []"
  using plain_digits by (simp_all add: show4_def plain_char_def)

lemma plain_network: "list_all plain_char (show_network X (Net4 w n))" "show_network X (Net4 w n) \<noteq> []"
  using plain_show4 plain_digits by (simp_all add: show_network_def plain_char_def)

lemma clean_prefix_network:
  "normal (Net4 w n) \<Longrightarrow> clean_prefix X (Some (show_network X (Net4 w n))) = Some (show_network X (Net4 w n))"
  using read_show_network4[of w n X] plain_network[where X = X and w = w and n = n]
  by (simp add: clean_prefix_def clean_plain words_of_one)

lemma read_slash:
  "CHR ''/'' \<notin> set a \<Longrightarrow> CHR ''/'' \<notin> set m \<Longrightarrow> read4 a = Some w \<Longrightarrow> read_mask m = Some n \<Longrightarrow>
     ip_network X (a @ ''/'' @ m) = Some (network4 w n)"
  by (simp add: ip_network_def read_network4_def)

lemma netmask_bit: "bit (netmask n :: v4) i \<longleftrightarrow> i < 32 \<and> 32 - n \<le> i"
  by (simp add: netmask_def bit_simps) linarith

lemma trailing_zeros_netmask: "n \<le> 32 \<Longrightarrow> trailing_zeros (netmask n) = 32 - n"
proof -
  assume n: "n \<le> 32"
  have "takeWhile (\<lambda>i. \<not> bit (netmask n :: v4) i) [0..<32] = [0..<32 - n]"
  proof -
    have "[0..<32] = [0..<32 - n] @ [32 - n..<32]" using upt_add_eq_append[of 0 "32 - n" n] n by simp
    moreover have "takeWhile (\<lambda>i. \<not> bit (netmask n :: v4) i) [32 - n..<32] = []"
      by (cases "32 - n < 32") (auto simp: upt_conv_Cons netmask_bit)
    moreover have "\<forall>i\<in>set [0..<32 - n]. \<not> bit (netmask n :: v4) i" by (simp add: netmask_bit)
    ultimately show ?thesis by (simp only: takeWhile_append append_Nil2) simp
  qed
  then show ?thesis by (simp add: trailing_zeros_def)
qed

lemma prefix_of_netmask: "n \<le> 32 \<Longrightarrow> prefix_of_mask (netmask n) = Some n"
proof -
  assume n: "n \<le> 32"
  have "drop_bit (32 - n) (netmask n :: v4) = mask n"
    using n by (intro bit_eqI) (auto simp: bit_drop_bit_eq netmask_bit bit_mask_iff)
  with n show ?thesis by (simp add: prefix_of_mask_def trailing_zeros_netmask Let_def)
qed

lemma read_mask_show: "n \<le> 32 \<Longrightarrow> read_mask (show4 (netmask n)) = Some n"
proof -
  assume "n \<le> 32"
  have "CHR ''.'' \<in> set (show4 (netmask n))" by (simp add: show4_def)
  then have "\<not> list_all is_digit (show4 (netmask n))" using separators(1) by (auto simp: list_all_iff)
  with \<open>n \<le> 32\<close> show ?thesis by (simp add: read_mask_def read_prefix_def prefix_of_netmask)
qed

text \<open>
  C33: However a platform writes an IPv4 prefix, the rule means the same network: an address with a
  dotted netmask and the address with a prefix length are both normalised to the text of that
  network, normalising that text again changes nothing, and it contains exactly the addresses
  that agree with the written one on the bits of the prefix.
\<close>

theorem prefix_normalisation_exact:
  assumes "n \<le> 32"
  shows "clean_prefix X (Some (show4 w @ '' '' @ show4 (netmask n))) = Some (show_network X (network4 w n)) \<and>
    clean_prefix X (Some (show4 w @ ''/'' @ digits_of n)) = Some (show_network X (network4 w n)) \<and>
    clean_prefix X (Some (show_network X (network4 w n))) = Some (show_network X (network4 w n)) \<and>
    (address_in X (show4 a) (show_network X (network4 w n)) \<longleftrightarrow> drop_bit (32 - n) a = drop_bit (32 - n) w)"
proof (intro conjI)
  note normal = normal_network4[OF assms, of w, unfolded network4_def]
  have no_slash: "CHR ''/'' \<notin> set (digits_of n)" by (rule digits_no_separator[OF separators(2)])
  have two: "show4 w @ '' '' @ show4 (netmask n) = show4 w @ CHR '' '' # show4 (netmask n)" by simp
  have words: "words_of (show4 w @ '' '' @ show4 (netmask n)) = [show4 w, show4 (netmask n)]"
    unfolding two by (rule words_of_two) (rule plain_show4)+
  have "plain_char (hd (show4 w))" "plain_char (last (show4 (netmask n)))"
    using plain_show4[of w] plain_show4[of "netmask n"] by (auto simp: list_all_iff)
  then have "clean (Some (show4 w @ '' '' @ show4 (netmask n))) = Some (show4 w @ '' '' @ show4 (netmask n))"
    using plain_not_space plain_show4 by (simp add: clean_def strip_keep strip_char_keep hd_append)
  with words show "clean_prefix X (Some (show4 w @ '' '' @ show4 (netmask n))) = Some (show_network X (network4 w n))"
    by (simp only: clean_prefix_def option.case list.case option.map
      read_slash[OF show4_no_slash show4_no_slash read4_show4 read_mask_show[OF assms]])
  have "list_all plain_char (show4 w @ ''/'' @ digits_of n)"
    using plain_show4 plain_digits by (simp add: plain_char_def)
  then have "words_of (show4 w @ ''/'' @ digits_of n) = [show4 w @ ''/'' @ digits_of n]"
    "clean (Some (show4 w @ ''/'' @ digits_of n)) = Some (show4 w @ ''/'' @ digits_of n)"
    using plain_show4 by (simp_all only: words_of_one clean_plain append_is_Nil_conv simp_thms)
  moreover have "read_mask (digits_of n) = Some n" using assms by (simp add: read_mask_def read_prefix_digits)
  ultimately show "clean_prefix X (Some (show4 w @ ''/'' @ digits_of n)) = Some (show_network X (network4 w n))"
    by (simp only: clean_prefix_def option.case list.case option.map
      read_slash[OF show4_no_slash no_slash read4_show4])
  show "clean_prefix X (Some (show_network X (network4 w n))) = Some (show_network X (network4 w n))"
    unfolding network4_def by (rule clean_prefix_network[OF normal])
  have "ip_network X (show_network X (network4 w n)) = Some (network4 w n)"
    unfolding network4_def by (rule read_show_network4[OF normal])
  moreover have "ip_address X (show4 a) = Some (V4 a)" by (simp add: ip_address_def)
  ultimately show "address_in X (show4 a) (show_network X (network4 w n)) \<longleftrightarrow> drop_bit (32 - n) a = drop_bit (32 - n) w"
    by (simp add: address_in_def contains_iff)
qed

definition no_syntax6 :: syntax6 where
  "no_syntax6 = \<lparr> read6 = (\<lambda>_. None), show6 = (\<lambda>_. []) \<rparr>"

theorem prefix_normalisation_exact_witness:
  "clean_prefix no_syntax6 (Some (show4 0x0A000105 @ '' '' @ show4 (netmask 24)))
     = Some (show_network no_syntax6 (network4 0x0A000105 24)) \<and>
   address_in no_syntax6 (show4 0x0A0001FE) (show_network no_syntax6 (network4 0x0A000105 24)) \<and>
   \<not> address_in no_syntax6 (show4 0x0A0002FE) (show_network no_syntax6 (network4 0x0A000105 24))"
proof -
  have "(24::nat) \<le> 32" by simp
  moreover have "drop_bit (32 - 24) (0x0A0001FE :: v4) = drop_bit (32 - 24) 0x0A000105"
    "drop_bit (32 - 24) (0x0A0002FE :: v4) \<noteq> drop_bit (32 - 24) 0x0A000105" by code_simp+
  ultimately show ?thesis
    using prefix_normalisation_exact[of 24 no_syntax6 "0x0A000105" "0x0A0001FE"]
      prefix_normalisation_exact[of 24 no_syntax6 "0x0A000105" "0x0A0002FE"] by blast
qed

end
