(* ===== verification/PacketTheorems.thy ===== *)
theory PacketTheorems
  imports Firewall PolicyRoutingTheorems
begin

text \<open>
  Access lists, firewall chains and policy routes are each an instance of \<open>three_valued\<close>: declaring
  more of the packet settles verdicts and never changes one. The verdicts of the three walks are
  therefore final once they are decided. The last section is how the address of an access-list
  rule is read.
\<close>

section \<open>Declaring more of a packet\<close>

definition more_text :: "string \<Rightarrow> string \<Rightarrow> bool" where
  "more_text a b \<longleftrightarrow> a = [] \<or> a = b"

definition more_option :: "'a option \<Rightarrow> 'a option \<Rightarrow> bool" where
  "more_option a b \<longleftrightarrow> a = None \<or> a = b"

definition finer_packet :: "packet \<Rightarrow> packet \<Rightarrow> bool" where
  "finer_packet p q \<longleftrightarrow> more_text (pk_protocol p) (pk_protocol q) \<and> more_text (pk_port p) (pk_port q) \<and>
     more_text (pk_source p) (pk_source q)"

definition finer_crossing :: "crossing \<Rightarrow> crossing \<Rightarrow> bool" where
  "finer_crossing x y \<longleftrightarrow> finer_packet (cx_packet x) (cx_packet y) \<and>
     (\<not> given (cx_in x) \<or> cx_in x = cx_in y) \<and> (\<not> given (cx_out x) \<or> cx_out x = cx_out y) \<and>
     (cx_destinations x = [] \<or> cx_destinations x = cx_destinations y) \<and>
     (cx_sources x = [] \<or> cx_sources x = cx_sources y)"

definition finer_flow :: "flow \<Rightarrow> flow \<Rightarrow> bool" where
  "finer_flow f g \<longleftrightarrow> more_option (fl_source f) (fl_source g) \<and> more_option (fl_destination f) (fl_destination g) \<and>
     more_option (fl_protocol f) (fl_protocol g) \<and> more_option (fl_port f) (fl_port g) \<and>
     more_option (fl_ingress f) (fl_ingress g)"

lemma not_digits_Nil [simp]: "\<not> all_digits []"
  by (simp add: all_digits_def)

section \<open>Access lists\<close>

lemma acl_check_settles:
  "more_text a b \<Longrightarrow> settles (acl_protocol_check c a) (acl_protocol_check c b)"
  "more_text a b \<Longrightarrow> settles (acl_address_check X s a) (acl_address_check X s b)"
  "more_text a b \<Longrightarrow> settles (acl_port_check m a) (acl_port_check m b)"
  by (auto simp: more_text_def acl_protocol_check_def acl_address_check_def acl_port_check_def split: option.split)

lemma acl_checks_settle: "finer_packet p q \<Longrightarrow> list_all2 settles (acl_checks X p r) (acl_checks X q r)"
  by (simp add: acl_checks_def finer_packet_def acl_check_settles)

interpretation acl: three_valued "match_rule X" finer_packet for X
proof
  fix p q r
  assume "finer_packet p q"
  then have checks: "list_all2 settles (acl_checks X p r) (acl_checks X q r)" by (rule acl_checks_settle)
  note all = all_checks_settles[OF this]
  show "settles (match_rule X p r) (match_rule X q r)"
  proof (cases "all_checks (acl_checks X p r)")
    case None
    then show ?thesis by (auto simp: match_rule_def all_checks_False[symmetric])
  next
    case (Some b)
    with all have "all_checks (acl_checks X q r) = Some b" by (simp add: settles_def)
    with Some show ?thesis by (cases b) (auto simp: match_rule_def all_checks_False[symmetric])
  qed
qed

lemma evaluate_acl_stable:
  assumes "finer_packet p q" "fst (evaluate_acl X p rs) \<noteq> ''indeterminate''"
  shows "evaluate_acl X q rs = evaluate_acl X p rs"
proof (cases "first_applicable (match_rule X p) rs")
  case None
  with acl.applicable_refined(1)[OF assms(1)] show ?thesis by (simp add: evaluate_acl_def)
next
  case (Some d)
  obtain r b where d: "d = (r, b)" by (cases d)
  with Some assms(2) have b by (cases b) (auto simp: evaluate_acl_def)
  with d Some acl.applicable_refined(2)[OF assms(1)] show ?thesis by (simp add: evaluate_acl_def)
qed

lemma evaluate_binding_stable:
  assumes "finer_packet p q" "pv_kind (evaluate_binding X d p b) \<noteq> ''indeterminate''"
  shows "evaluate_binding X d q b = evaluate_binding X d p b"
  using assms(2) evaluate_acl_stable[OF assms(1), of X]
  by (auto simp: evaluate_binding_def Let_def split: if_splits prod.splits)

lemma list_all2_concat_map:
  "(\<And>a. a \<in> set xs \<Longrightarrow> list_all2 R (f a) (g a)) \<Longrightarrow> list_all2 R (concat (map f xs)) (concat (map g xs))"
  by (induction xs) (auto intro!: list_all2_appendI)

text \<open>
  C14: At every checkpoint of a path, the verdict of each bound access list is final: whatever more of
  the packet is declared, a verdict other than \<open>indeterminate\<close> stays the same verdict, by the same
  rule. When every rule of the list is decided, the verdict is the action of the first rule that
  matches, and the implicit deny where none does.
\<close>

theorem acl_verdicts_final:
  assumes "finer_packet p q"
  shows "list_all2 (\<lambda>v w. pv_kind v \<noteq> ''indeterminate'' \<longrightarrow> w = v)
      (evaluate_bindings X d p checkpoints) (evaluate_bindings X d q checkpoints) \<and>
    ((\<forall>r\<in>set rs. match_rule X p r \<noteq> None) \<longrightarrow>
      evaluate_acl X p rs = (case find (\<lambda>r. match_rule X p r = Some True) rs of
        None \<Rightarrow> (''implicit-deny'', None) | Some r \<Rightarrow> (ar_action r, Some r)))"
proof (intro conjI impI)
  show "list_all2 (\<lambda>v w. pv_kind v \<noteq> ''indeterminate'' \<longrightarrow> w = v)
      (evaluate_bindings X d p checkpoints) (evaluate_bindings X d q checkpoints)"
    using evaluate_binding_stable[OF assms, of X d]
    unfolding evaluate_bindings_def by (intro list_all2_concat_map) (auto simp: list_all2_conv_all_nth)
qed (simp add: evaluate_acl_def applicable_decided split: option.split)

section \<open>Firewall chains\<close>

lemma detail_check_settles: "more_text a b \<Longrightarrow> settles (detail_check d a) (detail_check d b)"
proof (cases "a = []")
  case True
  have "port_part b detail rest = None \<or> port_part b detail rest = port_part [] detail rest \<or> port_part [] detail rest = None"
    for detail rest
    by (auto simp: port_part_def split: option.split)
  then show ?thesis
    using True by (auto simp: detail_check_def settles_def Let_def port_part_def split: sum.split option.split)
qed (simp add: more_text_def)

lemma chain_check_settles:
  "\<not> given i \<or> i = j \<Longrightarrow> settles (interface_check c i) (interface_check c j)"
  "more_text a b \<Longrightarrow> settles (chain_protocol_check t a) (chain_protocol_check t b)"
  "as = [] \<or> as = bs \<Longrightarrow> settles (network_check X n as) (network_check X n bs)"
  by (auto simp: interface_check_def chain_protocol_check_def network_check_def more_text_def Let_def
      split: option.split)

interpretation fw: three_valued "match_chain_rule X" finer_crossing for X
  by unfold_locales
    (auto simp: match_chain_rule_def finer_crossing_def finer_packet_def
      intro!: all_checks_settles chain_check_settles detail_check_settles)

definition deciding :: "chain_rule \<Rightarrow> bool" where
  "deciding r \<longleftrightarrow> terminal_action (cr_target r) \<noteq> None"

lemma walk_chain_applicable:
  "walk_chain X c x rs =
     (case first_applicable (match_chain_rule X x) (filter deciding rs) of
        None \<Rightarrow> default_verdict c
      | Some (r, True) \<Rightarrow> \<lparr> cv_kind = Decided (the (terminal_action (cr_target r))), cv_rule = Some r,
          cv_reason = ch_name c @ '' '' @ describe_chain_rule r \<rparr>
      | Some (r, False) \<Rightarrow> \<lparr> cv_kind = Indeterminate, cv_rule = Some r,
          cv_reason = ch_name c @ '' '' @ describe_chain_rule r @
            '' may apply to this packet, but the declared intent cannot settle it'' \<rparr>)"
  by (induction rs) (auto simp: deciding_def split: option.split bool.split)

lemma find_filter: "find P (filter Q xs) = find (\<lambda>x. Q x \<and> P x) xs"
  by (induction xs) auto

lemma default_verdict_rules: "default_verdict (c\<lparr>ch_rules := rs\<rparr>) = default_verdict c"
  by (simp add: default_verdict_def split: option.split)

lemma evaluate_firewall_stable:
  assumes "finer_crossing x y" "cv_kind (evaluate_firewall X c x) \<noteq> Indeterminate"
  shows "evaluate_firewall X c y = evaluate_firewall X c x"
proof (cases "first_applicable (match_chain_rule X x) (filter deciding (ch_rules c))")
  case None
  with fw.applicable_refined(1)[OF assms(1)] show ?thesis
    by (simp add: evaluate_firewall_def walk_chain_applicable)
next
  case (Some d)
  obtain r b where d: "d = (r, b)" by (cases d)
  with Some assms(2) have b by (cases b) (auto simp: evaluate_firewall_def walk_chain_applicable)
  with d Some fw.applicable_refined(2)[OF assms(1)] show ?thesis
    by (simp add: evaluate_firewall_def walk_chain_applicable)
qed

text \<open>
  C15: The verdict of a firewall chain is final: once it is not indeterminate, declaring more of the
  packet or of its way through the device changes neither the verdict nor the rule nor the reason.
  Rules whose target does not end the walk never matter. When every other rule is decided, the
  verdict is the action of the first one that matches, and the default policy where none does.
\<close>

theorem firewall_verdict_final:
  assumes "finer_crossing x y"
  shows "(cv_kind (evaluate_firewall X c x) \<noteq> Indeterminate \<longrightarrow> evaluate_firewall X c y = evaluate_firewall X c x) \<and>
    evaluate_firewall X c x = evaluate_firewall X (c\<lparr>ch_rules := filter deciding (ch_rules c)\<rparr>) x \<and>
    ((\<forall>r\<in>set (ch_rules c). deciding r \<longrightarrow> match_chain_rule X x r \<noteq> None) \<longrightarrow>
      cv_kind (evaluate_firewall X c x) =
        (case find (\<lambda>r. deciding r \<and> match_chain_rule X x r = Some True) (ch_rules c) of
           None \<Rightarrow> cv_kind (default_verdict c) | Some r \<Rightarrow> Decided (the (terminal_action (cr_target r)))))"
proof (intro conjI impI)
  show "evaluate_firewall X c x = evaluate_firewall X (c\<lparr>ch_rules := filter deciding (ch_rules c)\<rparr>) x"
    by (simp add: evaluate_firewall_def walk_chain_applicable default_verdict_rules split: option.split bool.split)
  assume "\<forall>r\<in>set (ch_rules c). deciding r \<longrightarrow> match_chain_rule X x r \<noteq> None"
  then show "cv_kind (evaluate_firewall X c x) =
      (case find (\<lambda>r. deciding r \<and> match_chain_rule X x r = Some True) (ch_rules c) of
         None \<Rightarrow> cv_kind (default_verdict c) | Some r \<Rightarrow> Decided (the (terminal_action (cr_target r))))"
    by (simp add: evaluate_firewall_def walk_chain_applicable applicable_decided find_filter split: option.split)
qed (rule evaluate_firewall_stable[OF assms])

section \<open>Policy routes\<close>

lemma policy_matches_settles: "finer_flow f g \<Longrightarrow> settles (policy_matches X f r) (policy_matches X g r)"
  unfolding policy_matches_def finer_flow_def more_option_def settles_def[symmetric]
  by (auto intro!: all_checks_settles check_declared_settles)

interpretation pr: three_valued "policy_matches X" finer_flow for X
  by unfold_locales (rule policy_matches_settles)

text \<open>
  C13: The rule that decides a flow is final up to the rules reported as undetermined: when more of the
  flow becomes known, the choice stays the same or becomes one of those, and no rule becomes
  undetermined. When every rule is decided for the flow, none is undetermined and the choice is the
  first rule in sequence that matches.
\<close>

theorem policy_choice_final:
  assumes "finer_flow f g" "first_matching_policy X f policies = (c, u)" "first_matching_policy X g policies = (d, v)"
  shows "(d = c \<or> (\<exists>r\<in>set u. d = Some r)) \<and> set v \<subseteq> set u \<and>
    ((\<forall>r\<in>set policies. policy_matches X g r \<noteq> None) \<longrightarrow>
      v = [] \<and> d = find (\<lambda>r. policy_matches X g r = Some True) (sort_key po_sequence policies))"
proof -
  note walks = assms(2,3)[unfolded first_matching_policy_def]
  have "(d = c \<or> (\<exists>r\<in>set u. d = Some r)) \<and> set v \<subseteq> set u"
    by (rule pr.walk_refined[OF assms(1) walks]) simp
  moreover have "v = [] \<and> d = find (\<lambda>r. policy_matches X g r = Some True) (sort_key po_sequence policies)"
    if "\<forall>r\<in>set policies. policy_matches X g r \<noteq> None"
    using walks(2) walk_decided[of "sort_key po_sequence policies" "policy_matches X g" "[]"] that by simp
  ultimately show ?thesis by blast
qed

section \<open>The routing table\<close>

definition route_length :: "syntax6 \<Rightarrow> address \<Rightarrow> route \<Rightarrow> nat option" where
  "route_length X a r =
     (case ip_network X (rt_prefix r) of
        None \<Rightarrow> None
      | Some n \<Rightarrow> if contains n a then Some (prefix_length n) else None)"

definition no_farther :: "int option \<Rightarrow> int option \<Rightarrow> bool" where
  "no_farther held d \<longleftrightarrow> (\<forall>e. d = Some e \<longrightarrow> (\<exists>h. held = Some h \<and> h \<le> e))"

definition best_among :: "syntax6 \<Rightarrow> address \<Rightarrow> route set \<Rightarrow> best_route \<Rightarrow> bool" where
  "best_among X a R best \<longleftrightarrow>
     (case best of
        None \<Rightarrow> (\<forall>r\<in>R. route_length X a r = None)
      | Some (b, len, held) \<Rightarrow> b \<in> R \<and> route_length X a b = Some len \<and> held = rt_distance b \<and>
          (\<forall>r\<in>R. \<forall>l. route_length X a r = Some l \<longrightarrow> l \<le> len \<and> (l = len \<longrightarrow> no_farther held (rt_distance r))))"

lemma best_among_unmatched: "best_among X a R best \<Longrightarrow> route_length X a r = None \<Longrightarrow> best_among X a (insert r R) best"
  by (auto simp: best_among_def split: option.splits)

lemma best_among_better:
  assumes "best_among X a R best" "ip_network X (rt_prefix r) = Some n" "contains n a"
  shows "best_among X a (insert r R) (better_route n r best)"
proof -
  have len: "route_length X a r = Some (prefix_length n)" using assms(2,3) by (simp add: route_length_def)
  show ?thesis
  proof (cases best)
    case None
    with assms(1) len show ?thesis by (simp add: best_among_def better_route_def no_farther_def)
  next
    case (Some t)
    obtain b l h where t: "t = (b, l, h)" by (cases t)
    consider "prefix_length n > l" | "prefix_length n < l" | "prefix_length n = l" by linarith
    then show ?thesis
      using assms(1) len unfolding Some t
      by cases (fastforce simp: best_among_def better_route_def no_farther_def split: option.splits)+
  qed
qed

lemma match_routes_best:
  "best_among X a R best \<Longrightarrow> best_among X a (R \<union> set rs) (match_routes X a best rs)"
proof (induction rs arbitrary: R best)
  case (Cons r rs)
  have "best_among X a (insert r R \<union> set rs) (match_routes X a best (r # rs))"
  proof (cases "ip_network X (rt_prefix r)")
    case None
    then have "route_length X a r = None" by (simp add: route_length_def)
    from Cons.IH[OF best_among_unmatched[OF Cons.prems this]] None show ?thesis by simp
  next
    case (Some n)
    show ?thesis
    proof (cases "contains n a")
      case True
      from Cons.IH[OF best_among_better[OF Cons.prems Some this]] Some True show ?thesis by simp
    next
      case False
      with Some have "route_length X a r = None" by (simp add: route_length_def)
      from Cons.IH[OF best_among_unmatched[OF Cons.prems this]] Some False show ?thesis by simp
    qed
  qed
  then show ?case by simp
qed simp

text \<open>
  C34: The route chosen for an address is the longest-prefix match of the captured table: it is a
  route of the table whose network contains the address, no other such route has a longer prefix,
  and among those of its length none has a smaller administrative distance. There is no choice
  exactly when the address is unreadable or no readable route of the table contains it.
\<close>

theorem longest_prefix_match_exact:
  "case longest_prefix_match X routes s of
     None \<Rightarrow> \<forall>a. ip_address X s = Some a \<longrightarrow> (\<forall>r\<in>set routes. route_length X a r = None)
   | Some b \<Rightarrow> \<exists>a l. ip_address X s = Some a \<and> b \<in> set routes \<and> route_length X a b = Some l \<and>
       (\<forall>r\<in>set routes. \<forall>k. route_length X a r = Some k \<longrightarrow>
          k \<le> l \<and> (k = l \<longrightarrow> no_farther (rt_distance b) (rt_distance r)))"
proof (cases "ip_address X s")
  case (Some a)
  have "best_among X a (set routes) (match_routes X a None routes)"
    using match_routes_best[of X a "{}" None routes] by (simp add: best_among_def)
  with Some show ?thesis
    by (auto simp: longest_prefix_match_def best_among_def split: option.splits)
qed (simp add: longest_prefix_match_def)

section \<open>The address of an access-list rule\<close>

lemma prefix_of_hostmask:
  assumes "0 < n" "n < 32"
  shows "prefix_of_mask (NOT (netmask n) :: v4) = None"
proof -
  have "bit (NOT (netmask n) :: v4) 0" using assms by (simp add: netmask_bit bit_not_iff)
  then have zeros: "trailing_zeros (NOT (netmask n)) = 0" by (simp add: trailing_zeros_def upt_conv_Cons)
  have "\<not> bit (NOT (netmask n) :: v4) 31" "bit (mask 32 :: v4) 31"
    using assms by (simp_all add: netmask_bit bit_not_iff bit_mask_iff)
  then have "NOT (netmask n :: v4) \<noteq> mask 32" by force
  with zeros show ?thesis by (simp add: prefix_of_mask_def)
qed

lemma show4_not_digits: "\<not> list_all is_digit (show4 m)"
proof -
  have "CHR ''.'' \<in> set (show4 m)" by (simp add: show4_def)
  then show ?thesis using separators(1) by (auto simp: list_all_iff)
qed

lemma read_mask_show4:
  "read_mask (show4 m) = (case prefix_of_mask m of Some n \<Rightarrow> Some n | None \<Rightarrow> prefix_of_mask (NOT m))"
  by (simp add: read_mask_def read_prefix_def show4_not_digits)

lemma wildcard_check:
  assumes "read_mask (show4 m) = Some n"
  shows "acl_address_check X (show4 a @ '' '' @ show4 m) (show4 b) = Some (drop_bit (32 - n) b = drop_bit (32 - n) a)"
proof -
  obtain c s where s: "show4 a = c # s" using plain_show4(2)[of a] by (cases "show4 a") auto
  with plain_show4(1)[of a] have "plain_char c" by simp
  then have c: "c \<noteq> CHR ''h''" "c \<noteq> CHR ''a''" by (auto simp: plain_char_def is_digit_def)
  have "words_of (show4 a @ '' '' @ show4 m) = [show4 a, show4 m]"
    using words_of_two[OF plain_show4(2,1) plain_show4(2,1), of a m] by simp
  moreover have "ip_network X (show4 a @ ''/'' @ show4 m) = Some (network4 a n)"
    by (rule read_slash[OF show4_no_slash show4_no_slash read4_show4 assms])
  moreover have "show4 a @ '' '' @ show4 m \<noteq> ''any''" "\<not> starts_with (show4 a @ '' '' @ show4 m) ''host ''"
    using c s by (simp_all add: starts_with_def)
  moreover have "ip_address X (show4 b) = Some (V4 b)" by (simp add: ip_address_def)
  ultimately show ?thesis using plain_show4(2)[of b] by (simp add: acl_address_check_def contains_iff)
qed

text \<open>
  The wildcard mask of an access-list rule is read as the inverse of a netmask for every prefix
  length from 1 to 31: the rule then matches exactly the addresses that agree on the prefix. The two
  extreme wildcards are read as netmasks instead: \<open>0.0.0.0\<close>, which on the device means that one
  address, matches every address, and \<open>255.255.255.255\<close>, which means any address, matches only it.
\<close>

theorem acl_wildcards_read:
  "(0 < n \<and> n < 32 \<longrightarrow> acl_address_check X (show4 a @ '' '' @ show4 (NOT (netmask n))) (show4 b) =
      Some (drop_bit (32 - n) b = drop_bit (32 - n) a)) \<and>
   acl_address_check X (show4 a @ '' '' @ show4 0) (show4 b) = Some True \<and>
   acl_address_check X (show4 a @ '' '' @ show4 (NOT 0)) (show4 b) = Some (b = a)"
proof (intro conjI impI)
  assume n: "0 < n \<and> n < 32"
  then have "read_mask (show4 (NOT (netmask n))) = Some n"
    by (simp add: read_mask_show4 prefix_of_hostmask prefix_of_netmask)
  then show "acl_address_check X (show4 a @ '' '' @ show4 (NOT (netmask n))) (show4 b) =
      Some (drop_bit (32 - n) b = drop_bit (32 - n) a)" by (rule wildcard_check)
next
  have zero: "netmask 0 = (0 :: v4)" "netmask 32 = (NOT 0 :: v4)"
    by (auto intro!: bit_eqI simp: netmask_bit bit_not_iff)
  have "read_mask (show4 0) = Some 0" using prefix_of_netmask[of 0] zero by (simp add: read_mask_show4)
  from wildcard_check[OF this] show "acl_address_check X (show4 a @ '' '' @ show4 0) (show4 b) = Some True"
    by (simp add: drop_bit_word_beyond)
  have "read_mask (show4 (NOT 0)) = Some 32" using prefix_of_netmask[of 32] zero by (simp add: read_mask_show4)
  from wildcard_check[OF this] show "acl_address_check X (show4 a @ '' '' @ show4 (NOT 0)) (show4 b) = Some (b = a)"
    by simp
qed

section \<open>Suggested access-list rules\<close>

lemma words_of_join:
  "list_all (\<lambda>w. w \<noteq> [] \<and> list_all (\<lambda>c. \<not> is_space c) w) ws \<Longrightarrow> words_of (join_with '' '' ws) = ws"
proof (induction ws rule: induct_list012)
  case (3 w v vs)
  have "is_space CHR '' ''" by code_simp
  with 3 show ?case by (auto simp: words_of_def split_when_sep list_all_iff)
qed (auto simp: words_of_def split_when_none list_all_iff)

definition unspaced :: "string \<Rightarrow> bool" where
  "unspaced s \<longleftrightarrow> s \<noteq> [] \<and> list_all (\<lambda>c. \<not> is_space c) s"

lemma unspaced_words: "unspaced ''tcp''" "unspaced ''udp''" "unspaced ''any''" "unspaced ''host''" "unspaced ''eq''"
  by code_simp+

lemma unspaced_plain: "s \<noteq> [] \<Longrightarrow> list_all plain_char s \<Longrightarrow> unspaced s"
  using plain_not_space by (auto simp: unspaced_def list_all_iff)

definition endpoint_words :: "string \<Rightarrow> string list" where
  "endpoint_words a = (if a = [] then [''any''] else [''host'', a])"

lemma remedy_words:
  assumes "unspaced proto" "unspaced port" "src = [] \<or> unspaced src" "dst = [] \<or> unspaced dst"
  shows "words_of (proto @ '' '' @ endpoint_token src @ '' '' @ endpoint_token dst @ '' eq '' @ port) =
    [proto] @ endpoint_words src @ endpoint_words dst @ [''eq'', port]"
proof -
  have "proto @ '' '' @ endpoint_token src @ '' '' @ endpoint_token dst @ '' eq '' @ port =
      join_with '' '' ([proto] @ endpoint_words src @ endpoint_words dst @ [''eq'', port])"
    by (simp add: endpoint_token_def endpoint_words_def)
  moreover have "list_all unspaced ([proto] @ endpoint_words src @ endpoint_words dst @ [''eq'', port])"
    using assms unspaced_words by (auto simp: endpoint_words_def)
  ultimately show ?thesis using words_of_join by (simp add: unspaced_def[abs_def])
qed

lemma endpoint_parsed:
  "a = [] \<or> ip_address X a \<noteq> None \<Longrightarrow> parse_endpoint X (endpoint_words a @ ts) = Some (endpoint_token a, ts)"
proof -
  have "lower ''any'' = ''any''" "lower ''host'' = ''host''" by code_simp+
  then show "a = [] \<or> ip_address X a \<noteq> None \<Longrightarrow> ?thesis"
    by (auto simp: parse_endpoint_def endpoint_words_def endpoint_token_def)
qed

lemma endpoint_no_port: "parse_port (endpoint_words a @ ts) = (None, endpoint_words a @ ts)"
proof -
  have "lower ''any'' = ''any''" "lower ''host'' = ''host''" by code_simp+
  then show ?thesis by (simp add: parse_port_def endpoint_words_def)
qed

lemma remedy_port:
  "parse_port [''eq'', digits_of k] =
     (Some \<lparr> pm_op = ''eq'', pm_values = [k], pm_raw = ''eq '' @ digits_of k \<rparr>, [])"
proof -
  have "lower ''eq'' = ''eq''" by code_simp
  then show ?thesis
    using digits_of_digits[of k] by (simp add: parse_port_def all_digits_def)
qed

definition remedy_rule :: "acl_entry \<Rightarrow> string \<Rightarrow> string \<Rightarrow> string \<Rightarrow> nat \<Rightarrow> acl_rule" where
  "remedy_rule l proto src dst k =
     \<lparr> ar_acl = rl_acl l, ar_action = rl_action l, ar_protocol = proto, ar_source = endpoint_token src,
      ar_destination = endpoint_token dst, ar_line = rl_line l, ar_sequence = rl_sequence l, ar_source_port = None,
      ar_destination_port = Some \<lparr> pm_op = ''eq'', pm_values = [k], pm_raw = ''eq '' @ digits_of k \<rparr>,
      ar_qualifiers = [], ar_raw = rl_raw l \<rparr>"

lemma remedy_parsed:
  assumes "rl_extended l" "proto \<in> {''tcp'', ''udp''}" "ip_address X src \<noteq> None" "unspaced src"
    "dst = [] \<or> ip_address X dst \<noteq> None \<and> unspaced dst"
  shows "parse_rule_body X l (proto @ '' '' @ endpoint_token src @ '' '' @ endpoint_token dst @ '' eq '' @ digits_of k) =
    Some (remedy_rule l proto src dst k)"
proof -
  have port: "unspaced (digits_of k)" using plain_digits[of k] by (simp add: unspaced_plain)
  have proto: "unspaced proto" "proto \<in> set acl_protocols" using assms(2) unspaced_words by (auto simp: acl_protocols_def)
  have low: "lower proto = proto" using assms(2) by (elim insertE emptyE) (simp_all only:, code_simp+)
  have "words_of (proto @ '' '' @ endpoint_token src @ '' '' @ endpoint_token dst @ '' eq '' @ digits_of k) =
      proto # endpoint_words src @ endpoint_words dst @ [''eq'', digits_of k]"
    using remedy_words[OF proto(1) port, of src dst] assms(4,5) by auto
  moreover have "parse_endpoint X (endpoint_words src @ endpoint_words dst @ [''eq'', digits_of k]) =
      Some (endpoint_token src, endpoint_words dst @ [''eq'', digits_of k])"
    by (rule endpoint_parsed) (simp add: assms(3))
  moreover have "parse_endpoint X (endpoint_words dst @ [''eq'', digits_of k]) = Some (endpoint_token dst, [''eq'', digits_of k])"
    by (rule endpoint_parsed) (use assms(5) in blast)
  ultimately show ?thesis
    using assms(1) proto(2) by (simp add: parse_rule_body_def parse_extended_def low endpoint_no_port remedy_port remedy_rule_def)
qed

lemma host_check: "acl_address_check X (''host '' @ show4 a) (show4 a) = Some True"
proof -
  have "words_of (''host '' @ show4 a) = [''host'', show4 a]"
    using words_of_join[of "[''host'', show4 a]"] unspaced_words unspaced_plain[OF plain_show4(2,1), of a]
    by (simp add: unspaced_def)
  then show ?thesis
    using plain_show4(2)[of a] starts_with_append[of "''host ''" "show4 a"]
    by (simp add: acl_address_check_def ip_address_def show_address_def)
qed

text \<open>
  The access-list rule suggested for a denied flow is one the parser reads back, with the
  declared source, protocol and port, and without a destination it admits the flow. With one, the
  rule that was meant to admit the flow stays undecided: the match of a rule never looks at the
  declared destination.
\<close>

theorem suggested_acl_rule_read_back:
  assumes "rl_extended l" "pk_protocol p \<in> {''tcp'', ''udp''}" "pk_port p = digits_of k" "pk_source p = show4 a"
    "flow_endpoints p declared sources destinations = (src, dst)" "dst = [] \<or> dst = show4 b"
  shows "\<exists>body r. acl_remedy p (src, dst) = ''permit '' @ body \<and> parse_rule_body X l body = Some r \<and>
    ar_source r = ''host '' @ show4 a \<and> ar_destination r = endpoint_token dst \<and>
    match_rule X p r = (if dst = [] then Some True else None)"
proof -
  have src: "src = show4 a" using assms(4,5) plain_show4(2)[of a] by (auto simp: flow_endpoints_def)
  have address: "ip_address X (show4 b) \<noteq> None" "unspaced (show4 b)" for b
    using plain_show4 by (simp_all add: ip_address_def unspaced_plain)
  have low: "lower (pk_protocol p) = pk_protocol p" using assms(2) by (elim insertE emptyE) (simp_all only:, code_simp+)
  have known: "pk_protocol p \<noteq> []" "pk_protocol p \<noteq> ''ip''" using assms(2) by auto
  have dst: "dst = [] \<or> ip_address X dst \<noteq> None \<and> unspaced dst" using assms(6) address by blast
  show ?thesis
  proof (intro exI conjI)
    show "acl_remedy p (src, dst) = ''permit '' @ (pk_protocol p @ '' '' @ endpoint_token src @ '' '' @ endpoint_token dst @
        '' eq '' @ digits_of k)"
      using assms(2,3) low known by (simp add: acl_remedy_def Let_def)
    show "parse_rule_body X l (pk_protocol p @ '' '' @ endpoint_token src @ '' '' @ endpoint_token dst @ '' eq '' @ digits_of k) =
      Some (remedy_rule l (pk_protocol p) src dst k)"
      unfolding src by (rule remedy_parsed[OF assms(1,2) address dst])
    have "all_digits (digits_of k)" using digits_of_digits[of k] by (simp add: all_digits_def)
    moreover have "acl_address_check X (endpoint_token src) (show4 a) = Some True"
      using host_check[of X a] plain_show4(2)[of a] by (simp add: src endpoint_token_def)
    moreover have "acl_address_check X (endpoint_token dst) [] = (if dst = [] then Some True else None)"
      by (simp add: acl_address_check_def endpoint_token_def)
    ultimately have "acl_checks X p (remedy_rule l (pk_protocol p) src dst k) =
        [Some True, Some True, if dst = [] then Some True else None, Some True, Some True]"
      using assms(3,4) known low
      by (simp add: acl_checks_def acl_protocol_check_def acl_port_check_def port_matches_def remedy_rule_def)
    moreover have "meaningful (remedy_rule l (pk_protocol p) src dst k) = []"
      by (simp add: meaningful_def remedy_rule_def)
    ultimately show "match_rule X p (remedy_rule l (pk_protocol p) src dst k) = (if dst = [] then Some True else None)"
      by (cases "dst = []") (simp_all add: match_rule_def all_checks_def)
  qed (use src plain_show4(2)[of a] in \<open>simp_all add: endpoint_token_def remedy_rule_def\<close>)
qed

end
