(* ===== verification/PolicyParsers.thy ===== *)
theory PolicyParsers
  imports PolicyRouting Patterns
begin

text \<open>
  The readers of \<open>routing/policy.py\<close>: FortiOS router policy, Linux rules as displayed and as
  configured, route-maps with their interface bindings, Junos filter forwarding, PAN-OS policy
  forwarding and FRR policy maps, each as the loop over lines it is in the code, with the patterns
  of the code. Every reader ends in the rule type of \<open>PolicyRouting\<close>.
\<close>

section \<open>Shared\<close>

type_synonym fields = "(string \<times> string) list"

text \<open>\<open>a or b\<close> of two optional texts.\<close>

definition first_text :: "string option \<Rightarrow> string option \<Rightarrow> string option" where
  "first_text a b = (if text_or_none a then a else b)"

fun token_after :: "string list \<Rightarrow> string \<Rightarrow> string option" where
  "token_after (t # u # us) keyword = (if t = keyword then Some u else token_after (u # us) keyword)"
| "token_after us keyword = None"

text \<open>\<open>str(n)\<close> of an integer.\<close>

definition show_int :: "int \<Rightarrow> string" where
  "show_int n = (if n < 0 then CHR ''-'' # digits_of (nat (- n)) else digits_of (nat n))"

definition port_list :: "string option \<Rightarrow> int list" where
  "port_list v = (case as_int v of None \<Rightarrow> [] | Some n \<Rightarrow> [n])"

text \<open>\<open>bindings.setdefault(name, []).append(interface)\<close> and \<open>bindings.get(name) or []\<close>.\<close>

definition interfaces_of :: "(string \<times> string list) list \<Rightarrow> string \<Rightarrow> string list" where
  "interfaces_of bindings name = (case map_of bindings name of None \<Rightarrow> [] | Some interfaces \<Rightarrow> interfaces)"

definition bind_interface :: "string \<Rightarrow> string \<Rightarrow> (string \<times> string list) list \<Rightarrow> (string \<times> string list) list" where
  "bind_interface name interface bindings =
     AList.update name (interfaces_of bindings name @ [interface]) bindings"

section \<open>FortiOS\<close>

definition forti_edit :: regex where
  "forti_edit = in_turn [AtStart, blanks, literal ''edit'', spaces, Group 1 digits, blanks, AtEnd]"

definition forti_next :: regex where
  "forti_next = in_turn [AtStart, blanks, literal ''next'', blanks, AtEnd]"

definition forti_set :: regex where
  "forti_set = in_turn [AtStart, blanks, literal ''set'', spaces, Group 1 token, spaces,
     Group 2 (Lazy any_char), blanks, AtEnd]"

definition forti_port_limit :: int where
  "forti_port_limit = 4096"

definition forti_ports :: "int option \<Rightarrow> int option \<Rightarrow> int list" where
  "forti_ports start end_port =
     (case start of
        None \<Rightarrow> []
      | Some lo \<Rightarrow>
          let hi = (case end_port of None \<Rightarrow> lo | Some e \<Rightarrow> e)
          in if 0 < hi - lo \<and> hi - lo < forti_port_limit then [lo..hi]
             else if hi = lo then [lo] else [])"

definition ip_protocol_numbers :: "(string \<times> string) list" where
  "ip_protocol_numbers = [(''1'', ''icmp''), (''6'', ''tcp''), (''17'', ''udp'')]"

definition fortios_protocol :: "string option \<Rightarrow> string option" where
  "fortios_protocol v =
     (case clean v of
        None \<Rightarrow> None
      | Some t \<Rightarrow>
          if t = ''0'' then None
          else Some (case map_of ip_protocol_numbers t of Some p \<Rightarrow> p | None \<Rightarrow> t))"

text \<open>\<open>None\<close> is the \<open>ValueError\<close> of \<open>int(fields["sequence"])\<close>.\<close>

definition fortios_entry :: "syntax6 \<Rightarrow> string \<Rightarrow> fields \<Rightarrow> policy_route option" where
  "fortios_entry X command d =
     map_option (\<lambda>n.
       \<lparr> po_sequence = n, po_source = clean_prefix X (map_of d ''src''),
         po_destination = clean_prefix X (map_of d ''dst''),
         po_protocol = fortios_protocol (map_of d ''protocol''),
         po_ports = forti_ports (as_int (map_of d ''start-port'')) (as_int (map_of d ''end-port'')),
         po_ingress = clean (map_of d ''input-device''), po_next_hop = clean (map_of d ''gateway''),
         po_egress = clean (map_of d ''output-device''), po_table = None,
         po_disabled = (case map_of d ''status'' of None \<Rightarrow> False | Some s \<Rightarrow> lower s = ''disable''),
         po_name = None, po_command = Some command, po_unresolved = [] \<rparr>)
       (as_int (map_of d ''sequence''))"

text \<open>The entries read so far, and the fields of the open entry.\<close>

record forti_state =
  fo_entries :: "fields list"
  fo_current :: "fields option"

definition forti_close :: "forti_state \<Rightarrow> forti_state" where
  "forti_close st =
     (case fo_current st of
        None \<Rightarrow> st
      | Some d \<Rightarrow> \<lparr> fo_entries = fo_entries st @ [d], fo_current = None \<rparr>)"

definition forti_line :: "string \<Rightarrow> forti_state \<Rightarrow> forti_state" where
  "forti_line raw st =
     (case re_match forti_edit raw of
        Some g \<Rightarrow> st\<lparr>fo_current := Some [(''sequence'', grouped g 1)]\<rparr>
      | None \<Rightarrow>
          if re_match forti_next raw \<noteq> None then forti_close st
          else (case fo_current st of
                  None \<Rightarrow> st
                | Some d \<Rightarrow>
                    (case re_match forti_set raw of
                       None \<Rightarrow> st
                     | Some g \<Rightarrow> st\<lparr>fo_current := Some (AList.update (lower (grouped g 1))
                         (strip_char CHR 0x22 (strip (grouped g 2))) d)\<rparr>)))"

definition fortios_entries :: "string \<Rightarrow> fields list" where
  "fortios_entries txt =
     fo_entries (forti_close (fold forti_line (splitlines txt) \<lparr> fo_entries = [], fo_current = None \<rparr>))"

fun all_present :: "'a option list \<Rightarrow> 'a list option" where
  "all_present [] = Some []"
| "all_present (v # vs) =
     (case (v, all_present vs) of (Some a, Some rest) \<Rightarrow> Some (a # rest) | _ \<Rightarrow> None)"

definition parse_fortios_policy_routes :: "syntax6 \<Rightarrow> string \<Rightarrow> string \<Rightarrow> policy_route list option" where
  "parse_fortios_policy_routes X command txt =
     all_present (map (fortios_entry X command) (fortios_entries txt))"

section \<open>Linux rules\<close>

definition rule_line :: regex where
  "rule_line = in_turn [AtStart, blanks, Group 1 digits, exactly CHR '':'', spaces,
     Group 2 (Lazy any_char), blanks, AtEnd]"

definition rule_prefix :: "syntax6 \<Rightarrow> string option \<Rightarrow> string option" where
  "rule_prefix X v = (case v of None \<Rightarrow> None | Some t \<Rightarrow> if t = ''all'' then None else clean_prefix X (Some t))"

definition table_rule :: "syntax6 \<Rightarrow> string \<Rightarrow> int \<Rightarrow> string \<Rightarrow> string list \<Rightarrow> policy_route" where
  "table_rule X command n table ws =
     \<lparr> po_sequence = n, po_source = rule_prefix X (token_after ws ''from''),
       po_destination = rule_prefix X (token_after ws ''to''), po_protocol = None, po_ports = [],
       po_ingress = token_after ws ''iif'', po_next_hop = None, po_egress = None, po_table = Some table,
       po_disabled = False, po_name = None, po_command = Some command, po_unresolved = [] \<rparr>"

definition rule_table :: "string list \<Rightarrow> string option" where
  "rule_table ws = first_text (token_after ws ''lookup'') (token_after ws ''table'')"

definition iproute2_rule :: "syntax6 \<Rightarrow> string \<Rightarrow> string \<Rightarrow> policy_route option" where
  "iproute2_rule X command raw =
     (case re_match rule_line raw of
        None \<Rightarrow> None
      | Some g \<Rightarrow>
          let ws = words_of (grouped g 2)
          in map_option (\<lambda>table. table_rule X command (int (int_of_digits (grouped g 1))) table ws) (rule_table ws))"

definition parse_iproute2_rules :: "syntax6 \<Rightarrow> string \<Rightarrow> string \<Rightarrow> policy_route list" where
  "parse_iproute2_rules X command txt = List.map_filter (iproute2_rule X command) (splitlines txt)"

text \<open>
  \<open>ip rule add\<close> lines. The preference of a line may be unreadable, then the sequence of the rule is
  \<open>None\<close>.
\<close>

definition rule_add :: regex where
  "rule_add = in_turn [Alt AtStart (Chars is_space), literal ''ip'', spaces, literal ''rule'', spaces,
     literal ''add'', spaces, Group 1 (Star any_char), AtEnd]"

definition configured_rule :: "syntax6 \<Rightarrow> string \<Rightarrow> string \<Rightarrow> (int option \<times> policy_route) option" where
  "configured_rule X command raw =
     (let line = strip raw
      in if starts_with line ''#'' \<or> occurs_in '' rule del '' (CHR '' '' # line @ '' '') then None
         else (case re_search rule_add line of
                 None \<Rightarrow> None
               | Some g \<Rightarrow>
                   let ws = words_of (takeWhile (\<lambda>c. c \<noteq> CHR ''#'') (grouped g 1));
                       preference = first_text (token_after ws ''pref'')
                         (first_text (token_after ws ''preference'') (token_after ws ''priority''));
                       n = (if preference = None then Some 32766 else as_int preference)
                   in map_option (\<lambda>table. (n, table_rule X command (case n of None \<Rightarrow> 0 | Some k \<Rightarrow> k) table ws))
                        (rule_table ws)))"

definition parse_iproute2_rule_commands :: "syntax6 \<Rightarrow> string \<Rightarrow> string \<Rightarrow> (int option \<times> policy_route) list" where
  "parse_iproute2_rule_commands X command txt = List.map_filter (configured_rule X command) (splitlines txt)"

text \<open>\<open>policy_route_dicts\<close> sorts: comparing a sequence with \<open>None\<close> raises \<open>TypeError\<close>.\<close>

definition ordered_rules :: "(int option \<times> policy_route) list \<Rightarrow> (int option \<times> policy_route) list option" where
  "ordered_rules rules =
     (if length rules \<ge> 2 \<and> (\<exists>r\<in>set rules. fst r = None) then None
      else Some (sort_key (\<lambda>r. case fst r of None \<Rightarrow> 0 | Some n \<Rightarrow> n) rules))"

section \<open>Route-maps\<close>

definition route_map_header :: regex where
  "route_map_header = in_turn [AtStart, literal ''route-map'', spaces, Group 1 token, literal '','', blanks,
     Group 2 (Alt (literal ''permit'') (literal ''deny'')), literal '','', blanks, literal ''sequence'', spaces, Group 3 digits]"

definition route_map_match_ip :: regex where
  "route_map_match_ip = in_turn [AtStart, blanks, literal ''ip address'', spaces,
     optional (Alt (Seq (literal ''prefix-list'') (optional (literal ''s'')))
       (Seq (literal ''access-list'') (optional (literal ''s'')))),
     optional (literal '':''), blanks, Group 1 (Seq any_char (Lazy any_char)), blanks, AtEnd]"

definition route_map_next_hop :: regex where
  "route_map_next_hop = in_turn [AtStart, blanks, literal ''ip next-hop'', spaces, Group 1 token]"

definition route_map_interface :: regex where
  "route_map_interface = in_turn [AtStart, blanks, literal ''interface'', spaces, Group 1 token]"

definition policy_binding :: regex where
  "policy_binding = in_turn [AtStart, blanks, optional (Seq (literal ''Interface'') spaces), Group 1 token, spaces,
     optional (Seq (literal ''route-map'') spaces), Group 2 token, blanks, AtEnd]"

definition names_route_map :: regex where
  "names_route_map = in_turn [literal ''route-map'', spaces, Chars (\<lambda>c. \<not> is_space c)]"

text \<open>\<open>show ip policy\<close>: interface to route-map.\<close>

definition binding_line :: "string \<Rightarrow> fields \<Rightarrow> fields" where
  "binding_line raw bindings =
     (let lowered = lower (strip raw)
      in if lowered = [] then bindings
         else if starts_with lowered ''interface'' \<and> occurs_in ''route'' lowered \<and> occurs_in ''map'' lowered \<and>
           re_search names_route_map lowered = None then bindings
         else (case re_match policy_binding (rstrip raw) of
                 None \<Rightarrow> bindings
               | Some g \<Rightarrow>
                   if lower (grouped g 1) = ''interface'' then bindings
                   else AList.update (grouped g 1) (grouped g 2) bindings))"

definition parse_ip_policy_bindings :: "string \<Rightarrow> fields" where
  "parse_ip_policy_bindings txt = fold binding_line (splitlines txt) []"

text \<open>The open clause, the section of it being read, and the rules of the clauses before.\<close>

record route_map_clause =
  rm_name :: string
  rm_sequence :: int
  rm_action :: string
  rm_next_hop :: "string option"
  rm_egress :: "string option"
  rm_unresolved :: "string list"

datatype clause_section = MatchClauses | SetClauses

record route_map_state =
  rs_policies :: "policy_route list"
  rs_clause :: "route_map_clause option"
  rs_section :: "clause_section option"

definition clause_policies :: "fields \<Rightarrow> string \<Rightarrow> route_map_clause \<Rightarrow> policy_route list" where
  "clause_policies bindings command c =
     map (\<lambda>i. \<lparr> po_sequence = rm_sequence c, po_source = None, po_destination = None, po_protocol = None,
              po_ports = [], po_ingress = Some i, po_next_hop = rm_next_hop c, po_egress = rm_egress c,
              po_table = None, po_disabled = (lower (rm_action c) = ''deny''),
              po_name = Some (rm_name c @ '' seq '' @ show_int (rm_sequence c)), po_command = Some command,
              po_unresolved = rm_unresolved c \<rparr>)
       (sort (map fst (filter (\<lambda>(_, m). m = rm_name c) bindings)))"

definition flush_clause :: "fields \<Rightarrow> string \<Rightarrow> route_map_state \<Rightarrow> policy_route list" where
  "flush_clause bindings command st =
     rs_policies st @ (case rs_clause st of None \<Rightarrow> [] | Some c \<Rightarrow> clause_policies bindings command c)"

definition opened_clause :: "groups \<Rightarrow> route_map_clause" where
  "opened_clause g =
     \<lparr> rm_name = grouped g 1, rm_sequence = int (int_of_digits (grouped g 3)), rm_action = grouped g 2,
       rm_next_hop = None, rm_egress = None, rm_unresolved = [] \<rparr>"

definition match_clause :: "string \<Rightarrow> route_map_clause \<Rightarrow> route_map_clause" where
  "match_clause raw c =
     (case re_match route_map_match_ip raw of
        None \<Rightarrow> c
      | Some g \<Rightarrow>
          if grouped g 1 = [] then c
          else c\<lparr>rm_unresolved := rm_unresolved c @ [''ip address '' @ strip (grouped g 1)]\<rparr>)"

definition set_clause :: "string \<Rightarrow> route_map_clause \<Rightarrow> route_map_clause" where
  "set_clause raw c =
     (case re_match route_map_next_hop raw of
        Some g \<Rightarrow> c\<lparr>rm_next_hop := g 1\<rparr>
      | None \<Rightarrow> (case re_match route_map_interface raw of
            Some g \<Rightarrow> c\<lparr>rm_egress := g 1\<rparr>
          | None \<Rightarrow> c))"

definition route_map_line :: "fields \<Rightarrow> string \<Rightarrow> string \<Rightarrow> route_map_state \<Rightarrow> route_map_state" where
  "route_map_line bindings command raw st =
     (case re_match route_map_header (strip raw) of
        Some g \<Rightarrow> \<lparr> rs_policies = flush_clause bindings command st, rs_clause = Some (opened_clause g), rs_section = None \<rparr>
      | None \<Rightarrow>
          let stripped = lower (strip raw)
          in if rs_clause st = None then st
             else if starts_with stripped ''match clauses'' then st\<lparr>rs_section := Some MatchClauses\<rparr>
             else if starts_with stripped ''set clauses'' then st\<lparr>rs_section := Some SetClauses\<rparr>
             else if starts_with stripped ''policy routing matches'' then st\<lparr>rs_section := None\<rparr>
             else (case rs_section st of
                     Some MatchClauses \<Rightarrow> st\<lparr>rs_clause := map_option (match_clause raw) (rs_clause st)\<rparr>
                   | Some SetClauses \<Rightarrow> st\<lparr>rs_clause := map_option (set_clause raw) (rs_clause st)\<rparr>
                   | None \<Rightarrow> st))"

definition parse_route_map_policy_routes :: "fields \<Rightarrow> string \<Rightarrow> string \<Rightarrow> policy_route list" where
  "parse_route_map_policy_routes bindings command txt =
     flush_clause bindings command
       (fold (route_map_line bindings command) (splitlines txt) \<lparr> rs_policies = [], rs_clause = None, rs_section = None \<rparr>)"

end
