(* ===== verification/PatternLemmas.thy ===== *)
theory PatternLemmas
  imports Patterns
begin

text \<open>
  Rules to run a pattern on a text whose shape is known: where a repetition of a character class
  stops, what a literal consumes, and when the rest of a pattern cannot match; and the lines of a
  text put together from lines.
\<close>

section \<open>Moving the cursor\<close>

definition advance :: "string \<Rightarrow> cursor \<Rightarrow> cursor" where
  "advance u c = c\<lparr>cu_before := (if u = [] then cu_before c else Some (last u)), cu_rest := drop (length u) (cu_rest c)\<rparr>"

lemma advance_Nil [simp]: "advance [] c = c"
  by (simp add: advance_def)

lemma advance_sel [simp]:
  "cu_rest (advance u c) = drop (length u) (cu_rest c)" "cu_groups (advance u c) = cu_groups c"
  by (simp_all add: advance_def)

lemma step_over_Cons [simp]:
  "cu_rest c = x # s \<Longrightarrow> step_over p c = (if p x then Some (advance [x] c) else None)"
  "cu_rest c = [] \<Longrightarrow> step_over p c = None"
  by (simp_all add: step_over_def advance_def)

lemma advance_advance: "advance u (advance [x] c) = advance (x # u) c"
  by (simp add: advance_def)

lemma attempt_in_turn: "attempt (in_turn (r # rs)) k c = attempt r (attempt (in_turn rs) k) c"
proof (cases rs)
  case Nil
  have "attempt Nothing k = k" by (rule ext) simp
  then show ?thesis using Nil by simp
qed simp

section \<open>Repetitions of a character class\<close>

definition stops :: "(char \<Rightarrow> bool) \<Rightarrow> string \<Rightarrow> bool" where
  "stops p v \<longleftrightarrow> (case v of [] \<Rightarrow> True | x # _ \<Rightarrow> \<not> p x)"

lemma greedy_step:
  "greedy (Suc n) (attempt (Chars p)) k c =
     (case cu_rest c of
        [] \<Rightarrow> k c
      | x # s \<Rightarrow>
          if p x then (case greedy n (attempt (Chars p)) k (advance [x] c) of None \<Rightarrow> k c | found \<Rightarrow> found) else k c)"
  by (cases "cu_rest c") simp_all

lemma lazily_step:
  "lazily (Suc n) (attempt (Chars p)) k c =
     (case k c of
        None \<Rightarrow> (case cu_rest c of
            [] \<Rightarrow> None
          | x # s \<Rightarrow> if p x then lazily n (attempt (Chars p)) k (advance [x] c) else None)
      | found \<Rightarrow> found)"
  by (cases "cu_rest c") (simp_all split: option.split)

lemma greedy_stops: "stops p (cu_rest c) \<Longrightarrow> greedy n (attempt (Chars p)) k c = k c"
  by (cases n; cases "cu_rest c") (simp_all add: stops_def)

lemma greedy_chars:
  "cu_rest c = u @ v \<Longrightarrow> list_all p u \<Longrightarrow> stops p v \<Longrightarrow> length u \<le> n \<Longrightarrow> k (advance u c) = Some r \<Longrightarrow>
     greedy n (attempt (Chars p)) k c = Some r"
proof (induction u arbitrary: c n)
  case Nil
  with greedy_stops[of p c n k] show ?case by (simp del: attempt.simps)
next
  case (Cons x u)
  from Cons.prems(4) obtain m where n: "n = Suc m" by (cases n) auto
  have "greedy m (attempt (Chars p)) k (advance [x] c) = Some r"
    using Cons.prems n by (intro Cons.IH) (simp_all add: advance_advance)
  with Cons.prems n show ?case by (simp add: greedy_step del: attempt.simps greedy.simps)
qed

lemma star_chars:
  "cu_rest c = u @ v \<Longrightarrow> list_all p u \<Longrightarrow> stops p v \<Longrightarrow> k (advance u c) = Some r \<Longrightarrow>
     attempt (Star (Chars p)) k c = Some r"
  by (simp add: greedy_chars)

lemma star_none: "stops p (cu_rest c) \<Longrightarrow> attempt (Star (Chars p)) k c = k c"
  by (simp add: greedy_stops)

lemma some_chars:
  assumes "cu_rest c = u @ v" "u \<noteq> []" "list_all p u" "stops p v" "k (advance u c) = Some r"
  shows "attempt (some (Chars p)) k c = Some r"
proof -
  obtain x w where u: "u = x # w" using assms(2) by (cases u) auto
  have "attempt (Star (Chars p)) k (advance [x] c) = Some r"
    by (rule star_chars[of _ w v]) (use assms u in \<open>simp_all add: advance_advance\<close>)
  with assms u show ?thesis by (simp add: some_def)
qed

lemma lazily_chars:
  "cu_rest c = u @ v \<Longrightarrow> list_all p u \<Longrightarrow> length u \<le> n \<Longrightarrow> \<forall>i<length u. k (advance (take i u) c) = None \<Longrightarrow>
     k (advance u c) = Some r \<Longrightarrow> lazily n (attempt (Chars p)) k c = Some r"
proof (induction u arbitrary: c n)
  case Nil
  then show ?case by (cases n) (simp_all add: lazily_step del: attempt.simps lazily.simps(2))
next
  case (Cons x u)
  from Cons.prems(3) obtain m where n: "n = Suc m" by (cases n) auto
  have "k (advance (take i u) (advance [x] c)) = None" if "i < length u" for i
    using Cons.prems(4)[rule_format, of "Suc i"] that by (simp add: advance_advance)
  then have "lazily m (attempt (Chars p)) k (advance [x] c) = Some r"
    using Cons.prems n by (intro Cons.IH) (simp_all add: advance_advance)
  moreover have "k c = None" using Cons.prems(4)[rule_format, of 0] by simp
  ultimately show ?case using Cons.prems n by (simp add: lazily_step del: attempt.simps lazily.simps)
qed

text \<open>Trailing white space does not match a rest with other characters.\<close>

lemma blanks_end_fails:
  "\<exists>x\<in>set (cu_rest c). \<not> is_space x \<Longrightarrow> attempt (in_turn [blanks, AtEnd]) k c = None"
proof -
  have newline: "is_space CHR 0x0A" by code_simp
  have "greedy n (attempt (Chars is_space)) (attempt AtEnd k) c = None" if "\<exists>x\<in>set (cu_rest c). \<not> is_space x" for n
    using that
  proof (induction n arbitrary: c)
    case 0
    then show ?case using newline by auto
  next
    case (Suc n)
    have "attempt AtEnd k c = None" using Suc.prems newline by auto
    moreover obtain x s where "cu_rest c = x # s" using Suc.prems by (cases "cu_rest c") auto
    ultimately show ?case using Suc.IH[of "advance [x] c"] Suc.prems by auto
  qed
  then show "\<exists>x\<in>set (cu_rest c). \<not> is_space x \<Longrightarrow> attempt (in_turn [blanks, AtEnd]) k c = None"
    by (simp add: blanks_def)
qed

lemma blanks_end: "cu_rest c = [] \<Longrightarrow> attempt (in_turn [blanks, AtEnd]) k c = k c"
  by (simp add: blanks_def)

section \<open>Literals\<close>

lemma attempt_literal:
  "cu_rest c = t @ v \<Longrightarrow> attempt (literal t) k c = k (advance t c)"
proof (induction t arbitrary: c)
  case (Cons x t)
  have "attempt (literal (x # t)) k c = attempt (literal t) k (advance [x] c)"
    using Cons.prems by (simp only: literal_def list.map attempt_in_turn) simp
  also have "\<dots> = k (advance t (advance [x] c))" using Cons.prems by (intro Cons.IH) simp
  finally show ?case by (simp add: advance_advance)
qed (simp add: literal_def)

lemma literal_fails:
  "cu_rest c = y # v \<Longrightarrow> lower_char y \<noteq> lower_char x \<Longrightarrow> attempt (literal (x # t)) k c = None"
  by (simp only: literal_def list.map attempt_in_turn) simp

section \<open>Lines\<close>

text \<open>A text written line by line, each line with a line feed.\<close>

definition unlines :: "string list \<Rightarrow> string" where
  "unlines ls = concat (map (\<lambda>l. l @ [CHR 0x0A]) ls)"

lemma splitlines_line:
  assumes "list_all (\<lambda>c. \<not> line_break c) l"
  shows "splitlines (l @ CHR 0x0A # s) = l # splitlines s"
proof -
  have "line_break CHR 0x0A" by code_simp
  with assms have "takeWhile (\<lambda>c. \<not> line_break c) (l @ CHR 0x0A # s) = l"
    "dropWhile (\<lambda>c. \<not> line_break c) (l @ CHR 0x0A # s) = CHR 0x0A # s"
    by (simp_all add: takeWhile_append dropWhile_append3 list_all_iff)
  then show ?thesis
    by (subst splitlines.simps) (simp add: splitlines.simps[of "[]"] split: list.split)
qed

lemma splitlines_unlines:
  "list_all (list_all (\<lambda>c. \<not> line_break c)) ls \<Longrightarrow> splitlines (unlines ls) = ls"
proof (induction ls)
  case Nil
  then show ?case by (simp add: unlines_def splitlines.simps)
next
  case (Cons l ls)
  then show ?case using splitlines_line[of l "unlines ls"] by (simp add: unlines_def)
qed

end
