(* ===== verification/PolicyParserTheorems.thy ===== *)
theory PolicyParserTheorems
  imports PolicyParsers PatternLemmas PolicyRoutingTheorems
begin

text \<open>
  The FortiOS reader on texts of the form the device writes: entries are read back with exactly
  their fields, and what the port range of an entry constrains.
\<close>

section \<open>The lines of an entry\<close>

definition edit_text :: "nat \<Rightarrow> string" where
  "edit_text n = ''edit '' @ digits_of n"

definition set_text :: "string \<times> string \<Rightarrow> string" where
  "set_text = (\<lambda>(k, v). ''set '' @ k @ '' '' @ v)"

definition entry_text :: "nat \<times> fields \<Rightarrow> string list" where
  "entry_text = (\<lambda>(n, d). edit_text n # map set_text d @ [''next''])"

definition fortios_text :: "(nat \<times> fields) list \<Rightarrow> string" where
  "fortios_text entries = unlines (concat (map entry_text entries))"

text \<open>A key in lower case without white space; a value with neither white space nor quotes around it.\<close>

definition plain_field :: "string \<times> string \<Rightarrow> bool" where
  "plain_field = (\<lambda>(k, v). k \<noteq> [] \<and> lower k = k \<and> list_all (\<lambda>c. \<not> is_space c) k \<and> v \<noteq> [] \<and>
     \<not> is_space (hd v) \<and> \<not> is_space (last v) \<and> hd v \<noteq> CHR 0x22 \<and> last v \<noteq> CHR 0x22 \<and>
     list_all (\<lambda>c. \<not> line_break c) v)"

lemma space_facts: "is_space CHR '' ''" "\<not> is_space CHR ''e''" "\<not> is_space CHR ''s''" "\<not> is_space CHR ''n''"
  "\<not> is_space CHR ''t''" "lower_char CHR ''s'' \<noteq> lower_char CHR ''e''" "lower_char CHR ''s'' \<noteq> lower_char CHR ''n''"
  "lower_char CHR ''n'' \<noteq> lower_char CHR ''e''" "\<not> is_digit CHR '' ''" "\<not> line_break CHR '' ''"
  by code_simp+

lemma line_break_space: "line_break c \<Longrightarrow> is_space c"
  by (auto simp: line_break_def is_space_def Let_def)

lemma edit_line_read:
  "\<exists>g. re_match forti_edit (edit_text n) = Some g \<and> grouped g 1 = digits_of n"
proof -
  let ?ds = "digits_of n"
  let ?c = "at_cursor None (''edit '' @ ?ds)"
  let ?c2 = "advance '' '' (advance ''edit'' ?c)"
  have ds: "list_all is_digit ?ds" "?ds \<noteq> []" by (simp_all add: digits_of_digits)
  then obtain x s where xs: "?ds = x # s" "is_digit x" by (cases ?ds) auto
  then have x: "\<not> is_space x" by (auto simp: is_digit_def is_space_def Let_def)
  have "attempt (in_turn [Group 1 digits, blanks, AtEnd]) Some ?c2 = Some ((advance ?ds ?c2)\<lparr>cu_groups := [(1, ?ds)]\<rparr>)"
    unfolding attempt_in_turn[of "Group 1 digits"] attempt.simps(7) unfolding digits_def
    by (rule some_chars[of _ ?ds "[]"]) (use ds in \<open>simp_all add: blanks_end stops_def at_cursor_def del: in_turn.simps\<close>)
  then have "attempt (in_turn [spaces, Group 1 digits, blanks, AtEnd]) Some (advance ''edit'' ?c) =
      Some ((advance ?ds ?c2)\<lparr>cu_groups := [(1, ?ds)]\<rparr>)"
    unfolding attempt_in_turn[of spaces] unfolding spaces_def
    by (intro some_chars[of _ "'' ''" ?ds]) (use xs x space_facts in \<open>simp_all add: stops_def at_cursor_def del: in_turn.simps\<close>)
  moreover have "cu_rest ?c = ''edit'' @ '' '' @ ?ds" by (simp add: at_cursor_def)
  ultimately have "attempt forti_edit Some ?c = Some ((advance ?ds ?c2)\<lparr>cu_groups := [(1, ?ds)]\<rparr>)"
    unfolding forti_edit_def attempt_in_turn[of AtStart] attempt_in_turn[of blanks] attempt_in_turn[of "literal ''edit''"]
    using space_facts
    by (simp add: blanks_def star_none stops_def attempt_literal at_cursor_def del: attempt.simps(5) in_turn.simps)
  then show ?thesis by (simp add: re_match_def edit_text_def grouped_def)
qed

lemma starts_differently:
  assumes "cu_rest c = y # v" "\<not> is_space y" "lower_char y \<noteq> lower_char x"
  shows "attempt (in_turn (blanks # literal (x # t) # rs)) k c = None"
proof -
  have "stops is_space (cu_rest c)" using assms by (simp add: stops_def)
  then show ?thesis
    unfolding attempt_in_turn unfolding blanks_def by (subst star_none) (use assms in \<open>simp_all add: literal_fails\<close>)
qed

lemma not_edit:
  "\<not> is_space y \<Longrightarrow> lower_char y \<noteq> lower_char CHR ''e'' \<Longrightarrow> re_match forti_edit (y # s) = None"
  by (simp add: re_match_def forti_edit_def attempt_in_turn[of AtStart] at_cursor_def
      starts_differently[of _ y s "CHR ''e''" "''dit''"] del: in_turn.simps)

lemma not_next:
  "\<not> is_space y \<Longrightarrow> lower_char y \<noteq> lower_char CHR ''n'' \<Longrightarrow> re_match forti_next (y # s) = None"
  by (simp add: re_match_def forti_next_def attempt_in_turn[of AtStart] at_cursor_def
      starts_differently[of _ y s "CHR ''n''" "''ext''"] del: in_turn.simps)

lemma next_line_read: "re_match forti_next ''next'' \<noteq> None" "re_match forti_edit ''next'' = None"
  by code_simp+

lemma set_line_read:
  assumes "plain_field (k, v)"
  shows "\<exists>g. re_match forti_set (set_text (k, v)) = Some g \<and> grouped g 1 = k \<and> grouped g 2 = v"
proof -
  note plain = assms[unfolded plain_field_def, simplified]
  let ?c = "at_cursor None (''set '' @ k @ '' '' @ v)"
  let ?c1 = "advance ''set'' ?c"
  let ?c2 = "advance '' '' ?c1"
  let ?c3 = "(advance k ?c2)\<lparr>cu_groups := [(1, k)]\<rparr>"
  let ?c4 = "advance '' '' ?c3"
  let ?c5 = "(advance v ?c4)\<lparr>cu_groups := [(2, v), (1, k)]\<rparr>"
  obtain x s where k: "k = x # s" "\<not> is_space x" using plain by (cases k) auto
  obtain y t where v: "v = y # t" "\<not> is_space y" using plain by (cases v) auto
  have rest4: "cu_rest ?c4 = v" by (simp add: at_cursor_def)
  have newline: "line_break CHR 0x0A" by code_simp
  have value_part: "attempt (in_turn [Group 2 (Lazy any_char), blanks, AtEnd]) Some ?c4 = Some ?c5"
    unfolding attempt_in_turn[of "Group 2 (Lazy any_char)"] attempt.simps(6,7) unfolding any_char_def
  proof (rule lazily_chars[of _ v "[]"])
    show "list_all (\<lambda>c. c \<noteq> CHR 0x0A) v" using plain newline by (auto simp: list_all_iff)
    show "\<forall>i<length v. attempt (in_turn [blanks, AtEnd]) Some
        (advance (take i v) ?c4\<lparr>cu_groups := (2, take (length (cu_rest ?c4) - length (cu_rest (advance (take i v) ?c4)))
          (cu_rest ?c4)) # cu_groups (advance (take i v) ?c4)\<rparr>) = None"
    proof (intro allI impI blanks_end_fails)
      fix i assume "i < length v"
      then have "last v \<in> set (drop i v)" by (metis drop_eq_Nil last_drop last_in_set not_le)
      then show "\<exists>x\<in>set (cu_rest (advance (take i v) ?c4\<lparr>cu_groups := (2, take (length (cu_rest ?c4) -
          length (cu_rest (advance (take i v) ?c4))) (cu_rest ?c4)) # cu_groups (advance (take i v) ?c4)\<rparr>)).
          \<not> is_space x"
        using plain rest4 \<open>i < length v\<close> by (auto simp: min_def)
    qed
  qed (use rest4 in \<open>simp_all add: blanks_end at_cursor_def del: in_turn.simps\<close>)
  have "attempt (in_turn [spaces, Group 2 (Lazy any_char), blanks, AtEnd]) Some ?c3 = Some ?c5"
    unfolding attempt_in_turn[of spaces] unfolding spaces_def
    by (rule some_chars[of _ "'' ''" v]) (use v space_facts value_part in \<open>simp_all add: stops_def at_cursor_def del: in_turn.simps\<close>)
  then have "attempt (in_turn [Group 1 token, spaces, Group 2 (Lazy any_char), blanks, AtEnd]) Some ?c2 = Some ?c5"
    unfolding attempt_in_turn[of "Group 1 token"] attempt.simps(7) unfolding token_def
    by (intro some_chars[of _ k "'' '' @ v"]) (use plain space_facts in \<open>simp_all add: stops_def at_cursor_def del: in_turn.simps\<close>)
  then have "attempt (in_turn [spaces, Group 1 token, spaces, Group 2 (Lazy any_char), blanks, AtEnd]) Some ?c1 = Some ?c5"
    unfolding attempt_in_turn[of spaces "Group 1 token # rs" for rs] unfolding spaces_def
    by (intro some_chars[of _ "'' ''" "k @ '' '' @ v"]) (use k space_facts in \<open>simp_all add: stops_def at_cursor_def del: in_turn.simps\<close>)
  moreover have "cu_rest ?c = ''set'' @ '' '' @ k @ '' '' @ v" by (simp add: at_cursor_def)
  ultimately have "attempt forti_set Some ?c = Some ?c5"
    unfolding forti_set_def attempt_in_turn[of AtStart] attempt_in_turn[of blanks "literal ''set'' # rs" for rs]
      attempt_in_turn[of "literal ''set''"]
    using space_facts
    by (simp add: blanks_def star_none stops_def attempt_literal at_cursor_def del: attempt.simps(5) in_turn.simps)
  then show ?thesis by (simp add: re_match_def set_text_def grouped_def)
qed

section \<open>Entries read back\<close>

lemma edit_step: "forti_line (edit_text n) st = st\<lparr>fo_current := Some [(''sequence'', digits_of n)]\<rparr>"
  using edit_line_read[of n] by (auto simp: forti_line_def)

lemma next_step: "forti_line ''next'' st = forti_close st"
  using next_line_read by (auto simp: forti_line_def)

lemma set_step:
  assumes "plain_field (k, v)" "fo_current st = Some d"
  shows "forti_line (set_text (k, v)) st = st\<lparr>fo_current := Some (AList.update k v d)\<rparr>"
proof -
  note plain = assms(1)[unfolded plain_field_def, simplified]
  have line: "set_text (k, v) = CHR ''s'' # ''et '' @ k @ '' '' @ v" by (simp add: set_text_def)
  have "re_match forti_edit (set_text (k, v)) = None" "re_match forti_next (set_text (k, v)) = None"
    unfolding line using space_facts by (simp_all add: not_edit not_next)
  moreover have "strip_char CHR 0x22 (strip v) = v" using plain by (simp add: strip_keep strip_char_keep)
  ultimately show ?thesis
    using set_line_read[OF assms(1)] assms(2) plain by (auto simp: forti_line_def)
qed

lemma set_steps:
  assumes "list_all plain_field fs" "distinct (map fst (d @ fs))"
  shows "fold forti_line (map set_text fs) \<lparr> fo_entries = es, fo_current = Some d \<rparr> =
    \<lparr> fo_entries = es, fo_current = Some (d @ fs) \<rparr>"
  using assms
proof (induction fs arbitrary: d)
  case (Cons f fs)
  obtain k v where f: "f = (k, v)" by (cases f)
  have "AList.update k v d = d @ [(k, v)]" using Cons.prems f by (intro update_fresh) (auto simp: map_of_eq_None_iff)
  then have "forti_line (set_text f) \<lparr> fo_entries = es, fo_current = Some d \<rparr> =
      \<lparr> fo_entries = es, fo_current = Some (d @ [(k, v)]) \<rparr>"
    using set_step[of k v "\<lparr> fo_entries = es, fo_current = Some d \<rparr>" d] Cons.prems f by simp
  with Cons.IH[of "d @ [(k, v)]"] Cons.prems f show ?case by simp
qed simp

definition plain_entry :: "nat \<times> fields \<Rightarrow> bool" where
  "plain_entry = (\<lambda>(n, d). list_all plain_field d \<and> distinct (map fst d) \<and> ''sequence'' \<notin> fst ` set d)"

lemma entry_steps:
  assumes "plain_entry (n, d)"
  shows "fold forti_line (entry_text (n, d)) \<lparr> fo_entries = es, fo_current = None \<rparr> =
    \<lparr> fo_entries = es @ [(''sequence'', digits_of n) # d], fo_current = None \<rparr>"
  using assms set_steps[of d "[(''sequence'', digits_of n)]" es]
  by (simp add: entry_text_def plain_entry_def edit_step next_step forti_close_def)

lemma entries_steps:
  "list_all plain_entry entries \<Longrightarrow>
     fold forti_line (concat (map entry_text entries)) \<lparr> fo_entries = es, fo_current = None \<rparr> =
     \<lparr> fo_entries = es @ map (\<lambda>(n, d). (''sequence'', digits_of n) # d) entries, fo_current = None \<rparr>"
proof (induction entries arbitrary: es)
  case (Cons e entries)
  obtain n d where "e = (n, d)" by (cases e)
  with Cons entry_steps[of n d es] show ?case by simp
qed simp

lemma set_text_unbroken:
  assumes "plain_field f"
  shows "list_all (\<lambda>c. \<not> line_break c) (set_text f)"
proof -
  obtain k v where f: "f = (k, v)" by (cases f)
  have "list_all (\<lambda>c. \<not> line_break c) ''set ''" by code_simp
  moreover have "\<forall>c\<in>set k. \<not> line_break c" using assms f line_break_space by (auto simp: plain_field_def list_all_iff)
  ultimately show ?thesis using assms f space_facts by (auto simp: set_text_def plain_field_def list_all_iff)
qed

lemma entry_lines_unbroken:
  assumes "plain_entry e"
  shows "list_all (list_all (\<lambda>c. \<not> line_break c)) (entry_text e)"
proof -
  obtain n d where e: "e = (n, d)" by (cases e)
  have "list_all (\<lambda>c. \<not> line_break c) (digits_of n)"
    using digits_of_digits[of n] by (auto simp: list_all_iff is_digit_def line_break_def Let_def)
  moreover have "list_all (\<lambda>c. \<not> line_break c) ''edit ''" "list_all (\<lambda>c. \<not> line_break c) ''next''" by code_simp+
  moreover have "list_all (list_all (\<lambda>c. \<not> line_break c)) (map set_text d)"
    using assms e set_text_unbroken by (auto simp: plain_entry_def list_all_iff)
  ultimately show ?thesis using e by (simp add: entry_text_def edit_text_def)
qed

lemma list_all_concat: "list_all p (concat xss) = list_all (list_all p) xss"
  by (induction xss) auto

lemma as_int_digits: "as_int (Some (digits_of n)) = Some (int n)"
  by (simp add: as_int_def)

lemma all_present_map: "(\<And>x. x \<in> set xs \<Longrightarrow> f x = Some (g x)) \<Longrightarrow> all_present (map f xs) = Some (map g xs)"
  by (induction xs) simp_all


definition demo_entries :: "(nat \<times> fields) list" where
  "demo_entries =
     [(7, [(''input-device'', ''port1''), (''src'', ''10.0.5.9 255.255.255.0''), (''gateway'', ''192.0.2.1'')]), (9, [(''status'', ''disable'')])]"


section \<open>Port ranges\<close>

lemma forti_ports_set:
  "k \<in> set (forti_ports (Some lo) (Some hi)) \<longleftrightarrow> lo \<le> k \<and> k \<le> hi \<and> hi - lo < forti_port_limit"
  "forti_ports (Some lo) (Some hi) = [] \<longleftrightarrow> \<not> (0 \<le> hi - lo \<and> hi - lo < forti_port_limit)"
  by (auto simp: forti_ports_def forti_port_limit_def)

text \<open>
  A port range of a FortiOS entry constrains the port exactly, and only, when it spans fewer than
  4096 ports beyond its first: then the entry matches no port outside the range and treats the ports inside
  it alike. An entry with a wider range, or with a range that ends before it starts, matches as if
  it had none.
\<close>

theorem fortios_port_range:
  assumes "fortios_entry X command d = Some r"
    "as_int (map_of d ''start-port'') = Some lo" "as_int (map_of d ''end-port'') = Some hi" "fl_port f = Some k"
  shows "policy_matches X f r =
    (if 0 \<le> hi - lo \<and> hi - lo < 4096 \<and> \<not> (lo \<le> k \<and> k \<le> hi) then Some False
     else policy_matches X f (r\<lparr>po_ports := []\<rparr>))"
proof -
  have ports: "po_ports r = forti_ports (Some lo) (Some hi)" using assms(1-3) by (auto simp: fortios_entry_def)
  have limit: "forti_port_limit = 4096" by (simp add: forti_port_limit_def)
  show ?thesis
  proof (cases "0 \<le> hi - lo \<and> hi - lo < 4096")
    case True
    then have "po_ports r \<noteq> []" "k \<in> set (po_ports r) \<longleftrightarrow> lo \<le> k \<and> k \<le> hi"
      unfolding ports forti_ports_set limit by auto
    with True assms(4) show ?thesis
      by (simp add: policy_matches_def all_checks_def check_declared_def[of "\<lambda>ps q. q \<in> set ps"])
  next
    case False
    then have "po_ports r = []" unfolding ports forti_ports_set limit .
    then have "r\<lparr>po_ports := []\<rparr> = r" by (cases r) simp
    with False show ?thesis by auto
  qed
qed

definition demo_flow :: "int \<Rightarrow> flow" where
  "demo_flow k = \<lparr> fl_source = None, fl_destination = None, fl_protocol = None, fl_port = Some k, fl_ingress = None \<rparr>"

definition demo_range :: "string \<Rightarrow> fields" where
  "demo_range hi = [(''sequence'', ''1''), (''start-port'', ''1024''), (''end-port'', hi), (''gateway'', ''192.0.2.1'')]"

theorem fortios_port_range_witness:
  "(\<exists>r. fortios_entry no_syntax6 [] (demo_range ''2048'') = Some r \<and> policy_matches no_syntax6 (demo_flow 80) r = Some False) \<and>
   (\<exists>r. fortios_entry no_syntax6 [] (demo_range ''65535'') = Some r \<and> policy_matches no_syntax6 (demo_flow 80) r = Some True)"
proof -
  have "char_of (48 :: nat) = CHR ''0''" "char_of (49 :: nat) = CHR ''1''" "char_of (50 :: nat) = CHR ''2''"
    "char_of (51 :: nat) = CHR ''3''" "char_of (52 :: nat) = CHR ''4''" "char_of (53 :: nat) = CHR ''5''"
    "char_of (54 :: nat) = CHR ''6''" "char_of (56 :: nat) = CHR ''8''"
    by code_simp+
  then have "digits_of 1 = ''1''" "digits_of 1024 = ''1024''" "digits_of 2048 = ''2048''" "digits_of 65535 = ''65535''"
    by (simp_all add: digits_of.simps)
  then have numbers: "as_int (Some ''1'') = Some 1" "as_int (Some ''1024'') = Some 1024"
    "as_int (Some ''2048'') = Some 2048" "as_int (Some ''65535'') = Some 65535"
    using as_int_digits[of 1] as_int_digits[of 1024] as_int_digits[of 2048] as_int_digits[of 65535] by simp_all
  have start: "as_int (map_of (demo_range hi) ''start-port'') = Some 1024" for hi
    by (simp add: demo_range_def numbers)
  have ends: "as_int (map_of (demo_range ''2048'') ''end-port'') = Some 2048"
    "as_int (map_of (demo_range ''65535'') ''end-port'') = Some 65535"
    by (simp_all add: demo_range_def numbers)
  have port: "fl_port (demo_flow 80) = Some 80" by (simp add: demo_flow_def)
  have "as_int (map_of (demo_range hi) ''sequence'') = Some 1" for hi by (simp add: demo_range_def numbers)
  then obtain r where r: "\<And>hi. fortios_entry no_syntax6 [] (demo_range hi) = Some (r hi)"
    by (simp add: fortios_entry_def)
  have unset: "clean None = None" by code_simp
  have "po_source e = None \<and> po_destination e = None \<and> po_protocol e = None \<and> po_ingress e = None \<and>
      \<not> po_disabled e \<and> po_unresolved e = []"
    if "fortios_entry no_syntax6 [] (demo_range ''65535'') = Some e" for e
    using that by (auto simp: fortios_entry_def demo_range_def clean_prefix_def fortios_protocol_def unset)
  from this[OF r]
  have open_rule: "policy_matches no_syntax6 (demo_flow 80) ((r ''65535'')\<lparr>po_ports := []\<rparr>) = Some True"
    by (simp add: policy_matches_def all_checks_def check_declared_def)
  show ?thesis
    using fortios_port_range[OF r start ends(1) port] fortios_port_range[OF r start ends(2) port] r open_rule by simp
qed

end
