(* ===== verification/VendorPolicies.thy ===== *)
theory VendorPolicies
  imports PolicyParsers
begin

text \<open>
  The readers of \<open>routing/policy.py\<close> for Junos filter-based forwarding, PAN-OS policy-based
  forwarding and FRR policy maps, and the sentence that describes a rule.
\<close>

section \<open>Junos\<close>

definition junos_term_line :: regex where
  "junos_term_line = in_turn [AtStart, literal ''set'', spaces, literal ''firewall'', spaces, literal ''family'', spaces,
     literal ''inet'', spaces, literal ''filter'', spaces, Group 1 token, spaces, literal ''term'', spaces,
     Group 2 token, spaces, Group 3 (Alt (literal ''from'') (literal ''then'')), spaces, Group 4 (Star any_char), AtEnd]"

definition junos_binding_line :: regex where
  "junos_binding_line = in_turn [AtStart, literal ''set'', spaces, literal ''interfaces'', spaces, Group 1 token, spaces,
     literal ''unit'', spaces, Group 2 token, spaces, literal ''family'', spaces, literal ''inet'', spaces,
     literal ''filter'', spaces, literal ''input'', spaces, Group 3 token, blanks, AtEnd]"

text \<open>A term of a filter, its \<open>from\<close> criteria and its \<open>then\<close> actions.\<close>

record junos_term =
  jt_filter :: string
  jt_term :: string
  jt_from :: fields
  jt_then :: fields

record junos_state =
  js_terms :: "junos_term list"
  js_bindings :: "(string \<times> string list) list"

definition same_term :: "string \<Rightarrow> string \<Rightarrow> junos_term \<Rightarrow> bool" where
  "same_term f t j \<longleftrightarrow> jt_filter j = f \<and> jt_term j = t"

definition with_clause :: "groups \<Rightarrow> junos_term \<Rightarrow> junos_term" where
  "with_clause g j =
     (case words_of (strip (grouped g 4)) of
        [] \<Rightarrow> j
      | w # ws \<Rightarrow>
          let value = strip (join_with '' '' ws)
          in if lower (grouped g 3) = ''from'' then j\<lparr>jt_from := AList.update (lower w) value (jt_from j)\<rparr>
             else j\<lparr>jt_then := AList.update (lower w) value (jt_then j)\<rparr>)"

definition junos_line :: "string \<Rightarrow> junos_state \<Rightarrow> junos_state" where
  "junos_line raw st =
     (let line = strip raw
      in case re_match junos_binding_line line of
           Some g \<Rightarrow> st\<lparr>js_bindings :=
             bind_interface (grouped g 3) (grouped g 1 @ ''.'' @ grouped g 2) (js_bindings st)\<rparr>
         | None \<Rightarrow>
             (case re_match junos_term_line line of
                None \<Rightarrow> st
              | Some g \<Rightarrow>
                  let known = same_term (grouped g 1) (grouped g 2);
                      terms = (if list_ex known (js_terms st) then js_terms st
                        else js_terms st @ [\<lparr> jt_filter = grouped g 1, jt_term = grouped g 2, jt_from = [], jt_then = [] \<rparr>])
                  in st\<lparr>js_terms := map (\<lambda>j. if known j then with_clause g j else j) terms\<rparr>))"

definition junos_policies ::
  "syntax6 \<Rightarrow> (string \<times> string list) list \<Rightarrow> string \<Rightarrow> nat \<times> junos_term \<Rightarrow> policy_route list" where
  "junos_policies X bindings command =
     (\<lambda>(index, t).
        case map_of (jt_then t) ''routing-instance'' of
          None \<Rightarrow> []
        | Some instance_name \<Rightarrow>
            if instance_name = [] then []
            else map (\<lambda>i. \<lparr> po_sequence = int index,
                   po_source = clean_prefix X (map_of (jt_from t) ''source-address''),
                   po_destination = clean_prefix X (map_of (jt_from t) ''destination-address''),
                   po_protocol = clean (map_of (jt_from t) ''protocol''),
                   po_ports = port_list (map_of (jt_from t) ''destination-port''),
                   po_ingress = Some i, po_next_hop = None, po_egress = None, po_table = Some instance_name,
                   po_disabled = False, po_name = Some (jt_filter t @ '' term '' @ jt_term t),
                   po_command = Some command, po_unresolved = [] \<rparr>)
              (sort (interfaces_of bindings (jt_filter t))))"

definition parse_junos_filter_forwarding :: "syntax6 \<Rightarrow> string \<Rightarrow> string \<Rightarrow> policy_route list" where
  "parse_junos_filter_forwarding X command txt =
     (let st = fold junos_line (splitlines txt) \<lparr> js_terms = [], js_bindings = [] \<rparr>
      in concat (map (junos_policies X (js_bindings st) command) (enumerate 0 (js_terms st))))"

section \<open>PAN-OS\<close>

definition panos_name_char :: "char \<Rightarrow> bool" where
  "panos_name_char c \<longleftrightarrow> is_word_char c \<or> c \<in> {CHR ''.'', CHR '':'', CHR ''-''}"

definition panos_key_char :: "char \<Rightarrow> bool" where
  "panos_key_char c \<longleftrightarrow> is_word_char c \<or> c \<in> {CHR ''/'', CHR ''-''}"

definition panos_rule_line :: regex where
  "panos_rule_line = in_turn [AtStart, blanks, Group 1 (some (Chars panos_name_char)), blanks,
     exactly CHR 0x7B, blanks, AtEnd]"

definition panos_field_line :: regex where
  "panos_field_line = in_turn [AtStart, blanks, Group 1 (some (Chars panos_key_char)),
     Chars (\<lambda>c. c = CHR '':'' \<or> is_space c), blanks, Group 2 (Seq any_char (Lazy any_char)),
     optional (exactly CHR '';''), blanks, AtEnd]"

definition panos_any :: "string option \<Rightarrow> string option" where
  "panos_any v =
     (case clean v of None \<Rightarrow> None | Some t \<Rightarrow> if lower t \<in> {''any'', ''none''} then None else Some t)"

definition unresolved_as :: "string \<Rightarrow> string option \<Rightarrow> string list" where
  "unresolved_as label v = (case v of None \<Rightarrow> [] | Some t \<Rightarrow> [label @ t])"

definition panos_entry :: "syntax6 \<Rightarrow> string \<Rightarrow> fields \<Rightarrow> int \<Rightarrow> string \<Rightarrow> policy_route" where
  "panos_entry X name d seq command =
     \<lparr> po_sequence = seq, po_source = clean_prefix X (panos_any (map_of d ''source'')),
       po_destination = clean_prefix X (panos_any (map_of d ''destination'')), po_protocol = None, po_ports = [], po_ingress = None,
       po_next_hop = panos_any (map_of d ''next-hop''),
       po_egress = panos_any (first_text (map_of d ''forwarding-egress-if/vsys'') (map_of d ''forwarding-egress-if'')),
       po_table = None,
       po_disabled = (case map_of d ''action'' of None \<Rightarrow> False
         | Some a \<Rightarrow> lower a \<in> {''no-pbf'', ''discard'', ''disabled''}),
       po_name = Some name, po_command = Some command,
       po_unresolved = unresolved_as ''source zone '' (panos_any (map_of d ''from'')) @
         unresolved_as ''application/service '' (panos_any (map_of d ''application/service'')) \<rparr>"

text \<open>The rule being read with its fields, the depth of open blocks, and the number of the next rule.\<close>

record panos_state =
  ps_policies :: "policy_route list"
  ps_current :: "(string \<times> fields) option"
  ps_depth :: nat
  ps_sequence :: int

definition panos_close :: "syntax6 \<Rightarrow> string \<Rightarrow> panos_state \<Rightarrow> panos_state" where
  "panos_close X command st =
     (case ps_current st of
        None \<Rightarrow> st\<lparr>ps_depth := ps_depth st - 1\<rparr>
      | Some (name, d) \<Rightarrow>
          \<lparr> ps_policies = ps_policies st @ [panos_entry X name d (ps_sequence st) command], ps_current = None,
            ps_depth = ps_depth st - 1, ps_sequence = ps_sequence st + 1 \<rparr>)"

definition panos_open :: "string \<Rightarrow> panos_state \<Rightarrow> panos_state" where
  "panos_open name st =
     (let depth = Suc (ps_depth st)
      in if depth \<ge> 2 then st\<lparr>ps_depth := depth, ps_current := Some (name, [])\<rparr> else st\<lparr>ps_depth := depth\<rparr>)"

definition panos_field :: "string \<Rightarrow> string \<times> fields \<Rightarrow> string \<times> fields" where
  "panos_field stripped = (\<lambda>(name, d).
     case re_match panos_field_line stripped of
       None \<Rightarrow> (name, d)
     | Some g \<Rightarrow> (name, AList.update (lower (grouped g 1)) (strip (grouped g 2)) d))"

definition panos_line :: "syntax6 \<Rightarrow> string \<Rightarrow> string \<Rightarrow> panos_state \<Rightarrow> panos_state" where
  "panos_line X command raw st =
     (let stripped = strip raw
      in if stripped = [] then st
         else (case re_match panos_rule_line (rstrip raw) of
                 Some g \<Rightarrow> panos_open (grouped g 1) st
               | None \<Rightarrow>
                   if starts_with stripped [CHR 0x7D] then panos_close X command st
                   else st\<lparr>ps_current := map_option (panos_field stripped) (ps_current st)\<rparr>))"

definition parse_panos_pbf_rules :: "syntax6 \<Rightarrow> string \<Rightarrow> string \<Rightarrow> policy_route list" where
  "parse_panos_pbf_rules X command txt =
     ps_policies (fold (panos_line X command) (splitlines txt)
       \<lparr> ps_policies = [], ps_current = None, ps_depth = 0, ps_sequence = 0 \<rparr>)"

section \<open>FRR\<close>

definition frr_map_line :: regex where
  "frr_map_line = in_turn [AtStart, blanks, literal ''pbr-map'', spaces, Group 1 token, spaces,
     literal ''valid:'', blanks, Group 2 token]"

definition frr_seq_line :: regex where
  "frr_seq_line = in_turn [AtStart, blanks, literal ''Seq:'', blanks, Group 1 digits, spaces,
     literal ''rule:'', blanks, Group 2 digits]"

definition frr_installed_line :: regex where
  "frr_installed_line = in_turn [AtStart, blanks, literal ''Installed:'', blanks, Group 1 token]"

definition frr_match_line :: regex where
  "frr_match_line = in_turn [AtStart, blanks,
     Group 1 (one_of [literal ''SRC IP'', literal ''DST IP'', literal ''IP Protocol'', literal ''SRC Port'', literal ''DST Port'']),
     spaces, literal ''Match:'', blanks, Group 2 token]"

definition frr_nexthop_line :: regex where
  "frr_nexthop_line = in_turn [AtStart, blanks, literal ''nexthop'', spaces, Group 1 token]"

definition frr_binding_line :: regex where
  "frr_binding_line = in_turn [AtStart, blanks,
     Group 1 (Seq (Chars (\<lambda>c. \<not> is_space c)) (Lazy (Chars (\<lambda>c. \<not> is_space c)))),
     exactly CHR ''('', digits, exactly CHR '')'', spaces, literal ''with'', spaces, literal ''pbr-policy'', spaces, Group 2 token]"

definition pbrd_down :: string where
  "pbrd_down = ''pbrd is not running''"

definition frr_pbr_is_readable :: "string \<Rightarrow> bool" where
  "frr_pbr_is_readable txt = (let body = strip txt in body \<noteq> [] \<and> \<not> occurs_in pbrd_down (lower body))"

definition frr_binding :: "string \<Rightarrow> (string \<times> string list) list \<Rightarrow> (string \<times> string list) list" where
  "frr_binding raw bindings =
     (case re_match frr_binding_line raw of
        None \<Rightarrow> bindings
      | Some g \<Rightarrow> bind_interface (grouped g 2) (grouped g 1) bindings)"

definition parse_frr_pbr_interfaces :: "string \<Rightarrow> (string \<times> string list) list" where
  "parse_frr_pbr_interfaces txt = fold frr_binding (splitlines txt) []"

text \<open>An entry of \<open>show pbr map\<close>; \<open>installed\<close> is the first such line of the rule.\<close>

record frr_entry =
  fe_sequence :: int
  fe_installed :: "bool option"
  fe_criteria :: fields
  fe_nexthop :: "string option"

record frr_state =
  fs_policies :: "policy_route list"
  fs_name :: "string option"
  fs_entry :: "frr_entry option"

definition frr_policies ::
  "syntax6 \<Rightarrow> (string \<times> string list) list \<Rightarrow> string \<Rightarrow> string \<Rightarrow> frr_entry \<Rightarrow> policy_route list" where
  "frr_policies X bindings command name e =
     map (\<lambda>i. \<lparr> po_sequence = fe_sequence e, po_source = clean_prefix X (map_of (fe_criteria e) ''src ip''),
              po_destination = clean_prefix X (map_of (fe_criteria e) ''dst ip''),
              po_protocol = clean (map_of (fe_criteria e) ''ip protocol''),
              po_ports = port_list (map_of (fe_criteria e) ''dst port''),
              po_ingress = Some i, po_next_hop = fe_nexthop e, po_egress = None, po_table = None,
              po_disabled = (fe_installed e \<noteq> Some True),
              po_name = Some (name @ '' seq '' @ show_int (fe_sequence e)), po_command = Some command,
              po_unresolved = [] \<rparr>)
       (sort (interfaces_of bindings name))"

definition frr_flush :: "syntax6 \<Rightarrow> (string \<times> string list) list \<Rightarrow> string \<Rightarrow> frr_state \<Rightarrow> policy_route list" where
  "frr_flush X bindings command st =
     fs_policies st @
     (case (fs_entry st, fs_name st) of
        (Some e, Some name) \<Rightarrow> frr_policies X bindings command name e
      | _ \<Rightarrow> [])"

definition frr_detail :: "string \<Rightarrow> frr_entry \<Rightarrow> frr_entry" where
  "frr_detail raw e =
     (case re_match frr_installed_line raw of
        Some g \<Rightarrow>
          if fe_installed e = None then e\<lparr>fe_installed := Some (lower (grouped g 1) = ''yes'')\<rparr> else e
      | None \<Rightarrow>
          (case re_match frr_match_line raw of
             Some g \<Rightarrow> e\<lparr>fe_criteria := AList.update (lower (grouped g 1)) (grouped g 2) (fe_criteria e)\<rparr>
           | None \<Rightarrow>
               (case re_match frr_nexthop_line raw of
                  Some g \<Rightarrow> e\<lparr>fe_nexthop := Some (grouped g 1)\<rparr>
                | None \<Rightarrow> e)))"

definition frr_line :: "syntax6 \<Rightarrow> (string \<times> string list) list \<Rightarrow> string \<Rightarrow> string \<Rightarrow> frr_state \<Rightarrow> frr_state" where
  "frr_line X bindings command raw st =
     (case re_match frr_map_line raw of
        Some g \<Rightarrow> \<lparr> fs_policies = frr_flush X bindings command st, fs_name = Some (grouped g 1), fs_entry = None \<rparr>
      | None \<Rightarrow>
          (case re_match frr_seq_line raw of
             Some g \<Rightarrow> st\<lparr>fs_policies := frr_flush X bindings command st,
               fs_entry := Some \<lparr> fe_sequence = int (int_of_digits (grouped g 1)), fe_installed = None,
                 fe_criteria = [], fe_nexthop = None \<rparr>\<rparr>
           | None \<Rightarrow> st\<lparr>fs_entry := map_option (frr_detail raw) (fs_entry st)\<rparr>))"

definition parse_frr_pbr_maps :: "syntax6 \<Rightarrow> (string \<times> string list) list \<Rightarrow> string \<Rightarrow> string \<Rightarrow> policy_route list" where
  "parse_frr_pbr_maps X bindings command txt =
     (if \<not> frr_pbr_is_readable txt then []
      else frr_flush X bindings command
        (fold (frr_line X bindings command) (splitlines txt) \<lparr> fs_policies = [], fs_name = None, fs_entry = None \<rparr>))"

section \<open>The description of a rule\<close>

definition upper_char :: "char \<Rightarrow> char" where
  "upper_char c = (let n = (of_char c :: nat) in if 97 \<le> n \<and> n \<le> 122 then char_of (n - 32) else c)"

definition labelled :: "string \<Rightarrow> string option \<Rightarrow> string list" where
  "labelled label v = (if text_or_none v then [label @ the v] else [])"

definition rule_criteria :: "policy_route \<Rightarrow> string list" where
  "rule_criteria r =
     labelled ''in '' (po_ingress r) @ labelled ''from '' (po_source r) @ labelled ''to '' (po_destination r) @
     (if text_or_none (po_protocol r) then
        [map upper_char (the (po_protocol r)) @
           (if po_ports r = [] then [] else ''/'' @ join_with '','' (map show_int (po_ports r)))]
      else []) @
     map (\<lambda>u. ''matching '' @ u @ '' (contents not captured)'') (po_unresolved r)"

definition rule_action :: "policy_route \<Rightarrow> string" where
  "rule_action r =
     (if text_or_none (po_next_hop r) then
        ''via '' @ the (po_next_hop r) @ concat (labelled '' on '' (po_egress r))
      else if text_or_none (po_egress r) then ''out '' @ the (po_egress r)
      else if text_or_none (po_table r) then ''looked up in table '' @ the (po_table r)
      else ''left to the routing table'')"

definition describe_policy :: "policy_route \<Rightarrow> string" where
  "describe_policy r =
     (if text_or_none (po_name r) then the (po_name r) else ''rule '' @ show_int (po_sequence r)) @ '': '' @
     (if rule_criteria r = [] then ''any traffic'' else join_with '' '' (rule_criteria r)) @ '' '' @ rule_action r"

end
