(* ===== verification/NetworkDemo.thy ===== *)
theory NetworkDemo
  imports PacketTheorems PolicyParserTheorems VendorPolicies
begin

text \<open>
  A router configuration with a bound access list, a firewall chain, policy routes and a routing
  table, on which the properties of the network analysis are applied.
\<close>

section \<open>An access list\<close>

definition demo_acl_rule :: "string \<Rightarrow> string \<Rightarrow> string \<Rightarrow> nat \<Rightarrow> acl_rule" where
  "demo_acl_rule action protocol source n =
     \<lparr> ar_acl = ''WEB'', ar_action = action, ar_protocol = protocol, ar_source = source, ar_destination = ''any'',
       ar_line = n, ar_sequence = None, ar_source_port = None, ar_destination_port = None, ar_qualifiers = [],
       ar_raw = [] \<rparr>"

definition demo_acl :: "acl_rule list" where
  "demo_acl = [demo_acl_rule ''permit'' ''tcp'' ''10.1.0.0 0.0.255.255'' 4, demo_acl_rule ''deny'' ''ip'' ''any'' 5]"

definition demo_binding :: acl_binding where
  "demo_binding = \<lparr> ab_interface = ''Gi0/1'', ab_direction = ''in'', ab_acl = ''WEB'', ab_line = 2 \<rparr>"

definition demo_policy :: device_policy where
  "demo_policy = \<lparr> dp_hostname = ''r1'', dp_source_path = [], dp_rules = [(''WEB'', demo_acl)],
     dp_bindings = [demo_binding], dp_unparsed = [] \<rparr>"

definition demo_packet :: "string \<Rightarrow> string \<Rightarrow> packet" where
  "demo_packet protocol source = \<lparr> pk_protocol = protocol, pk_port = ''443'', pk_source = source \<rparr>"

definition demo_checkpoints :: "(string \<times> string) list" where
  "demo_checkpoints = [(''gi0/1'', ''in'')]"

definition demo_verdicts :: "packet \<Rightarrow> policy_verdict list" where
  "demo_verdicts p = evaluate_bindings no_syntax6 demo_policy p demo_checkpoints"

lemma demo_kinds:
  "map pv_kind (demo_verdicts (demo_packet ''tcp'' [])) = [''indeterminate'']"
  "map pv_kind (demo_verdicts (demo_packet ''udp'' [])) = [''deny'']"
  by code_simp+

lemma demo_permitted: "map pv_kind (demo_verdicts (demo_packet ''tcp'' ''10.1.2.3'')) = [''permit'']"
  by code_simp

theorem acl_verdicts_final_witness:
  "map pv_kind (demo_verdicts (demo_packet ''udp'' [])) = [''deny''] \<and>
   demo_verdicts (demo_packet ''udp'' ''10.1.2.3'') = demo_verdicts (demo_packet ''udp'' [])"
proof -
  have "finer_packet (demo_packet ''udp'' []) (demo_packet ''udp'' ''10.1.2.3'')"
    by (simp add: finer_packet_def more_text_def demo_packet_def)
  note final = acl_verdicts_final[OF this, of no_syntax6 demo_policy demo_checkpoints demo_acl]
  obtain v where v: "demo_verdicts (demo_packet ''udp'' []) = [v]" "pv_kind v = ''deny''"
    using demo_kinds(2) by (auto simp: map_eq_Cons_conv)
  have "''deny'' \<noteq> ''indeterminate''" by simp
  with final v have "demo_verdicts (demo_packet ''udp'' ''10.1.2.3'') = [v]"
    by (auto simp: demo_verdicts_def list_all2_Cons1)
  with v show ?thesis by simp
qed

theorem acl_wildcards_read_witness:
  "acl_address_check no_syntax6 (show4 0x0A010000 @ '' '' @ show4 (NOT (netmask 16))) (show4 0x0A010203) = Some True \<and>
   acl_address_check no_syntax6 (show4 0x0A010203 @ '' '' @ show4 0) (show4 0x08080808) = Some True"
proof -
  have "0 < (16 :: nat) \<and> (16 :: nat) < 32" by simp
  moreover have "drop_bit (32 - 16) (0x0A010203 :: v4) = drop_bit (32 - 16) 0x0A010000" by code_simp
  ultimately show ?thesis
    using acl_wildcards_read[of 16 no_syntax6 "0x0A010000" "0x0A010203"]
      acl_wildcards_read[of 16 no_syntax6 "0x0A010203" "0x08080808"] by simp
qed

theorem suggested_acl_rule_read_back_witness:
  "\<exists>body r. acl_remedy (demo_packet ''tcp'' (show4 0x0A010203)) (show4 0x0A010203, []) = ''permit '' @ body \<and>
     parse_rule_body no_syntax6 \<lparr> rl_acl = ''WEB'', rl_action = ''permit'', rl_line = 3, rl_sequence = None,
       rl_extended = True, rl_raw = [] \<rparr> body = Some r \<and>
     match_rule no_syntax6 (demo_packet ''tcp'' (show4 0x0A010203)) r = Some True"
proof -
  let ?p = "demo_packet ''tcp'' (show4 0x0A010203)"
  let ?l = "\<lparr> rl_acl = ''WEB'', rl_action = ''permit'', rl_line = 3, rl_sequence = None, rl_extended = True, rl_raw = [] \<rparr>"
  have port: "pk_port ?p = digits_of 443"
  proof -
    have "char_of (51 :: nat) = CHR ''3''" "char_of (52 :: nat) = CHR ''4''" by code_simp+
    then show ?thesis by (simp add: demo_packet_def digits_of.simps)
  qed
  have facts: "rl_extended ?l" "pk_protocol ?p \<in> {''tcp'', ''udp''}" "pk_source ?p = show4 0x0A010203"
    by (simp_all add: demo_packet_def)
  have ends: "flow_endpoints ?p None [] [] = (show4 0x0A010203, [])"
    using plain_show4(2)[of "0x0A010203"] by (simp add: flow_endpoints_def demo_packet_def given_def first_of_def)
  from suggested_acl_rule_read_back[OF facts(1,2) port facts(3) ends, of 0 no_syntax6] show ?thesis
    by auto
qed

section \<open>A firewall chain\<close>

definition demo_chain_rule :: "int \<Rightarrow> string \<Rightarrow> string \<Rightarrow> string option \<Rightarrow> chain_rule" where
  "demo_chain_rule n target source detail =
     \<lparr> cr_number = n, cr_target = target, cr_protocol = ''tcp'', cr_in = None, cr_out = None, cr_source = source,
       cr_destination = ''0.0.0.0/0'', cr_detail = detail \<rparr>"

definition demo_chain :: chain where
  "demo_chain = \<lparr> ch_name = ''FORWARD'', ch_default = ''DROP'',
     ch_rules = [demo_chain_rule 1 ''LOG'' ''0.0.0.0/0'' None, demo_chain_rule 2 ''ACCEPT'' ''10.1.0.0/16'' (Some ''tcp dpt:22''),
       demo_chain_rule 3 ''ACCEPT'' ''0.0.0.0/0'' (Some ''tcp dpt:443 state NEW'')] \<rparr>"

definition demo_crossing :: "string \<Rightarrow> string list \<Rightarrow> crossing" where
  "demo_crossing port sources =
     \<lparr> cx_packet = \<lparr> pk_protocol = ''tcp'', pk_port = port, pk_source = [] \<rparr>, cx_in = None, cx_out = None,
       cx_destinations = [], cx_sources = sources \<rparr>"

lemma demo_chain_kinds:
  "cv_kind (evaluate_firewall no_syntax6 demo_chain (demo_crossing ''443'' [])) = Decided Permit"
  "cv_kind (evaluate_firewall no_syntax6 demo_chain (demo_crossing ''22'' [])) = Indeterminate"
  "cv_kind (evaluate_firewall no_syntax6 demo_chain (demo_crossing ''25'' [])) = DefaultDeny"
  by code_simp+

theorem firewall_verdict_final_witness:
  "evaluate_firewall no_syntax6 demo_chain (demo_crossing ''443'' [''10.2.0.1'']) =
   evaluate_firewall no_syntax6 demo_chain (demo_crossing ''443'' []) \<and>
   cv_kind (evaluate_firewall no_syntax6 demo_chain (demo_crossing ''443'' [''10.2.0.1''])) = Decided Permit"
proof -
  have "finer_crossing (demo_crossing ''443'' []) (demo_crossing ''443'' [''10.2.0.1''])"
    by (simp add: finer_crossing_def finer_packet_def more_text_def demo_crossing_def given_def)
  from firewall_verdict_final[OF this, of no_syntax6 demo_chain] demo_chain_kinds(1) show ?thesis by simp
qed

section \<open>Policy routes and routes\<close>

definition demo_policy_route :: "int \<Rightarrow> string option \<Rightarrow> string \<Rightarrow> policy_route" where
  "demo_policy_route n source hop =
     \<lparr> po_sequence = n, po_source = source, po_destination = None, po_protocol = Some ''tcp'', po_ports = [],
       po_ingress = None, po_next_hop = Some hop, po_egress = None, po_table = None, po_disabled = False, po_name = None,
       po_command = None, po_unresolved = [] \<rparr>"

definition demo_policies :: "policy_route list" where
  "demo_policies = [demo_policy_route 20 None ''192.0.2.2'', demo_policy_route 10 (Some ''10.1.0.0/16'') ''192.0.2.1'']"

definition demo_source_flow :: "string option \<Rightarrow> flow" where
  "demo_source_flow source =
     \<lparr> fl_source = source, fl_destination = None, fl_protocol = Some ''tcp'', fl_port = None, fl_ingress = None \<rparr>"

definition demo_choice :: "string option \<Rightarrow> policy_route option \<times> policy_route list" where
  "demo_choice source = first_matching_policy no_syntax6 (demo_source_flow source) demo_policies"

lemma demo_undeclared:
  "map_option po_sequence (fst (demo_choice None)) = Some 20" "map po_sequence (snd (demo_choice None)) = [10]"
  by code_simp+

theorem policy_choice_final_witness:
  "map po_sequence (snd (demo_choice None)) = [10] \<and>
   map_option po_sequence (fst (demo_choice (Some ''10.1.2.3''))) \<in> {Some 10, Some 20}"
proof -
  have finer: "finer_flow (demo_source_flow None) (demo_source_flow (Some ''10.1.2.3''))"
    by (simp add: finer_flow_def more_option_def demo_source_flow_def)
  obtain c u d v where choices: "demo_choice None = (c, u)" "demo_choice (Some ''10.1.2.3'') = (d, v)"
    by (cases "demo_choice None"; cases "demo_choice (Some ''10.1.2.3'')")
  note chosen = policy_choice_final[OF finer choices[unfolded demo_choice_def]]
  have c: "map_option po_sequence c = Some 20" "po_sequence ` set u = {10}"
    using demo_undeclared choices(1) by (auto simp: map_eq_Cons_conv)
  from chosen have "d = c \<or> (\<exists>r\<in>set u. d = Some r)" by blast
  then have "map_option po_sequence d \<in> {Some 10, Some 20}"
    using c by auto
  with demo_undeclared(2) choices(2) show ?thesis by simp
qed

definition demo_route :: "string \<Rightarrow> int \<Rightarrow> string \<Rightarrow> route" where
  "demo_route prefix d hop =
     \<lparr> rt_prefix = prefix, rt_distance = Some d, rt_protocol = None, rt_next_hop = Some hop, rt_interface = None \<rparr>"

definition demo_routes :: "route list" where
  "demo_routes = [demo_route ''0.0.0.0/0'' 1 ''192.0.2.1'', demo_route ''10.1.0.0/16'' 110 ''192.0.2.2'',
     demo_route ''10.1.0.0/16'' 20 ''192.0.2.3'']"

lemma demo_lookup: "map_option rt_next_hop (longest_prefix_match no_syntax6 demo_routes ''10.1.2.3'') = Some (Some ''192.0.2.3'')"
  by code_simp

theorem longest_prefix_match_exact_witness:
  "\<exists>b a. longest_prefix_match no_syntax6 demo_routes ''10.1.2.3'' = Some b \<and> rt_next_hop b = Some ''192.0.2.3'' \<and>
     ip_address no_syntax6 ''10.1.2.3'' = Some a \<and> b \<in> set demo_routes \<and> route_length no_syntax6 a b \<noteq> None"
proof -
  obtain b where b: "longest_prefix_match no_syntax6 demo_routes ''10.1.2.3'' = Some b" "rt_next_hop b = Some ''192.0.2.3''"
    using demo_lookup by auto
  with longest_prefix_match_exact[of no_syntax6 "''10.1.2.3''" demo_routes] show ?thesis by auto
qed

end
