(* ===== verification/Accounts.thy ===== *)
theory Accounts
  imports Numerals "HOL-Library.Word"
begin

text \<open>
  Identity and authorization (\<open>access/models.py\<close>) and the user catalog
  (\<open>access/users.py\<close>): permissions, roles and principals; salted password hashes and their text
  format; the catalog of accounts with its revision, and its create, update, delete and
  authenticate operations. The catalog is the content of \<open>users.json\<close>; a missing file is the
  empty catalog at revision 0. Texts are ASCII, so \<open>casefold\<close> is \<open>lower\<close> and UTF-8 is the
  identity on bytes. \<open>hashlib.scrypt\<close> is an argument; the random salt and the time of a call are
  arguments too.
\<close>

section \<open>Permissions and roles\<close>

definition all_permissions :: "string list" where
  "all_permissions =
     [''pages.view'', ''evidence.view'', ''discovery.run'', ''profiles.manage'', ''topology.edit'',
      ''credentials.manage'', ''policy.manage'', ''changes.annotate'', ''investigate.run'',
      ''predict.run'', ''plans.edit'', ''plans.approve'', ''export.data'', ''console.use'',
      ''settings.manage'', ''users.manage'', ''system.admin'']"

definition system_admin :: string where
  "system_admin = ''system-admin''"

definition role_grants :: "(string \<times> string list) list" where
  "role_grants =
     [(''viewer'', [''pages.view'', ''evidence.view'']),
      (''investigator'',
        [''pages.view'', ''evidence.view'', ''investigate.run'', ''predict.run'',
         ''changes.annotate'', ''export.data'']),
      (''network-operator'',
        [''pages.view'', ''evidence.view'', ''discovery.run'', ''profiles.manage'',
         ''topology.edit'', ''console.use'', ''predict.run'', ''plans.edit'', ''export.data'']),
      (''policy-manager'', [''pages.view'', ''evidence.view'', ''policy.manage'', ''export.data'']),
      (''credential-admin'', [''pages.view'', ''credentials.manage'']),
      (system_admin, all_permissions),
      (''approver'', [''pages.view'', ''evidence.view'', ''plans.approve''])]"

definition all_roles :: "string list" where
  "all_roles = map fst role_grants"

definition granted :: "string \<Rightarrow> string list" where
  "granted role = (case map_of role_grants role of None \<Rightarrow> [] | Some ps \<Rightarrow> ps)"

definition permissions_for :: "string list \<Rightarrow> string set" where
  "permissions_for roles = (\<Union>role\<in>set roles. set (granted role))"

record principal =
  pr_username :: string
  pr_display_name :: string
  pr_roles :: "string list"
  pr_permissions :: "string set"
  pr_session :: "string option"
  pr_mode :: string

definition can :: "principal \<Rightarrow> string \<Rightarrow> bool" where
  "can p permission \<longleftrightarrow> permission \<in> pr_permissions p"

definition for_roles :: "string \<Rightarrow> string \<Rightarrow> string list \<Rightarrow> string option \<Rightarrow> string \<Rightarrow> principal" where
  "for_roles username display roles session mode =
     \<lparr> pr_username = username, pr_display_name = (if display = [] then username else display),
       pr_roles = roles, pr_permissions = permissions_for roles, pr_session = session,
       pr_mode = mode \<rparr>"

definition local_operator :: principal where
  "local_operator =
     for_roles ''local-operator'' ''Local operator'' [system_admin] None ''local''"

section \<open>Password hashes\<close>

type_synonym bytes = "8 word list"

text \<open>
  \<open>hashlib.scrypt(password, salt=, n=, r=, p=, dklen=)\<close>; \<open>None\<close> is the \<open>ValueError\<close> for parameters
  it does not accept.
\<close>

type_synonym scrypt = "bytes \<Rightarrow> bytes \<Rightarrow> int \<Rightarrow> int \<Rightarrow> int \<Rightarrow> nat \<Rightarrow> bytes option"

datatype user_error =
    Short_password
  | Derivation_failed
  | Bad_username
  | Duplicate_account string
  | No_such_account string
  | Unknown_roles "string list"
  | No_roles
  | Stale_catalog int int
  | Last_administrator

definition is_conflict :: "user_error \<Rightarrow> bool" where
  "is_conflict e = (case e of Stale_catalog _ _ \<Rightarrow> True | _ \<Rightarrow> False)"

definition encoded :: "string \<Rightarrow> bytes" where
  "encoded s = map (\<lambda>c. word_of_nat (of_char c)) s"

definition to_hex :: "bytes \<Rightarrow> string" where
  "to_hex bs = concat (map (\<lambda>b. [hex_digit (unat b div 16), hex_digit (unat b mod 16)]) bs)"

definition nibble :: "char \<Rightarrow> nat option" where
  "nibble c =
     (let n = of_char c :: nat
      in if 48 \<le> n \<and> n \<le> 57 then Some (n - 48)
         else if 97 \<le> n \<and> n \<le> 102 then Some (n - 87)
         else if 65 \<le> n \<and> n \<le> 70 then Some (n - 55)
         else None)"

text \<open>\<open>bytes.fromhex\<close>: pairs of digits, with white space allowed between the pairs.\<close>

definition byte_gap :: "char \<Rightarrow> bool" where
  "byte_gap c \<longleftrightarrow> (let n = (of_char c :: nat) in 9 \<le> n \<and> n \<le> 13 \<or> n = 32)"

fun from_hex :: "string \<Rightarrow> bytes option" where
  "from_hex [] = Some []"
| "from_hex [c] = (if byte_gap c then Some [] else None)"
| "from_hex (c # d # s) =
     (if byte_gap c then from_hex (d # s)
      else case (nibble c, nibble d) of
        (Some a, Some b) \<Rightarrow> map_option (\<lambda>bs. word_of_nat (16 * a + b) # bs) (from_hex s)
      | _ \<Rightarrow> None)"

definition scrypt_n :: nat where "scrypt_n = 2 ^ 14"
definition scrypt_r :: nat where "scrypt_r = 8"
definition scrypt_p :: nat where "scrypt_p = 1"
definition key_bytes :: nat where "key_bytes = 32"

definition hash_text :: "bytes \<Rightarrow> bytes \<Rightarrow> string" where
  "hash_text salt derived =
     join_with ''$''
       [''scrypt'', digits_of scrypt_n, digits_of scrypt_r, digits_of scrypt_p, to_hex salt, to_hex derived]"

definition hash_password :: "scrypt \<Rightarrow> bytes \<Rightarrow> string \<Rightarrow> user_error + string" where
  "hash_password K salt password =
     (if password = [] \<or> length password < 12 then Inl Short_password
      else case K (encoded password) salt (int scrypt_n) (int scrypt_r) (int scrypt_p) key_bytes of
        None \<Rightarrow> Inl Derivation_failed
      | Some derived \<Rightarrow> Inr (hash_text salt derived))"

definition verify_password :: "scrypt \<Rightarrow> string \<Rightarrow> string \<Rightarrow> bool" where
  "verify_password K password stored =
     (case split_on CHR ''$'' stored of
        [scheme, n, r, p, salt_hex, derived_hex] \<Rightarrow>
          scheme = ''scrypt'' \<and>
          (case (from_hex salt_hex, py_int n, py_int r, py_int p, from_hex derived_hex) of
             (Some salt, Some n', Some r', Some p', Some derived) \<Rightarrow>
               K (encoded password) salt n' r' p' (length derived) = Some derived
           | _ \<Rightarrow> False)
      | _ \<Rightarrow> False)"

section \<open>The user catalog\<close>

record user_account =
  ua_username :: string
  ua_display_name :: string
  ua_roles :: "string list"
  ua_password_hash :: "string option"
  ua_disabled :: bool
  ua_created :: string
  ua_updated :: string

text \<open>\<open>from_dict\<close> of what \<open>to_dict\<close> wrote: an empty display name reads as the username.\<close>

definition read_account :: "user_account \<Rightarrow> user_account" where
  "read_account a =
     a\<lparr>ua_display_name := (if ua_display_name a = [] then ua_username a else ua_display_name a)\<rparr>"

record user_catalog =
  uc_revision :: int
  uc_entries :: "user_account list"

definition no_users :: user_catalog where
  "no_users = \<lparr> uc_revision = 0, uc_entries = [] \<rparr>"

definition accounts :: "user_catalog \<Rightarrow> user_account list" where
  "accounts c = map read_account (uc_entries c)"

definition get_account :: "user_catalog \<Rightarrow> string \<Rightarrow> user_account option" where
  "get_account c username =
     find (\<lambda>a. lower (ua_username a) = lower (strip username)) (accounts c)"

definition check_revision :: "user_catalog \<Rightarrow> int option \<Rightarrow> user_error + int" where
  "check_revision c expected =
     (case expected of
        Some r \<Rightarrow> if r \<noteq> uc_revision c then Inl (Stale_catalog (uc_revision c) r) else Inr (uc_revision c)
      | None \<Rightarrow> Inr (uc_revision c))"

definition validate_roles :: "string list \<Rightarrow> user_error + string list" where
  "validate_roles roles =
     (let cleaned = filter (\<lambda>r. r \<noteq> []) (map strip roles);
          unknown = filter (\<lambda>r. r \<notin> set all_roles) cleaned
      in if unknown \<noteq> [] then Inl (Unknown_roles unknown)
         else if cleaned = [] then Inl No_roles else Inr cleaned)"

definition is_usable_admin :: "bool \<Rightarrow> user_account \<Rightarrow> bool" where
  "is_usable_admin allow_sso a \<longleftrightarrow>
     \<not> ua_disabled a \<and> system_admin \<in> set (ua_roles a) \<and>
     (truthy (ua_password_hash a) \<noteq> None \<or> allow_sso)"

definition usable_admin_count :: "user_catalog \<Rightarrow> bool \<Rightarrow> string option \<Rightarrow> nat" where
  "usable_admin_count c allow_sso excluding =
     (let needle = lower (case excluding of None \<Rightarrow> [] | Some x \<Rightarrow> x)
      in length (filter (\<lambda>a. lower (ua_username a) \<noteq> needle \<and> is_usable_admin allow_sso a) (accounts c)))"

definition guard_last_admin ::
  "user_catalog \<Rightarrow> user_account \<Rightarrow> user_account option \<Rightarrow> bool \<Rightarrow> user_error + unit" where
  "guard_last_admin c earlier later allow_sso =
     (if \<not> is_usable_admin allow_sso earlier then Inr ()
      else if (case later of None \<Rightarrow> False | Some a \<Rightarrow> is_usable_admin allow_sso a) then Inr ()
      else if usable_admin_count c allow_sso (Some (ua_username earlier)) = 0 then Inl Last_administrator
      else Inr ())"

definition is_alnum :: "char \<Rightarrow> bool" where
  "is_alnum c \<longleftrightarrow>
     (let n = (of_char c :: nat)
      in 48 \<le> n \<and> n \<le> 57 \<or> 65 \<le> n \<and> n \<le> 90 \<or> 97 \<le> n \<and> n \<le> 122)"

definition valid_username :: "string \<Rightarrow> bool" where
  "valid_username name =
     (let core = filter (\<lambda>c. c \<noteq> CHR ''.'') (filter (\<lambda>c. c \<noteq> CHR ''-'') name)
      in name \<noteq> [] \<and> core \<noteq> [] \<and> list_all is_alnum core)"

definition optional_hash :: "scrypt \<Rightarrow> bytes \<Rightarrow> string option \<Rightarrow> string option \<Rightarrow> user_error + string option" where
  "optional_hash K salt password otherwise =
     (case truthy password of
        None \<Rightarrow> Inr otherwise
      | Some p \<Rightarrow> andthen (hash_password K salt p) (\<lambda>h. Inr (Some h)))"

definition create_account ::
  "scrypt \<Rightarrow> bytes \<Rightarrow> string \<Rightarrow> string \<Rightarrow> string option \<Rightarrow> string list \<Rightarrow> string option \<Rightarrow> int option \<Rightarrow>
     user_catalog \<Rightarrow> user_error + user_account \<times> user_catalog" where
  "create_account K salt now username display_name roles password expected c =
     (let name = strip username
      in andthen (demand (valid_username name) Bad_username) (\<lambda>_.
         andthen (check_revision c expected) (\<lambda>current.
         andthen (demand (get_account c name = None) (Duplicate_account name)) (\<lambda>_.
         andthen (validate_roles roles) (\<lambda>cleaned.
         andthen (optional_hash K salt password None) (\<lambda>hash.
           let account =
             \<lparr> ua_username = name,
               ua_display_name = strip (case truthy display_name of None \<Rightarrow> name | Some d \<Rightarrow> d),
               ua_roles = cleaned, ua_password_hash = hash, ua_disabled = False,
               ua_created = now, ua_updated = now \<rparr>
           in Inr (account, \<lparr> uc_revision = current + 1, uc_entries = accounts c @ [account] \<rparr>)))))))"

definition update_account ::
  "scrypt \<Rightarrow> bytes \<Rightarrow> string \<Rightarrow> string \<Rightarrow> string option \<Rightarrow> string list option \<Rightarrow> string option \<Rightarrow> bool option \<Rightarrow>
     int option \<Rightarrow> bool \<Rightarrow> user_catalog \<Rightarrow> user_error + user_account \<times> user_catalog" where
  "update_account K salt now username display_name roles password disabled expected allow_sso c =
     andthen (check_revision c expected) (\<lambda>current.
     case get_account c username of
       None \<Rightarrow> Inl (No_such_account username)
     | Some existing \<Rightarrow>
         andthen (case roles of None \<Rightarrow> Inr (ua_roles existing) | Some rs \<Rightarrow> validate_roles rs) (\<lambda>roles'.
         andthen (optional_hash K salt password (ua_password_hash existing)) (\<lambda>hash.
           let updated = existing\<lparr>
             ua_display_name := (case display_name of None \<Rightarrow> ua_display_name existing | Some d \<Rightarrow> strip d),
             ua_roles := roles', ua_password_hash := hash,
             ua_disabled := (case disabled of None \<Rightarrow> ua_disabled existing | Some d \<Rightarrow> d),
             ua_updated := now\<rparr>
           in andthen (guard_last_admin c existing (Some updated) allow_sso) (\<lambda>_.
             Inr (updated,
               \<lparr> uc_revision = current + 1,
                 uc_entries = map (\<lambda>a. if ua_username a = ua_username existing then updated else a)
                   (accounts c) \<rparr>)))))"

definition delete_account ::
  "string \<Rightarrow> int option \<Rightarrow> bool \<Rightarrow> user_catalog \<Rightarrow> user_error + bool \<times> user_catalog" where
  "delete_account username expected allow_sso c =
     andthen (check_revision c expected) (\<lambda>current.
     andthen (case get_account c username of
         None \<Rightarrow> Inr () | Some existing \<Rightarrow> guard_last_admin c existing None allow_sso) (\<lambda>_.
       let remaining = filter (\<lambda>a. lower (ua_username a) \<noteq> lower username) (accounts c)
       in if length remaining = length (accounts c) then Inr (False, c)
          else Inr (True, \<lparr> uc_revision = current + 1, uc_entries = remaining \<rparr>)))"

text \<open>
  \<open>authenticate\<close>: a hash is verified in every case, against a placeholder when the account has
  none. The placeholder is long enough, so its hashing does not raise while \<open>scrypt\<close> works.
\<close>

definition authenticate :: "scrypt \<Rightarrow> bytes \<Rightarrow> user_catalog \<Rightarrow> string \<Rightarrow> string \<Rightarrow> user_error + user_account option" where
  "authenticate K salt c username password =
     (let account = get_account c username;
          stored = (case account of None \<Rightarrow> None | Some a \<Rightarrow> truthy (ua_password_hash a))
      in andthen (case stored of Some h \<Rightarrow> Inr h | None \<Rightarrow> hash_password K salt ''invalid-placeholder-password'')
          (\<lambda>h. let ok = verify_password K password h
               in Inr (case account of
                   None \<Rightarrow> None
                 | Some a \<Rightarrow> if ua_disabled a \<or> stored = None \<or> \<not> ok then None else Some a)))"

text \<open>
  \<open>ensure_recovery_admin\<close>: the two texts are the environment variables, the result the username
  when a recovery was applied.
\<close>

definition ensure_recovery_admin ::
  "scrypt \<Rightarrow> bytes \<Rightarrow> string \<Rightarrow> string \<Rightarrow> string \<Rightarrow> user_catalog \<Rightarrow> user_error + string option \<times> user_catalog" where
  "ensure_recovery_admin K salt now env_user env_password c =
     (let username = strip env_user
      in if username = [] \<or> env_password = [] then Inr (None, c)
         else andthen
           (if get_account c username = None
            then create_account K salt now username None [system_admin] (Some env_password) None c
            else update_account K salt now username None (Some [system_admin]) (Some env_password)
              (Some False) None False c)
           (\<lambda>(_, c'). Inr (Some username, c')))"

text \<open>\<open>_bootstrap_admin_from_env\<close> of \<open>web/security.py\<close>: only on an empty catalog.\<close>

definition bootstrap_admin ::
  "scrypt \<Rightarrow> bytes \<Rightarrow> string \<Rightarrow> string \<Rightarrow> string \<Rightarrow> user_catalog \<Rightarrow> user_error + user_catalog" where
  "bootstrap_admin K salt now env_user env_password c =
     (let username = strip env_user
      in if username = [] \<or> env_password = [] \<or> accounts c \<noteq> [] then Inr c
         else andthen
           (create_account K salt now username None [system_admin] (Some env_password) None c)
           (\<lambda>(_, c'). Inr c'))"

end
