(* ===== verification/Sessions.thy ===== *)
theory Sessions
  imports Results
begin

text \<open>
  Server-side sessions (\<open>access/sessions.py\<close>) and the rate limiter (\<open>access/ratelimit.py\<close>). The
  session store is the list in \<open>sessions.json\<close>, a missing or corrupt file the empty list. Its times
  are ISO texts in UTC of one length, to the second, whose order is that of the instants: the model
  keeps the instants, in seconds, and one reading of the clock serves an operation. SHA-256 and the
  random tokens are arguments.
\<close>

section \<open>Sessions\<close>

record session =
  se_token_hash :: string
  se_username :: string
  se_csrf :: string
  se_created :: int
  se_expires :: int
  se_idle :: int
  se_mode :: string

record session_limits =
  sl_max_age :: int
  sl_idle_timeout :: int

definition live :: "int \<Rightarrow> session \<Rightarrow> bool" where
  "live now r \<longleftrightarrow> se_expires r > now \<and> se_idle r > now"

text \<open>\<open>_write\<close>: what is kept of the list.\<close>

definition write_sessions :: "int \<Rightarrow> session list \<Rightarrow> session list" where
  "write_sessions now rs = filter (live now) rs"

definition create_session ::
  "(string \<Rightarrow> string) \<Rightarrow> session_limits \<Rightarrow> int \<Rightarrow> string \<Rightarrow> string \<Rightarrow> string \<Rightarrow> string \<Rightarrow> session list \<Rightarrow>
     string \<times> session list" where
  "create_session H L now token csrf username mode rs =
     (token, write_sessions now (rs @
       [\<lparr> se_token_hash = H token, se_username = username, se_csrf = csrf, se_created = now,
          se_expires = now + sl_max_age L, se_idle = now + sl_idle_timeout L, se_mode = mode \<rparr>]))"

text \<open>The loop of \<open>resolve\<close>: the first record of the token, refreshed in its place.\<close>

fun refresh_first :: "string \<Rightarrow> int \<Rightarrow> int \<Rightarrow> session list \<Rightarrow> (session \<times> session list) option" where
  "refresh_first needle now deadline [] = None"
| "refresh_first needle now deadline (r # rs) =
     (if se_token_hash r \<noteq> needle then
        map_option (\<lambda>(found, rest). (found, r # rest)) (refresh_first needle now deadline rs)
      else if se_expires r \<le> now \<or> se_idle r \<le> now then None
      else Some (r\<lparr>se_idle := deadline\<rparr>, r\<lparr>se_idle := deadline\<rparr> # rs))"

definition resolve_session ::
  "(string \<Rightarrow> string) \<Rightarrow> session_limits \<Rightarrow> int \<Rightarrow> string \<Rightarrow> session list \<Rightarrow> session option \<times> session list" where
  "resolve_session H L now token rs =
     (if token = [] then (None, rs)
      else case refresh_first (H token) now (now + sl_idle_timeout L) rs of
        None \<Rightarrow> (None, rs)
      | Some (found, rs') \<Rightarrow> (Some found, write_sessions now rs'))"

definition invalidate :: "(string \<Rightarrow> string) \<Rightarrow> int \<Rightarrow> string \<Rightarrow> session list \<Rightarrow> session list" where
  "invalidate H now token rs =
     (if token = [] then rs else write_sessions now (filter (\<lambda>r. se_token_hash r \<noteq> H token) rs))"

definition invalidate_user :: "int \<Rightarrow> string \<Rightarrow> session list \<Rightarrow> nat \<times> session list" where
  "invalidate_user now username rs =
     (let remaining = filter (\<lambda>r. lower (se_username r) \<noteq> lower username) rs
      in (length rs - length remaining, write_sessions now remaining))"

definition active_count_for :: "int \<Rightarrow> string \<Rightarrow> session list \<Rightarrow> nat" where
  "active_count_for now username rs =
     length (filter (\<lambda>r. lower (se_username r) = lower username \<and> live now r) rs)"

definition active_count :: "int \<Rightarrow> session list \<Rightarrow> nat" where
  "active_count now rs = length (filter (live now) rs)"

section \<open>The rate limiter\<close>

text \<open>
  Hit counts per key and window; the window of a clock reading \<open>stamp\<close>, in seconds, is its integer
  quotient by the length of a window.
\<close>

type_synonym hits = "((string \<times> nat) \<times> nat) list"

definition window_of :: "nat \<Rightarrow> nat \<Rightarrow> nat" where
  "window_of window_seconds stamp = stamp div window_seconds"

definition hit_count :: "hits \<Rightarrow> string \<times> nat \<Rightarrow> nat" where
  "hit_count h bucket = (case map_of h bucket of None \<Rightarrow> 0 | Some n \<Rightarrow> n)"

definition stale :: "nat \<Rightarrow> string \<times> nat \<Rightarrow> bool" where
  "stale window bucket \<longleftrightarrow> int (snd bucket) < int window - 1"

definition allow :: "string \<Rightarrow> int \<Rightarrow> nat \<Rightarrow> nat \<Rightarrow> hits \<Rightarrow> bool \<times> hits" where
  "allow key limit window_seconds stamp h =
     (let window = window_of window_seconds stamp;
          kept = filter (\<lambda>(bucket, _). \<not> stale window bucket) h;
          count = hit_count kept (key, window) + 1
      in (int count \<le> limit, AList.update (key, window) count kept))"

definition peek :: "string \<Rightarrow> nat \<Rightarrow> nat \<Rightarrow> hits \<Rightarrow> nat" where
  "peek key window_seconds stamp h = hit_count h (key, window_of window_seconds stamp)"

end
