(* ===== verification/AuditTrail.thy ===== *)
theory AuditTrail
  imports Results
begin

text \<open>
  The audit trail (\<open>audit/models.py\<close>, \<open>audit/log.py\<close>): the event record with its validation
  and redaction, and the append-only log with its filters. The log is the list of its events; the
  JSON lines that hold them and the unreadable lines of a damaged file are not modelled. Texts are
  ASCII, so \<open>casefold\<close> is \<open>lower\<close>.
\<close>

section \<open>Redaction\<close>

definition forbidden_payload_keys :: "string list" where
  "forbidden_payload_keys = [''password'', ''secret'', ''token'', ''private_key'', ''passphrase'']"

definition forbidden :: "string \<Rightarrow> bool" where
  "forbidden key \<longleftrightarrow> lower key \<in> set forbidden_payload_keys"

text \<open>
  \<open>redact_payload\<close> of a mapping: the marker for a forbidden key, a redacted copy of a nested
  mapping, and every other value as it is, lists included.
\<close>

primrec redact_value :: "json \<Rightarrow> json" where
  "redact_value JNull = JNull"
| "redact_value (JBool b) = JBool b"
| "redact_value (JInt i) = JInt i"
| "redact_value (JNum q) = JNum q"
| "redact_value (JStr s) = JStr s"
| "redact_value (JArr vs) = JArr vs"
| "redact_value (JObj d) =
     JObj (map (\<lambda>(k, raw, cleaned). (k, if forbidden k then JStr ''[redacted]'' else cleaned))
       (map (map_prod id (\<lambda>v. (v, redact_value v))) d))"

definition redact_payload :: "(string \<times> json) list \<Rightarrow> (string \<times> json) list" where
  "redact_payload d =
     map (\<lambda>(k, v). (k, if forbidden k then JStr ''[redacted]'' else redact_value v)) d"

lemma redact_object [simp]: "redact_value (JObj d) = JObj (redact_payload d)"
  by (simp add: redact_payload_def case_prod_unfold)

declare redact_value.simps(7) [simp del]

section \<open>Events\<close>

record audit_event =
  ae_id :: string
  ae_occurred :: string
  ae_actor :: string
  ae_scope :: string
  ae_category :: string
  ae_operation :: string
  ae_subject :: string
  ae_before :: "(string \<times> json) list"
  ae_after :: "(string \<times> json) list"
  ae_reason :: "string option"
  ae_source :: string
  ae_correlation :: "string option"
  ae_outcome :: string
  ae_roles :: "string list"

datatype audit_error = Blank_field string

text \<open>\<open>__post_init__\<close>\<close>

definition required_fields :: "audit_event \<Rightarrow> (string \<times> string) list" where
  "required_fields e =
     [(''event_id'', ae_id e), (''occurred_at'', ae_occurred e), (''actor'', ae_actor e),
      (''category'', ae_category e), (''operation'', ae_operation e), (''subject'', ae_subject e)]"

definition checked_event :: "audit_event \<Rightarrow> audit_error + audit_event" where
  "checked_event e =
     (case find (\<lambda>(name, value). strip value = []) (required_fields e) of
        Some (name, _) \<Rightarrow> Inl (Blank_field name)
      | None \<Rightarrow> Inr (e\<lparr>ae_before := redact_payload (ae_before e), ae_after := redact_payload (ae_after e)\<rparr>))"

text \<open>
  \<open>AuditEvent.create\<close>: the keyword arguments are the fields of a draft, \<open>event_draft\<close> holds
  their defaults, \<open>uid\<close> is the fresh \<open>uuid4().hex\<close> and \<open>now\<close> the current time.
\<close>

definition event_draft :: "string \<Rightarrow> string \<Rightarrow> string \<Rightarrow> audit_event" where
  "event_draft category operation subject =
     \<lparr> ae_id = [], ae_occurred = [], ae_actor = ''local-operator'', ae_scope = ''all'',
       ae_category = category, ae_operation = operation, ae_subject = subject,
       ae_before = [], ae_after = [], ae_reason = None, ae_source = ''web'',
       ae_correlation = None, ae_outcome = ''success'', ae_roles = [] \<rparr>"

definition create_event :: "string \<Rightarrow> string \<Rightarrow> audit_event \<Rightarrow> audit_error + audit_event" where
  "create_event uid now e =
     checked_event
       (e\<lparr>ae_id := ''audit:'' @ uid,
          ae_occurred := (if ae_occurred e = [] then now else ae_occurred e),
          ae_reason := (case ae_reason e of None \<Rightarrow> None | Some r \<Rightarrow> truthy (Some (strip r)))\<rparr>)"

section \<open>The log\<close>

type_synonym audit_log = "audit_event list"

definition append_many :: "audit_event list \<Rightarrow> audit_log \<Rightarrow> audit_log" where
  "append_many es trail = (if es = [] then trail else trail @ es)"

definition wanted :: "string option \<Rightarrow> string \<Rightarrow> bool" where
  "wanted filter_value v = (case filter_value of None \<Rightarrow> True | Some x \<Rightarrow> v = x)"

definition events ::
  "string option \<Rightarrow> string option \<Rightarrow> string option \<Rightarrow> string option \<Rightarrow> audit_log \<Rightarrow> audit_event list" where
  "events category subject actor scope trail =
     filter (\<lambda>e. wanted category (ae_category e) \<and> wanted subject (ae_subject e) \<and>
       wanted actor (ae_actor e) \<and> wanted scope (ae_scope e)) trail"

section \<open>Lemmas\<close>

text \<open>The value a path of keys leads to, through nested objects.\<close>

fun at_path :: "(string \<times> json) list \<Rightarrow> string list \<Rightarrow> json option" where
  "at_path d [] = Some (JObj d)"
| "at_path d (k # ks) =
     (case map_of d k of
        None \<Rightarrow> None
      | Some v \<Rightarrow> (case ks of [] \<Rightarrow> Some v
          | _ # _ \<Rightarrow> (case v of JObj d' \<Rightarrow> at_path d' ks | _ \<Rightarrow> None)))"

lemma map_of_redact:
  "map_of (redact_payload d) k =
     map_option (\<lambda>v. if forbidden k then JStr ''[redacted]'' else redact_value v) (map_of d k)"
  by (induction d) (auto simp: redact_payload_def)

lemma redact_is_object: "redact_value v = JObj d' \<Longrightarrow> \<exists>d. v = JObj d \<and> d' = redact_payload d"
  by (cases v) auto

lemma forbidden_never_kept:
  "at_path (redact_payload d) (ks @ [k]) = Some v \<Longrightarrow> forbidden k \<Longrightarrow> v = JStr ''[redacted]''"
proof (induction ks arbitrary: d)
  case Nil
  then show ?case by (auto simp: map_of_redact split: option.splits)
next
  case (Cons l ks)
  from Cons.prems(1) obtain w where w: "map_of (redact_payload d) l = Some w"
    by (auto split: option.splits)
  with Cons.prems(1) obtain d' where d': "w = JObj d'" "at_path d' (ks @ [k]) = Some v"
    by (cases ks) (auto split: json.splits)
  with w have "\<exists>e. d' = redact_payload e"
    by (auto simp: map_of_redact split: if_splits dest!: redact_is_object)
  with d' Cons show ?case by blast
qed

lemma redact_idempotent: "redact_payload (redact_payload d) = redact_payload d"
proof -
  have "redact_value (redact_value v) = redact_value v" for v
  proof (induction v)
    case (JObj d)
    then have "redact_payload (redact_payload d) = redact_payload d"
      by (force simp: redact_payload_def intro!: map_cong)
    then show ?case by simp
  qed simp_all
  then show ?thesis by (auto simp: redact_payload_def)
qed

text \<open>Nothing is lost on the way to a key none of whose ancestors, itself included, is forbidden.\<close>

lemma unforbidden_kept:
  "at_path d ks = Some v \<Longrightarrow> \<forall>k\<in>set ks. \<not> forbidden k \<Longrightarrow>
     at_path (redact_payload d) ks = Some (redact_value v)"
proof (induction ks arbitrary: d)
  case (Cons k ks)
  from Cons.prems(1) obtain w where w: "map_of d k = Some w" by (auto split: option.splits)
  with Cons.prems(2) have r: "map_of (redact_payload d) k = Some (redact_value w)"
    by (simp add: map_of_redact)
  show ?case
  proof (cases ks)
    case Nil
    with Cons.prems(1) w r show ?thesis by simp
  next
    case (Cons l ls)
    with Cons.prems(1) w obtain d' where "w = JObj d'" "at_path d' ks = Some v"
      by (auto split: json.splits)
    with Cons.IH[of d'] Cons.prems(2) Cons r show ?thesis by simp
  qed
qed auto

lemma checked_event_Inr_iff:
  "checked_event e = Inr e' \<longleftrightarrow>
     (\<forall>(name, value) \<in> set (required_fields e). strip value \<noteq> []) \<and>
     e' = e\<lparr>ae_before := redact_payload (ae_before e), ae_after := redact_payload (ae_after e)\<rparr>"
  by (auto simp: checked_event_def find_None_iff case_prod_unfold find_Some_iff split: option.splits)

lemma events_append_many:
  "events c s a p (append_many es trail) = events c s a p trail @ events c s a p es"
  by (simp add: events_def append_many_def)

text \<open>
  C40: Secrets never reach the trail through objects. In the payloads of an event that is created, the
  value of a forbidden key is the redaction marker, however deeply the objects that lead to it are
  nested and whatever the caller passed; every value on a path without forbidden keys is kept, up to
  the redaction inside it; and redacting again changes nothing. (Values inside arrays are not
  looked at.)
\<close>

theorem audit_payload_redacted:
  assumes "create_event uid now e = Inr e'"
  shows "(\<forall>ks k v. forbidden k \<and> (at_path (ae_before e') (ks @ [k]) = Some v \<or> at_path (ae_after e') (ks @ [k]) = Some v) \<longrightarrow>
      v = JStr ''[redacted]'') \<and>
    (\<forall>ks v. (\<forall>k\<in>set ks. \<not> forbidden k) \<longrightarrow>
      (at_path (ae_before e) ks = Some v \<longrightarrow> at_path (ae_before e') ks = Some (redact_value v)) \<and>
      (at_path (ae_after e) ks = Some v \<longrightarrow> at_path (ae_after e') ks = Some (redact_value v))) \<and>
    redact_payload (ae_before e') = ae_before e' \<and> redact_payload (ae_after e') = ae_after e'"
proof -
  from assms have "ae_before e' = redact_payload (ae_before e)" "ae_after e' = redact_payload (ae_after e)"
    by (auto simp: create_event_def checked_event_Inr_iff)
  then show ?thesis using forbidden_never_kept unforbidden_kept redact_idempotent by metis
qed

end
