(* ===== verification/Authentication.thy ===== *)
theory Authentication
  imports Accounts Sessions AuditTrail Addresses
begin

text \<open>
  Authentication (\<open>access/providers.py\<close>) and the configuration \<open>register_security\<close> of
  \<open>web/security.py\<close> fixes at startup: the three modes, the state the web application keeps for
  access control (user catalog, sessions, hit counts, audit trail), the parts of a request that the
  access control reads, the identity each provider concludes, and signing in. Of a request's
  headers and form only texts are kept, and an absent header reads as the empty text, as the code
  does. SHA-256, scrypt, IPv6 syntax and the random and clock readings of a request are arguments.
\<close>

section \<open>The state and its surroundings\<close>

record access =
  ax_users :: user_catalog
  ax_sessions :: "session list"
  ax_hits :: hits
  ax_trail :: audit_log

text \<open>What one request draws from the clocks and the random generator.\<close>

record moment =
  mo_now :: int
  mo_clock :: nat
  mo_text :: string
  mo_request :: string
  mo_uuid :: "nat \<Rightarrow> string"
  mo_salt :: bytes
  mo_token :: string
  mo_csrf :: string

datatype json_body = Not_json | Json_field string | Json_not_object

record request =
  rq_remote :: string
  rq_headers :: "(string \<times> string) list"
  rq_cookie :: string
  rq_endpoint :: "string option"
  rq_method :: string
  rq_path :: string
  rq_full_path :: string
  rq_host_url :: string
  rq_form :: "(string \<times> string) list"
  rq_body :: json_body
  rq_username :: string

text \<open>\<open>request.headers.get\<close> ignores case; \<open>form.get\<close> is the first value, \<open>getlist\<close> all of them.\<close>

definition header :: "request \<Rightarrow> string \<Rightarrow> string" where
  "header r name =
     (case find (\<lambda>(k, _). lower k = lower name) (rq_headers r) of None \<Rightarrow> [] | Some (_, v) \<Rightarrow> v)"

definition form :: "request \<Rightarrow> string \<Rightarrow> string" where
  "form r name = (case map_of (rq_form r) name of None \<Rightarrow> [] | Some v \<Rightarrow> v)"

definition form_list :: "request \<Rightarrow> string \<Rightarrow> string list" where
  "form_list r name = map snd (filter (\<lambda>(k, _). k = name) (rq_form r))"

section \<open>Configuration at startup\<close>

datatype auth_mode = Local_mode | Password_mode | Proxy_mode

definition mode_name :: "auth_mode \<Rightarrow> string" where
  "mode_name M = (case M of Local_mode \<Rightarrow> ''local'' | Password_mode \<Rightarrow> ''password'' | Proxy_mode \<Rightarrow> ''proxy'')"

record deployment =
  dp_mode :: auth_mode
  dp_allow_forwarded :: bool
  dp_trusted :: "string list"
  dp_proxy_secret :: string
  dp_limits :: session_limits
  dp_scrypt :: scrypt
  dp_sha256 :: "string \<Rightarrow> string"
  dp_ip6 :: syntax6
  dp_confirms :: "int \<Rightarrow> string \<Rightarrow> string \<Rightarrow> bool"
  dp_env :: "string \<Rightarrow> string option"

datatype startup_error =
    Unknown_mode string
  | Proxy_settings_in_local_mode "string list"
  | Short_proxy_secret
  | Bad_number string
  | Unknown_limiter string
  | User_store user_error

type_synonym environment = "string \<Rightarrow> string option"

definition env_text :: "environment \<Rightarrow> string \<Rightarrow> string" where
  "env_text env name = (case env name of None \<Rightarrow> [] | Some v \<Rightarrow> v)"

definition env_int :: "environment \<Rightarrow> string \<Rightarrow> int \<Rightarrow> startup_error + int" where
  "env_int env name default_value =
     (case env name of
        None \<Rightarrow> Inr default_value
      | Some v \<Rightarrow> (case py_int v of None \<Rightarrow> Inl (Bad_number name) | Some i \<Rightarrow> Inr i))"

definition resolve_auth_mode :: "environment \<Rightarrow> string option \<Rightarrow> startup_error + auth_mode" where
  "resolve_auth_mode env explicit =
     (let mode = strip (case truthy explicit of
          Some m \<Rightarrow> m
        | None \<Rightarrow> (case truthy (env ''ATLAS_AUTH_MODE'') of Some m \<Rightarrow> m | None \<Rightarrow> ''local''))
      in case find (\<lambda>M. mode_name M = mode) [Local_mode, Password_mode, Proxy_mode] of
           Some M \<Rightarrow> Inr M
         | None \<Rightarrow> Inl (Unknown_mode mode))"

definition trusted_proxies :: "environment \<Rightarrow> string list" where
  "trusted_proxies env =
     filter (\<lambda>s. s \<noteq> []) (map strip (split_on CHR '','' (env_text env ''ATLAS_TRUSTED_PROXY_ADDRS'')))"

definition local_conflicts :: "environment \<Rightarrow> string list" where
  "local_conflicts env =
     filter (\<lambda>name. strip (env_text env name) \<noteq> []) [''ATLAS_TRUSTED_PROXY_ADDRS'', ''ATLAS_PROXY_SECRET'']"

definition proxy_secret_long_enough :: "string \<Rightarrow> bool" where
  "proxy_secret_long_enough secret \<longleftrightarrow> secret \<noteq> [] \<and> 16 \<le> length secret"

definition resolve_rate_limiter :: "environment \<Rightarrow> startup_error + unit" where
  "resolve_rate_limiter env =
     (let choice = strip (case env ''ATLAS_RATE_LIMITER'' of None \<Rightarrow> ''builtin'' | Some v \<Rightarrow> v)
      in if choice = [] \<or> choice = ''builtin'' then Inr () else Inl (Unknown_limiter choice))"

definition configure ::
  "scrypt \<Rightarrow> (string \<Rightarrow> string) \<Rightarrow> syntax6 \<Rightarrow> (int \<Rightarrow> string \<Rightarrow> string \<Rightarrow> bool) \<Rightarrow> environment \<Rightarrow> string option \<Rightarrow>
     startup_error + deployment" where
  "configure K H X confirms env explicit =
     andthen (resolve_auth_mode env explicit) (\<lambda>M.
     andthen (demand (M \<noteq> Local_mode \<or> local_conflicts env = []) (Proxy_settings_in_local_mode (local_conflicts env))) (\<lambda>_.
     andthen (env_int env ''ATLAS_SESSION_MAX_AGE'' (12 * 3600)) (\<lambda>age.
     andthen (env_int env ''ATLAS_SESSION_IDLE_TIMEOUT'' (2 * 3600)) (\<lambda>idle.
     andthen (demand (M \<noteq> Proxy_mode \<or> proxy_secret_long_enough (env_text env ''ATLAS_PROXY_SECRET'')) Short_proxy_secret) (\<lambda>_.
     andthen (resolve_rate_limiter env) (\<lambda>_.
       Inr \<lparr> dp_mode = M,
         dp_allow_forwarded = (strip (env_text env ''ATLAS_LOCAL_ALLOW_FORWARDED'') = ''1''),
         dp_trusted = trusted_proxies env, dp_proxy_secret = env_text env ''ATLAS_PROXY_SECRET'',
         dp_limits = \<lparr> sl_max_age = age, sl_idle_timeout = idle \<rparr>,
         dp_scrypt = K, dp_sha256 = H, dp_ip6 = X, dp_confirms = confirms, dp_env = env \<rparr>))))))"

text \<open>\<open>_login_limits\<close>, read from the environment at every sign-in.\<close>

record login_limits =
  ll_account :: int
  ll_source :: int
  ll_global :: int

definition read_login_limits :: "deployment \<Rightarrow> startup_error + login_limits" where
  "read_login_limits D =
     andthen (env_int (dp_env D) ''ATLAS_LOGIN_ACCOUNT_LIMIT'' 5) (\<lambda>account.
     andthen (env_int (dp_env D) ''ATLAS_LOGIN_SOURCE_LIMIT'' 30) (\<lambda>source.
     andthen (env_int (dp_env D) ''ATLAS_LOGIN_GLOBAL_LIMIT'' 500) (\<lambda>global.
       Inr \<lparr> ll_account = account, ll_source = source, ll_global = global \<rparr>)))"

text \<open>The user catalog a production start leaves, and the audit event of a recovery.\<close>

definition appended_event :: "moment \<Rightarrow> audit_event \<Rightarrow> audit_log \<Rightarrow> audit_error + audit_log" where
  "appended_event mo e trail =
     andthen (create_event (mo_uuid mo (length trail)) (mo_text mo) e) (\<lambda>e'. Inr (append_many [e'] trail))"

definition recovery_event :: "string \<Rightarrow> audit_event" where
  "recovery_event username =
     (event_draft ''user-account'' ''recovery-reset'' (''user:'' @ username))
       \<lparr>ae_actor := ''system'', ae_source := ''startup'',
        ae_reason := Some ''ATLAS_RECOVERY_ADMIN_* environment recovery''\<rparr>"

definition prepare_users :: "deployment \<Rightarrow> moment \<Rightarrow> environment \<Rightarrow> user_catalog \<Rightarrow> startup_error + string option \<times> user_catalog" where
  "prepare_users D mo env c =
     wrapped User_store
       (andthen
         (if dp_mode D = Password_mode
          then bootstrap_admin (dp_scrypt D) (mo_salt mo) (mo_text mo)
            (env_text env ''ATLAS_BOOTSTRAP_ADMIN_USER'') (env_text env ''ATLAS_BOOTSTRAP_ADMIN_PASSWORD'') c
          else Inr c)
         (\<lambda>c1. if dp_mode D = Password_mode \<or> dp_mode D = Proxy_mode
           then ensure_recovery_admin (dp_scrypt D) (mo_salt mo) (mo_text mo)
             (env_text env ''ATLAS_RECOVERY_ADMIN_USER'') (env_text env ''ATLAS_RECOVERY_ADMIN_PASSWORD'') c1
           else Inr (None, c1)))"

section \<open>Identity\<close>

record auth_decision =
  ad_principal :: "principal option"
  ad_failure :: "string option"
  ad_needs_login :: bool
  ad_session :: "session option"

definition anonymous :: auth_decision where
  "anonymous = \<lparr> ad_principal = None, ad_failure = None, ad_needs_login = True, ad_session = None \<rparr>"

definition refused_as :: "string \<Rightarrow> auth_decision" where
  "refused_as reason =
     \<lparr> ad_principal = None, ad_failure = Some reason, ad_needs_login = False, ad_session = None \<rparr>"

definition known_as :: "principal \<Rightarrow> session option \<Rightarrow> auth_decision" where
  "known_as p r = \<lparr> ad_principal = Some p, ad_failure = None, ad_needs_login = False, ad_session = r \<rparr>"

definition loopback_v4 :: v4 where "loopback_v4 = word_of_octets 127 0 0 0"

definition is_loopback :: "syntax6 \<Rightarrow> string \<Rightarrow> bool" where
  "is_loopback X remote =
     (remote \<noteq> [] \<and>
      (case ip_address X remote of
         None \<Rightarrow> False
       | Some (V4 w) \<Rightarrow> contains (network4 loopback_v4 8) (V4 w)
       | Some (V6 w) \<Rightarrow> w = 1))"

definition forwarding_headers :: "string list" where
  "forwarding_headers =
     [''Forwarded'', ''X-Forwarded-For'', ''X-Forwarded-Host'', ''X-Forwarded-Proto'', ''X-Forwarded'',
      ''Forwarded-For'', ''X-Real-IP'', ''X-Client-IP'', ''True-Client-IP'', ''CF-Connecting-IP'']"

definition identify_local :: "deployment \<Rightarrow> request \<Rightarrow> auth_decision" where
  "identify_local D r =
     (if \<not> is_loopback (dp_ip6 D) (rq_remote r)
      then refused_as (''Local development mode only serves the local machine. Run Atlas in a production auth mode ''
        @ ''(ATLAS_AUTH_MODE=password or proxy) to allow other clients.'')
      else
        (let offered = filter (\<lambda>name. header r name \<noteq> []) forwarding_headers
         in if \<not> dp_allow_forwarded D \<and> offered \<noteq> []
            then refused_as (''Local development mode refuses proxied requests: forwarding header(s) ''
              @ join_with '', '' (sort offered)
              @ '' are present, so this connection is not provably the local operator. Serve other users with ''
              @ ''ATLAS_AUTH_MODE=password or proxy. (A deliberate local-only dev proxy can set ''
              @ ''ATLAS_LOCAL_ALLOW_FORWARDED=1.)'')
            else known_as local_operator None))"

definition identify_password :: "deployment \<Rightarrow> moment \<Rightarrow> request \<Rightarrow> access \<Rightarrow> auth_decision \<times> access" where
  "identify_password D mo r s =
     (case resolve_session (dp_sha256 D) (dp_limits D) (mo_now mo) (rq_cookie r) (ax_sessions s) of
        (None, rs) \<Rightarrow> (anonymous, s\<lparr>ax_sessions := rs\<rparr>)
      | (Some record, rs) \<Rightarrow>
          (case get_account (ax_users s) (se_username record) of
             None \<Rightarrow> (anonymous, s\<lparr>ax_sessions := snd (invalidate_user (mo_now mo) (se_username record) rs)\<rparr>)
           | Some a \<Rightarrow>
               if ua_disabled a
               then (anonymous, s\<lparr>ax_sessions := snd (invalidate_user (mo_now mo) (se_username record) rs)\<rparr>)
               else (known_as
                   (for_roles (ua_username a) (ua_display_name a) (ua_roles a)
                      (Some (take 12 (se_token_hash record))) ''password'')
                   (Some record), s\<lparr>ax_sessions := rs\<rparr>)))"

definition identify_proxy :: "deployment \<Rightarrow> request \<Rightarrow> access \<Rightarrow> auth_decision" where
  "identify_proxy D r s =
     (if header r ''X-Atlas-Proxy-Secret'' \<noteq> dp_proxy_secret D
      then refused_as ''This deployment only accepts requests through its authenticating proxy.''
      else
        (let username = strip (header r ''X-Atlas-Remote-User'')
         in if username = [] then anonymous
            else (case get_account (ax_users s) username of
                None \<Rightarrow> refused_as (username @ '' authenticated at the proxy but has no Atlas account. ''
                  @ ''A system administrator must create one and assign roles.'')
              | Some a \<Rightarrow>
                  if ua_disabled a
                  then refused_as (username @ '' authenticated at the proxy but has no Atlas account. ''
                    @ ''A system administrator must create one and assign roles.'')
                  else known_as
                    (for_roles (ua_username a) (ua_display_name a) (ua_roles a) None ''proxy'') None)))"

definition identify :: "deployment \<Rightarrow> moment \<Rightarrow> request \<Rightarrow> access \<Rightarrow> auth_decision \<times> access" where
  "identify D mo r s =
     (case dp_mode D of
        Local_mode \<Rightarrow> (identify_local D r, s)
      | Password_mode \<Rightarrow> identify_password D mo r s
      | Proxy_mode \<Rightarrow> (identify_proxy D r s, s))"

text \<open>\<open>PasswordAuth.login\<close>: a fresh session token, or nothing.\<close>

definition login :: "deployment \<Rightarrow> moment \<Rightarrow> string \<Rightarrow> string \<Rightarrow> access \<Rightarrow> user_error + string option \<times> access" where
  "login D mo username password s =
     andthen (authenticate (dp_scrypt D) (mo_salt mo) (ax_users s) username password) (\<lambda>account.
       case account of
         None \<Rightarrow> Inr (None, s)
       | Some a \<Rightarrow>
           (let (token, rs) = create_session (dp_sha256 D) (dp_limits D) (mo_now mo) (mo_token mo)
                  (mo_csrf mo) (ua_username a) ''password'' (ax_sessions s)
            in Inr (Some token, s\<lparr>ax_sessions := rs\<rparr>)))"

end
