(* ===== verification/Endpoints.thy ===== *)
theory Endpoints
  imports Accounts
begin

text \<open>
  The endpoint table of \<open>web/authz_map.py\<close>: the permission each endpoint of the web application
  needs, \<open>public\<close> for the few that work without a principal. An endpoint without an entry has no
  permission and is denied by the gate.
\<close>

definition endpoint_permissions :: "(string \<times> string) list" where
  "endpoint_permissions =
     [(''static'', ''public''), (''login'', ''public''), (''login_submit'', ''public''),
      (''logout'', ''public''), (''healthz'', ''public''), (''readyz'', ''public''),
      (''dashboard'', ''pages.view''), (''profiles'', ''pages.view''),
      (''profile_new'', ''profiles.manage''), (''profile_edit'', ''profiles.manage''),
      (''discovery'', ''pages.view''), (''discovery_wizard'', ''discovery.run''),
      (''discovery_console'', ''pages.view''), (''api_discovery_job_get'', ''pages.view''),
      (''api_discovery_job_list'', ''pages.view''), (''api_discovery_execution_demo'', ''pages.view''),
      (''policy_page'', ''pages.view''), (''policy_result_page'', ''pages.view''),
      (''timeline_page'', ''pages.view''), (''audit_page'', ''pages.view''),
      (''configuration_page'', ''pages.view''), (''configuration_device'', ''pages.view''),
      (''topology'', ''pages.view''), (''api_topology_counts'', ''pages.view''),
      (''api_health'', ''pages.view''), (''api_topology_curation'', ''pages.view''),
      (''history'', ''pages.view''), (''network_time_travel'', ''pages.view''),
      (''api_network_time_travel'', ''pages.view''), (''changes'', ''pages.view''),
      (''changes_compare'', ''pages.view''), (''predict_page'', ''pages.view''),
      (''paths_page'', ''pages.view''), (''compass_page'', ''pages.view''),
      (''compass_plan_page'', ''pages.view''), (''advisor_page'', ''pages.view''),
      (''api_search'', ''pages.view''), (''device_details'', ''pages.view''),
      (''incidents'', ''pages.view''), (''settings'', ''pages.view''),
      (''preferences_display_level'', ''pages.view''), (''workspace_favourite'', ''pages.view''),
      (''api_workspace_palette'', ''pages.view''), (''api_ui_preference_get'', ''pages.view''),
      (''api_ui_preference_set'', ''pages.view''), (''device_actions_api'', ''pages.view''),
      (''management_index'', ''pages.view''), (''artifacts'', ''pages.view''), (''inbox'', ''pages.view''),
      (''inbox_update'', ''pages.view''), (''schedules_page'', ''pages.view''),
      (''telemetry_page'', ''pages.view''), (''telemetry_collect'', ''discovery.run''),
      (''evidence_page'', ''evidence.view''), (''evidence_device_page'', ''evidence.view''),
      (''evidence_record_page'', ''evidence.view''), (''memory_page'', ''evidence.view''),
      (''memory_session_page'', ''evidence.view''), (''memory_device_page'', ''evidence.view''),
      (''memory_evidence_view'', ''evidence.view''), (''evidence_system_details'', ''evidence.view''),
      (''configuration_system_details'', ''evidence.view''),
      (''evidence_saved_filter_create'', ''evidence.view''),
      (''evidence_saved_filter_rename'', ''evidence.view''),
      (''evidence_saved_filter_delete'', ''evidence.view''),
      (''evidence_resolution_center'', ''evidence.view''), (''evidence_record_download'', ''export.data''),
      (''evidence_device_bundle'', ''export.data''), (''evidence_session_bundle'', ''export.data''),
      (''memory_evidence_download'', ''export.data''), (''evidence_config_download'', ''export.data''),
      (''memory_config_download'', ''export.data''), (''evidence_bulk_export'', ''export.data''),
      (''policy_export'', ''export.data''), (''audit_export'', ''export.data''),
      (''changes_export'', ''export.data''), (''configuration_export_redacted'', ''export.data''),
      (''configuration_export'', ''export.data''), (''network_time_travel_export'', ''export.data''),
      (''discovery_wizard_draft_save'', ''discovery.run''),
      (''discovery_wizard_draft_cancel'', ''discovery.run''),
      (''discovery_wizard_draft_cleanup'', ''discovery.run''),
      (''discovery_wizard_preview'', ''discovery.run''), (''discovery_wizard_start'', ''discovery.run''),
      (''discovery_run'', ''discovery.run''), (''api_discovery_job_create'', ''discovery.run''),
      (''api_discovery_job_cancel'', ''discovery.run''), (''profile_create'', ''profiles.manage''),
      (''profile_update'', ''profiles.manage''), (''profile_delete'', ''profiles.manage''),
      (''profile_duplicate'', ''profiles.manage''), (''profile_archive'', ''profiles.manage''),
      (''profile_test'', ''profiles.manage''), (''credentials'', ''credentials.manage''),
      (''credentials_add'', ''credentials.manage''), (''credentials_delete'', ''credentials.manage''),
      (''credentials_test'', ''credentials.manage''),
      (''credentials_test_connection'', ''credentials.manage''),
      (''policy_exception_grant'', ''policy.manage''), (''policy_exception_revoke'', ''policy.manage''),
      (''policy_assign'', ''policy.manage''), (''policy_baseline_preview'', ''policy.manage''),
      (''policy_baseline_save'', ''policy.manage''), (''api_assign_topology_site'', ''topology.edit''),
      (''api_revert_topology_site'', ''topology.edit''), (''api_undo_topology_site'', ''topology.edit''),
      (''topology_identity_resolve'', ''topology.edit''), (''topology_identity_revert'', ''topology.edit''),
      (''topology_identity_undo'', ''topology.edit''), (''api_resolve_peer_identity'', ''topology.edit''),
      (''api_revert_peer_identity'', ''topology.edit''), (''api_undo_peer_identity'', ''topology.edit''),
      (''evidence_resolution_identity_confirm'', ''topology.edit''),
      (''evidence_resolution_identity_bulk_confirm'', ''topology.edit''),
      (''evidence_resolution_decide'', ''topology.edit''),
      (''evidence_resolution_decision_undo'', ''topology.edit''),
      (''evidence_resolution_identity_undo'', ''topology.edit''),
      (''api_update_topology_site'', ''topology.edit''), (''management_define'', ''console.use''),
      (''changes_annotate'', ''changes.annotate''), (''changes_bulk'', ''changes.annotate''),
      (''configuration_annotation'', ''changes.annotate''), (''predict_run'', ''predict.run''),
      (''paths_run'', ''investigate.run''), (''api_paths_trace'', ''investigate.run''),
      (''api_paths_validate_live'', ''console.use''), (''api_topology_measure_latency'', ''console.use''),
      (''incidents_run'', ''investigate.run''), (''incidents_bulk'', ''investigate.run''),
      (''advisor_ask_route'', ''investigate.run''), (''api_advisor_ask'', ''investigate.run''),
      (''api_advisor_explain'', ''investigate.run''), (''api_advisor_workflow_choice'', ''pages.view''),
      (''api_oir_diagnostics'', ''system.admin''), (''compass_new'', ''plans.edit''),
      (''compass_archive'', ''plans.edit''), (''continue_working_clear'', ''pages.view''),
      (''compass_add_change'', ''plans.edit''), (''compass_remove_change'', ''plans.edit''),
      (''compass_analyse'', ''plans.edit''), (''compass_approve'', ''plans.approve''),
      (''compass_readiness'', ''plans.edit''), (''compass_reorder'', ''plans.edit''),
      (''compass_dependencies'', ''plans.edit''), (''compass_submit'', ''plans.edit''),
      (''compass_schedule'', ''plans.edit''), (''compass_execution'', ''plans.edit''),
      (''compass_cab_export'', ''export.data''), (''api_entities'', ''pages.view''),
      (''api_device_interfaces'', ''pages.view''), (''incident_case_page'', ''pages.view''),
      (''incident_case_action'', ''investigate.run''), (''incident_case_link'', ''investigate.run''),
      (''incident_case_unlink'', ''investigate.run''), (''advisor_feedback'', ''investigate.run''),
      (''advisor_conversation_delete'', ''investigate.run''),
      (''advisor_conversation_rename'', ''investigate.run''),
      (''advisor_conversation_pin'', ''investigate.run''),
      (''advisor_conversation_export'', ''export.data''), (''paths_compare'', ''pages.view''),
      (''console_index'', ''console.use''), (''console_page'', ''console.use''),
      (''console_token'', ''console.use''), (''console_hostkey'', ''console.use''),
      (''console_hostkey_accept'', ''console.use''), (''console_sessions'', ''console.use''),
      (''console_disconnect'', ''console.use''), (''console_attach'', ''console.use''),
      (''management_verify'', ''console.use''), (''management_opened'', ''console.use''),
      (''settings_update'', ''settings.manage''), (''settings_ai'', ''pages.view''),
      (''settings_ai_update'', ''settings.manage''), (''settings_ai_key'', ''system.admin''),
      (''settings_ai_test'', ''system.admin''), (''api_prism_diagnostics'', ''system.admin''),
      (''prism_playground'', ''system.admin''), (''prism_playground_export'', ''system.admin''),
      (''schedules_create'', ''discovery.run''), (''schedules_state'', ''discovery.run''),
      (''maintenance_create'', ''settings.manage''), (''settings_reset'', ''settings.manage''),
      (''system_information'', ''system.admin''), (''settings_diagnostics'', ''system.admin''),
      (''settings_retention'', ''system.admin''), (''settings_retention_execute'', ''system.admin''),
      (''settings_storage'', ''system.admin''), (''settings_storage_reclaim'', ''system.admin''),
      (''system_update'', ''system.admin''), (''settings_backup'', ''system.admin''),
      (''settings_restore'', ''system.admin''), (''system_integrity'', ''system.admin''),
      (''users_page'', ''users.manage''), (''users_create'', ''users.manage''),
      (''users_update'', ''users.manage''), (''users_delete'', ''users.manage'')]"

definition public :: string where "public = ''public''"

definition permission_for_endpoint :: "string option \<Rightarrow> string option" where
  "permission_for_endpoint endpoint =
     (case endpoint of None \<Rightarrow> None | Some e \<Rightarrow> map_of endpoint_permissions e)"

end
