(* ===== verification/WebGate.thy ===== *)
theory WebGate
  imports Authentication Endpoints
begin

text \<open>
  The gate every request of the web application passes before its view runs (\<open>_security_gate\<close> of
  \<open>web/security.py\<close>): correlation id, identity, the permission of the endpoint, protection against
  cross-site mutation, and the rate limits, with an audit event for every denial. An answer keeps
  its kind, status and message; templates, response headers and the address of the sign-in page
  are not modelled.
\<close>

section \<open>Answers\<close>

datatype web_answer =
    Json_error nat string string
  | Error_page nat string
  | To_sign_in string
  | Crash
  | View
  | Signed_in string string
  | Sign_in_failed
  | Signed_out
  | To_users string string
  | Confirm_first string

definition wants_json :: "request \<Rightarrow> bool" where
  "wants_json r \<longleftrightarrow>
     starts_with (rq_path r) ''/api/'' \<or>
     (occurs_in ''application/json'' (header r ''Accept'') \<and> \<not> occurs_in ''text/html'' (header r ''Accept''))"

definition denial :: "request \<Rightarrow> string \<Rightarrow> nat \<Rightarrow> string \<Rightarrow> web_answer" where
  "denial r corr status message =
     (if wants_json r then Json_error status message corr
      else if status = 401
        then To_sign_in (if rq_method r = ''GET'' then rstrip_char CHR ''?'' (rq_full_path r) else ''/'')
      else Error_page status message)"

section \<open>Who asks\<close>

definition safe_id_char :: "char \<Rightarrow> bool" where
  "safe_id_char c \<longleftrightarrow> is_alnum c \<or> c \<in> {CHR ''.'', CHR ''_'', CHR ''-''}"

text \<open>\<open>_SAFE_REQUEST_ID\<close>; its \<open>$\<close> also matches before a last line feed.\<close>

definition safe_request_id :: "string \<Rightarrow> bool" where
  "safe_request_id s =
     (let core = (if s \<noteq> [] \<and> last s = CHR 0x0A then butlast s else s)
      in 1 \<le> length core \<and> length core \<le> 64 \<and> list_all safe_id_char core)"

definition correlation_id :: "string \<Rightarrow> request \<Rightarrow> string" where
  "correlation_id uid r =
     (let offered = header r ''X-Request-ID''
      in if safe_request_id offered then offered else ''req-'' @ take 16 uid)"

definition client_address :: "deployment \<Rightarrow> request \<Rightarrow> string" where
  "client_address D r =
     (let peer = (if rq_remote r = [] then ''unknown'' else rq_remote r)
      in if dp_mode D = Local_mode \<or> peer \<notin> set (dp_trusted D) then peer
         else
           (let forwarded = filter (\<lambda>h. h \<noteq> []) (map strip (split_on CHR '','' (header r ''X-Forwarded-For'')))
            in case find (\<lambda>hop. hop \<notin> set (dp_trusted D)) (List.rev forwarded) of
                 Some hop \<Rightarrow> hop
               | None \<Rightarrow> peer))"

definition same_origin :: "request \<Rightarrow> bool" where
  "same_origin r =
     (let site = lower (header r ''Sec-Fetch-Site''); origin = header r ''Origin''
      in if site \<in> {''cross-site'', ''same-site''} then False
         else if origin \<noteq> [] \<and> lower origin \<noteq> ''null''
           then lower (rstrip_char CHR ''/'' origin) = lower (rstrip_char CHR ''/'' (rq_host_url r))
         else if origin \<noteq> [] \<and> lower origin = ''null'' then False
         else True)"

section \<open>Denials\<close>

text \<open>
  How a stage of the gate ends: go on, let the request through, deny it with a status, an audited
  operation and reason if the denial is audited, and a message, or fail with an internal error.
\<close>

datatype stage =
    Go_on
  | Let_through
  | Deny nat "(string \<times> string) option" string
  | Fail

definition denial_event :: "request \<Rightarrow> auth_decision \<Rightarrow> string \<Rightarrow> string \<Rightarrow> string \<Rightarrow> audit_event" where
  "denial_event r d corr operation detail =
     (event_draft ''authorization'' operation
        (''endpoint:'' @ (case truthy (rq_endpoint r) of Some e \<Rightarrow> e | None \<Rightarrow> rq_path r)))
       \<lparr>ae_actor := (case ad_principal d of Some p \<Rightarrow> pr_username p | None \<Rightarrow> ''unauthenticated''),
        ae_roles := (case ad_principal d of Some p \<Rightarrow> pr_roles p | None \<Rightarrow> []),
        ae_outcome := ''denied'', ae_reason := Some detail, ae_correlation := Some corr\<rparr>"

text \<open>A failing audit write never turns a denial into an error: the trail stays as it is.\<close>

definition audit_denial :: "moment \<Rightarrow> request \<Rightarrow> auth_decision \<Rightarrow> string \<Rightarrow> string \<Rightarrow> string \<Rightarrow> access \<Rightarrow> access" where
  "audit_denial mo r d corr operation detail s =
     (case appended_event mo (denial_event r d corr operation detail) (ax_trail s) of
        Inl _ \<Rightarrow> s
      | Inr trail \<Rightarrow> s\<lparr>ax_trail := trail\<rparr>)"

definition closed :: "moment \<Rightarrow> request \<Rightarrow> auth_decision \<Rightarrow> string \<Rightarrow> stage \<Rightarrow> access \<Rightarrow> web_answer option \<times> access" where
  "closed mo r d corr st s =
     (case st of
        Deny status audited message \<Rightarrow>
          (Some (denial r corr status message),
           case audited of None \<Rightarrow> s | Some (operation, detail) \<Rightarrow> audit_denial mo r d corr operation detail s)
      | Fail \<Rightarrow> (Some Crash, s)
      | _ \<Rightarrow> (None, s))"

section \<open>The stages\<close>

definition check_permission :: "request \<Rightarrow> auth_decision \<Rightarrow> stage" where
  "check_permission r d =
     (let permission = permission_for_endpoint (rq_endpoint r)
      in if permission = Some public then Go_on
         else case ad_failure d of
           Some failure \<Rightarrow> Deny 403 (Some (''refuse'', failure)) failure
         | None \<Rightarrow>
             (case ad_principal d of
                None \<Rightarrow> Deny 401 None ''Sign in to continue.''
              | Some p \<Rightarrow>
                  if rq_endpoint r = None then Let_through
                  else case permission of
                    None \<Rightarrow> Deny 403
                      (Some (''deny-unmapped'', ''The endpoint has no entry in the authorization table.''))
                      ''This operation has not been assigned a permission and is denied by default.''
                  | Some q \<Rightarrow>
                      if can p q then Go_on
                      else Deny 403 (Some (''deny'', ''missing permission '' @ q))
                        (''Your roles do not include the permission required for this operation ('' @ q @ '').'')))"

definition mutating_methods :: "string list" where
  "mutating_methods = [''POST'', ''PUT'', ''PATCH'', ''DELETE'']"

definition csrf_exempt :: "string list" where
  "csrf_exempt = [''login_submit'']"

definition check_csrf_token :: "request \<Rightarrow> auth_decision \<Rightarrow> stage" where
  "check_csrf_token r d =
     (let expected = (case ad_session d of Some record \<Rightarrow> se_csrf record | None \<Rightarrow> []);
          direct = (if header r ''X-Atlas-CSRF'' \<noteq> [] then header r ''X-Atlas-CSRF'' else form r ''_csrf'')
      in if direct = [] \<and> rq_body r = Json_not_object then Fail
         else
           (let offered = (if direct = [] then (case rq_body r of Json_field t \<Rightarrow> t | _ \<Rightarrow> []) else direct)
            in if expected = [] \<or> offered \<noteq> expected
               then Deny 403 (Some (''csrf'', ''missing or stale CSRF token''))
                 ''The form's protection token is missing or stale. Reload the page and try again.''
               else Go_on))"

definition check_csrf :: "deployment \<Rightarrow> request \<Rightarrow> auth_decision \<Rightarrow> stage" where
  "check_csrf D r d =
     (if rq_method r \<notin> set mutating_methods then Go_on
      else if \<not> same_origin r
        then Deny 403 (Some (''csrf'', ''cross-origin mutation refused''))
          ''Cross-origin requests cannot perform this action.''
      else if dp_mode D = Password_mode \<and> rq_endpoint r \<notin> Some ` set csrf_exempt then check_csrf_token r d
      else Go_on)"

section \<open>Rate limits\<close>

definition rate_limits :: "(string \<times> int) list" where
  "rate_limits =
     [(''credentials_test'', 20), (''credentials_test_connection'', 10), (''profile_test'', 20),
      (''settings_restore'', 5), (''api_advisor_ask'', 30), (''advisor_ask_route'', 30),
      (''api_advisor_explain'', 30), (''api_advisor_workflow_choice'', 60)]"

definition minute :: nat where "minute = 60"

text \<open>Every attempt consumes every layer; the names of those over their limit.\<close>

fun spend :: "nat \<Rightarrow> (string \<times> string \<times> int) list \<Rightarrow> hits \<Rightarrow> string list \<times> hits" where
  "spend clock [] h = ([], h)"
| "spend clock ((layer, key, limit) # layers) h =
     (let (ok, h1) = allow key limit minute clock h;
          (blocked, h2) = spend clock layers h1
      in (if ok then blocked else layer # blocked, h2))"

definition submitted_account :: "request \<Rightarrow> string" where
  "submitted_account r =
     (let account = take 64 (lower (strip (form r ''username''))) in if account = [] then ''(empty)'' else account)"

definition login_layers :: "login_limits \<Rightarrow> string \<Rightarrow> string \<Rightarrow> (string \<times> string \<times> int) list" where
  "login_layers L account source =
     [(''account'', ''login:acct:'' @ account, ll_account L),
      (''source'', ''login:src:'' @ source, ll_source L)] @
     (if ll_global L > 0 then [(''global'', ''login:global'', ll_global L)] else [])"

definition limit_login :: "deployment \<Rightarrow> moment \<Rightarrow> request \<Rightarrow> access \<Rightarrow> stage \<times> access" where
  "limit_login D mo r s =
     (if rq_endpoint r \<noteq> Some ''login_submit'' then (Go_on, s)
      else case read_login_limits D of
        Inl _ \<Rightarrow> (Fail, s)
      | Inr L \<Rightarrow>
          (let account = submitted_account r; source = client_address D r;
               (blocked, h) = spend (mo_clock mo) (login_layers L account source) (ax_hits s)
           in (if blocked = [] then Go_on
               else Deny 429
                 (Some (''rate-limit'', ''sign-in limit ('' @ join_with ''+'' blocked @ '' layer) for account ''
                   @ py_repr account @ '' from '' @ source))
                 ''Too many sign-in attempts. Wait a minute and try again.'',
               s\<lparr>ax_hits := h\<rparr>)))"

definition limit_endpoint :: "deployment \<Rightarrow> moment \<Rightarrow> request \<Rightarrow> access \<Rightarrow> stage \<times> access" where
  "limit_endpoint D mo r s =
     (let name = (case rq_endpoint r of None \<Rightarrow> [] | Some e \<Rightarrow> e)
      in case map_of rate_limits name of
           None \<Rightarrow> (Go_on, s)
         | Some limit \<Rightarrow>
             (let (ok, h) = allow (client_address D r @ '':'' @ name) limit minute (mo_clock mo) (ax_hits s)
              in (if ok then Go_on
                  else Deny 429 (Some (''rate-limit'', ''over '' @ digits_of (nat limit) @ ''/minute''))
                    ''Too many attempts. Wait a minute and try again.'',
                  s\<lparr>ax_hits := h\<rparr>)))"

section \<open>The gate\<close>

text \<open>
  \<open>check_access\<close> runs the stages on an identity; \<open>security_gate\<close> identifies the request first.
  \<open>None\<close> means that the request goes on to its view.
\<close>

definition check_access ::
  "deployment \<Rightarrow> moment \<Rightarrow> request \<Rightarrow> auth_decision \<Rightarrow> access \<Rightarrow> stage \<times> access" where
  "check_access D mo r d s =
     (case check_permission r d of
        Go_on \<Rightarrow>
          (case check_csrf D r d of
             Go_on \<Rightarrow>
               (case limit_login D mo r s of
                  (Go_on, s') \<Rightarrow> limit_endpoint D mo r s'
                | (st, s') \<Rightarrow> (st, s'))
           | st \<Rightarrow> (st, s))
      | st \<Rightarrow> (st, s))"

definition security_gate ::
  "deployment \<Rightarrow> moment \<Rightarrow> request \<Rightarrow> access \<Rightarrow> web_answer option \<times> auth_decision \<times> access" where
  "security_gate D mo r s =
     (let corr = correlation_id (mo_request mo) r;
          (d, s1) = identify D mo r s;
          (st, s2) = check_access D mo r d s1;
          (stopped, s3) = closed mo r d corr st s2
      in (stopped, d, s3))"

end
