(* ===== verification/UserAdmin.thy ===== *)
theory UserAdmin
  imports WebGate
begin

text \<open>
  The views that change the access state: signing in and out (\<open>web/security.py\<close>) and the account
  administration (\<open>web/ops.py\<close>), composed with the gate into \<open>serve\<close>, one request from its arrival
  to its answer. The views of every other endpoint leave the access state alone as far as this
  model goes. Flash messages are kept in the answer \<open>To_users\<close>; the notification a conflict sends
  and the page contents are not modelled.
\<close>

section \<open>Messages\<close>

definition int_text :: "int \<Rightarrow> string" where
  "int_text i = (if i < 0 then CHR ''-'' # digits_of (nat (- i)) else digits_of (nat i))"

definition user_error_text :: "user_error \<Rightarrow> string" where
  "user_error_text e =
     (case e of
        Short_password \<Rightarrow> ''Passwords must be at least 12 characters.''
      | Derivation_failed \<Rightarrow> ''''
      | Bad_username \<Rightarrow> ''Usernames use letters, digits, dots, and dashes.''
      | Duplicate_account n \<Rightarrow> ''The account '' @ py_repr n @ '' already exists.''
      | No_such_account n \<Rightarrow> ''No account named '' @ py_repr n @ '' exists.''
      | Unknown_roles rs \<Rightarrow> ''Unknown role(s): '' @ join_with '', '' rs @ ''.''
      | No_roles \<Rightarrow> ''An account needs at least one role.''
      | Stale_catalog current edited \<Rightarrow>
          ''The user catalog changed while you were editing (revision '' @ int_text current
          @ '', you edited '' @ int_text edited @ ''). Reload and reapply your change.''
      | Last_administrator \<Rightarrow>
          ''This change would leave Atlas without a usable system administrator. Grant system-admin ''
          @ ''to another enabled account first.'')"

section \<open>Audit events of the views\<close>

text \<open>An event whose fields are blank raises inside the view, which ends in an internal error.\<close>

definition recorded :: "moment \<Rightarrow> audit_event \<Rightarrow> web_answer \<Rightarrow> access \<Rightarrow> web_answer \<times> access" where
  "recorded mo e answer s =
     (case appended_event mo e (ax_trail s) of
        Inl _ \<Rightarrow> (Crash, s)
      | Inr trail \<Rightarrow> (answer, s\<lparr>ax_trail := trail\<rparr>))"

definition view_event :: "auth_decision \<Rightarrow> string \<Rightarrow> string \<Rightarrow> string \<Rightarrow> string \<Rightarrow> audit_event" where
  "view_event d corr category operation subject =
     (event_draft category operation subject)
       \<lparr>ae_actor := (case ad_principal d of Some p \<Rightarrow> pr_username p | None \<Rightarrow> ''unauthenticated''),
        ae_roles := (case ad_principal d of Some p \<Rightarrow> pr_roles p | None \<Rightarrow> []),
        ae_correlation := Some corr\<rparr>"

section \<open>Signing in and out\<close>

definition login_submit :: "deployment \<Rightarrow> moment \<Rightarrow> request \<Rightarrow> string \<Rightarrow> access \<Rightarrow> web_answer \<times> access" where
  "login_submit D mo r corr s =
     (if dp_mode D \<noteq> Password_mode then (Error_page 404 [], s)
      else
        (let username = strip (form r ''username'');
             e = (event_draft ''authentication'' ''login'' (''user:'' @ (if username = [] then ''unknown'' else username)))
               \<lparr>ae_actor := (if username = [] then ''unknown'' else username), ae_correlation := Some corr\<rparr>
         in case login D mo username (form r ''password'') s of
              Inl _ \<Rightarrow> (Crash, s)
            | Inr (None, s') \<Rightarrow>
                recorded mo
                  (e\<lparr>ae_outcome := ''failed'', ae_reason := Some ''invalid credentials or disabled account''\<rparr>)
                  Sign_in_failed s'
            | Inr (Some token, s') \<Rightarrow>
                (case appended_event mo
                    (e\<lparr>ae_subject := ''user:'' @ username, ae_actor := username\<rparr>) (ax_trail s') of
                   Inl _ \<Rightarrow> (Crash, s')
                 | Inr trail \<Rightarrow>
                     (case resolve_session (dp_sha256 D) (dp_limits D) (mo_now mo) token (ax_sessions s') of
                        (found, rs) \<Rightarrow>
                          (Signed_in token (case found of Some record \<Rightarrow> se_csrf record | None \<Rightarrow> []),
                           s'\<lparr>ax_trail := trail, ax_sessions := rs\<rparr>)))))"

definition logout :: "deployment \<Rightarrow> moment \<Rightarrow> request \<Rightarrow> auth_decision \<Rightarrow> string \<Rightarrow> access \<Rightarrow> web_answer \<times> access" where
  "logout D mo r d corr s =
     (if dp_mode D \<noteq> Password_mode then (Signed_out, s)
      else
        (let s' = s\<lparr>ax_sessions := invalidate (dp_sha256 D) (mo_now mo) (rq_cookie r) (ax_sessions s)\<rparr>
         in case ad_principal d of
              None \<Rightarrow> (Signed_out, s')
            | Some p \<Rightarrow>
                recorded mo (view_event d corr ''authentication'' ''logout'' (''user:'' @ pr_username p)) Signed_out s'))"

section \<open>Account administration\<close>

definition allow_sso_admins :: "deployment \<Rightarrow> bool" where
  "allow_sso_admins D \<longleftrightarrow> dp_mode D = Proxy_mode"

text \<open>\<open>_reauth_failed\<close>: \<open>None\<close> when the change may go on.\<close>

definition reauth_failed :: "deployment \<Rightarrow> moment \<Rightarrow> request \<Rightarrow> auth_decision \<Rightarrow> string \<Rightarrow> access \<Rightarrow> (web_answer \<times> access) option" where
  "reauth_failed D mo r d corr s =
     (if dp_mode D \<noteq> Password_mode then None
      else
        (let offered = form r ''admin_password'';
             refused = recorded mo
               ((view_event d corr ''user-account'' ''reauth''
                  (''user:'' @ (case ad_principal d of Some p \<Rightarrow> pr_username p | None \<Rightarrow> ''unknown'')))
                  \<lparr>ae_outcome := ''denied'',
                   ae_reason := Some ''user change refused: administrator re-authentication missing or wrong''\<rparr>)
               (To_users ''error''
                  ''Confirm this change by entering your own password in the 'Your password' field.'') s
         in case ad_principal d of
              None \<Rightarrow> Some refused
            | Some p \<Rightarrow>
                if offered = [] then Some refused
                else (case authenticate (dp_scrypt D) (mo_salt mo) (ax_users s) (pr_username p) offered of
                    Inl _ \<Rightarrow> Some (Crash, s)
                  | Inr None \<Rightarrow> Some refused
                  | Inr (Some _) \<Rightarrow> None)))"

text \<open>\<open>int(form.get("expected_revision", "") or 0)\<close>; \<open>None\<close> is the \<open>ValueError\<close>.\<close>

definition expected_revision :: "request \<Rightarrow> int option" where
  "expected_revision r = (let t = form r ''expected_revision'' in if t = [] then Some 0 else py_int t)"

text \<open>\<open>abort(409)\<close> and its handler, which audits the conflict.\<close>

definition conflict :: "moment \<Rightarrow> request \<Rightarrow> auth_decision \<Rightarrow> string \<Rightarrow> user_error \<Rightarrow> access \<Rightarrow> web_answer \<times> access" where
  "conflict mo r d corr e s =
     ((if wants_json r then Json_error 409 (user_error_text e) corr else Error_page 409 (user_error_text e)),
      audit_denial mo r d corr ''conflict'' (user_error_text e) s)"

definition failed_change :: "moment \<Rightarrow> request \<Rightarrow> auth_decision \<Rightarrow> string \<Rightarrow> user_error \<Rightarrow> access \<Rightarrow> web_answer \<times> access" where
  "failed_change mo r d corr e s =
     (if is_conflict e then conflict mo r d corr e s
      else if e = Derivation_failed then (Crash, s)
      else (To_users ''error'' (user_error_text e), s))"

definition role_values :: "string list \<Rightarrow> json" where
  "role_values roles = JArr (map JStr roles)"

definition users_create :: "deployment \<Rightarrow> moment \<Rightarrow> request \<Rightarrow> auth_decision \<Rightarrow> string \<Rightarrow> access \<Rightarrow> web_answer \<times> access" where
  "users_create D mo r d corr s =
     (case reauth_failed D mo r d corr s of
        Some refused \<Rightarrow> refused
      | None \<Rightarrow>
          (case expected_revision r of
             None \<Rightarrow> (Crash, s)
           | Some expected \<Rightarrow>
               (case create_account (dp_scrypt D) (mo_salt mo) (mo_text mo) (form r ''username'')
                   (truthy (Some (form r ''display_name''))) (form_list r ''roles'')
                   (truthy (Some (form r ''password''))) (Some expected) (ax_users s) of
                  Inl e \<Rightarrow> failed_change mo r d corr e s
                | Inr (a, users) \<Rightarrow>
                    recorded mo
                      ((view_event d corr ''user-account'' ''create'' (''user:'' @ ua_username a))
                         \<lparr>ae_after := [(''roles'', role_values (ua_roles a)),
                            (''display_name'', JStr (ua_display_name a))]\<rparr>)
                      (To_users ''success'' (''Account '' @ ua_username a @ '' created.''))
                      (s\<lparr>ax_users := users\<rparr>))))"

definition is_self :: "auth_decision \<Rightarrow> string \<Rightarrow> bool" where
  "is_self d username =
     (case ad_principal d of None \<Rightarrow> False | Some p \<Rightarrow> lower (pr_username p) = lower username)"

definition revoke :: "bool \<Rightarrow> moment \<Rightarrow> string \<Rightarrow> access \<Rightarrow> access" where
  "revoke needed mo username s =
     (if needed then s\<lparr>ax_sessions := snd (invalidate_user (mo_now mo) username (ax_sessions s))\<rparr> else s)"

definition users_update :: "deployment \<Rightarrow> moment \<Rightarrow> request \<Rightarrow> auth_decision \<Rightarrow> string \<Rightarrow> access \<Rightarrow> web_answer \<times> access" where
  "users_update D mo r d corr s =
     (case reauth_failed D mo r d corr s of
        Some refused \<Rightarrow> refused
      | None \<Rightarrow>
          (case get_account (ax_users s) (rq_username r) of
             None \<Rightarrow> (To_users ''error'' ''No such account.'', s)
           | Some earlier \<Rightarrow>
               (let disabled = map_of (rq_form r) ''disabled'';
                    roles = form_list r ''roles'';
                    self = is_self d (rq_username r)
                in if self \<and> disabled = Some ''1''
                   then (To_users ''error''
                     (''You cannot disable the account you are signed in with ''
                      @ ''- another administrator must do that.''), s)
                   else if self \<and> roles \<noteq> [] \<and> system_admin \<in> set (ua_roles earlier) \<and> system_admin \<notin> set roles
                   then (To_users ''error''
                     (''You cannot remove your own system-admin role ''
                      @ ''- another administrator must change your roles.''), s)
                   else
                     (case expected_revision r of
                        None \<Rightarrow> (Crash, s)
                      | Some expected \<Rightarrow>
                          (case update_account (dp_scrypt D) (mo_salt mo) (mo_text mo) (rq_username r)
                              (map_of (rq_form r) ''display_name'') (if roles = [] then None else Some roles)
                              (truthy (Some (form r ''password''))) (map_option (\<lambda>v. v = ''1'') disabled)
                              (Some expected) (allow_sso_admins D) (ax_users s) of
                             Inl e \<Rightarrow> failed_change mo r d corr e s
                           | Inr (a, users) \<Rightarrow>
                               (let s1 = revoke (ua_disabled a \<and> \<not> ua_disabled earlier) mo (ua_username a)
                                      (s\<lparr>ax_users := users\<rparr>);
                                    s2 = revoke (form r ''password'' \<noteq> [] \<and> \<not> self) mo (ua_username a) s1
                                in recorded mo
                                  ((view_event d corr ''user-account'' ''update'' (''user:'' @ ua_username a))
                                     \<lparr>ae_before := [(''roles'', role_values (ua_roles earlier)),
                                        (''disabled'', JBool (ua_disabled earlier))],
                                      ae_after := [(''roles'', role_values (ua_roles a)),
                                        (''disabled'', JBool (ua_disabled a)),
                                        (''password_changed'', JBool (form r ''password'' \<noteq> []))]\<rparr>)
                                  (To_users ''success'' (''Account '' @ ua_username a @ '' updated.'')) s2))))))"

text \<open>
  \<open>token_is_valid\<close>: \<open>dp_confirms\<close> is the check of \<open>itsdangerous\<close> that a token was signed for a path
  and has not expired.
\<close>

definition confirmed :: "deployment \<Rightarrow> moment \<Rightarrow> request \<Rightarrow> bool" where
  "confirmed D mo r = dp_confirms D (mo_now mo) (form r ''_confirm_token'') (rq_path r)"

definition require_confirmation :: "deployment \<Rightarrow> moment \<Rightarrow> request \<Rightarrow> string \<Rightarrow> web_answer option" where
  "require_confirmation D mo r title =
     (if form r ''_confirm_token'' \<noteq> [] \<and> confirmed D mo r then None else Some (Confirm_first title))"

definition users_delete :: "deployment \<Rightarrow> moment \<Rightarrow> request \<Rightarrow> auth_decision \<Rightarrow> string \<Rightarrow> access \<Rightarrow> web_answer \<times> access" where
  "users_delete D mo r d corr s =
     (case (if confirmed D mo r then None else reauth_failed D mo r d corr s) of
        Some refused \<Rightarrow> refused
      | None \<Rightarrow>
          (case require_confirmation D mo r (''Delete account '' @ rq_username r) of
             Some page \<Rightarrow> (page, s)
           | None \<Rightarrow>
               if is_self d (rq_username r)
               then (To_users ''error'' ''You cannot delete the account you are signed in with.'', s)
               else
                 (case expected_revision r of
                    None \<Rightarrow> (Crash, s)
                  | Some expected \<Rightarrow>
                      (case delete_account (rq_username r) (Some expected) (allow_sso_admins D) (ax_users s) of
                         Inl e \<Rightarrow> failed_change mo r d corr e s
                       | Inr (False, users) \<Rightarrow> (To_users ''error'' ''No such account.'', s\<lparr>ax_users := users\<rparr>)
                       | Inr (True, users) \<Rightarrow>
                           recorded mo (view_event d corr ''user-account'' ''delete'' (''user:'' @ rq_username r))
                             (To_users ''success''
                               (''Account '' @ rq_username r @ '' deleted and its sessions revoked.''))
                             (revoke True mo (rq_username r) (s\<lparr>ax_users := users\<rparr>))))))"

section \<open>A request\<close>

definition view :: "deployment \<Rightarrow> moment \<Rightarrow> request \<Rightarrow> auth_decision \<Rightarrow> string \<Rightarrow> access \<Rightarrow> web_answer \<times> access" where
  "view D mo r d corr s =
     (let e = rq_endpoint r
      in if e = Some ''login_submit'' then login_submit D mo r corr s
         else if e = Some ''logout'' then logout D mo r d corr s
         else if e = Some ''users_create'' then users_create D mo r d corr s
         else if e = Some ''users_update'' then users_update D mo r d corr s
         else if e = Some ''users_delete'' then users_delete D mo r d corr s
         else (View, s))"

definition serve :: "deployment \<Rightarrow> moment \<Rightarrow> request \<Rightarrow> access \<Rightarrow> web_answer \<times> access" where
  "serve D mo r s =
     (case security_gate D mo r s of
        (Some stopped, _, s') \<Rightarrow> (stopped, s')
      | (None, d, s') \<Rightarrow> view D mo r d (correlation_id (mo_request mo) r) s')"

definition serve_all :: "deployment \<Rightarrow> (moment \<times> request) list \<Rightarrow> access \<Rightarrow> access" where
  "serve_all D rs s = foldl (\<lambda>s (mo, r). snd (serve D mo r s)) s rs"

end
