(* ===== verification/AccountTheorems.thy ===== *)
theory AccountTheorems
  imports UserAdmin
begin

text \<open>
  Lemmas and properties of the accounts: the text format of password hashes is read back exactly,
  the catalog keeps unique usernames and known roles, and no operation takes the last usable
  administrator away. The step lemmas here are about the catalog operations of \<open>Accounts\<close>; the
  properties about whole request sequences follow from them.
\<close>

section \<open>Password hashes\<close>

lemma hex_code: "n < 16 \<Longrightarrow> (of_char (hex_digit n) :: nat) = (if n < 10 then 48 + n else 87 + n)"
  by (simp add: hex_digit_def)

lemma hex_digit_facts:
  assumes "n < 16"
  shows "nibble (hex_digit n) = Some n" "\<not> byte_gap (hex_digit n)" "hex_digit n \<noteq> CHR ''$''"
proof -
  show "nibble (hex_digit n) = Some n" "\<not> byte_gap (hex_digit n)"
    using assms by (auto simp: nibble_def byte_gap_def hex_code Let_def)
  have "(of_char CHR ''$'' :: nat) = 36" by simp
  with hex_code[OF assms] show "hex_digit n \<noteq> CHR ''$''" by (auto split: if_splits)
qed

lemma nibbles: "unat b div 16 < 16" "unat b mod 16 < 16" for b :: "8 word"
  using unsigned_less[of b, where ?'a = nat] by auto

lemma from_hex_to_hex [simp]: "from_hex (to_hex bs) = Some bs"
proof (induction bs)
  case (Cons b bs)
  have "word_of_nat (16 * (unat b div 16) + unat b mod 16) = b"
    by (simp only: mult_div_mod_eq) simp
  with Cons show ?case by (simp add: to_hex_def hex_digit_facts nibbles)
qed (simp add: to_hex_def)

lemma to_hex_no_dollar: "CHR ''$'' \<notin> set (to_hex bs)"
  using hex_digit_facts(3)[OF nibbles(1)] hex_digit_facts(3)[OF nibbles(2)]
  by (auto simp: to_hex_def dest: sym)

lemma digits_no_dollar: "CHR ''$'' \<notin> set (digits_of n)"
proof -
  have "\<not> is_digit CHR ''$''" by code_simp
  with digits_of_digits[of n] show ?thesis by (auto simp: list_all_iff)
qed

lemma split_hash_text:
  "split_on CHR ''$'' (hash_text salt derived) =
     [''scrypt'', digits_of scrypt_n, digits_of scrypt_r, digits_of scrypt_p, to_hex salt, to_hex derived]"
  using split_on_append[of "CHR ''$''" "''scrypt''"] split_on_append[OF digits_no_dollar]
    split_on_append[OF to_hex_no_dollar] split_on_no_sep[OF to_hex_no_dollar]
  by (simp add: hash_text_def)

lemma verify_hash_text:
  "verify_password K password (hash_text salt derived) \<longleftrightarrow>
     K (encoded password) salt (int scrypt_n) (int scrypt_r) (int scrypt_p) (length derived) = Some derived"
  by (simp add: verify_password_def split_hash_text)

lemma hash_password_Inr:
  "hash_password K salt password = Inr stored \<longleftrightarrow>
     12 \<le> length password \<and>
     (\<exists>derived. K (encoded password) salt (int scrypt_n) (int scrypt_r) (int scrypt_p) key_bytes = Some derived \<and>
        stored = hash_text salt derived)"
  by (auto simp: hash_password_def split: option.splits)

lemma hash_text_neq_Nil [simp]: "hash_text salt derived \<noteq> []"
  by (simp add: hash_text_def)

text \<open>
  C37: A stored password hash verifies exactly the passwords that \<open>scrypt\<close> maps to the same key under
  the stored salt, the password itself among them, and only passwords of at least twelve characters
  are ever hashed. The hypothesis is the documented length of what \<open>scrypt\<close> returns.
\<close>

theorem password_hash_verifies:
  assumes "\<And>pw salt n r p k key. K pw salt n r p k = Some key \<Longrightarrow> length key = k"
    and "hash_password K salt password = Inr stored"
  shows "verify_password K password stored \<and> 12 \<le> length password \<and>
    (\<forall>other. verify_password K other stored \<longleftrightarrow>
       K (encoded other) salt (int scrypt_n) (int scrypt_r) (int scrypt_p) key_bytes =
       K (encoded password) salt (int scrypt_n) (int scrypt_r) (int scrypt_p) key_bytes)"
  using assms(2) assms(1)[of "encoded password" salt "int scrypt_n" "int scrypt_r" "int scrypt_p" key_bytes]
  by (auto simp: hash_password_Inr verify_hash_text)

section \<open>The catalog\<close>

definition account_ok :: "user_account \<Rightarrow> bool" where
  "account_ok a \<longleftrightarrow> valid_username (ua_username a) \<and> ua_roles a \<noteq> [] \<and> set (ua_roles a) \<subseteq> set all_roles"

definition catalog_ok :: "user_catalog \<Rightarrow> bool" where
  "catalog_ok c \<longleftrightarrow> distinct (map (\<lambda>a. lower (ua_username a)) (uc_entries c)) \<and>
     (\<forall>a\<in>set (uc_entries c). account_ok a)"

lemma no_users_ok [simp]: "catalog_ok no_users"
  by (simp add: catalog_ok_def no_users_def)

lemma read_account_fields [simp]:
  "ua_username (read_account a) = ua_username a" "ua_roles (read_account a) = ua_roles a"
  "ua_password_hash (read_account a) = ua_password_hash a" "ua_disabled (read_account a) = ua_disabled a"
  by (simp_all add: read_account_def)

lemma account_ok_read [simp]: "account_ok (read_account a) = account_ok a"
  by (simp add: account_ok_def)

lemma usable_read [simp]: "is_usable_admin sso (read_account a) = is_usable_admin sso a"
  by (simp add: is_usable_admin_def)

lemma accounts_names [simp]: "map (\<lambda>a. f (ua_username a)) (accounts c) = map (\<lambda>a. f (ua_username a)) (uc_entries c)"
  by (simp add: accounts_def)

lemma accounts_names_image [simp]:
  "(\<lambda>a. f (ua_username a)) ` set (accounts c) = (\<lambda>a. f (ua_username a)) ` set (uc_entries c)"
  by (simp add: accounts_def image_image)

lemma accounts_ok: "catalog_ok c \<Longrightarrow> a \<in> set (accounts c) \<Longrightarrow> account_ok a"
  by (auto simp: catalog_ok_def accounts_def)

lemma accounts_distinct: "catalog_ok c \<Longrightarrow> distinct (map (\<lambda>a. lower (ua_username a)) (accounts c))"
  by (simp add: catalog_ok_def)

lemma alnum_not_space: "is_alnum c \<Longrightarrow> \<not> is_space c"
  by (auto simp: is_alnum_def is_space_def Let_def)

lemma lower_char_space [simp]: "is_space (lower_char c) = is_space c"
  by (auto simp: lower_char_def is_space_def Let_def)

lemma lower_spaceless [simp]: "list_all (\<lambda>c. \<not> is_space c) (lower s) = list_all (\<lambda>c. \<not> is_space c) s"
  by (simp add: lower_def list.pred_map comp_def)

lemma username_spaceless: "valid_username name \<Longrightarrow> list_all (\<lambda>c. \<not> is_space c) name"
  using alnum_not_space by (fastforce simp: valid_username_def Let_def list_all_iff is_space_def)

lemma strip_username [simp]: "valid_username name \<Longrightarrow> strip name = name"
  by (rule strip_spaceless) (rule username_spaceless)

lemma same_account:
  "catalog_ok c \<Longrightarrow> a \<in> set (accounts c) \<Longrightarrow> b \<in> set (accounts c) \<Longrightarrow>
     lower (ua_username a) = lower (ua_username b) \<Longrightarrow> a = b"
  using accounts_distinct[of c, unfolded distinct_map] by (blast dest: inj_onD)

lemma get_account_iff:
  assumes "catalog_ok c"
  shows "get_account c name = Some a \<longleftrightarrow> a \<in> set (accounts c) \<and> lower (ua_username a) = lower (strip name)"
    (is "?l \<longleftrightarrow> ?r")
proof
  assume ?l
  then show ?r by (auto simp: get_account_def find_Some_iff)
next
  assume r: ?r
  then obtain b where b: "get_account c name = Some b"
    by (cases "get_account c name") (auto simp: get_account_def find_None_iff)
  then have "b \<in> set (accounts c)" "lower (ua_username b) = lower (strip name)"
    by (auto simp: get_account_def find_Some_iff)
  with r same_account[OF assms, of b a] have "b = a" by simp
  with b show ?l by simp
qed

lemma get_account_None:
  "get_account c name = None \<longleftrightarrow> (\<forall>a\<in>set (accounts c). lower (ua_username a) \<noteq> lower (strip name))"
  by (simp add: get_account_def find_None_iff) blast

section \<open>What the operations keep\<close>

definition has_admin :: "bool \<Rightarrow> user_catalog \<Rightarrow> bool" where
  "has_admin sso c \<longleftrightarrow> (\<exists>a\<in>set (accounts c). is_usable_admin sso a)"

lemma read_account_idem [simp]: "read_account (read_account a) = read_account a"
  by (simp add: read_account_def)

lemma map_read_accounts [simp]: "map read_account (accounts c) = accounts c"
  by (simp add: accounts_def)

lemma read_accounts_elem: "a \<in> set (accounts c) \<Longrightarrow> read_account a = a"
  by (auto simp: accounts_def)

lemma accounts_of_kept: "set es \<subseteq> set (accounts c) \<Longrightarrow> accounts \<lparr> uc_revision = r, uc_entries = es \<rparr> = es"
  unfolding accounts_def[of "\<lparr> uc_revision = r, uc_entries = es \<rparr>"] using read_accounts_elem by (auto intro: map_idI)

lemma valid_username_neq_Nil: "valid_username name \<Longrightarrow> name \<noteq> []"
  by (simp add: valid_username_def Let_def)

lemma lower_Nil [simp]: "lower [] = []"
  by (simp add: lower_def)

lemma lower_Nil_iff [simp]: "lower s = [] \<longleftrightarrow> s = []"
  by (simp add: lower_def)

lemma usable_admin_count_None:
  assumes "catalog_ok c"
  shows "0 < usable_admin_count c sso None \<longleftrightarrow> has_admin sso c"
proof -
  have "lower (ua_username a) \<noteq> lower []" if "a \<in> set (accounts c)" for a
    using accounts_ok[OF assms that] valid_username_neq_Nil by (auto simp: account_ok_def)
  then show ?thesis by (auto simp: usable_admin_count_def has_admin_def filter_empty_conv)
qed

lemma usable_admin_count_Some:
  "usable_admin_count c sso (Some x) = 0 \<longleftrightarrow>
     (\<forall>a\<in>set (accounts c). is_usable_admin sso a \<longrightarrow> lower (ua_username a) = lower x)"
  by (auto simp: usable_admin_count_def filter_empty_conv)

lemma validate_roles_Inr:
  "validate_roles roles = Inr cleaned \<Longrightarrow> cleaned \<noteq> [] \<and> set cleaned \<subseteq> set all_roles"
  by (auto simp: validate_roles_def Let_def filter_empty_conv split: if_splits)

lemma check_revision_Inr:
  "check_revision c expected = Inr r \<longleftrightarrow>
     r = uc_revision c \<and> (expected = None \<or> expected = Some (uc_revision c))"
  by (auto simp: check_revision_def split: option.splits)

lemma catalog_ok_snoc:
  assumes "catalog_ok c" "get_account c (ua_username a) = None" "account_ok a"
  shows "catalog_ok \<lparr> uc_revision = r, uc_entries = accounts c @ [a] \<rparr>"
proof -
  have "strip (ua_username a) = ua_username a"
    using assms(3) by (simp add: account_ok_def)
  with assms(2) have "lower (ua_username a) \<notin> (\<lambda>b. lower (ua_username b)) ` set (accounts c)"
    by (auto simp: get_account_None simp del: accounts_names_image)
  with assms(1) accounts_ok[OF assms(1)] assms(3) show ?thesis by (auto simp: catalog_ok_def)
qed

lemma create_account_Inr:
  assumes "create_account K salt now username display roles password expected c = Inr (a, c')"
  shows "valid_username (ua_username a) \<and> ua_username a = strip username \<and>
    get_account c (ua_username a) = None \<and> account_ok a \<and> \<not> ua_disabled a \<and>
    validate_roles roles = Inr (ua_roles a) \<and> optional_hash K salt password None = Inr (ua_password_hash a) \<and>
    (expected = None \<or> expected = Some (uc_revision c)) \<and>
    c' = \<lparr> uc_revision = uc_revision c + 1, uc_entries = accounts c @ [a] \<rparr>"
  using assms validate_roles_Inr[of roles]
  by (auto simp: create_account_def Let_def andthen_Inr_iff check_revision_Inr account_ok_def)

lemma create_account_keeps:
  assumes "create_account K salt now username display roles password expected c = Inr (a, c')" "catalog_ok c"
  shows "catalog_ok c' \<and> (has_admin sso c \<longrightarrow> has_admin sso c') \<and> uc_revision c' = uc_revision c + 1"
proof -
  note a = create_account_Inr[OF assms(1)]
  then have "catalog_ok c'" using catalog_ok_snoc[OF assms(2)] by blast
  moreover have "has_admin sso c \<longrightarrow> has_admin sso c'" using a by (auto simp: has_admin_def accounts_def)
  ultimately show ?thesis using a by simp
qed

lemma guard_last_admin_Inr:
  "guard_last_admin c earlier later sso = Inr u \<longleftrightarrow>
     (is_usable_admin sso earlier \<longrightarrow>
        (\<exists>a. later = Some a \<and> is_usable_admin sso a) \<or>
        (\<exists>a\<in>set (accounts c). is_usable_admin sso a \<and> lower (ua_username a) \<noteq> lower (ua_username earlier)))"
  by (auto simp: guard_last_admin_def usable_admin_count_Some split: option.splits)

lemma update_account_Inr:
  assumes "update_account K salt now username display roles password disabled expected sso c = Inr (a, c')"
  shows "\<exists>earlier. get_account c username = Some earlier \<and> ua_username a = ua_username earlier \<and>
    (case roles of None \<Rightarrow> ua_roles a = ua_roles earlier | Some rs \<Rightarrow> validate_roles rs = Inr (ua_roles a)) \<and>
    optional_hash K salt password (ua_password_hash earlier) = Inr (ua_password_hash a) \<and>
    ua_disabled a = (case disabled of None \<Rightarrow> ua_disabled earlier | Some d \<Rightarrow> d) \<and>
    guard_last_admin c earlier (Some a) sso = Inr () \<and>
    (expected = None \<or> expected = Some (uc_revision c)) \<and>
    c' = \<lparr> uc_revision = uc_revision c + 1,
      uc_entries = map (\<lambda>b. if ua_username b = ua_username earlier then a else b) (accounts c) \<rparr>"
proof -
  from assms obtain earlier where e: "get_account c username = Some earlier"
    by (auto simp: update_account_def andthen_Inr_iff split: option.splits)
  with assms have "case roles of None \<Rightarrow> ua_roles a = ua_roles earlier | Some rs \<Rightarrow> validate_roles rs = Inr (ua_roles a)"
    by (auto simp: update_account_def Let_def andthen_Inr_iff split: option.splits)
  with e assms show ?thesis
    by (auto simp: update_account_def Let_def andthen_Inr_iff check_revision_Inr)
qed

lemma update_account_keeps:
  assumes "update_account K salt now username display roles password disabled expected sso c = Inr (a, c')"
    and c: "catalog_ok c"
  shows "catalog_ok c' \<and> (has_admin sso c \<longrightarrow> has_admin sso c') \<and> uc_revision c' = uc_revision c + 1"
proof -
  from update_account_Inr[OF assms(1)] obtain earlier where
    e: "get_account c username = Some earlier" "ua_username a = ua_username earlier"
    and roles: "case roles of None \<Rightarrow> ua_roles a = ua_roles earlier | Some rs \<Rightarrow> validate_roles rs = Inr (ua_roles a)"
    and guard: "guard_last_admin c earlier (Some a) sso = Inr ()"
    and c': "c' = \<lparr> uc_revision = uc_revision c + 1,
      uc_entries = map (\<lambda>b. if ua_username b = ua_username earlier then a else b) (accounts c) \<rparr>"
    by blast
  from e(1) c have mem: "earlier \<in> set (accounts c)" by (simp add: get_account_iff)
  with accounts_ok[OF c] e(2) roles have "account_ok a"
    by (force simp: account_ok_def dest: validate_roles_Inr split: option.splits)
  moreover have "map (\<lambda>b. lower (ua_username b)) (uc_entries c') = map (\<lambda>b. lower (ua_username b)) (accounts c)"
    using e(2) by (simp add: c' del: accounts_names)
  ultimately have "catalog_ok c'"
    using accounts_distinct[OF c] accounts_ok[OF c] unfolding catalog_ok_def by (auto simp: c')
  moreover have "has_admin sso c'" if "has_admin sso c"
  proof -
    from that obtain b where b: "b \<in> set (accounts c)" "is_usable_admin sso b" by (auto simp: has_admin_def)
    have replaced: "b' \<in> set (accounts c')" if "b' \<in> set (accounts c)" "ua_username b' \<noteq> ua_username earlier" for b'
      using that by (force simp: c' accounts_def)
    have a: "read_account a \<in> set (accounts c')" using mem by (force simp: c' accounts_def)
    show ?thesis
    proof (cases "ua_username b = ua_username earlier")
      case False
      with b replaced show ?thesis by (auto simp: has_admin_def)
    next
      case True
      with b(1) mem same_account[OF c, of b earlier] have "b = earlier" by simp
      with b(2) guard have "is_usable_admin sso a \<or>
          (\<exists>x\<in>set (accounts c). is_usable_admin sso x \<and> lower (ua_username x) \<noteq> lower (ua_username earlier))"
        by (auto simp: guard_last_admin_Inr)
      then show ?thesis
      proof
        assume "is_usable_admin sso a"
        with a show ?thesis unfolding has_admin_def by (metis usable_read)
      next
        assume "\<exists>x\<in>set (accounts c). is_usable_admin sso x \<and> lower (ua_username x) \<noteq> lower (ua_username earlier)"
        with replaced show ?thesis unfolding has_admin_def by metis
      qed
    qed
  qed
  ultimately show ?thesis by (simp add: c')
qed

lemma length_filter_all: "length (filter p xs) = length xs \<longleftrightarrow> (\<forall>x\<in>set xs. p x)"
  by (metis filter_True length_filter_less nat_neq_iff)

lemma delete_account_Inr:
  assumes "delete_account username expected sso c = Inr (removed, c')"
  shows "(\<forall>earlier. get_account c username = Some earlier \<longrightarrow> guard_last_admin c earlier None sso = Inr ()) \<and>
    (expected = None \<or> expected = Some (uc_revision c)) \<and>
    (if removed then c' = \<lparr> uc_revision = uc_revision c + 1,
         uc_entries = filter (\<lambda>a. lower (ua_username a) \<noteq> lower username) (accounts c) \<rparr> \<and>
         (\<exists>a\<in>set (accounts c). lower (ua_username a) = lower username)
     else c' = c \<and> (\<forall>a\<in>set (accounts c). lower (ua_username a) \<noteq> lower username))"
  using assms
  by (auto simp: delete_account_def Let_def andthen_Inr_iff check_revision_Inr length_filter_all
      split: option.splits if_splits)

lemma delete_account_keeps:
  assumes "delete_account username expected sso c = Inr (removed, c')" and c: "catalog_ok c"
  shows "catalog_ok c' \<and> (has_admin sso c \<longrightarrow> has_admin sso c')"
proof (cases removed)
  case False
  with delete_account_Inr[OF assms(1)] c show ?thesis by simp
next
  case True
  with delete_account_Inr[OF assms(1)] obtain gone where
    guard: "\<And>earlier. get_account c username = Some earlier \<Longrightarrow> guard_last_admin c earlier None sso = Inr ()"
    and c': "c' = \<lparr> uc_revision = uc_revision c + 1,
      uc_entries = filter (\<lambda>a. lower (ua_username a) \<noteq> lower username) (accounts c) \<rparr>"
    and gone: "gone \<in> set (accounts c)" "lower (ua_username gone) = lower username"
    by auto
  have ok: "catalog_ok c'"
    using accounts_ok[OF c] distinct_map_filter[OF accounts_distinct[OF c]] by (auto simp: catalog_ok_def c')
  have kept: "a \<in> set (accounts c')" if "a \<in> set (accounts c)" "lower (ua_username a) \<noteq> lower username" for a
    using that accounts_of_kept[of "uc_entries c'" c "uc_revision c'"] by (auto simp: c')
  have "list_all (\<lambda>x. \<not> is_space x) (lower username)"
    using username_spaceless[of "ua_username gone"] accounts_ok[OF c gone(1)]
    by (simp only: gone(2)[symmetric] lower_spaceless account_ok_def)
  then have "strip username = username" by (intro strip_spaceless) simp
  with gone c have g: "get_account c username = Some gone" by (simp add: get_account_iff)
  have "has_admin sso c'" if "has_admin sso c"
  proof -
    from that obtain b where b: "b \<in> set (accounts c)" "is_usable_admin sso b" by (auto simp: has_admin_def)
    show ?thesis
    proof (cases "lower (ua_username b) = lower username")
      case False
      with b kept show ?thesis by (auto simp: has_admin_def)
    next
      case True
      with b(1) gone same_account[OF c, of b gone] have "b = gone" by simp
      with b(2) guard[OF g] gone(2) kept show ?thesis by (auto simp: guard_last_admin_Inr has_admin_def)
    qed
  qed
  with ok show ?thesis by simp
qed

section \<open>Recovery\<close>

lemma system_admin_roles: "validate_roles [system_admin] = Inr [system_admin]"
  by code_simp

lemma optional_hash_set:
  assumes "hash_password K salt password = Inr stored"
  shows "optional_hash K salt (Some password) h = Inr (Some stored)"
proof -
  from assms have "password \<noteq> []" by (auto simp: hash_password_Inr)
  with assms show ?thesis by (simp add: optional_hash_def truthy_def)
qed

lemma truthy_None_iff: "truthy v = None \<longleftrightarrow> v = None \<or> v = Some []"
  by (auto simp: truthy_def split: option.splits)

lemma authenticate_Some:
  assumes "get_account c username = Some a" "ua_password_hash a = Some stored" "stored \<noteq> []" "\<not> ua_disabled a"
    "verify_password K password stored"
  shows "authenticate K salt c username password = Inr (Some a)"
  using assms by (simp add: authenticate_def truthy_def)

lemma authenticate_Inr_Some:
  "authenticate K salt c username password = Inr (Some a) \<longleftrightarrow>
     get_account c username = Some a \<and> \<not> ua_disabled a \<and>
     (\<exists>stored. truthy (ua_password_hash a) = Some stored \<and> verify_password K password stored)"
  by (auto simp: authenticate_def Let_def andthen_Inr_iff truthy_None_iff split: option.splits if_splits)

lemma create_account_run:
  assumes "valid_username (strip username)" "get_account c (strip username) = None"
    "optional_hash K salt password None = Inr h" "validate_roles roles = Inr cleaned"
  shows "\<exists>a. create_account K salt now username display roles password None c =
      Inr (a, \<lparr> uc_revision = uc_revision c + 1, uc_entries = accounts c @ [a] \<rparr>) \<and>
    ua_username a = strip username \<and> ua_roles a = cleaned \<and> ua_password_hash a = h \<and> \<not> ua_disabled a"
  using assms by (simp add: create_account_def Let_def check_revision_def andthen_demand)

lemma update_account_run:
  assumes "get_account c username = Some earlier" "optional_hash K salt password (ua_password_hash earlier) = Inr h"
    "validate_roles roles = Inr cleaned" "\<And>a. ua_roles a = cleaned \<Longrightarrow> ua_password_hash a = h \<Longrightarrow> \<not> ua_disabled a \<Longrightarrow>
       is_usable_admin sso a"
  shows "\<exists>a c'. update_account K salt now username display (Some roles) password (Some False) None sso c = Inr (a, c') \<and>
    ua_roles a = cleaned \<and> ua_password_hash a = h \<and> \<not> ua_disabled a \<and> ua_username a = ua_username earlier \<and>
    uc_entries c' = map (\<lambda>b. if ua_username b = ua_username earlier then a else b) (accounts c)"
  using assms by (simp add: update_account_def Let_def check_revision_def guard_last_admin_def)

lemma usable_with_password: "ua_roles a = [system_admin] \<Longrightarrow> ua_password_hash a = Some h \<Longrightarrow> h \<noteq> [] \<Longrightarrow>
    \<not> ua_disabled a \<Longrightarrow> is_usable_admin sso a"
  by (simp add: is_usable_admin_def truthy_def)

lemma ensure_recovery_admin_sets:
  assumes c: "catalog_ok c" and name: "valid_username (strip username)"
    and h: "hash_password K salt password = Inr stored"
  shows "\<exists>c' a. ensure_recovery_admin K salt now username password c = Inr (Some (strip username), c') \<and>
    catalog_ok c' \<and> get_account c' username = Some a \<and> ua_password_hash a = Some stored \<and>
    ua_roles a = [system_admin] \<and> \<not> ua_disabled a"
proof -
  have h': "optional_hash K salt (Some password) x = Inr (Some stored)" for x
    by (rule optional_hash_set[OF h])
  have set: "strip username \<noteq> []" "password \<noteq> []" "stored \<noteq> []"
    using valid_username_neq_Nil[OF name] h by (auto simp: hash_password_Inr)
  have stripped: "get_account d (strip username) = get_account d username" for d
    using name by (simp add: get_account_def)
  show ?thesis
  proof (cases "get_account c (strip username)")
    case None
    from create_account_run[of "strip username" c K salt "Some password", OF _ _ h' system_admin_roles] name None
    obtain a where a: "create_account K salt now (strip username) None [system_admin] (Some password) None c =
        Inr (a, \<lparr> uc_revision = uc_revision c + 1, uc_entries = accounts c @ [a] \<rparr>)"
      "ua_username a = strip username" "ua_roles a = [system_admin]" "ua_password_hash a = Some stored" "\<not> ua_disabled a"
      by fastforce
    let ?c' = "\<lparr> uc_revision = uc_revision c + 1, uc_entries = accounts c @ [a] \<rparr>"
    have "catalog_ok ?c'" using create_account_keeps[OF a(1) c] by simp
    moreover have "read_account a \<in> set (accounts ?c')" by (simp add: accounts_def)
    ultimately have "get_account ?c' username = Some (read_account a)" "catalog_ok ?c'"
      using a(2) by (simp_all add: get_account_iff)
    with a None set show ?thesis by (auto simp: ensure_recovery_admin_def Let_def)
  next
    case (Some earlier)
    from update_account_run[of c "strip username" earlier K salt "Some password", OF Some h' system_admin_roles]
      usable_with_password set(3)
    obtain a c' where a: "update_account K salt now (strip username) None (Some [system_admin]) (Some password)
        (Some False) None False c = Inr (a, c')"
      "ua_roles a = [system_admin]" "ua_password_hash a = Some stored" "\<not> ua_disabled a"
      "ua_username a = ua_username earlier"
      "uc_entries c' = map (\<lambda>b. if ua_username b = ua_username earlier then a else b) (accounts c)"
      by blast
    have ok: "catalog_ok c'" using update_account_keeps[OF a(1) c] by simp
    have "earlier \<in> set (accounts c)" "lower (ua_username earlier) = lower (strip username)"
      using Some name by (simp_all add: get_account_iff[OF c])
    with a(5,6) have "read_account a \<in> set (accounts c')" "lower (ua_username a) = lower (strip username)"
      by (auto simp: accounts_def[of c'])
    with ok have "get_account c' username = Some (read_account a)" by (simp add: get_account_iff)
    with a ok Some set show ?thesis by (auto simp: ensure_recovery_admin_def Let_def)
  qed
qed

text \<open>
  C36: Recovery gets an operator back in: with a valid recovery name, a password of at least twelve
  characters and a working \<open>scrypt\<close>, the start succeeds whatever state the accounts are in (no
  administrator left, the account disabled, demoted, or missing), the catalog stays well formed, and
  signing in with that name and password yields an enabled system administrator.
\<close>

theorem recovery_restores_administrator:
  assumes "\<And>pw salt n r p k key. K pw salt n r p k = Some key \<Longrightarrow> length key = k"
    and "K (encoded password) salt (int scrypt_n) (int scrypt_r) (int scrypt_p) key_bytes \<noteq> None"
    and "catalog_ok c" and "valid_username (strip username)" and "12 \<le> length password"
  shows "\<exists>c' a. ensure_recovery_admin K salt now username password c = Inr (Some (strip username), c') \<and>
    catalog_ok c' \<and> authenticate K salt' c' username password = Inr (Some a) \<and> is_usable_admin False a"
proof -
  obtain stored where stored: "hash_password K salt password = Inr stored"
    using assms(2,5) by (cases "hash_password K salt password") (auto simp: hash_password_def split: option.splits if_splits)
  then have "verify_password K password stored" "stored \<noteq> []"
    using assms(1)[of "encoded password" salt "int scrypt_n" "int scrypt_r" "int scrypt_p" key_bytes]
    by (auto simp: hash_password_Inr verify_hash_text)
  with ensure_recovery_admin_sets[OF assms(3,4) stored] usable_with_password authenticate_Some show ?thesis
    by meson
qed

end
