(* ===== verification/SessionTheorems.thy ===== *)
theory SessionTheorems
  imports UserAdmin
begin

text \<open>
  The contracts of the session store and of the rate limiter, each a locale: the laws a store of
  sessions gives its clients, under which pruning is invisible, and the laws of a fixed-window
  limiter, under which its verdicts are exact. Both are interpreted on the code's models, and two
  properties state the clients' results about them.
\<close>

section \<open>The session store\<close>

datatype session_op =
    Create string string string string
  | Resolve string
  | Drop string
  | Drop_user string

fun step_results :: "('x \<Rightarrow> 's \<Rightarrow> 'r \<times> 's) \<Rightarrow> 'x list \<Rightarrow> 's \<Rightarrow> 'r list" where
  "step_results step [] s = []"
| "step_results step (x # xs) s = (let (r, s') = step x s in r # step_results step xs s')"

definition new_session ::
  "(string \<Rightarrow> string) \<Rightarrow> session_limits \<Rightarrow> int \<Rightarrow> string \<Rightarrow> string \<Rightarrow> string \<Rightarrow> string \<Rightarrow> session" where
  "new_session H L now token csrf username mode =
     \<lparr> se_token_hash = H token, se_username = username, se_csrf = csrf, se_created = now,
       se_expires = now + sl_max_age L, se_idle = now + sl_idle_timeout L, se_mode = mode \<rparr>"

definition live_part :: "int \<Rightarrow> session option \<Rightarrow> session option" where
  "live_part now v = (case v of Some r \<Rightarrow> if live now r then Some r else None | None \<Rightarrow> None)"

text \<open>
  The abstract store is a map from digests to sessions that never forgets a record by itself: a
  session leaves it only when it is dropped, and is usable while it is live.
\<close>

type_synonym session_map = "string \<Rightarrow> session option"

fun abstract_op :: "(string \<Rightarrow> string) \<Rightarrow> session_limits \<Rightarrow> int \<times> session_op \<Rightarrow> session_map \<Rightarrow>
    session option \<times> session_map" where
  "abstract_op H L (now, Create token csrf username mode) m =
     (None, m(H token \<mapsto> new_session H L now token csrf username mode))"
| "abstract_op H L (now, Resolve token) m =
     (if token = [] then (None, m)
      else case live_part now (m (H token)) of
        None \<Rightarrow> (None, m)
      | Some r \<Rightarrow>
          let r' = r\<lparr>se_idle := now + sl_idle_timeout L\<rparr> in (Some r', m(H token \<mapsto> r')))"
| "abstract_op H L (now, Drop token) m = (None, if token = [] then m else m(H token := None))"
| "abstract_op H L (now, Drop_user username) m =
     (None, \<lambda>d. case m d of
        None \<Rightarrow> None
      | Some r \<Rightarrow> if lower (se_username r) = lower username then None else Some r)"

fun created_digest :: "(string \<Rightarrow> string) \<Rightarrow> int \<times> session_op \<Rightarrow> string list" where
  "created_digest H (now, Create token csrf username mode) = [H token]"
| "created_digest H (now, Resolve token) = []"
| "created_digest H (now, Drop token) = []"
| "created_digest H (now, Drop_user username) = []"

definition created_digests :: "(string \<Rightarrow> string) \<Rightarrow> (int \<times> session_op) list \<Rightarrow> string list" where
  "created_digests H ops = concat (map (created_digest H) ops)"

locale session_store =
  fixes digest :: "string \<Rightarrow> string"
    and limits :: session_limits
    and look :: "int \<Rightarrow> 's \<Rightarrow> string \<Rightarrow> session option"
    and sound :: "'s \<Rightarrow> bool"
    and create :: "int \<Rightarrow> string \<Rightarrow> string \<Rightarrow> string \<Rightarrow> string \<Rightarrow> 's \<Rightarrow> 's"
    and resolve :: "int \<Rightarrow> string \<Rightarrow> 's \<Rightarrow> session option \<times> 's"
    and drop_token :: "int \<Rightarrow> string \<Rightarrow> 's \<Rightarrow> 's"
    and drop_user :: "int \<Rightarrow> string \<Rightarrow> 's \<Rightarrow> 's"
  assumes create_sound: "sound s \<Longrightarrow> look now s (digest token) = None \<Longrightarrow> sound (create now token csrf u m s)"
    and look_create: "sound s \<Longrightarrow> look now s (digest token) = None \<Longrightarrow> now \<le> t \<Longrightarrow>
      look t (create now token csrf u m s) d =
        (if d = digest token then live_part t (Some (new_session digest limits now token csrf u m)) else look t s d)"
    and resolve_sound: "sound s \<Longrightarrow> sound (snd (resolve now token s))"
    and resolve_result: "sound s \<Longrightarrow> fst (resolve now token s) =
        (if token = [] then None
         else map_option (se_idle_update (\<lambda>_. now + sl_idle_timeout limits)) (look now s (digest token)))"
    and look_resolve: "sound s \<Longrightarrow> now \<le> t \<Longrightarrow>
      look t (snd (resolve now token s)) d =
        (if token \<noteq> [] \<and> d = digest token \<and> look now s d \<noteq> None
         then live_part t (fst (resolve now token s)) else look t s d)"
    and drop_token_sound: "sound s \<Longrightarrow> sound (drop_token now token s)"
    and look_drop_token: "sound s \<Longrightarrow> now \<le> t \<Longrightarrow>
      look t (drop_token now token s) d = (if token \<noteq> [] \<and> d = digest token then None else look t s d)"
    and drop_user_sound: "sound s \<Longrightarrow> sound (drop_user now u s)"
    and look_drop_user: "sound s \<Longrightarrow> now \<le> t \<Longrightarrow>
      look t (drop_user now u s) d =
        (case look t s d of None \<Rightarrow> None | Some r \<Rightarrow> if lower (se_username r) = lower u then None else Some r)"
begin

fun concrete_op :: "int \<times> session_op \<Rightarrow> 's \<Rightarrow> session option \<times> 's" where
  "concrete_op (now, Create token csrf u m) s = (None, create now token csrf u m s)"
| "concrete_op (now, Resolve token) s = resolve now token s"
| "concrete_op (now, Drop token) s = (None, drop_token now token s)"
| "concrete_op (now, Drop_user u) s = (None, drop_user now u s)"

definition agree :: "int \<Rightarrow> 's \<Rightarrow> session_map \<Rightarrow> bool" where
  "agree now s m \<longleftrightarrow> sound s \<and> (\<forall>t\<ge>now. \<forall>d. look t s d = live_part t (m d))"

lemma agree_later: "agree now s m \<Longrightarrow> now \<le> t \<Longrightarrow> agree t s m"
  by (auto simp: agree_def)

lemma agree_step:
  assumes "agree now s m" and "\<And>d. d \<in> set (created_digest digest (now, c)) \<Longrightarrow> m d = None"
  shows "fst (concrete_op (now, c) s) = fst (abstract_op digest limits (now, c) m) \<and>
    agree now (snd (concrete_op (now, c) s)) (snd (abstract_op digest limits (now, c) m))"
proof (cases c)
  case (Create token csrf u md)
  with assms have "sound s" "look now s (digest token) = None"
    by (auto simp: agree_def live_part_def)
  with Create assms(1) show ?thesis by (auto simp: agree_def create_sound look_create)
next
  case (Resolve token)
  then show ?thesis
    using assms(1) resolve_sound[of s now token] resolve_result[of s now token] look_resolve[of s now _ token]
    by (auto simp: agree_def Let_def split: option.splits if_splits)
next
  case (Drop token)
  with assms(1) show ?thesis by (auto simp: agree_def drop_token_sound look_drop_token live_part_def)
next
  case (Drop_user u)
  with assms(1) show ?thesis
    by (auto simp: agree_def drop_user_sound look_drop_user live_part_def split: option.splits)
qed

lemma abstract_domain:
  "snd (abstract_op digest limits (now, c) m) d \<noteq> None \<Longrightarrow> m d \<noteq> None \<or> d \<in> set (created_digest digest (now, c))"
  by (cases c) (auto simp: live_part_def Let_def split: if_splits option.splits)

lemma refines:
  assumes "sorted (now # map fst ops)" "agree now s m" "distinct (created_digests digest ops)"
    and "\<forall>d\<in>set (created_digests digest ops). m d = None"
  shows "step_results concrete_op ops s = step_results (abstract_op digest limits) ops m"
  using assms
proof (induction ops arbitrary: now s m)
  case (Cons x ops)
  obtain t c where x: "x = (t, c)" by force
  with Cons.prems have agree: "agree t s m" by (auto dest: agree_later)
  have fresh: "\<And>d. d \<in> set (created_digest digest (t, c)) \<Longrightarrow> m d = None"
    using Cons.prems(4) by (auto simp: x created_digests_def)
  let ?c = "concrete_op (t, c) s" and ?a = "abstract_op digest limits (t, c) m"
  have step: "fst ?c = fst ?a" "agree t (snd ?c) (snd ?a)" using agree_step[OF agree fresh] by auto
  have "\<forall>d\<in>set (created_digests digest ops). snd ?a d = None"
  proof
    fix d
    assume d: "d \<in> set (created_digests digest ops)"
    with Cons.prems(3,4) have "m d = None" "d \<notin> set (created_digest digest (t, c))"
      by (auto simp: x created_digests_def)
    with abstract_domain[of t c m d] show "snd ?a d = None" by blast
  qed
  moreover have "sorted (t # map fst ops)" "distinct (created_digests digest ops)"
    using Cons.prems(1,3) by (auto simp: x created_digests_def)
  ultimately have "step_results concrete_op ops (snd ?c) = step_results (abstract_op digest limits) ops (snd ?a)"
    using Cons.IH step(2) by blast
  with step(1) show ?case by (simp add: x case_prod_unfold Let_def)
qed simp

end

text \<open>The list of the code: the live record of a digest, and digests that occur once.\<close>

definition look :: "int \<Rightarrow> session list \<Rightarrow> string \<Rightarrow> session option" where
  "look now rs d = live_part now (find (\<lambda>r. se_token_hash r = d) rs)"

definition one_per_digest :: "session list \<Rightarrow> bool" where
  "one_per_digest rs \<longleftrightarrow> distinct (map se_token_hash rs)"

lemma look_Nil [simp]: "look now [] d = None"
  by (simp add: look_def live_part_def)

lemma look_Cons: "look now (r # rs) d = (if se_token_hash r = d then live_part now (Some r) else look now rs d)"
  by (simp add: look_def)

lemma live_part_Some [simp]: "live_part t (Some r) = (if live t r then Some r else None)"
  by (simp add: live_part_def)

lemma live_part_None [simp]: "live_part t None = None"
  by (simp add: live_part_def)

lemma live_earlier: "live t r \<Longrightarrow> now \<le> t \<Longrightarrow> live now r"
  by (auto simp: live_def)

lemma look_absent: "d \<notin> se_token_hash ` set rs \<Longrightarrow> look now rs d = None"
  by (induction rs) (auto simp: look_Cons)

lemma one_per_digest_simps [simp]:
  "one_per_digest []"
  "one_per_digest (r # rs) \<longleftrightarrow> se_token_hash r \<notin> se_token_hash ` set rs \<and> one_per_digest rs"
  by (auto simp: one_per_digest_def)

lemma one_per_digest_filter: "one_per_digest rs \<Longrightarrow> one_per_digest (filter p rs)"
  by (simp add: one_per_digest_def distinct_map_filter)

lemma look_filter:
  "one_per_digest rs \<Longrightarrow>
     look t (filter p rs) d = (case look t rs d of None \<Rightarrow> None | Some r \<Rightarrow> if p r then Some r else None)"
  by (induction rs) (auto simp: look_Cons look_absent split: option.splits)

lemma look_Some: "look t rs d = Some r \<Longrightarrow> r \<in> set rs \<and> se_token_hash r = d \<and> live t r"
  by (induction rs) (auto simp: look_Cons split: if_splits)

lemma look_write:
  assumes "one_per_digest rs" "now \<le> t"
  shows "look t (write_sessions now rs) d = look t rs d"
  using assms live_earlier by (auto simp: write_sessions_def look_filter dest!: look_Some split: option.splits)

lemma look_snoc:
  "se_token_hash r \<notin> se_token_hash ` set rs \<Longrightarrow>
     look t (rs @ [r]) d = (if d = se_token_hash r then live_part t (Some r) else look t rs d)"
  by (induction rs) (auto simp: look_Cons)

lemma look_live: "one_per_digest rs \<Longrightarrow> r \<in> set rs \<Longrightarrow> live t r \<Longrightarrow> look t rs (se_token_hash r) = Some r"
  by (induction rs) (auto simp: look_Cons look_absent)

definition refreshed :: "string \<Rightarrow> int \<Rightarrow> session list \<Rightarrow> session list" where
  "refreshed d i rs = map (\<lambda>x. if se_token_hash x = d then x\<lparr>se_idle := i\<rparr> else x) rs"

lemma refreshed_Nil [simp]: "refreshed d i [] = []"
  by (simp add: refreshed_def)

lemma refreshed_Cons:
  "refreshed d i (r # rs) = (if se_token_hash r = d then r\<lparr>se_idle := i\<rparr> else r) # refreshed d i rs"
  by (simp add: refreshed_def)

lemma refreshed_absent: "d \<notin> se_token_hash ` set rs \<Longrightarrow> refreshed d i rs = rs"
  by (induction rs) (auto simp: refreshed_Cons)

lemma refreshed_hashes: "map se_token_hash (refreshed d i rs) = map se_token_hash rs"
  by (induction rs) (auto simp: refreshed_Cons)

lemma refresh_first_eq:
  "one_per_digest rs \<Longrightarrow> refresh_first d now deadline rs =
    (case look now rs d of None \<Rightarrow> None
     | Some r \<Rightarrow> Some (r\<lparr>se_idle := deadline\<rparr>, refreshed d deadline rs))"
  by (induction rs) (auto simp: look_Cons live_def refreshed_Cons refreshed_absent split: option.splits)

lemma look_refreshed:
  "one_per_digest rs \<Longrightarrow> look now rs d = Some r \<Longrightarrow>
     look t (refreshed d i rs) e = (if e = d then live_part t (Some (r\<lparr>se_idle := i\<rparr>)) else look t rs e)"
  by (induction rs) (auto simp: look_Cons refreshed_Cons refreshed_absent look_absent split: if_splits dest!: look_Some)

section \<open>The code's store keeps the contract\<close>

interpretation sessions: session_store H L look one_per_digest
  "\<lambda>now token csrf u m rs. snd (create_session H L now token csrf u m rs)"
  "resolve_session H L" "invalidate H" "\<lambda>now u rs. snd (invalidate_user now u rs)"
  for H :: "string \<Rightarrow> string" and L :: session_limits
proof
  fix rs :: "session list" and now t :: int and token csrf u m d :: string
  assume ok: "one_per_digest rs"
  let ?new = "new_session H L now token csrf u m"
  have new: "snd (create_session H L now token csrf u m rs) = write_sessions now (rs @ [?new])"
    "se_token_hash ?new = H token"
    by (simp_all add: create_session_def new_session_def)
  have kept: "write_sessions now (rs @ [?new]) = write_sessions now (write_sessions now rs @ [?new])"
    by (simp add: write_sessions_def)
  {
    assume "look now rs (H token) = None"
    then have absent: "H token \<notin> se_token_hash ` set (write_sessions now rs)"
      using look_live[OF ok] by (force simp: write_sessions_def)
    have one: "one_per_digest (write_sessions now rs @ [?new])"
      using ok absent new(2) by (auto simp: write_sessions_def one_per_digest_def distinct_map_filter)
    then show "one_per_digest (snd (create_session H L now token csrf u m rs))"
      unfolding new(1) kept by (subst write_sessions_def) (rule one_per_digest_filter[OF one])
    assume "now \<le> t"
    then show "look t (snd (create_session H L now token csrf u m rs)) d =
        (if d = H token then live_part t (Some ?new) else look t rs d)"
      unfolding new(1) kept using one absent new(2) ok by (simp add: look_write look_snoc)
  }
  let ?r = "resolve_session H L now token rs"
  have one: "one_per_digest (refreshed d' i rs)" for d' i
    using ok by (simp add: one_per_digest_def refreshed_hashes)
  then show "one_per_digest (snd ?r)"
    using ok by (auto simp: resolve_session_def refresh_first_eq write_sessions_def one_per_digest_filter split: option.splits)
  show "fst ?r = (if token = [] then None
      else map_option (se_idle_update (\<lambda>_. now + sl_idle_timeout L)) (look now rs (H token)))"
    using ok by (auto simp: resolve_session_def refresh_first_eq split: option.splits)
  show "one_per_digest (invalidate H now token rs)"
    using ok by (simp add: invalidate_def write_sessions_def one_per_digest_filter)
  show "one_per_digest (snd (invalidate_user now u rs))"
    using ok by (simp add: invalidate_user_def write_sessions_def one_per_digest_filter Let_def)
  assume later: "now \<le> t"
  show "look t (snd ?r) d =
      (if token \<noteq> [] \<and> d = H token \<and> look now rs d \<noteq> None then live_part t (fst ?r) else look t rs d)"
    using ok later one
    by (auto simp: resolve_session_def refresh_first_eq look_write look_refreshed split: option.splits)
  show "look t (invalidate H now token rs) d = (if token \<noteq> [] \<and> d = H token then None else look t rs d)"
    using ok later
    by (auto simp: invalidate_def look_write one_per_digest_filter look_filter split: option.splits dest: look_Some)
  show "look t (snd (invalidate_user now u rs)) d =
      (case look t rs d of None \<Rightarrow> None | Some r \<Rightarrow> if lower (se_username r) = lower u then None else Some r)"
    using ok later
    by (auto simp: invalidate_user_def Let_def look_write one_per_digest_filter look_filter split: option.splits)
qed

text \<open>The operations of the code as one step, with what a resolution returns.\<close>

fun session_step :: "(string \<Rightarrow> string) \<Rightarrow> session_limits \<Rightarrow> int \<times> session_op \<Rightarrow> session list \<Rightarrow>
    session option \<times> session list" where
  "session_step H L (now, Create token csrf u m) rs = (None, snd (create_session H L now token csrf u m rs))"
| "session_step H L (now, Resolve token) rs = resolve_session H L now token rs"
| "session_step H L (now, Drop token) rs = (None, invalidate H now token rs)"
| "session_step H L (now, Drop_user u) rs = (None, snd (invalidate_user now u rs))"

lemma session_step_concrete: "session_step H L = sessions.concrete_op H L"
proof (intro ext)
  fix x rs
  show "session_step H L x rs = sessions.concrete_op H L x rs" by (cases "(H, L, x, rs)" rule: session_step.cases) auto
qed

text \<open>
  C16: The session store refines a map that never forgets: over any sequence of operations at times
  that do not go back, with tokens whose digests differ, every \<open>resolve\<close> returns exactly the session
  created for that digest, if it has not been dropped by a logout or with its user, has not reached
  its absolute expiry and was last used within the idle timeout, and nothing otherwise. Pruning at
  every write is invisible.
\<close>

theorem session_store_refines:
  assumes "sorted (map fst ops)" and "distinct (created_digests H ops)"
  shows "step_results (session_step H L) ops [] = step_results (abstract_op H L) ops (\<lambda>_. None)"
proof (cases ops)
  case (Cons x xs)
  have "sessions.agree (fst x) ([] :: session list) (\<lambda>_. None)" by (simp add: sessions.agree_def)
  with assms Cons show ?thesis
    unfolding session_step_concrete by (intro sessions.refines[of "fst x"]) auto
qed simp

section \<open>The rate limiter\<close>

type_synonym call = "string \<times> int \<times> nat"

fun verdicts :: "(string \<Rightarrow> int \<Rightarrow> nat \<Rightarrow> 'h \<Rightarrow> bool \<times> 'h) \<Rightarrow> call list \<Rightarrow> 'h \<Rightarrow> bool list" where
  "verdicts hit [] h = []"
| "verdicts hit ((key, limit, clock) # calls) h =
     (let (ok, h') = hit key limit clock h in ok # verdicts hit calls h')"

definition same_window :: "(nat \<Rightarrow> nat) \<Rightarrow> call \<Rightarrow> call \<Rightarrow> bool" where
  "same_window window a b \<longleftrightarrow> fst a = fst b \<and> window (snd (snd a)) = window (snd (snd b))"

text \<open>How many of the first calls, up to the one at \<open>i\<close>, fall in its window with its key.\<close>

definition hits_so_far :: "(nat \<Rightarrow> nat) \<Rightarrow> call list \<Rightarrow> nat \<Rightarrow> nat" where
  "hits_so_far window calls i = length (filter (same_window window (calls ! i)) (take (Suc i) calls))"

locale rate_limiter =
  fixes hit :: "string \<Rightarrow> int \<Rightarrow> nat \<Rightarrow> 'h \<Rightarrow> bool \<times> 'h"
    and seen :: "string \<Rightarrow> nat \<Rightarrow> 'h \<Rightarrow> nat"
    and window :: "nat \<Rightarrow> nat"
  assumes verdict: "fst (hit key limit t h) \<longleftrightarrow> int (Suc (seen key t h)) \<le> limit"
    and seen_hit: "t \<le> u \<Longrightarrow> seen k u (snd (hit key limit t h)) =
      (if k = key \<and> window u = window t then Suc (seen k u h) else seen k u h)"
    and seen_window: "window u = window t \<Longrightarrow> seen k u h = seen k t h"
begin

lemma verdicts_exact:
  "sorted (map (\<lambda>c. snd (snd c)) calls) \<Longrightarrow> i < length calls \<Longrightarrow>
     verdicts hit calls h ! i \<longleftrightarrow>
       int (seen (fst (calls ! i)) (snd (snd (calls ! i))) h + hits_so_far window calls i) \<le> fst (snd (calls ! i))"
proof (induction calls arbitrary: i h)
  case (Cons c calls)
  obtain key limit t where c: "c = (key, limit, t)" by (cases c)
  show ?case
  proof (cases i)
    case 0
    then show ?thesis using verdict[of key limit t h]
      by (simp add: c hits_so_far_def same_window_def case_prod_unfold Let_def)
  next
    case (Suc j)
    let ?d = "calls ! j"
    have "t \<le> snd (snd ?d)" using Cons.prems Suc by (auto simp: c)
    then have "seen (fst ?d) (snd (snd ?d)) (snd (hit key limit t h)) + hits_so_far window calls j =
        seen (fst ?d) (snd (snd ?d)) h + hits_so_far window (c # calls) i"
      by (auto simp: seen_hit Suc c hits_so_far_def same_window_def)
    with Cons.IH[of j "snd (hit key limit t h)"] Cons.prems Suc show ?thesis
      by (simp add: c case_prod_unfold Let_def)
  qed
qed simp

end

lemma map_of_kept: "map_of (filter (\<lambda>(b, _). p b) h) k = (if p k then map_of h k else None)"
  by (induction h) auto

lemma hit_count_kept: "hit_count (filter (\<lambda>(b, _). p b) h) k = (if p k then hit_count h k else 0)"
  by (simp add: hit_count_def map_of_kept)

lemma hit_count_update: "hit_count (AList.update b n h) k = (if k = b then n else hit_count h k)"
  by (simp add: hit_count_def)

lemma window_mono: "t \<le> u \<Longrightarrow> window_of w t \<le> window_of w u"
  by (simp add: window_of_def div_le_mono)

lemma allow_simps:
  "fst (allow key limit w t h) \<longleftrightarrow> int (Suc (peek key w t h)) \<le> limit"
  "hit_count (snd (allow key limit w t h)) k =
     (if k = (key, window_of w t) then Suc (peek key w t h)
      else if stale (window_of w t) k then 0 else hit_count h k)"
  by (simp_all add: allow_def Let_def peek_def hit_count_update hit_count_kept stale_def)

interpretation limiter: rate_limiter "\<lambda>key limit t h. allow key limit w t h" "\<lambda>key t h. peek key w t h" "window_of w"
  for w :: nat
proof
  fix key k :: string and limit :: int and t u :: nat and h :: hits
  show "fst (allow key limit w t h) \<longleftrightarrow> int (Suc (peek key w t h)) \<le> limit" by (rule allow_simps)
  show "peek k w u (snd (allow key limit w t h)) =
      (if k = key \<and> window_of w u = window_of w t then Suc (peek k w u h) else peek k w u h)" if "t \<le> u"
    using window_mono[OF that, of w] by (auto simp: peek_def[of k w u] allow_simps stale_def) (simp add: peek_def)
  show "peek k w u h = peek k w t h" if "window_of w u = window_of w t"
    using that by (simp add: peek_def)
qed

text \<open>
  C39: The limiter counts exactly: over any sequence of calls whose clock does not go back, starting
  with no hits, a call is allowed if and only if the calls so far with its key in its minute, itself
  included, are within its limit. Dropping the counters of past windows never lets a call through
  and never refuses one.
\<close>

theorem rate_limiter_exact:
  assumes "sorted (map (\<lambda>c. snd (snd c)) calls)" and "i < length calls"
  shows "verdicts (\<lambda>key limit clock h. allow key limit minute clock h) calls [] ! i \<longleftrightarrow>
    int (hits_so_far (window_of minute) calls i) \<le> fst (snd (calls ! i))"
  using limiter.verdicts_exact[OF assms, of minute "[]"] by (simp add: peek_def hit_count_def)

end
