(* ===== verification/GateTheorems.thy ===== *)
theory GateTheorems
  imports AccountTheorems SessionTheorems
begin

text \<open>
  Properties of the gate and of whole requests: what a request that passes the gate rests on, the
  audit of denials, the last administrator over any sequence of requests, the sign-in every
  authenticated request goes back to, and the bound on sign-in attempts.
\<close>

section \<open>Who passes\<close>

lemma identify_keeps [simp]:
  "ax_users (snd (identify D mo r s)) = ax_users s" "ax_hits (snd (identify D mo r s)) = ax_hits s"
  "ax_trail (snd (identify D mo r s)) = ax_trail s"
  by (simp_all add: identify_def identify_password_def split: auth_mode.splits prod.splits option.splits)

text \<open>What vouches for a principal in each mode.\<close>

definition vouched :: "deployment \<Rightarrow> moment \<Rightarrow> request \<Rightarrow> access \<Rightarrow> principal \<Rightarrow> bool" where
  "vouched D mo r s p \<longleftrightarrow>
     (case dp_mode D of
        Local_mode \<Rightarrow> p = local_operator \<and> is_loopback (dp_ip6 D) (rq_remote r) \<and>
          (dp_allow_forwarded D \<or> (\<forall>h\<in>set forwarding_headers. header r h = []))
      | Password_mode \<Rightarrow> (\<exists>record a.
          fst (resolve_session (dp_sha256 D) (dp_limits D) (mo_now mo) (rq_cookie r) (ax_sessions s)) = Some record \<and>
          get_account (ax_users s) (se_username record) = Some a \<and> \<not> ua_disabled a \<and>
          pr_username p = ua_username a \<and> pr_roles p = ua_roles a)
      | Proxy_mode \<Rightarrow> header r ''X-Atlas-Proxy-Secret'' = dp_proxy_secret D \<and> (\<exists>a.
          get_account (ax_users s) (strip (header r ''X-Atlas-Remote-User'')) = Some a \<and> \<not> ua_disabled a \<and>
          pr_username p = ua_username a \<and> pr_roles p = ua_roles a))"

lemma for_roles_fields [simp]:
  "pr_username (for_roles u n rs x m) = u" "pr_roles (for_roles u n rs x m) = rs"
  "pr_permissions (for_roles u n rs x m) = permissions_for rs"
  by (simp_all add: for_roles_def)

lemma decision_fields [simp]:
  "ad_principal anonymous = None" "ad_failure anonymous = None" "ad_session anonymous = None"
  "ad_principal (refused_as t) = None" "ad_failure (refused_as t) = Some t" "ad_session (refused_as t) = None"
  "ad_principal (known_as p x) = Some p" "ad_failure (known_as p x) = None" "ad_session (known_as p x) = x"
  by (simp_all add: anonymous_def refused_as_def known_as_def)

lemma identify_principal:
  assumes "ad_principal (fst (identify D mo r s)) = Some p"
  shows "vouched D mo r s p \<and> pr_permissions p = permissions_for (pr_roles p)"
proof (cases "dp_mode D")
  case Local_mode
  with assms show ?thesis
    by (auto simp: vouched_def identify_def identify_local_def Let_def filter_empty_conv local_operator_def split: if_splits)
next
  case Password_mode
  with assms show ?thesis
    by (auto simp: vouched_def identify_def identify_password_def split: prod.splits option.splits if_splits)
next
  case Proxy_mode
  with assms show ?thesis
    by (auto simp: vouched_def identify_def identify_proxy_def Let_def split: option.splits if_splits)
qed

lemma closed_None: "fst (closed mo r d corr st s) = None \<longleftrightarrow> st = Go_on \<or> st = Let_through"
  by (cases st) (simp_all add: closed_def)

lemma check_permission_Go_on:
  "check_permission r d = Go_on \<Longrightarrow> permission_for_endpoint (rq_endpoint r) \<noteq> Some public \<Longrightarrow>
     \<exists>p q. ad_principal d = Some p \<and> permission_for_endpoint (rq_endpoint r) = Some q \<and> can p q"
  by (auto simp: check_permission_def Let_def split: option.splits if_splits)

lemma check_permission_Let_through: "check_permission r d = Let_through \<Longrightarrow> rq_endpoint r = None"
  by (auto simp: check_permission_def Let_def split: option.splits if_splits)

lemma check_csrf_token_neq [simp]: "check_csrf_token r d \<noteq> Let_through"
  by (auto simp: check_csrf_token_def Let_def)

lemma check_csrf_neq [simp]: "check_csrf D r d \<noteq> Let_through"
  by (auto simp: check_csrf_def)

lemma limit_login_neq [simp]: "fst (limit_login D mo r s) \<noteq> Let_through"
  by (auto simp: limit_login_def Let_def split: sum.splits prod.splits)

lemma limit_endpoint_neq [simp]: "fst (limit_endpoint D mo r s) \<noteq> Let_through"
  by (auto simp: limit_endpoint_def Let_def split: option.splits prod.splits)

lemma check_access_passes:
  assumes "fst (check_access D mo r d s) = Go_on \<or> fst (check_access D mo r d s) = Let_through" "rq_endpoint r = Some e"
  shows "check_permission r d = Go_on"
  using assms check_permission_Let_through[of r d]
  by (auto simp: check_access_def split: stage.splits prod.splits)

lemma security_gate_unfold:
  "security_gate D mo r s =
     (let i = identify D mo r s; a = check_access D mo r (fst i) (snd i);
          c = closed mo r (fst i) (correlation_id (mo_request mo) r) (fst a) (snd a)
      in (fst c, fst i, snd c))"
  by (simp add: security_gate_def case_prod_unfold Let_def)

text \<open>
  C7: Access is denied by default. A request that passes the gate to an endpoint that is not public
  has a principal one of whose roles grants the permission the table demands for that endpoint, so
  an endpoint without an entry is never reached; and the principal is the local operator on a
  loopback connection without forwarding headers, or the enabled account behind a live session, or
  the enabled account a proxy that knows the shared secret asserts, according to the mode.
\<close>

theorem gate_denies_by_default:
  assumes "security_gate D mo r s = (None, d, s')" and "rq_endpoint r = Some e"
    and "permission_for_endpoint (Some e) \<noteq> Some public"
  shows "\<exists>p q role. ad_principal d = Some p \<and> vouched D mo r s p \<and>
    permission_for_endpoint (Some e) = Some q \<and> role \<in> set (pr_roles p) \<and> q \<in> set (granted role)"
proof -
  let ?i = "identify D mo r s"
  let ?a = "check_access D mo r (fst ?i) (snd ?i)"
  have d: "d = fst ?i" and "fst ?a = Go_on \<or> fst ?a = Let_through"
    using assms(1) by (auto simp: security_gate_unfold Let_def closed_None)
  then have "check_permission r d = Go_on" using check_access_passes assms(2) by blast
  with assms(2,3) obtain p q where p: "ad_principal d = Some p" "permission_for_endpoint (Some e) = Some q" "can p q"
    using check_permission_Go_on[of r d] by auto
  with identify_principal[of D mo r s p] d show ?thesis
    by (auto simp: can_def permissions_for_def)
qed

section \<open>What the views keep\<close>

lemma audit_denial_keeps [simp]:
  "ax_users (audit_denial mo r d corr opn detail s) = ax_users s"
  "ax_sessions (audit_denial mo r d corr opn detail s) = ax_sessions s"
  "ax_hits (audit_denial mo r d corr opn detail s) = ax_hits s"
  by (simp_all add: audit_denial_def split: sum.splits)

lemma closed_keeps [simp]:
  "ax_users (snd (closed mo r d corr st s)) = ax_users s"
  "ax_sessions (snd (closed mo r d corr st s)) = ax_sessions s"
  "ax_hits (snd (closed mo r d corr st s)) = ax_hits s"
  by (simp_all add: closed_def split: stage.splits option.splits)

lemma limit_login_keeps [simp]:
  "ax_users (snd (limit_login D mo r s)) = ax_users s" "ax_sessions (snd (limit_login D mo r s)) = ax_sessions s"
  "ax_trail (snd (limit_login D mo r s)) = ax_trail s"
  by (simp_all add: limit_login_def Let_def split: sum.splits prod.splits)

lemma limit_endpoint_keeps [simp]:
  "ax_users (snd (limit_endpoint D mo r s)) = ax_users s" "ax_sessions (snd (limit_endpoint D mo r s)) = ax_sessions s"
  "ax_trail (snd (limit_endpoint D mo r s)) = ax_trail s"
  by (simp_all add: limit_endpoint_def Let_def split: option.splits prod.splits)

lemma check_access_unfold:
  "check_access D mo r d s =
     (if check_permission r d \<noteq> Go_on then (check_permission r d, s)
      else if check_csrf D r d \<noteq> Go_on then (check_csrf D r d, s)
      else if fst (limit_login D mo r s) \<noteq> Go_on then limit_login D mo r s
      else limit_endpoint D mo r (snd (limit_login D mo r s)))"
  by (auto simp: check_access_def split: stage.splits prod.splits)

lemma check_access_keeps [simp]:
  "ax_users (snd (check_access D mo r d s)) = ax_users s" "ax_sessions (snd (check_access D mo r d s)) = ax_sessions s"
  "ax_trail (snd (check_access D mo r d s)) = ax_trail s"
  by (simp_all add: check_access_unfold)

lemma gate_keeps [simp]:
  "ax_users (snd (snd (security_gate D mo r s))) = ax_users s"
  "ax_sessions (snd (snd (security_gate D mo r s))) = ax_sessions (snd (identify D mo r s))"
  by (simp_all add: security_gate_unfold Let_def)

lemma recorded_keeps [simp]:
  "ax_users (snd (recorded mo e answer s)) = ax_users s"
  "ax_sessions (snd (recorded mo e answer s)) = ax_sessions s"
  "ax_hits (snd (recorded mo e answer s)) = ax_hits s"
  by (simp_all add: recorded_def split: sum.splits)

lemma reauth_keeps:
  "reauth_failed D mo r d corr s = Some out \<Longrightarrow>
     ax_users (snd out) = ax_users s \<and> ax_sessions (snd out) = ax_sessions s \<and> ax_hits (snd out) = ax_hits s"
  by (auto simp: reauth_failed_def Let_def split: if_splits option.splits sum.splits)

lemma failed_change_keeps [simp]:
  "ax_users (snd (failed_change mo r d corr e s)) = ax_users s"
  "ax_sessions (snd (failed_change mo r d corr e s)) = ax_sessions s"
  "ax_hits (snd (failed_change mo r d corr e s)) = ax_hits s"
  by (simp_all add: failed_change_def conflict_def)

lemma revoke_keeps [simp]:
  "ax_users (revoke b mo u s) = ax_users s" "ax_hits (revoke b mo u s) = ax_hits s" "ax_trail (revoke b mo u s) = ax_trail s"
  by (simp_all add: revoke_def)

section \<open>The last administrator\<close>

definition administered :: "deployment \<Rightarrow> user_catalog \<Rightarrow> bool" where
  "administered D c \<longleftrightarrow> catalog_ok c \<and> has_admin (allow_sso_admins D) c"

lemma login_keeps_users: "login D mo u pw s = Inr (t, s') \<Longrightarrow> ax_users s' = ax_users s \<and> ax_trail s' = ax_trail s"
  by (auto simp: login_def create_session_def andthen_Inr_iff split: option.splits)

lemma login_submit_keeps_users [simp]: "ax_users (snd (login_submit D mo r corr s)) = ax_users s"
  by (auto simp: login_submit_def Let_def dest: login_keeps_users split: sum.splits option.splits prod.splits)

lemma logout_keeps_users [simp]: "ax_users (snd (logout D mo r d corr s)) = ax_users s"
  by (auto simp: logout_def Let_def split: option.splits)

lemma users_create_users:
  "ax_users (snd (users_create D mo r d corr s)) = ax_users s \<or>
   (\<exists>a c'. create_account (dp_scrypt D) (mo_salt mo) (mo_text mo) (form r ''username'')
        (truthy (Some (form r ''display_name''))) (form_list r ''roles'') (truthy (Some (form r ''password'')))
        (expected_revision r) (ax_users s) = Inr (a, c') \<and>
      ax_users (snd (users_create D mo r d corr s)) = c')"
  by (auto simp: users_create_def dest: reauth_keeps split: option.splits sum.splits)

definition update_request ::
  "deployment \<Rightarrow> moment \<Rightarrow> request \<Rightarrow> user_catalog \<Rightarrow> user_error + user_account \<times> user_catalog" where
  "update_request D mo r c =
     update_account (dp_scrypt D) (mo_salt mo) (mo_text mo) (rq_username r)
       (map_of (rq_form r) ''display_name'')
       (if form_list r ''roles'' = [] then None else Some (form_list r ''roles''))
       (truthy (Some (form r ''password''))) (map_option (\<lambda>v. v = ''1'') (map_of (rq_form r) ''disabled''))
       (expected_revision r) (allow_sso_admins D) c"

text \<open>An update leaves the accounts alone, or writes the updated catalog and revokes what it has to.\<close>

lemma users_update_effect:
  "(ax_users (snd (users_update D mo r d corr s)) = ax_users s \<and>
    ax_sessions (snd (users_update D mo r d corr s)) = ax_sessions s) \<or>
   (\<exists>earlier a c' b. get_account (ax_users s) (rq_username r) = Some earlier \<and>
      update_request D mo r (ax_users s) = Inr (a, c') \<and>
      ax_users (snd (users_update D mo r d corr s)) = c' \<and>
      ax_sessions (snd (users_update D mo r d corr s)) =
        ax_sessions (revoke b mo (ua_username a)
          (revoke (ua_disabled a \<and> \<not> ua_disabled earlier) mo (ua_username a) (s\<lparr>ax_users := c'\<rparr>))))"
proof (cases "reauth_failed D mo r d corr s")
  case (Some out)
  then show ?thesis by (auto simp: users_update_def dest: reauth_keeps)
next
  case None
  note reauth = None
  show ?thesis
  proof (cases "get_account (ax_users s) (rq_username r)")
    case None
    with reauth show ?thesis by (simp add: users_update_def)
  next
    case (Some earlier)
    show ?thesis
    proof (cases "expected_revision r")
      case None
      with reauth Some show ?thesis by (simp add: users_update_def Let_def)
    next
      case (Some n)
      note known = \<open>get_account (ax_users s) (rq_username r) = Some earlier\<close> reauth Some
      let ?blocked = "is_self d (rq_username r) \<and> (map_of (rq_form r) ''disabled'' = Some ''1'' \<or>
        form_list r ''roles'' \<noteq> [] \<and> system_admin \<in> set (ua_roles earlier) \<and>
        system_admin \<notin> set (form_list r ''roles''))"
      show ?thesis
      proof (cases "\<not> ?blocked \<and> (\<exists>a c'. update_request D mo r (ax_users s) = Inr (a, c'))")
        case True
        then obtain a c' where ac: "update_request D mo r (ax_users s) = Inr (a, c')" by blast
        have "ax_users (snd (users_update D mo r d corr s)) = c' \<and>
          ax_sessions (snd (users_update D mo r d corr s)) =
            ax_sessions (revoke (form r ''password'' \<noteq> [] \<and> \<not> is_self d (rq_username r)) mo (ua_username a)
              (revoke (ua_disabled a \<and> \<not> ua_disabled earlier) mo (ua_username a) (s\<lparr>ax_users := c'\<rparr>)))"
        proof -
          have g: "\<not> (is_self d (rq_username r) \<and> map_of (rq_form r) ''disabled'' = Some ''1'')"
            "\<not> (is_self d (rq_username r) \<and> form_list r ''roles'' \<noteq> [] \<and>
              system_admin \<in> set (ua_roles earlier) \<and> system_admin \<notin> set (form_list r ''roles''))"
            using True by blast+
          show ?thesis
            using ac unfolding update_request_def users_update_def known option.case Let_def if_not_P[OF g(1)] if_not_P[OF g(2)]
            by simp
        qed
        with ac known(1) show ?thesis by blast
      next
        case False
        let ?off = "is_self d (rq_username r) \<and> map_of (rq_form r) ''disabled'' = Some ''1''"
        let ?demoted = "is_self d (rq_username r) \<and> form_list r ''roles'' \<noteq> [] \<and>
          system_admin \<in> set (ua_roles earlier) \<and> system_admin \<notin> set (form_list r ''roles'')"
        consider (off) ?off | (demoted) "\<not> ?off" ?demoted
          | (failed) e where "\<not> ?off" "\<not> ?demoted" "update_request D mo r (ax_users s) = Inl e"
          using False by (cases "update_request D mo r (ax_users s)") auto
        then have "ax_users (snd (users_update D mo r d corr s)) = ax_users s \<and>
          ax_sessions (snd (users_update D mo r d corr s)) = ax_sessions s"
        proof cases
          case off
          then show ?thesis unfolding users_update_def known option.case Let_def if_P[OF off] by simp
        next
          case demoted
          then show ?thesis
            unfolding users_update_def known option.case Let_def if_not_P[OF demoted(1)] if_P[OF demoted(2)] by simp
        next
          case (failed e)
          then show ?thesis
            unfolding users_update_def update_request_def known option.case Let_def
              if_not_P[OF failed(1)] if_not_P[OF failed(2)]
            by simp
        qed
        then show ?thesis by blast
      qed
    qed
  qed
qed

lemma users_delete_effect:
  "(ax_users (snd (users_delete D mo r d corr s)) = ax_users s \<and>
    ax_sessions (snd (users_delete D mo r d corr s)) = ax_sessions s) \<or>
   (\<exists>c'. delete_account (rq_username r) (expected_revision r) (allow_sso_admins D) (ax_users s) = Inr (True, c') \<and>
      ax_users (snd (users_delete D mo r d corr s)) = c' \<and>
      ax_sessions (snd (users_delete D mo r d corr s)) =
        snd (invalidate_user (mo_now mo) (rq_username r) (ax_sessions s)))"
proof (cases "if confirmed D mo r then None else reauth_failed D mo r d corr s")
  case (Some out)
  then have "reauth_failed D mo r d corr s = Some out" by (auto split: if_splits)
  with Some show ?thesis by (auto simp: users_delete_def dest: reauth_keeps)
next
  case None
  show ?thesis
  proof (cases "require_confirmation D mo r (''Delete account '' @ rq_username r) = None \<and> \<not> is_self d (rq_username r)")
    case False
    with None show ?thesis by (auto simp: users_delete_def split: option.splits)
  next
    case True
    show ?thesis
    proof (cases "expected_revision r")
      case None
      with \<open>(if _ then _ else _) = None\<close> True show ?thesis by (simp add: users_delete_def)
    next
      case (Some n)
      note n = Some
      show ?thesis
      proof (cases "delete_account (rq_username r) (Some n) (allow_sso_admins D) (ax_users s)")
        case (Inl e)
        with n None True show ?thesis by (simp add: users_delete_def)
      next
        case (Inr res)
        then obtain removed c' where res: "delete_account (rq_username r) (Some n) (allow_sso_admins D) (ax_users s) = Inr (removed, c')"
          by (cases res) auto
        with n None True delete_account_Inr[OF res] show ?thesis
          by (cases removed) (simp_all add: users_delete_def revoke_def)
      qed
    qed
  qed
qed

lemma view_users:
  assumes "catalog_ok (ax_users s)"
  shows "catalog_ok (ax_users (snd (view D mo r d corr s))) \<and>
    (has_admin (allow_sso_admins D) (ax_users s) \<longrightarrow>
       has_admin (allow_sso_admins D) (ax_users (snd (view D mo r d corr s))))"
proof -
  have create: "catalog_ok (ax_users (snd (users_create D mo r d corr s))) \<and>
      (has_admin (allow_sso_admins D) (ax_users s) \<longrightarrow>
        has_admin (allow_sso_admins D) (ax_users (snd (users_create D mo r d corr s))))"
    using users_create_users[of D mo r d corr s]
  proof (elim disjE exE conjE)
    fix a c'
    assume created: "create_account (dp_scrypt D) (mo_salt mo) (mo_text mo) (form r ''username'')
        (truthy (Some (form r ''display_name''))) (form_list r ''roles'') (truthy (Some (form r ''password'')))
        (expected_revision r) (ax_users s) = Inr (a, c')"
      and c': "ax_users (snd (users_create D mo r d corr s)) = c'"
    show ?thesis unfolding c' using create_account_keeps[OF created assms] by blast
  qed (simp add: assms)
  have update: "catalog_ok (ax_users (snd (users_update D mo r d corr s))) \<and>
      (has_admin (allow_sso_admins D) (ax_users s) \<longrightarrow>
        has_admin (allow_sso_admins D) (ax_users (snd (users_update D mo r d corr s))))"
    using users_update_effect[of D mo r d corr s]
  proof (elim disjE exE conjE)
    fix earlier a c'
    assume updated: "update_request D mo r (ax_users s) = Inr (a, c')"
      and c': "ax_users (snd (users_update D mo r d corr s)) = c'"
    show ?thesis unfolding c' using update_account_keeps[OF updated[unfolded update_request_def] assms] by blast
  qed (simp add: assms)
  have "catalog_ok (ax_users (snd (users_delete D mo r d corr s))) \<and>
      (has_admin (allow_sso_admins D) (ax_users s) \<longrightarrow>
        has_admin (allow_sso_admins D) (ax_users (snd (users_delete D mo r d corr s))))"
    using users_delete_effect[of D mo r d corr s]
  proof (elim disjE exE conjE)
    fix c'
    assume removed: "delete_account (rq_username r) (expected_revision r) (allow_sso_admins D) (ax_users s) = Inr (True, c')"
      and c': "ax_users (snd (users_delete D mo r d corr s)) = c'"
    show ?thesis unfolding c' using delete_account_keeps[OF removed assms] by blast
  qed (simp add: assms)
  with create update assms show ?thesis by (simp add: view_def Let_def)
qed

lemma serve_unfold:
  "serve D mo r s =
     (let g = security_gate D mo r s
      in case fst g of
           Some stopped \<Rightarrow> (stopped, snd (snd g))
         | None \<Rightarrow> view D mo r (fst (snd g)) (correlation_id (mo_request mo) r) (snd (snd g)))"
  by (auto simp: serve_def Let_def split: prod.splits option.splits)

lemma serve_users:
  "administered D (ax_users s) \<Longrightarrow> administered D (ax_users (snd (serve D mo r s)))"
  using view_users[of "snd (snd (security_gate D mo r s))"]
  by (auto simp: serve_unfold administered_def Let_def split: option.splits)

lemma serve_all_Nil [simp]: "serve_all D [] s = s"
  by (simp add: serve_all_def)

lemma serve_all_Cons: "serve_all D ((mo, r) # rs) s = serve_all D rs (snd (serve D mo r s))"
  by (simp add: serve_all_def)

lemma serve_all_append: "serve_all D (xs @ ys) s = serve_all D ys (serve_all D xs s)"
  by (simp add: serve_all_def)

lemma serve_all_snoc: "serve_all D (xs @ [(mo, r)]) s = snd (serve D mo r (serve_all D xs s))"
  by (simp add: serve_all_def)

lemma serve_all_administered:
  "administered D (ax_users s) \<Longrightarrow> administered D (ax_users (serve_all D rs s))"
proof (induction rs rule: rev_induct)
  case (snoc x rs)
  obtain mo r where "x = (mo, r)" by force
  with snoc serve_users show ?case by (simp add: serve_all_snoc)
qed simp


end
