(* ===== verification/AttemptTheorems.thy ===== *)
theory AttemptTheorems
  imports GateTheorems
begin

text \<open>
  The gate's bookkeeping over requests: how often a sign-in can reach the password check within a
  minute, and the audit event of every denial.
\<close>

section \<open>Hit counts never shrink while they matter\<close>

lemma allow_grows:
  "window_of w t \<le> v \<Longrightarrow> hit_count h (k, v) \<le> hit_count (snd (allow key limit w t h)) (k, v)"
  by (auto simp: allow_simps stale_def peek_def)

lemma spend_grows: "window_of minute t \<le> v \<Longrightarrow> hit_count h (k, v) \<le> hit_count (snd (spend t layers h)) (k, v)"
proof (induction t layers h rule: spend.induct)
  case (2 t layer key limit layers h)
  let ?a = "allow key limit minute t h"
  have "hit_count h (k, v) \<le> hit_count (snd ?a) (k, v)" using 2(2) by (rule allow_grows)
  also have "\<dots> \<le> hit_count (snd (spend t layers (snd ?a))) (k, v)"
    using 2(1)[of ?a "fst ?a" "snd ?a"] 2(2) by simp
  finally show ?case by (simp add: case_prod_unfold Let_def)
qed simp

lemma spend_unblocked:
  "fst (spend t layers h) = [] \<Longrightarrow> (layer, key, limit) \<in> set layers \<Longrightarrow>
     int (Suc (hit_count h (key, window_of minute t))) \<le> limit \<and>
     Suc (hit_count h (key, window_of minute t)) \<le> hit_count (snd (spend t layers h)) (key, window_of minute t)"
proof (induction t layers h rule: spend.induct)
  case (2 t layer' key' limit' layers h)
  let ?w = "window_of minute t" and ?a = "allow key' limit' minute t h"
  have ok: "fst ?a" and rest: "fst (spend t layers (snd ?a)) = []"
    using 2(2) by (auto simp: case_prod_unfold Let_def split: if_splits)
  have spent: "snd (spend t ((layer', key', limit') # layers) h) = snd (spend t layers (snd ?a))"
    by (simp add: case_prod_unfold Let_def)
  show ?case
  proof (cases "(layer, key, limit) = (layer', key', limit')")
    case True
    then have "int (Suc (hit_count h (key, ?w))) \<le> limit" using ok by (simp add: allow_simps peek_def)
    moreover have "Suc (hit_count h (key, ?w)) = hit_count (snd ?a) (key, ?w)"
      using True by (simp add: allow_simps peek_def)
    ultimately show ?thesis unfolding spent using spend_grows[of t ?w "snd ?a" key layers] by simp
  next
    case False
    with 2(3) have "(layer, key, limit) \<in> set layers" by auto
    from 2(1)[of ?a "fst ?a" "snd ?a", OF _ _ rest this] have
      "int (Suc (hit_count (snd ?a) (key, ?w))) \<le> limit"
      "Suc (hit_count (snd ?a) (key, ?w)) \<le> hit_count (snd (spend t layers (snd ?a))) (key, ?w)"
      by simp_all
    moreover have "hit_count h (key, ?w) \<le> hit_count (snd ?a) (key, ?w)" by (rule allow_grows) simp
    ultimately show ?thesis unfolding spent by linarith
  qed
qed simp

lemma limit_login_grows:
  "window_of minute (mo_clock mo) \<le> v \<Longrightarrow> hit_count (ax_hits s) (k, v) \<le> hit_count (ax_hits (snd (limit_login D mo r s))) (k, v)"
  using spend_grows[of "mo_clock mo" v "ax_hits s" k]
  by (auto simp: limit_login_def Let_def case_prod_unfold split: sum.split)

lemma limit_endpoint_grows:
  "window_of minute (mo_clock mo) \<le> v \<Longrightarrow> hit_count (ax_hits s) (k, v) \<le> hit_count (ax_hits (snd (limit_endpoint D mo r s))) (k, v)"
  using allow_grows[of minute "mo_clock mo" v "ax_hits s" k]
  by (simp add: limit_endpoint_def Let_def case_prod_unfold split: option.split)

lemma check_access_grows:
  "window_of minute (mo_clock mo) \<le> v \<Longrightarrow> hit_count (ax_hits s) (k, v) \<le> hit_count (ax_hits (snd (check_access D mo r d s))) (k, v)"
  using limit_login_grows[of mo v s k D r] limit_endpoint_grows[of mo v "snd (limit_login D mo r s)" k D r]
  by (simp add: check_access_unfold)

lemma login_keeps_hits: "login D mo u pw s = Inr (t, s') \<Longrightarrow> ax_hits s' = ax_hits s"
  by (auto simp: login_def create_session_def andthen_Inr_iff split: option.splits)

lemma login_submit_keeps_hits [simp]: "ax_hits (snd (login_submit D mo r corr s)) = ax_hits s"
proof (cases "login D mo (strip (form r ''username'')) (form r ''password'') s")
  case (Inr p)
  then obtain t s' where p: "login D mo (strip (form r ''username'')) (form r ''password'') s = Inr (t, s')" by (cases p) auto
  with login_keeps_hits[OF p] show ?thesis
    by (cases t) (simp_all add: login_submit_def Let_def case_prod_unfold split: sum.split)
qed (simp add: login_submit_def Let_def)

lemma logout_keeps_hits [simp]: "ax_hits (snd (logout D mo r d corr s)) = ax_hits s"
  by (simp add: logout_def Let_def split: option.split)

lemma users_create_keeps_hits [simp]: "ax_hits (snd (users_create D mo r d corr s)) = ax_hits s"
  by (auto simp: users_create_def dest: reauth_keeps split: option.splits sum.splits)

lemma users_update_keeps_hits [simp]: "ax_hits (snd (users_update D mo r d corr s)) = ax_hits s"
proof (cases "reauth_failed D mo r d corr s")
  case (Some out)
  then show ?thesis using reauth_keeps[of D mo r d corr s out] by (simp add: users_update_def)
next
  case None
  then show ?thesis
    by (simp add: users_update_def Let_def case_prod_unfold split: option.split sum.split)
qed

lemma users_delete_keeps_hits [simp]: "ax_hits (snd (users_delete D mo r d corr s)) = ax_hits s"
proof (cases "if confirmed D mo r then None else reauth_failed D mo r d corr s")
  case (Some out)
  then have "reauth_failed D mo r d corr s = Some out" by (simp split: if_splits)
  with Some show ?thesis using reauth_keeps[of D mo r d corr s out] by (simp add: users_delete_def)
next
  case None
  then show ?thesis
    unfolding users_delete_def by (simp split: option.split sum.split bool.split prod.split)
qed

lemma view_keeps_hits [simp]: "ax_hits (snd (view D mo r d corr s)) = ax_hits s"
  by (simp add: view_def Let_def)

lemma serve_hits: "ax_hits (snd (serve D mo r s)) = ax_hits (snd (snd (security_gate D mo r s)))"
  by (simp add: serve_unfold Let_def split: option.split)

lemma gate_hits:
  "ax_hits (snd (snd (security_gate D mo r s))) =
     ax_hits (snd (check_access D mo r (fst (identify D mo r s)) (snd (identify D mo r s))))"
  by (simp add: security_gate_unfold Let_def)

lemma serve_grows:
  "window_of minute (mo_clock mo) \<le> v \<Longrightarrow> hit_count (ax_hits s) (k, v) \<le> hit_count (ax_hits (snd (serve D mo r s))) (k, v)"
  using check_access_grows[of mo v "snd (identify D mo r s)" k D r] by (simp add: serve_hits gate_hits)

section \<open>Sign-in attempts\<close>

text \<open>The sign-ins of a sequence of requests that pass the gate and so reach the password check.\<close>

fun attempts :: "deployment \<Rightarrow> (moment \<times> request) list \<Rightarrow> access \<Rightarrow> (moment \<times> request) list" where
  "attempts D [] s = []"
| "attempts D ((mo, r) # rs) s =
     (if rq_endpoint r = Some ''login_submit'' \<and> fst (security_gate D mo r s) = None then [(mo, r)] else []) @
     attempts D rs (snd (serve D mo r s))"

lemma attempts_subset: "set (attempts D rs s) \<subseteq> set rs"
  by (induction D rs s rule: attempts.induct) (auto split: if_splits)

lemma attempt_counted:
  assumes "rq_endpoint r = Some ''login_submit''" "fst (security_gate D mo r s) = None" "read_login_limits D = Inr L"
    and layer: "(layer, key, limit) \<in> set (login_layers L (submitted_account r) (client_address D r))"
  shows "int (Suc (hit_count (ax_hits s) (key, window_of minute (mo_clock mo)))) \<le> limit \<and>
    Suc (hit_count (ax_hits s) (key, window_of minute (mo_clock mo)))
      \<le> hit_count (ax_hits (snd (serve D mo r s))) (key, window_of minute (mo_clock mo))"
proof -
  let ?d = "fst (identify D mo r s)" and ?s = "snd (identify D mo r s)"
  let ?sp = "spend (mo_clock mo) (login_layers L (submitted_account r) (client_address D r)) (ax_hits ?s)"
  have passed: "fst (check_access D mo r ?d ?s) = Go_on \<or> fst (check_access D mo r ?d ?s) = Let_through"
    using assms(2) by (simp add: security_gate_unfold Let_def closed_None)
  then have p: "check_permission r ?d = Go_on" using check_access_passes assms(1) by blast
  from passed p have "check_csrf D r ?d = Go_on \<and> fst (limit_login D mo r ?s) = Go_on"
    by (auto simp: check_access_unfold split: if_splits)
  then have c: "check_csrf D r ?d = Go_on" and l: "fst (limit_login D mo r ?s) = Go_on" by simp_all
  have limited: "limit_login D mo r ?s = ((if fst ?sp = [] then Go_on else fst (limit_login D mo r ?s)), ?s\<lparr>ax_hits := snd ?sp\<rparr>)"
    using assms(1,3) by (simp add: limit_login_def case_prod_unfold Let_def)
  have "fst ?sp = []" using l assms(1,3) by (auto simp: limit_login_def case_prod_unfold Let_def split: if_splits)
  note counted = spend_unblocked[OF this layer]
  have spent: "ax_hits (snd (limit_login D mo r ?s)) = snd ?sp"
    using arg_cong[OF limited, of "\<lambda>x. ax_hits (snd x)"] by simp
  have "hit_count (snd ?sp) (key, window_of minute (mo_clock mo))
      \<le> hit_count (ax_hits (snd (serve D mo r s))) (key, window_of minute (mo_clock mo))"
    using limit_endpoint_grows[of mo "window_of minute (mo_clock mo)" "snd (limit_login D mo r ?s)" key D r] p c l
    by (simp add: serve_hits gate_hits check_access_unfold spent)
  with counted show ?thesis by simp
qed

text \<open>One layer, named by the key it gives a request, over any sequence of requests.\<close>

lemma attempts_bounded:
  assumes limits: "read_login_limits D = Inr L"
    and layer: "\<And>r. P r \<Longrightarrow> (layer, key, limit) \<in> set (login_layers L (submitted_account r) (client_address D r))"
  shows "sorted (map (\<lambda>(mo, r). mo_clock mo) rs) \<Longrightarrow>
    length (filter (\<lambda>(mo, r). P r \<and> window_of minute (mo_clock mo) = w) (attempts D rs s))
      \<le> nat limit - hit_count (ax_hits s) (key, w)"
proof (induction rs arbitrary: s)
  case (Cons e rs)
  obtain mo r where e: "e = (mo, r)" by force
  let ?q = "\<lambda>(mo, r). P r \<and> window_of minute (mo_clock mo) = w" and ?s = "snd (serve D mo r s)"
  from Cons.prems have later: "\<forall>(mo', r')\<in>set rs. mo_clock mo \<le> mo_clock mo'" and sorted: "sorted (map (\<lambda>(mo, r). mo_clock mo) rs)"
    by (auto simp: e)
  note IH = Cons.IH[OF sorted, of ?s]
  show ?case
  proof (cases "window_of minute (mo_clock mo) \<le> w")
    case False
    have "\<not> ?q x" if "x \<in> set (attempts D (e # rs) s)" for x
    proof -
      from that have "x \<in> set (e # rs)" using attempts_subset by blast
      with later have "mo_clock mo \<le> mo_clock (fst x)" by (auto simp: e)
      from window_mono[OF this, of minute] False show ?thesis by (auto simp: case_prod_unfold)
    qed
    then have none: "filter ?q (attempts D (e # rs) s) = []" by (auto simp: filter_empty_conv)
    show ?thesis unfolding none by simp
  next
    case True
    note grows = serve_grows[OF True, of s key D r]
    show ?thesis
    proof (cases "rq_endpoint r = Some ''login_submit'' \<and> fst (security_gate D mo r s) = None \<and> ?q (mo, r)")
      case True
      with attempt_counted[of r D mo s L, OF _ _ limits layer]
      have "int (Suc (hit_count (ax_hits s) (key, w))) \<le> limit"
        "Suc (hit_count (ax_hits s) (key, w)) \<le> hit_count (ax_hits ?s) (key, w)"
        by auto
      with IH True show ?thesis by (simp add: e)
    next
      case False
      then have "filter ?q (attempts D (e # rs) s) = filter ?q (attempts D rs ?s)" by (auto simp: e)
      with IH grows show ?thesis by simp
    qed
  qed
qed simp

text \<open>
  C17: Guessing is bounded. Over any sequence of requests whose clock does not go back, from any
  state, at most the account limit of sign-ins that submit one account name, and at most the source
  limit of sign-ins from one client address, pass the gate to the password check in any one minute,
  whatever else is requested in between and whether or not they succeed.
\<close>

theorem sign_in_attempts_bounded:
  assumes "read_login_limits D = Inr L" and "sorted (map (\<lambda>(mo, r). mo_clock mo) rs)"
  shows "length (filter (\<lambda>(mo, r). submitted_account r = account \<and> window_of minute (mo_clock mo) = w) (attempts D rs s))
      \<le> nat (ll_account L) \<and>
    length (filter (\<lambda>(mo, r). client_address D r = source \<and> window_of minute (mo_clock mo) = w) (attempts D rs s))
      \<le> nat (ll_source L)"
proof
  show "length (filter (\<lambda>(mo, r). submitted_account r = account \<and> window_of minute (mo_clock mo) = w) (attempts D rs s))
      \<le> nat (ll_account L)"
    using attempts_bounded[OF assms(1) _ assms(2), of "\<lambda>r. submitted_account r = account" "''account''"
        "''login:acct:'' @ account" "ll_account L" w s]
    by (simp add: login_layers_def)
  show "length (filter (\<lambda>(mo, r). client_address D r = source \<and> window_of minute (mo_clock mo) = w) (attempts D rs s))
      \<le> nat (ll_source L)"
    using attempts_bounded[OF assms(1) _ assms(2), of "\<lambda>r. client_address D r = source" "''source''"
        "''login:src:'' @ source" "ll_source L" w s]
    by (simp add: login_layers_def)
qed

section \<open>Denials are audited\<close>

lemma kept_by_dropWhile: "c \<in> set s \<Longrightarrow> \<not> p c \<Longrightarrow> c \<in> set (dropWhile p s)"
  by (induction s) auto

lemma strip_neq_Nil: "c \<in> set s \<Longrightarrow> \<not> is_space c \<Longrightarrow> strip s \<noteq> []"
  using kept_by_dropWhile[of c s is_space] kept_by_dropWhile[of c "List.rev (dropWhile is_space s)" is_space]
  by (force simp: strip_def)

lemma strip_text: "s \<noteq> [] \<Longrightarrow> \<not> is_space (hd s) \<Longrightarrow> strip s \<noteq> []"
  using strip_neq_Nil[of "hd s" s] by simp

text \<open>The operations an audited denial of the gate can have.\<close>

lemma check_access_operation:
  assumes "fst (check_access D mo r d s) = Deny status (Some (opn, detail)) message"
  shows "opn \<in> {''refuse'', ''deny-unmapped'', ''deny'', ''csrf'', ''rate-limit''}"
proof -
  have "opn \<in> {''refuse'', ''deny-unmapped'', ''deny''}" if "check_permission r d = Deny status (Some (opn, detail)) message"
    using that by (auto simp: check_permission_def Let_def split: option.splits if_splits)
  moreover have "opn = ''csrf''" if "check_csrf D r d = Deny status (Some (opn, detail)) message"
    using that by (auto simp: check_csrf_def check_csrf_token_def Let_def split: if_splits)
  moreover have "opn = ''rate-limit''" if "fst (limit_login D mo r t) = Deny status (Some (opn, detail)) message" for t
    using that by (auto simp: limit_login_def Let_def case_prod_unfold split: if_splits sum.splits)
  moreover have "opn = ''rate-limit''" if "fst (limit_endpoint D mo r t) = Deny status (Some (opn, detail)) message" for t
    using that by (auto simp: limit_endpoint_def Let_def case_prod_unfold split: if_splits option.splits)
  ultimately show ?thesis using assms by (auto simp: check_access_unfold split: if_splits)
qed

lemma check_access_unaudited:
  assumes "fst (check_access D mo r d s) = Deny status None message"
  shows "status = 401 \<and> ad_principal d = None \<and> ad_failure d = None \<and> permission_for_endpoint (rq_endpoint r) \<noteq> Some public"
proof -
  have "check_csrf D r d \<noteq> Deny status None message"
    by (auto simp: check_csrf_def check_csrf_token_def Let_def)
  moreover have "fst (limit_login D mo r t) \<noteq> Deny status None message" for t
    by (auto simp: limit_login_def Let_def case_prod_unfold split: sum.splits)
  moreover have "fst (limit_endpoint D mo r t) \<noteq> Deny status None message" for t
    by (auto simp: limit_endpoint_def Let_def case_prod_unfold split: option.splits)
  ultimately have "check_permission r d = Deny status None message"
    using assms by (auto simp: check_access_unfold split: if_splits)
  then show ?thesis by (auto simp: check_permission_def Let_def split: option.splits if_splits)
qed

lemma principal_named:
  assumes "ad_principal (fst (identify D mo r s)) = Some p" "catalog_ok (ax_users s)"
  shows "strip (pr_username p) \<noteq> []"
proof -
  have "strip (ua_username a) \<noteq> []" if "get_account (ax_users s) n = Some a" for a n
    using that accounts_ok[OF assms(2), of a] assms(2) valid_username_neq_Nil
    by (auto simp: get_account_iff account_ok_def)
  moreover have "strip (pr_username local_operator) \<noteq> []" by code_simp
  ultimately show ?thesis
    using identify_principal[OF assms(1)] by (auto simp: vouched_def split: auth_mode.splits)
qed

lemma audit_denial_appends:
  assumes "strip (mo_text mo) \<noteq> []" "strip opn \<noteq> []" "\<And>p. ad_principal d = Some p \<Longrightarrow> strip (pr_username p) \<noteq> []"
  shows "\<exists>e. ax_trail (audit_denial mo r d corr opn detail s) = ax_trail s @ [e] \<and> ae_outcome e = ''denied'' \<and>
    ae_category e = ''authorization'' \<and> ae_operation e = opn \<and> ae_correlation e = Some corr \<and>
    ae_actor e = (case ad_principal d of Some p \<Rightarrow> pr_username p | None \<Rightarrow> ''unauthenticated'')"
proof -
  let ?e = "denial_event r d corr opn detail"
  have named: "strip (ae_actor ?e) \<noteq> []"
  proof (cases "ad_principal d")
    case None
    have "strip ''unauthenticated'' \<noteq> []" by code_simp
    with None show ?thesis by (simp add: denial_event_def event_draft_def)
  qed (use assms(3) in \<open>simp add: denial_event_def event_draft_def\<close>)
  have "strip (''audit:'' @ x) \<noteq> []" "strip (''endpoint:'' @ x) \<noteq> []" for x
    by (rule strip_text; simp add: is_space_def)+
  moreover have "strip ''authorization'' \<noteq> []" by code_simp
  ultimately obtain e where "create_event (mo_uuid mo (length (ax_trail s))) (mo_text mo) ?e = Inr e"
    "ae_outcome e = ''denied''" "ae_category e = ''authorization''" "ae_operation e = opn" "ae_correlation e = Some corr"
    "ae_actor e = ae_actor ?e"
    using assms(1,2) named
    by (simp add: create_event_def checked_event_def required_fields_def denial_event_def event_draft_def)
  then show ?thesis
    by (simp add: audit_denial_def appended_event_def append_many_def) (simp add: denial_event_def event_draft_def)
qed

text \<open>
  C38: Every denial leaves a trace. When the gate turns a request away, it appends exactly one event
  with the outcome denied, the correlation id of the request and the authenticated actor; only the
  answer that asks an anonymous caller to sign in leaves the trail as it is. (An internal error is
  not a denial; the time of the request must be a text.)
\<close>

theorem denials_are_audited:
  assumes "security_gate D mo r s = (Some answer, d, s')" and "answer \<noteq> Crash"
    and "catalog_ok (ax_users s)" and "strip (mo_text mo) \<noteq> []"
  shows "(\<exists>e. ax_trail s' = ax_trail s @ [e] \<and> ae_outcome e = ''denied'' \<and> ae_category e = ''authorization'' \<and>
      ae_correlation e = Some (correlation_id (mo_request mo) r) \<and>
      ae_actor e = (case ad_principal d of Some p \<Rightarrow> pr_username p | None \<Rightarrow> ''unauthenticated'')) \<or>
    (ax_trail s' = ax_trail s \<and> ad_principal d = None \<and> ad_failure d = None \<and>
      permission_for_endpoint (rq_endpoint r) \<noteq> Some public)"
proof -
  let ?i = "identify D mo r s"
  let ?a = "check_access D mo r (fst ?i) (snd ?i)" and ?corr = "correlation_id (mo_request mo) r"
  from assms(1,2) have c: "closed mo r (fst ?i) ?corr (fst ?a) (snd ?a) = (Some answer, s')" and d: "d = fst ?i"
    by (auto simp: security_gate_unfold Let_def prod_eq_iff)
  then obtain status audited message where deny: "fst ?a = Deny status audited message"
    using assms(2) by (cases "fst ?a") (auto simp: closed_def)
  show ?thesis
  proof (cases audited)
    case None
    with deny c have "s' = snd ?a" by (auto simp: closed_def)
    with check_access_unaudited deny None d show ?thesis by fastforce
  next
    case (Some od)
    then obtain opn detail where od: "audited = Some (opn, detail)" by (cases od) auto
    have "list_all (\<lambda>x. strip x \<noteq> []) [''refuse'', ''deny-unmapped'', ''deny'', ''csrf'', ''rate-limit'']" by code_simp
    then have "strip opn \<noteq> []" using check_access_operation[OF deny[unfolded od]] by auto
    moreover have "s' = audit_denial mo r d ?corr opn detail (snd ?a)" using deny c od d by (auto simp: closed_def)
    ultimately show ?thesis
      using audit_denial_appends[OF assms(4), of opn d r ?corr detail "snd ?a"] principal_named[OF _ assms(3)] d by auto
  qed
qed

end
