(* ===== verification/SignInTheorems.thy ===== *)
theory SignInTheorems
  imports GateTheorems
begin

text \<open>
  What an authenticated request goes back to: every session in the store was opened by a sign-in
  whose password was verified, and no request since signed it out or closed the account. Then the
  bound on sign-in attempts that reach the password check.
\<close>

section \<open>Where sessions come from\<close>

text \<open>What of a record never changes once it is created.\<close>

definition core :: "session \<Rightarrow> session" where
  "core x = x\<lparr>se_idle := 0\<rparr>"

lemma core_idle [simp]: "core (x\<lparr>se_idle := i\<rparr>) = core x"
  by (simp add: core_def)

lemma core_eq_iff:
  "core x = core y \<longleftrightarrow> se_token_hash x = se_token_hash y \<and> se_username x = se_username y \<and> se_csrf x = se_csrf y \<and>
     se_created x = se_created y \<and> se_expires x = se_expires y \<and> se_mode x = se_mode y"
  by (cases x; cases y) (simp add: core_def)

definition cores :: "session list \<Rightarrow> session set" where
  "cores rs = core ` set rs"

lemma cores_simps [simp]: "cores [] = {}" "cores (r # rs) = insert (core r) (cores rs)"
  by (simp_all add: cores_def)

lemma cores_write: "cores (write_sessions now rs) \<subseteq> cores rs"
  by (auto simp: cores_def write_sessions_def)

lemma cores_invalidate: "cores (invalidate H now token rs) \<subseteq> cores rs"
  by (auto simp: cores_def invalidate_def write_sessions_def)

lemma cores_invalidate_user: "cores (snd (invalidate_user now u rs)) \<subseteq> cores rs"
  by (auto simp: cores_def invalidate_user_def write_sessions_def Let_def)

lemma refresh_first_Some:
  "refresh_first d now i rs = Some (found, rs') \<Longrightarrow>
     cores rs' = cores rs \<and> core found \<in> cores rs \<and> se_token_hash found = d \<and> se_expires found > now"
proof (induction rs arbitrary: rs')
  case (Cons r rs)
  show ?case
  proof (cases "se_token_hash r = d")
    case True
    with Cons.prems show ?thesis by (auto split: if_splits)
  next
    case False
    with Cons.prems obtain rest where "refresh_first d now i rs = Some (found, rest)" "rs' = r # rest" by auto
    with Cons.IH[of rest] show ?thesis by simp
  qed
qed simp

lemma cores_resolve: "cores (snd (resolve_session H L now token rs)) \<subseteq> cores rs"
proof (cases "refresh_first (H token) now (now + sl_idle_timeout L) rs")
  case (Some p)
  then obtain found rs' where p: "refresh_first (H token) now (now + sl_idle_timeout L) rs = Some (found, rs')" by (cases p) auto
  with refresh_first_Some[OF p] cores_write[of now rs'] show ?thesis by (simp add: resolve_session_def)
qed (simp add: resolve_session_def)

lemma resolve_Some:
  "fst (resolve_session H L now token rs) = Some found \<Longrightarrow>
     token \<noteq> [] \<and> core found \<in> cores rs \<and> se_token_hash found = H token \<and> se_expires found > now"
  by (auto simp: resolve_session_def dest: refresh_first_Some split: if_splits option.splits)

lemma cores_create:
  "cores (snd (create_session H L now token csrf u m rs)) \<subseteq> insert (core (new_session H L now token csrf u m)) (cores rs)"
  by (auto simp: cores_def create_session_def new_session_def write_sessions_def)

text \<open>A request that opened the session \<open>x\<close> when it was served in state \<open>s\<close>.\<close>

definition signed_in :: "deployment \<Rightarrow> moment \<Rightarrow> request \<Rightarrow> access \<Rightarrow> session \<Rightarrow> bool" where
  "signed_in D mo r s x \<longleftrightarrow> rq_endpoint r = Some ''login_submit'' \<and>
     (\<exists>a. authenticate (dp_scrypt D) (mo_salt mo) (ax_users s) (strip (form r ''username'')) (form r ''password'') =
         Inr (Some a) \<and> se_username x = ua_username a) \<and>
     se_token_hash x = dp_sha256 D (mo_token mo) \<and> se_csrf x = mo_csrf mo \<and> se_created x = mo_now mo \<and>
     se_expires x = mo_now mo + sl_max_age (dp_limits D)"

lemma signed_in_core: "core x = core y \<Longrightarrow> signed_in D mo r s x = signed_in D mo r s y"
  by (auto simp: core_eq_iff signed_in_def)

lemma signed_in_users: "ax_users s = ax_users t \<Longrightarrow> signed_in D mo r s x = signed_in D mo r t x"
  by (simp add: signed_in_def)

lemma identify_cores: "cores (ax_sessions (snd (identify D mo r s))) \<subseteq> cores (ax_sessions s)"
proof (cases "dp_mode D = Password_mode")
  case True
  obtain found rs where r: "resolve_session (dp_sha256 D) (dp_limits D) (mo_now mo) (rq_cookie r) (ax_sessions s) = (found, rs)"
    by force
  have "cores rs \<subseteq> cores (ax_sessions s)"
    using cores_resolve[of "dp_sha256 D" "dp_limits D" "mo_now mo" "rq_cookie r" "ax_sessions s"] r by simp
  moreover have "cores (ax_sessions (snd (identify D mo r s))) \<subseteq> cores rs"
    using True r cores_invalidate_user by (simp add: identify_def identify_password_def split: option.split)
  ultimately show ?thesis by blast
qed (auto simp: identify_def split: auth_mode.splits)

lemma login_cores:
  assumes "login D mo u pw s = Inr (t, s')"
  shows "cores (ax_sessions s') \<subseteq> cores (ax_sessions s) \<or>
    (\<exists>a. authenticate (dp_scrypt D) (mo_salt mo) (ax_users s) u pw = Inr (Some a) \<and>
       cores (ax_sessions s') \<subseteq>
         insert (core (new_session (dp_sha256 D) (dp_limits D) (mo_now mo) (mo_token mo) (mo_csrf mo) (ua_username a) ''password''))
           (cores (ax_sessions s)))"
proof -
  from assms obtain account where a: "authenticate (dp_scrypt D) (mo_salt mo) (ax_users s) u pw = Inr account"
    by (auto simp: login_def andthen_Inr_iff)
  show ?thesis
  proof (cases account)
    case None
    with a assms show ?thesis by (simp add: login_def)
  next
    case (Some b)
    with a assms have "s' = s\<lparr>ax_sessions := snd (create_session (dp_sha256 D) (dp_limits D) (mo_now mo) (mo_token mo)
        (mo_csrf mo) (ua_username b) ''password'' (ax_sessions s))\<rparr>"
      by (auto simp: login_def case_prod_unfold Let_def)
    with a Some show ?thesis by (simp add: cores_create)
  qed
qed

lemma login_submit_sessions:
  assumes "rq_endpoint r = Some ''login_submit''" "x \<in> set (ax_sessions (snd (login_submit D mo r corr s)))"
  shows "core x \<in> cores (ax_sessions s) \<or> signed_in D mo r s x"
proof -
  have old: "core x \<in> cores (ax_sessions s)" if "ax_sessions (snd (login_submit D mo r corr s)) = ax_sessions s"
    using assms(2) that by (simp add: cores_def)
  show ?thesis
  proof (cases "login D mo (strip (form r ''username'')) (form r ''password'') s")
    case (Inl e)
    then have "ax_sessions (snd (login_submit D mo r corr s)) = ax_sessions s" by (simp add: login_submit_def Let_def)
    with old show ?thesis by blast
  next
    case (Inr p)
    then obtain t s' where l: "login D mo (strip (form r ''username'')) (form r ''password'') s = Inr (t, s')" by (cases p) auto
    show ?thesis
    proof (cases "dp_mode D = Password_mode")
      case False
      then have "ax_sessions (snd (login_submit D mo r corr s)) = ax_sessions s" by (simp add: login_submit_def)
      with old show ?thesis by blast
    next
      case True
      have "cores (ax_sessions (snd (login_submit D mo r corr s))) \<subseteq> cores (ax_sessions s')"
        using True l cores_resolve[of "dp_sha256 D" "dp_limits D" "mo_now mo"]
        by (cases t) (simp_all add: login_submit_def Let_def case_prod_unfold split: sum.split)
      with assms(2) have "core x \<in> cores (ax_sessions s')" by (auto simp: cores_def)
      with login_cores[OF l] show ?thesis
        by (auto simp: signed_in_def new_session_def core_eq_iff assms(1))
    qed
  qed
qed

lemma logout_cores: "cores (ax_sessions (snd (logout D mo r d corr s))) \<subseteq> cores (ax_sessions s)"
  by (simp add: logout_def Let_def cores_invalidate split: option.split)

lemma revoke_cores: "cores (ax_sessions (revoke b mo u s)) \<subseteq> cores (ax_sessions s)"
  by (simp add: revoke_def cores_invalidate_user)

lemma users_create_sessions [simp]: "ax_sessions (snd (users_create D mo r d corr s)) = ax_sessions s"
  by (auto simp: users_create_def dest: reauth_keeps split: option.splits sum.splits)

lemma users_update_cores: "cores (ax_sessions (snd (users_update D mo r d corr s))) \<subseteq> cores (ax_sessions s)"
  using users_update_effect[of D mo r d corr s]
proof (elim disjE exE conjE)
  fix earlier a c' b
  assume "ax_sessions (snd (users_update D mo r d corr s)) =
        ax_sessions (revoke b mo (ua_username a)
          (revoke (ua_disabled a \<and> \<not> ua_disabled earlier) mo (ua_username a) (s\<lparr>ax_users := c'\<rparr>)))"
  then show ?thesis
    using order_trans[OF revoke_cores revoke_cores, of b mo "ua_username a" _ mo "ua_username a" "s\<lparr>ax_users := c'\<rparr>"] by simp
qed simp

lemma users_delete_cores: "cores (ax_sessions (snd (users_delete D mo r d corr s))) \<subseteq> cores (ax_sessions s)"
  using users_delete_effect[of D mo r d corr s] by (elim disjE exE conjE) (simp_all add: cores_invalidate_user)

lemma serve_sessions:
  assumes "x \<in> set (ax_sessions (snd (serve D mo r s)))"
  shows "core x \<in> cores (ax_sessions s) \<or> signed_in D mo r s x"
proof (cases "fst (security_gate D mo r s)")
  case (Some stopped)
  with assms identify_cores[of D mo r s] show ?thesis
    by (auto simp: serve_unfold Let_def cores_def)
next
  case None
  let ?s = "snd (snd (security_gate D mo r s))" and ?d = "fst (snd (security_gate D mo r s))"
  let ?corr = "correlation_id (mo_request mo) r"
  have serve: "serve D mo r s = view D mo r ?d ?corr ?s" using None by (simp add: serve_unfold Let_def)
  have gate: "cores (ax_sessions ?s) \<subseteq> cores (ax_sessions s)" using identify_cores by simp
  have x: "core x \<in> cores (ax_sessions (snd (view D mo r ?d ?corr ?s)))" "x \<in> set (ax_sessions (snd (view D mo r ?d ?corr ?s)))"
    using assms by (simp_all add: serve cores_def)
  have "core x \<in> cores (ax_sessions ?s) \<or> signed_in D mo r ?s x"
  proof (cases "rq_endpoint r = Some ''login_submit''")
    case True
    with x(2) show ?thesis by (intro login_submit_sessions) (simp_all add: view_def)
  next
    case False
    have "cores (ax_sessions (snd (view D mo r ?d ?corr ?s))) \<subseteq> cores (ax_sessions ?s)"
      unfolding view_def Let_def using False
      by (simp only: if_False logout_cores users_update_cores users_delete_cores users_create_sessions snd_conv
        order_refl split: if_split) simp
    with x(1) show ?thesis by blast
  qed
  moreover have "signed_in D mo r ?s x = signed_in D mo r s x" by (rule signed_in_users) simp
  ultimately show ?thesis using gate by blast
qed

section \<open>What ends a session\<close>

definition signed_out :: "deployment \<Rightarrow> moment \<Rightarrow> request \<Rightarrow> access \<Rightarrow> session \<Rightarrow> bool" where
  "signed_out D mo r s x \<longleftrightarrow>
     rq_endpoint r = Some ''logout'' \<and> dp_mode D = Password_mode \<and> fst (serve D mo r s) = Signed_out \<and>
     rq_cookie r \<noteq> [] \<and> dp_sha256 D (rq_cookie r) = se_token_hash x"

definition enabled :: "user_catalog \<Rightarrow> string \<Rightarrow> bool" where
  "enabled c name \<longleftrightarrow> (\<exists>a. get_account c name = Some a \<and> \<not> ua_disabled a)"

definition account_closed :: "deployment \<Rightarrow> moment \<Rightarrow> request \<Rightarrow> access \<Rightarrow> session \<Rightarrow> bool" where
  "account_closed D mo r s x \<longleftrightarrow>
     enabled (ax_users s) (se_username x) \<and> \<not> enabled (ax_users (snd (serve D mo r s))) (se_username x)"

lemma gate_answers: "fst (security_gate D mo r s) \<noteq> Some Signed_out"
  by (auto simp: security_gate_unfold Let_def closed_def denial_def split: stage.splits)

lemma signed_out_gone:
  assumes "signed_out D mo r s x" "y \<in> set (ax_sessions (snd (serve D mo r s)))"
  shows "se_token_hash y \<noteq> se_token_hash x"
proof -
  from assms(1) gate_answers[of D mo r s] have "fst (security_gate D mo r s) = None"
    by (auto simp: signed_out_def serve_unfold Let_def split: option.splits)
  with assms(1) have "serve D mo r s =
      logout D mo r (fst (snd (security_gate D mo r s))) (correlation_id (mo_request mo) r) (snd (snd (security_gate D mo r s)))"
    by (simp add: signed_out_def serve_unfold view_def Let_def)
  with assms show ?thesis
    by (auto simp: signed_out_def logout_def Let_def invalidate_def write_sessions_def split: option.splits)
qed

lemma enabled_iff:
  "catalog_ok c \<Longrightarrow> valid_username n \<Longrightarrow>
     enabled c n \<longleftrightarrow> (\<exists>b\<in>set (accounts c). lower (ua_username b) = lower n \<and> \<not> ua_disabled b)"
  by (auto simp: enabled_def get_account_iff)

lemma enabledI:
  assumes "catalog_ok c" "valid_username n" "read_account b \<in> set (accounts c)" "lower (ua_username b) = lower n"
    "\<not> ua_disabled b"
  shows "enabled c n"
  unfolding enabled_iff[OF assms(1,2)] using assms(3-) by (intro bexI[of _ "read_account b"]) simp_all

lemma create_account_enabled:
  assumes "create_account K salt now u dn roles pw expected c = Inr (a, c')" "catalog_ok c" "valid_username n" "enabled c n"
  shows "enabled c' n"
proof -
  have "set (accounts c) \<subseteq> set (accounts c')"
    using create_account_Inr[OF assms(1)] by (auto simp: accounts_def image_iff)
  moreover have "catalog_ok c'" using create_account_keeps[OF assms(1,2)] by simp
  ultimately show ?thesis using assms by (auto simp: enabled_iff)
qed

lemma update_account_closes:
  assumes upd: "update_account K salt now u dn roles pw disabled expected sso c = Inr (a, c')"
    and c: "catalog_ok c" and n: "valid_username n" "enabled c n" "\<not> enabled c' n"
    and earlier: "get_account c u = Some earlier"
  shows "ua_disabled a \<and> \<not> ua_disabled earlier \<and> lower (ua_username a) = lower n"
proof -
  from update_account_Inr[OF upd] earlier have a: "ua_username a = ua_username earlier"
    and c': "uc_entries c' = map (\<lambda>b. if ua_username b = ua_username earlier then a else b) (accounts c)"
    by auto
  have ok: "catalog_ok c'" using update_account_keeps[OF upd c] by simp
  from n(2) obtain b where b: "b \<in> set (accounts c)" "lower (ua_username b) = lower n" "\<not> ua_disabled b"
    using enabled_iff[OF c n(1)] by blast
  have written: "read_account (if ua_username b = ua_username earlier then a else b) \<in> set (accounts c')"
    using b(1) by (auto simp: accounts_def[of c'] c')
  show ?thesis
  proof (cases "ua_username b = ua_username earlier")
    case True
    have "earlier \<in> set (accounts c)" using earlier c by (simp add: get_account_iff)
    with True b(1) same_account[OF c] have "b = earlier" by simp
    moreover from n(3) have "ua_disabled a"
      using written True a b(2) enabled_iff[OF ok n(1)] by auto
    ultimately show ?thesis using b a by simp
  next
    case False
    with written b have "enabled c' n" by (auto intro: enabledI[OF ok n(1)])
    with n(3) show ?thesis by simp
  qed
qed

lemma delete_account_closes:
  assumes del: "delete_account u expected sso c = Inr (True, c')"
    and c: "catalog_ok c" and n: "valid_username n" "enabled c n" "\<not> enabled c' n"
  shows "lower u = lower n"
proof (rule ccontr)
  assume other: "lower u \<noteq> lower n"
  from delete_account_Inr[OF del] have c': "uc_entries c' = filter (\<lambda>a. lower (ua_username a) \<noteq> lower u) (accounts c)" by simp
  from n(2) obtain b where b: "b \<in> set (accounts c)" "lower (ua_username b) = lower n" "\<not> ua_disabled b"
    using enabled_iff[OF c n(1)] by blast
  with other have "read_account b \<in> set (accounts c')" by (auto simp: accounts_def[of c'] c')
  moreover have "catalog_ok c'" using delete_account_keeps[OF del c] by simp
  ultimately have "enabled c' n" using b n(1) by (auto intro: enabledI)
  with n(3) show False by simp
qed

text \<open>Revoking leaves no session of the user.\<close>

lemma revoke_gone: "y \<in> set (ax_sessions (revoke True mo u s)) \<Longrightarrow> lower (se_username y) \<noteq> lower u"
  by (auto simp: revoke_def invalidate_user_def write_sessions_def Let_def)

lemma revoke_subset: "set (ax_sessions (revoke b mo u s)) \<subseteq> set (ax_sessions s)"
  by (auto simp: revoke_def invalidate_user_def write_sessions_def Let_def)

lemma view_closes:
  assumes c: "catalog_ok (ax_users s)" and n: "valid_username n" "enabled (ax_users s) n"
    and closed: "\<not> enabled (ax_users (snd (view D mo r d corr s))) n"
    and y: "y \<in> set (ax_sessions (snd (view D mo r d corr s)))"
  shows "lower (se_username y) \<noteq> lower n"
proof -
  consider (update) "snd (view D mo r d corr s) = snd (users_update D mo r d corr s)"
    | (delete) "snd (view D mo r d corr s) = snd (users_delete D mo r d corr s)"
    | (create) "snd (view D mo r d corr s) = snd (users_create D mo r d corr s)"
    | (other) "ax_users (snd (view D mo r d corr s)) = ax_users s"
  proof -
    assume cases: "snd (view D mo r d corr s) = snd (users_update D mo r d corr s) \<Longrightarrow> thesis"
      "snd (view D mo r d corr s) = snd (users_delete D mo r d corr s) \<Longrightarrow> thesis"
      "snd (view D mo r d corr s) = snd (users_create D mo r d corr s) \<Longrightarrow> thesis"
      "ax_users (snd (view D mo r d corr s)) = ax_users s \<Longrightarrow> thesis"
    consider "rq_endpoint r = Some ''users_update''" | "rq_endpoint r = Some ''users_delete''"
      | "rq_endpoint r = Some ''users_create''"
      | "rq_endpoint r \<notin> {Some ''users_update'', Some ''users_delete'', Some ''users_create''}" by blast
    then show thesis using cases by cases (simp_all add: view_def Let_def)
  qed
  then show ?thesis
  proof cases
    case update
    from users_update_effect[of D mo r d corr s] show ?thesis
    proof (elim disjE exE conjE)
      fix earlier a c' b
      assume e: "get_account (ax_users s) (rq_username r) = Some earlier"
        and u: "update_request D mo r (ax_users s) = Inr (a, c')"
        and users: "ax_users (snd (users_update D mo r d corr s)) = c'"
        and rs: "ax_sessions (snd (users_update D mo r d corr s)) = ax_sessions (revoke b mo (ua_username a)
          (revoke (ua_disabled a \<and> \<not> ua_disabled earlier) mo (ua_username a) (s\<lparr>ax_users := c'\<rparr>)))"
      have "\<not> enabled c' n" using closed update users by simp
      from update_account_closes[OF u[unfolded update_request_def] c n this e]
      have "ua_disabled a \<and> \<not> ua_disabled earlier" "lower (ua_username a) = lower n" by simp_all
      with y rs update revoke_subset[of b mo "ua_username a"] revoke_gone[of y mo "ua_username a"] show ?thesis by auto
    qed (use update closed n in simp)
  next
    case delete
    from users_delete_effect[of D mo r d corr s] show ?thesis
    proof (elim disjE exE conjE)
      fix c'
      assume del: "delete_account (rq_username r) (expected_revision r) (allow_sso_admins D) (ax_users s) = Inr (True, c')"
        and users: "ax_users (snd (users_delete D mo r d corr s)) = c'"
        and rs: "ax_sessions (snd (users_delete D mo r d corr s)) = snd (invalidate_user (mo_now mo) (rq_username r) (ax_sessions s))"
      have "\<not> enabled c' n" using closed delete users by simp
      from delete_account_closes[OF del c n this] y rs delete show ?thesis
        by (auto simp: invalidate_user_def write_sessions_def Let_def)
    qed (use delete closed n in simp)
  next
    case create
    from users_create_users[of D mo r d corr s] show ?thesis
    proof (elim disjE exE conjE)
      fix a c'
      assume created: "create_account (dp_scrypt D) (mo_salt mo) (mo_text mo) (form r ''username'')
          (truthy (Some (form r ''display_name''))) (form_list r ''roles'') (truthy (Some (form r ''password'')))
          (expected_revision r) (ax_users s) = Inr (a, c')"
        and users: "ax_users (snd (users_create D mo r d corr s)) = c'"
      from create_account_enabled[OF created c n] closed create users show ?thesis by simp
    qed (use create closed n in simp)
  qed (use closed n in simp)
qed

lemma account_closed_gone:
  assumes "account_closed D mo r s x" "catalog_ok (ax_users s)" "valid_username (se_username x)"
    "y \<in> set (ax_sessions (snd (serve D mo r s)))"
  shows "lower (se_username y) \<noteq> lower (se_username x)"
proof (cases "fst (security_gate D mo r s)")
  case (Some stopped)
  with assms(1) show ?thesis by (simp add: account_closed_def serve_unfold Let_def)
next
  case None
  then show ?thesis
    using assms view_closes[of "snd (snd (security_gate D mo r s))" "se_username x" D mo r
        "fst (snd (security_gate D mo r s))" "correlation_id (mo_request mo) r" y]
    by (simp add: account_closed_def serve_unfold Let_def)
qed

section \<open>Every session is backed by a sign-in\<close>

definition undisturbed :: "deployment \<Rightarrow> access \<Rightarrow> (moment \<times> request) list \<Rightarrow> session \<Rightarrow> bool" where
  "undisturbed D s rs x \<longleftrightarrow>
     (\<forall>ys mo r zs. rs = ys @ (mo, r) # zs \<longrightarrow>
        \<not> signed_out D mo r (serve_all D ys s) x \<and> \<not> account_closed D mo r (serve_all D ys s) x)"

lemma undisturbed_Nil [simp]: "undisturbed D s [] x"
  by (simp add: undisturbed_def)

lemma undisturbed_snoc:
  assumes "undisturbed D s rs x"
    and "\<not> signed_out D mo r (serve_all D rs s) x" "\<not> account_closed D mo r (serve_all D rs s) x"
  shows "undisturbed D s (rs @ [(mo, r)]) x"
  unfolding undisturbed_def
proof (intro allI impI)
  fix ys mo' r' zs
  assume split: "rs @ [(mo, r)] = ys @ (mo', r') # zs"
  show "\<not> signed_out D mo' r' (serve_all D ys s) x \<and> \<not> account_closed D mo' r' (serve_all D ys s) x"
  proof (cases zs rule: rev_cases)
    case Nil
    with split assms(2,3) show ?thesis by simp
  next
    case (snoc zs' z)
    with split have "rs = ys @ (mo', r') # zs'" by simp
    with assms(1) show ?thesis by (auto simp: undisturbed_def)
  qed
qed

lemma undisturbed_core: "core x = core y \<Longrightarrow> undisturbed D s rs x = undisturbed D s rs y"
  by (simp add: undisturbed_def signed_out_def account_closed_def core_eq_iff)

definition backed :: "deployment \<Rightarrow> access \<Rightarrow> (moment \<times> request) list \<Rightarrow> session \<Rightarrow> bool" where
  "backed D s rs x \<longleftrightarrow>
     (\<exists>xs mo r ys. rs = xs @ (mo, r) # ys \<and> signed_in D mo r (serve_all D xs s) x \<and>
        undisturbed D (serve_all D (xs @ [(mo, r)]) s) ys x)"

lemma backed_core: "core x = core y \<Longrightarrow> backed D s rs x = backed D s rs y"
  using signed_in_core[of x y] undisturbed_core[of x y] by (simp add: backed_def)

lemma serve_catalog_ok: "catalog_ok (ax_users s) \<Longrightarrow> catalog_ok (ax_users (snd (serve D mo r s)))"
  using view_users[of "snd (snd (security_gate D mo r s))"] by (auto simp: serve_unfold Let_def split: option.splits)

lemma serve_all_catalog_ok: "catalog_ok (ax_users s) \<Longrightarrow> catalog_ok (ax_users (serve_all D rs s))"
proof (induction rs rule: rev_induct)
  case (snoc x rs)
  then show ?case by (cases x) (simp add: serve_all_snoc serve_catalog_ok)
qed simp

lemma signed_in_valid:
  assumes "signed_in D mo r s x" "catalog_ok (ax_users s)"
  shows "valid_username (se_username x)"
proof -
  from assms(1) obtain a where "get_account (ax_users s) (strip (form r ''username'')) = Some a" "se_username x = ua_username a"
    by (auto simp: signed_in_def authenticate_Inr_Some)
  with assms(2) accounts_ok[OF assms(2)] show ?thesis by (auto simp: get_account_iff account_ok_def)
qed

lemma backed_step:
  assumes "backed D s rs x" "catalog_ok (ax_users s)" "x \<in> set (ax_sessions (snd (serve D mo r (serve_all D rs s))))"
  shows "backed D s (rs @ [(mo, r)]) x"
proof -
  from assms(1) obtain xs mo0 r0 ys where rs: "rs = xs @ (mo0, r0) # ys"
    and opened: "signed_in D mo0 r0 (serve_all D xs s) x" and quiet: "undisturbed D (serve_all D (xs @ [(mo0, r0)]) s) ys x"
    by (auto simp: backed_def)
  have state: "serve_all D ys (serve_all D (xs @ [(mo0, r0)]) s) = serve_all D rs s"
    by (simp only: rs serve_all_append[symmetric]) simp
  have "valid_username (se_username x)" using signed_in_valid[OF opened] serve_all_catalog_ok[OF assms(2)] by blast
  then have "\<not> account_closed D mo r (serve_all D rs s) x"
    using account_closed_gone[OF _ serve_all_catalog_ok[OF assms(2)] _ assms(3)] by blast
  moreover have "\<not> signed_out D mo r (serve_all D rs s) x" using signed_out_gone[OF _ assms(3)] by blast
  ultimately have "undisturbed D (serve_all D (xs @ [(mo0, r0)]) s) (ys @ [(mo, r)]) x"
    using undisturbed_snoc[OF quiet] by (simp add: state)
  with opened show ?thesis
    unfolding backed_def rs by (intro exI[of _ xs] exI[of _ mo0] exI[of _ r0] exI[of _ "ys @ [(mo, r)]"]) simp
qed

lemma sessions_backed:
  "ax_sessions s = [] \<Longrightarrow> catalog_ok (ax_users s) \<Longrightarrow> x \<in> set (ax_sessions (serve_all D rs s)) \<Longrightarrow> backed D s rs x"
proof (induction rs arbitrary: x rule: rev_induct)
  case (snoc e rs)
  obtain mo r where e: "e = (mo, r)" by force
  with snoc.prems have x: "x \<in> set (ax_sessions (snd (serve D mo r (serve_all D rs s))))" by (simp add: serve_all_snoc)
  from serve_sessions[OF x] show ?case
  proof
    assume "core x \<in> cores (ax_sessions (serve_all D rs s))"
    then obtain y where "y \<in> set (ax_sessions (serve_all D rs s))" "core x = core y" by (auto simp: cores_def)
    with snoc.IH[OF snoc.prems(1,2)] backed_core[of x y] have "backed D s rs x" by blast
    with snoc.prems(2) x show ?thesis unfolding e by (intro backed_step)
  next
    assume "signed_in D mo r (serve_all D rs s) x"
    then show ?thesis unfolding backed_def e by (intro exI[of _ rs] exI[of _ mo] exI[of _ r] exI[of _ "[]"]) simp
  qed
qed simp


end
