(* ===== verification/AccessDemo.thy ===== *)
theory AccessDemo
  imports AttemptTheorems SignInTheorems
begin

text \<open>
  The properties of access control applied to concrete deployments, catalogs and requests. The key
  derivation of the examples pads or cuts the password to the length asked for, and the digest of a
  token is the token itself.
\<close>

section \<open>An example deployment\<close>

definition demo_scrypt :: scrypt where
  "demo_scrypt pw salt n r p k = Some (take k (pw @ replicate k 0))"

lemma demo_scrypt_length: "demo_scrypt pw salt n r p k = Some key \<Longrightarrow> length key = k"
  by (auto simp: demo_scrypt_def)

definition demo_deployment :: "auth_mode \<Rightarrow> deployment" where
  "demo_deployment M =
     \<lparr> dp_mode = M, dp_allow_forwarded = False, dp_trusted = [], dp_proxy_secret = ''0123456789abcdef'',
       dp_limits = \<lparr> sl_max_age = 43200, sl_idle_timeout = 7200 \<rparr>, dp_scrypt = demo_scrypt,
       dp_sha256 = (\<lambda>t. t), dp_ip6 = \<lparr> read6 = (\<lambda>_. None), show6 = (\<lambda>_. []) \<rparr>,
       dp_confirms = (\<lambda>_ _ _. True), dp_env = (\<lambda>_. None) \<rparr>"

lemma demo_fields [simp]:
  "dp_mode (demo_deployment M) = M" "dp_scrypt (demo_deployment M) = demo_scrypt"
  "dp_sha256 (demo_deployment M) = (\<lambda>t. t)" "dp_env (demo_deployment M) = (\<lambda>_. None)"
  "dp_proxy_secret (demo_deployment M) = ''0123456789abcdef''" "dp_trusted (demo_deployment M) = []"
  "dp_limits (demo_deployment M) = \<lparr> sl_max_age = 43200, sl_idle_timeout = 7200 \<rparr>"
  by (simp_all add: demo_deployment_def)

definition demo_password :: string where "demo_password = ''correct horse''"

definition demo_hash :: string where
  "demo_hash = hash_text [1, 2] (take key_bytes (encoded demo_password @ replicate key_bytes 0))"

definition demo_account :: "string \<Rightarrow> string list \<Rightarrow> user_account" where
  "demo_account name roles =
     \<lparr> ua_username = name, ua_display_name = name, ua_roles = roles, ua_password_hash = Some demo_hash,
       ua_disabled = False, ua_created = ''t'', ua_updated = ''t'' \<rparr>"

definition demo_catalog :: user_catalog where
  "demo_catalog =
     \<lparr> uc_revision = 2, uc_entries = [demo_account ''root-1'' [''system-admin''], demo_account ''ann'' [''viewer'']] \<rparr>"

definition demo_state :: access where
  "demo_state = \<lparr> ax_users = demo_catalog, ax_sessions = [], ax_hits = [], ax_trail = [] \<rparr>"

definition demo_moment :: "int \<Rightarrow> moment" where
  "demo_moment now =
     \<lparr> mo_now = now, mo_clock = 5, mo_text = ''2026-01-01T00:00:00+00:00'', mo_request = ''0123456789abcdef00'',
       mo_uuid = (\<lambda>_. ''1''), mo_salt = [3], mo_token = ''tok'', mo_csrf = ''csrf'' \<rparr>"

definition demo_request :: "string \<Rightarrow> string \<Rightarrow> request" where
  "demo_request mthd endpoint =
     \<lparr> rq_remote = ''10.0.0.9'', rq_headers = [], rq_cookie = [], rq_endpoint = Some endpoint, rq_method = mthd,
       rq_path = ''/x'', rq_full_path = ''/x'', rq_host_url = ''http://h/'', rq_form = [], rq_body = Not_json,
       rq_username = [] \<rparr>"

lemma demo_names: "valid_username ''root-1''" "valid_username ''ann''"
  by code_simp+

lemma demo_roles: "set [''system-admin''] \<subseteq> set all_roles" "set [''viewer''] \<subseteq> set all_roles"
  by code_simp+

lemma demo_catalog_ok: "catalog_ok demo_catalog"
proof -
  have "lower ''root-1'' \<noteq> lower ''ann''" by code_simp
  with demo_names demo_roles show ?thesis
    by (auto simp: catalog_ok_def demo_catalog_def account_ok_def demo_account_def)
qed

lemma demo_hash_password: "hash_password demo_scrypt [1, 2] demo_password = Inr demo_hash"
  by (simp add: hash_password_Inr demo_hash_def demo_scrypt_def demo_password_def)

section \<open>Witnesses\<close>

theorem password_hash_verifies_witness: "verify_password demo_scrypt demo_password demo_hash"
  by (rule password_hash_verifies[THEN conjunct1]) (erule demo_scrypt_length, rule demo_hash_password)

theorem recovery_restores_administrator_witness:
  "\<exists>c' a. ensure_recovery_admin demo_scrypt [7] ''t'' '' ann '' demo_password demo_catalog = Inr (Some ''ann'', c') \<and>
     authenticate demo_scrypt [8] c' '' ann '' demo_password = Inr (Some a) \<and> is_usable_admin False a"
proof -
  have ann: "strip '' ann '' = ''ann''" by code_simp
  have "\<exists>c' a. ensure_recovery_admin demo_scrypt [7] ''t'' '' ann '' demo_password demo_catalog =
      Inr (Some (strip '' ann ''), c') \<and> catalog_ok c' \<and>
      authenticate demo_scrypt [8] c' '' ann '' demo_password = Inr (Some a) \<and> is_usable_admin False a"
  proof (rule recovery_restores_administrator)
    show "length key = k" if "demo_scrypt pw salt n r p k = Some key" for pw salt n r p k key
      using that by (rule demo_scrypt_length)
  qed (simp_all add: demo_scrypt_def demo_catalog_ok demo_names ann demo_password_def)
  then show ?thesis unfolding ann by blast
qed

theorem session_store_refines_witness:
  "step_results (session_step (\<lambda>t. t) \<lparr> sl_max_age = 100, sl_idle_timeout = 10 \<rparr>)
     [(0, Create ''t'' ''c'' ''ann'' ''password''), (4, Resolve ''t''), (14, Resolve ''t''),
      (15, Create ''u'' ''d'' ''bob'' ''password''), (16, Drop ''u''), (17, Resolve ''u'')] [] =
   [None,
    Some \<lparr> se_token_hash = ''t'', se_username = ''ann'', se_csrf = ''c'', se_created = 0, se_expires = 100,
      se_idle = 14, se_mode = ''password'' \<rparr>, None, None, None, None]"
  by (subst session_store_refines) (simp_all add: created_digests_def new_session_def live_def Let_def)

theorem rate_limiter_exact_witness:
  "\<not> verdicts (\<lambda>key limit clock h. allow key limit minute clock h) [(''k'', 1, 10), (''j'', 1, 11), (''k'', 1, 20)] [] ! 2"
  by (subst rate_limiter_exact) (simp_all add: hits_so_far_def same_window_def window_of_def minute_def numeral_2_eq_2)

theorem audit_payload_redacted_witness:
  "\<exists>e'. create_event ''1'' ''t''
        ((event_draft ''a'' ''b'' ''c'')\<lparr>ae_after := [(''x'', JObj [(''Token'', JStr ''s'')])]\<rparr>) = Inr e' \<and>
      at_path (ae_after e') [''x'', ''Token''] = Some (JStr ''[redacted]'')"
proof -
  let ?d = "(event_draft ''a'' ''b'' ''c'')\<lparr>ae_after := [(''x'', JObj [(''Token'', JStr ''s'')])]\<rparr>"
  have "\<not> isl (create_event ''1'' ''t'' ?d)" by code_simp
  then obtain e' where e': "create_event ''1'' ''t'' ?d = Inr e'" by (cases "create_event ''1'' ''t'' ?d") auto
  have "at_path (ae_after (projr (create_event ''1'' ''t'' ?d))) [''x'', ''Token''] \<noteq> None" by code_simp
  with e' obtain v where v: "at_path (ae_after e') [''x'', ''Token''] = Some v" by (auto simp del: at_path.simps)
  have "forbidden ''Token''" by code_simp
  with conjunct1[OF audit_payload_redacted[OF e'], rule_format, of "''Token''" "[''x'']" v] v
  have "v = JStr ''[redacted]''" by (simp del: at_path.simps)
  with e' v show ?thesis by blast
qed

section \<open>Requests\<close>

definition proxied :: "request \<Rightarrow> string \<Rightarrow> request" where
  "proxied r user =
     r\<lparr>rq_headers := [(''X-Atlas-Proxy-Secret'', ''0123456789abcdef''), (''X-Atlas-Remote-User'', user)]\<rparr>"

definition demo_viewer :: principal where
  "demo_viewer = for_roles ''ann'' ''ann'' [''viewer''] None ''proxy''"

lemma demo_accounts: "accounts demo_catalog = uc_entries demo_catalog"
  by (simp add: accounts_def demo_catalog_def read_account_def demo_account_def)

lemma demo_ann: "get_account demo_catalog ''ann'' = Some (demo_account ''ann'' [''viewer''])"
  using demo_catalog_ok demo_names by (simp add: get_account_iff demo_accounts) (simp add: demo_catalog_def demo_account_def)

lemma proxied_headers:
  "header (proxied r user) ''X-Atlas-Proxy-Secret'' = ''0123456789abcdef''"
  "header (proxied r user) ''X-Atlas-Remote-User'' = user"
proof -
  have "lower ''X-Atlas-Proxy-Secret'' \<noteq> lower ''X-Atlas-Remote-User''" by code_simp
  then show "header (proxied r user) ''X-Atlas-Proxy-Secret'' = ''0123456789abcdef''"
    "header (proxied r user) ''X-Atlas-Remote-User'' = user"
    by (simp_all add: header_def proxied_def)
qed

lemma demo_identified:
  "identify (demo_deployment Proxy_mode) mo (proxied r ''ann'') demo_state = (known_as demo_viewer None, demo_state)"
  using demo_ann demo_names
  by (simp add: identify_def identify_proxy_def proxied_headers demo_state_def demo_viewer_def demo_account_def Let_def)

lemma demo_endpoint: "permission_for_endpoint (Some ''dashboard'') = Some ''pages.view''"
  by code_simp

lemma demo_viewer_can: "can demo_viewer ''pages.view''"
  by (simp add: can_def demo_viewer_def permissions_for_def granted_def role_grants_def)

lemma demo_passes:
  "\<exists>s'. security_gate (demo_deployment Proxy_mode) (demo_moment 0) (proxied (demo_request ''GET'' ''dashboard'') ''ann'')
     demo_state = (None, known_as demo_viewer None, s')"
proof -
  let ?r = "proxied (demo_request ''GET'' ''dashboard'') ''ann''" and ?D = "demo_deployment Proxy_mode"
  have e: "rq_endpoint ?r = Some ''dashboard''" "rq_method ?r = ''GET''" by (simp_all add: proxied_def demo_request_def)
  have "check_permission ?r (known_as demo_viewer None) = Go_on"
    using demo_viewer_can by (simp add: check_permission_def e demo_endpoint public_def)
  moreover have "check_csrf ?D ?r (known_as demo_viewer None) = Go_on"
    by (simp add: check_csrf_def e mutating_methods_def)
  ultimately have "fst (check_access ?D (demo_moment 0) ?r (known_as demo_viewer None) demo_state) = Go_on"
    by (simp add: check_access_unfold limit_login_def limit_endpoint_def e rate_limits_def)
  then show ?thesis by (simp add: security_gate_unfold demo_identified Let_def closed_def)
qed

theorem gate_denies_by_default_witness:
  "\<exists>p q role. permission_for_endpoint (Some ''dashboard'') = Some q \<and> role \<in> set (pr_roles p) \<and> q \<in> set (granted role) \<and>
     vouched (demo_deployment Proxy_mode) (demo_moment 0) (proxied (demo_request ''GET'' ''dashboard'') ''ann'') demo_state p"
proof -
  from demo_passes obtain s' where s': "security_gate (demo_deployment Proxy_mode) (demo_moment 0)
    (proxied (demo_request ''GET'' ''dashboard'') ''ann'') demo_state = (None, known_as demo_viewer None, s')" by blast
  have "rq_endpoint (proxied (demo_request ''GET'' ''dashboard'') ''ann'') = Some ''dashboard''"
    by (simp add: proxied_def demo_request_def)
  from gate_denies_by_default[OF s' this] show ?thesis by (auto simp: demo_endpoint public_def)
qed

text \<open>Without the shared secret of the proxy the request is refused.\<close>

lemma demo_refused:
  "\<exists>s'. security_gate (demo_deployment Proxy_mode) (demo_moment 0) (demo_request ''GET'' ''dashboard'') demo_state =
     (Some (Error_page 403 ''This deployment only accepts requests through its authenticating proxy.''),
      refused_as ''This deployment only accepts requests through its authenticating proxy.'', s')"
proof -
  let ?r = "demo_request ''GET'' ''dashboard''" and ?D = "demo_deployment Proxy_mode"
  have h: "header ?r n = []" for n by (simp add: header_def demo_request_def)
  have "identify ?D (demo_moment 0) ?r demo_state =
    (refused_as ''This deployment only accepts requests through its authenticating proxy.'', demo_state)"
    by (simp add: identify_def identify_proxy_def h)
  moreover have "\<not> wants_json ?r"
    unfolding wants_json_def h by (simp add: occurs_in_def starts_with_def demo_request_def)
  moreover have "rq_endpoint ?r = Some ''dashboard''" by (simp add: demo_request_def)
  ultimately show ?thesis
    by (simp add: security_gate_unfold Let_def check_access_unfold check_permission_def demo_endpoint public_def
        closed_def denial_def)
qed

theorem denials_are_audited_witness:
  "\<exists>s' e. ax_trail s' = [e] \<and> ae_outcome e = ''denied'' \<and> ae_actor e = ''unauthenticated'' \<and>
     snd (snd (security_gate (demo_deployment Proxy_mode) (demo_moment 0) (demo_request ''GET'' ''dashboard'') demo_state)) = s'"
proof -
  from demo_refused obtain s' where s': "security_gate (demo_deployment Proxy_mode) (demo_moment 0)
    (demo_request ''GET'' ''dashboard'') demo_state =
     (Some (Error_page 403 ''This deployment only accepts requests through its authenticating proxy.''),
      refused_as ''This deployment only accepts requests through its authenticating proxy.'', s')" by blast
  have "strip (mo_text (demo_moment 0)) \<noteq> []"
    using strip_text[of "mo_text (demo_moment 0)"] by (simp add: demo_moment_def is_space_def)
  moreover have "catalog_ok (ax_users demo_state)" by (simp add: demo_state_def demo_catalog_ok)
  ultimately show ?thesis using denials_are_audited[OF s'] s' by (auto simp: demo_state_def)
qed

definition demo_deletion :: request where
  "demo_deletion = (proxied (demo_request ''POST'' ''users_delete'') ''root-1'')
     \<lparr>rq_username := ''root-1'', rq_form := [(''_confirm_token'', ''x''), (''expected_revision'', ''2'')]\<rparr>"


theorem sign_in_attempts_bounded_witness:
  "length (filter (\<lambda>(mo, r). submitted_account r = ''(empty)'' \<and> window_of minute (mo_clock mo) = 0)
     (attempts (demo_deployment Password_mode)
       (replicate 9 (demo_moment 0, demo_request ''GET'' ''login_submit'')) demo_state)) \<le> 5"
proof -
  have "read_login_limits (demo_deployment Password_mode) = Inr \<lparr> ll_account = 5, ll_source = 30, ll_global = 500 \<rparr>"
    by (simp add: read_login_limits_def env_int_def)
  from conjunct1[OF sign_in_attempts_bounded[OF this,
    of "replicate 9 (demo_moment 0, demo_request ''GET'' ''login_submit'')" "''(empty)''" 0 demo_state]] show ?thesis
    by (simp add: numeral_eq_Suc)
qed

section \<open>Signing in\<close>

definition demo_login :: request where
  "demo_login = (demo_request ''POST'' ''login_submit'')\<lparr>rq_form := [(''username'', ''ann''), (''password'', demo_password)]\<rparr>"

definition demo_visit :: request where
  "demo_visit = (demo_request ''GET'' ''dashboard'')\<lparr>rq_cookie := ''tok''\<rparr>"

abbreviation demo_site :: deployment where
  "demo_site \<equiv> demo_deployment Password_mode"

lemma demo_login_fields [simp]:
  "rq_endpoint demo_login = Some ''login_submit''" "rq_method demo_login = ''POST''" "rq_cookie demo_login = []"
  "form demo_login ''username'' = ''ann''" "form demo_login ''password'' = demo_password" "header demo_login n = []"
  "rq_cookie demo_visit = ''tok''" "mo_now (demo_moment t) = t" "mo_token (demo_moment t) = ''tok''"
  by (simp_all add: demo_login_def demo_request_def form_def header_def demo_visit_def demo_moment_def)

lemma demo_fresh_identity: "identify demo_site mo demo_login demo_state = (anonymous, demo_state)"
  by (simp add: identify_def identify_password_def resolve_session_def demo_state_def)

lemma demo_spend:
  "fst (spend t [(''account'', ''login:acct:'' @ a, 5), (''source'', ''login:src:'' @ b, 30), (''global'', ''login:global'', 500)] []) = []"
  by (simp add: allow_def hit_count_def Let_def stale_def)

lemma demo_login_passes: "fst (security_gate demo_site mo demo_login demo_state) = None"
proof -
  have "check_permission demo_login anonymous = Go_on"
    by (simp add: check_permission_def permission_for_endpoint_def endpoint_permissions_def public_def)
  moreover have "check_csrf demo_site demo_login anonymous = Go_on"
    by (simp add: check_csrf_def same_origin_def csrf_exempt_def lower_def)
  moreover have "fst (limit_login demo_site mo demo_login demo_state) = Go_on"
    using demo_spend[of "mo_clock mo"]
    by (simp add: limit_login_def read_login_limits_def env_int_def login_layers_def demo_state_def case_prod_unfold Let_def)
  moreover have "fst (limit_endpoint demo_site mo demo_login s) = Go_on" for s
    by (simp add: limit_endpoint_def rate_limits_def)
  ultimately show ?thesis
    by (simp add: security_gate_unfold demo_fresh_identity Let_def check_access_unfold closed_None)
qed

definition demo_session :: session where
  "demo_session =
     \<lparr> se_token_hash = ''tok'', se_username = ''ann'', se_csrf = ''csrf'', se_created = 0, se_expires = 43200,
       se_idle = 7200, se_mode = ''password'' \<rparr>"

lemma demo_length: "length (encoded demo_password) = 13"
  by (simp add: encoded_def demo_password_def)

lemma demo_authenticated:
  "authenticate demo_scrypt salt demo_catalog ''ann'' demo_password = Inr (Some (demo_account ''ann'' [''viewer'']))"
  using demo_ann
  by (rule authenticate_Some[where stored = demo_hash])
    (simp_all add: demo_account_def demo_hash_def verify_hash_text demo_scrypt_def demo_length key_bytes_def)

lemma demo_login_run:
  assumes "ax_users s = demo_catalog" "ax_sessions s = []"
  shows "login demo_site (demo_moment 0) ''ann'' demo_password s = Inr (Some ''tok'', s\<lparr>ax_sessions := [demo_session]\<rparr>)"
  using demo_authenticated[of "mo_salt (demo_moment 0)"] assms
  by (simp add: login_def create_session_def write_sessions_def live_def demo_session_def)
    (simp add: demo_account_def demo_moment_def)

lemma demo_signed_in:
  "ax_sessions (serve_all demo_site [(demo_moment 0, demo_login)] demo_state) = [demo_session]"
  "ax_users (serve_all demo_site [(demo_moment 0, demo_login)] demo_state) = demo_catalog"
proof -
  let ?g = "security_gate demo_site (demo_moment 0) demo_login demo_state"
  have state: "ax_users (snd (snd ?g)) = demo_catalog" "ax_sessions (snd (snd ?g)) = []"
    by (simp_all add: demo_fresh_identity) (simp_all add: demo_state_def)
  have ann: "strip ''ann'' = ''ann''" using demo_names by simp
  have resolved: "resolve_session (\<lambda>t. t) \<lparr> sl_max_age = 43200, sl_idle_timeout = 7200 \<rparr> 0 ''tok'' [demo_session] =
      (Some demo_session, [demo_session])"
    by (simp add: resolve_session_def demo_session_def write_sessions_def live_def)
  show "ax_sessions (serve_all demo_site [(demo_moment 0, demo_login)] demo_state) = [demo_session]"
    by (simp add: serve_all_Cons serve_unfold Let_def demo_login_passes view_def login_submit_def ann
        demo_login_run[OF state] resolved split: sum.split)
  show "ax_users (serve_all demo_site [(demo_moment 0, demo_login)] demo_state) = demo_catalog"
    using state(1) by (simp add: serve_all_Cons serve_unfold Let_def demo_login_passes view_def)
qed


end
