(* ===== verification/Spec2Isabelle.thy ===== *)
theory Spec2Isabelle
  imports ServiceTheorems LifecyclePlannerTheorems JourneyProgress NetworkDemo AccessDemo
begin

text \<open>
  FounderOS is a Python program in two packages. \<open>src/src/founderos_runtime\<close> is a runtime kernel that
  moves a project through guarded lifecycle transitions and records each of them as an event, with
  a read-only planning layer on top (workspace, planner, validator, authorization, evaluation,
  provider, journey). \<open>src/src/founderos_atlas\<close> is a network discovery and analysis application; of
  it two parts are modelled: the analysis that decides what a device does with a packet, and the
  access control of its web application. File names below are relative to the two packages.

  \<^bold>\<open>The runtime kernel.\<close> One kernel is a composition root with a clock, a random source and a store
  (\<open>Kernel\<close>: the \<open>kernel\<close> record and the error-and-state actions of \<open>Prelude\<close>; every operation is a
  function from a kernel to a kernel and an error or a value).
  \<^item> \<open>Ids\<close> (\<open>ids.py\<close>): identifiers, encoded from a timestamp and random bits.
  \<^item> \<open>Records\<close> (\<open>contracts.py\<close>, \<open>errors.py\<close>, the JSON contracts): one record type per record kind.
    The compiled JSON schema is a predicate of the environment.
  \<^item> \<open>Repositories\<close> (\<open>repositories.py\<close>): versioned tables and the append-only event log.
  \<^item> \<open>ProjectState\<close> (\<open>project_state.py\<close>, \<open>events.py\<close>): event replay and the project services.
  \<^item> \<open>StateMachine\<close> and \<open>Transitions\<close> (\<open>state_machine.py\<close>): the route table and
    \<open>StateMachine.transition\<close>, guard by guard.
  \<^item> \<open>Runs\<close> (\<open>runs.py\<close>) and \<open>Lifecycle\<close> (\<open>lifecycle.py\<close>): workflow and agent runs; artifact,
    evaluation, approval and decision services.
  \<^item> \<open>KernelSystem\<close>: the kernel as an inductive step relation, one step per call of a service
    operation, with the invariants of every reachable kernel. \<open>KernelTheorems\<close> and \<open>ServiceTheorems\<close>
    hold the properties, \<open>Demo\<close> the kernels the witnesses run on.

  \<^bold>\<open>The planning layer.\<close> Its operations read and never write, so they are functions to an error or a
  value (\<open>Results\<close>).
  \<^item> \<open>Manifests\<close>, \<open>Workspace\<close> (\<open>workspace/\<close>): the definitions, their index, version ranges (\<open>Numerals\<close>),
    reference checks and the search for dependency cycles.
  \<^item> \<open>Planner\<close> and \<open>Validation\<close> (\<open>planner/\<close>, \<open>validation/\<close>): a workflow becomes an execution plan; the
    validator reports on a plan. Both order their steps by rounds, the interface of \<open>Layers\<close>, which
    each interprets on its own definitions. \<open>PlanDemo\<close> is a workspace to run them on.
  \<^item> \<open>Authorization\<close> (\<open>authorization/\<close>), \<open>LifecyclePlanner\<close> (\<open>lifecycle_planner.py\<close>,
    \<open>planning_rules.py\<close>, \<open>execution_context.py\<close>).
  \<^item> \<open>Evaluation\<close> (\<open>evaluation/\<close>) and \<open>Provider\<close> (\<open>provider/\<close>).
  \<^item> \<open>Journey\<close> (\<open>journey/\<close>): the composition. A journey plans, validates, authorizes and runs the
    steps of a plan with the provider and the evaluator; \<open>JourneyTheorems\<close> accounts for its steps,
    \<open>JourneyProgress\<close> shows that it returns.

  \<^bold>\<open>The network analysis.\<close>
  \<^item> \<open>Addresses\<close>: what the code uses of Python's \<open>ipaddress\<close>, on 32 and 128 bit words.
  \<^item> \<open>ThreeValued\<close>: checks and first-match walks with an undecided value, and the interface
    \<open>three_valued\<close>: more information never changes a decided verdict.
  \<^item> \<open>Patterns\<close>: Python's backtracking regular expressions and \<open>splitlines\<close>, with which the parsers are
    written; \<open>PatternLemmas\<close> has the rules to run a pattern on a text of known shape.
  \<^item> \<open>PolicyRouting\<close> (\<open>routing/policy.py\<close>, \<open>path_intelligence/forwarding.py\<close>): policy rules, the
    first-match walk, longest-prefix match, the decision at a hop (\<open>_policy_route_check\<close> and
    \<open>_route_check\<close> of \<open>path_intelligence/engine.py\<close>). \<open>PolicyParsers\<close> and \<open>VendorPolicies\<close> are the readers
    of FortiOS, Linux, IOS, Junos, PAN-OS and FRR rules, each the loop over lines of the code.
  \<^item> \<open>AccessLists\<close> (\<open>path_intelligence/policy.py\<close>): the parser of a router configuration and the
    evaluation of its bound access lists. \<open>Firewall\<close> (\<open>path_intelligence/firewall.py\<close>): the evaluation
    of an enforced chain, and the rules the engine suggests for a denied flow.
  \<^item> \<open>PolicyRoutingTheorems\<close>, \<open>PolicyParserTheorems\<close> and \<open>PacketTheorems\<close> hold the properties; the last
    interprets \<open>three_valued\<close> on access lists, chains and policy routes. \<open>NetworkDemo\<close> has the
    configuration the witnesses run on.

  \<^bold>\<open>Access control.\<close> The state (\<open>access\<close> in \<open>Authentication\<close>) is the account catalog, the session file, the
  hits of the rate limiter and the audit log; a request is the part of Flask's request the code reads;
  what the application reads of its environment is settled once, by \<open>configure\<close>.
  \<^item> \<open>AuditTrail\<close> (\<open>audit/models.py\<close>, \<open>audit/log.py\<close>): events, their redaction, the log.
  \<^item> \<open>Accounts\<close> (\<open>access/models.py\<close>, \<open>access/users.py\<close>): roles and permissions, password hashes, the
    catalog with its guard of the last administrator, the recovery at startup.
  \<^item> \<open>Sessions\<close> (\<open>access/sessions.py\<close>, \<open>access/ratelimit.py\<close>): the session store and the fixed-window
    limiter. \<open>SessionTheorems\<close> states both as locales, \<open>session_store\<close> and \<open>rate_limiter\<close>, and interprets
    them on these definitions.
  \<^item> \<open>Authentication\<close> (\<open>access/providers.py\<close>, \<open>register_security\<close> of \<open>web/security.py\<close>): the startup
    checks, the three modes, signing in.
  \<^item> \<open>Endpoints\<close> (\<open>web/authz_map.py\<close>): the permission of every endpoint. \<open>WebGate\<close>
    (\<open>_security_gate\<close> of \<open>web/security.py\<close>): what stands before every request, stage by stage in the
    order of the code: authentication, permission, CSRF, rate limits.
  \<^item> \<open>UserAdmin\<close> (\<open>web/security.py\<close>, \<open>web/ops.py\<close>, \<open>web/confirmation.py\<close>): signing in and out and the
    views that change accounts; \<open>serve_all\<close> runs a sequence of requests, each through the gate.
  \<^item> \<open>AccountTheorems\<close>, \<open>GateTheorems\<close>, \<open>SignInTheorems\<close> and \<open>AttemptTheorems\<close> hold the properties,
    \<open>AccessDemo\<close> the site the witnesses run on.

  \<^bold>\<open>What the lemmas show.\<close> Of the kernel: stored projects are the replay of their event streams, an
  applied transition had every piece of evidence its route asks for, streams are gap-free and
  append-only, failed operations change nothing (and the services where they do), finished runs
  are final, updates are not lost. Of the planning layer: the workspace accepts exactly the
  consistent manifests, a plan is an executable order and exists exactly for acyclic steps, a
  planned plan is valid, authorization denies by default, an evaluation means its verdict, the
  provider replays its fixtures, a journey accounts for every step and returns. Of the network
  analysis: prefixes are normalised exactly, the FortiOS reader recovers what a device writes, the
  route chosen is the longest-prefix match, and what the walks of access lists, firewall chains and
  policy routes conclude is final, whatever more of the packet is declared. Of the access control:
  the gate denies by default, an authenticated request goes back to a verified sign-in, no sequence
  of requests loses the last administrator, attempts to sign in are bounded, denials are audited,
  secrets are redacted, and the session store and the limiter implement their abstract contracts.

  \<^bold>\<open>Loops and fuel.\<close> No definition uses fuel: every loop of the modelled code is structural on its
  data or comes with a measure (the steps left, the nodes not yet visited, the characters left). The
  rounds of a repetition in \<open>Patterns\<close> are bounded by the length of the text, of which each consumes a
  character. The search for dependency cycles and the ordering loops terminate by such measures.

  \<^bold>\<open>Parameters.\<close> The JSON schema validator, SHA-256, regular expressions given by a rubric, the
  clock, the random source, the manifest loader, artifact builders and custom evaluation rules are
  arguments of the definitions that use them, as they are arguments or imports in the code. IPv6
  text syntax is the argument \<open>syntax6\<close>. Of the access control scrypt, SHA-256, the random tokens and
  salts, the clock (read once per operation) and the signature check of itsdangerous are arguments
  too, and what a theorem needs of them is a premise of its statement. Its texts are ASCII.

  \<^bold>\<open>Not modelled.\<close> The command line, the pages of the web application (its access control apart:
  there the response headers, redirect targets, templates and flash styles are left out), renderers,
  reports and exporters (text and HTML output); SSH, REST and file collectors, the credential stores, locks, atomic file writes and
  backups (I/O); the application root and the local store of the kernel (composition and files);
  JSON Schema compilation; the search for a path and the texts of the path engine, and the JSON of
  its snapshots. Binary floating point is replaced by exact rationals rounded as the code rounds.
  The remaining Atlas packages, listed in the manifest, are not modelled yet.
\<close>

end
